(* ===== verification/Prelude.thy ===== *)
theory Prelude
  imports Main "HOL-Library.Word" "HOL-Library.Sublist" "HOL-Library.AList"
begin

text \<open>
  Shared vocabulary of the development: Go error values, 64-bit signed arithmetic, nil-able
  interface values, association lists used as Go maps, and the generic lemmas and
  collections of facts (\<open>go_defs\<close>, \<open>store_defs\<close>) that the component theories use.
\<close>

section \<open>Collections of facts\<close>

named_theorems go_defs "definitions of library-level helpers, unfolded in component proofs"
named_theorems store_defs "definitions of the table operations of the stores"

section \<open>Go error values\<close>

text \<open>
  A Go \<^verbatim>\<open>error\<close> is one of: a message built by \<^verbatim>\<open>fmt.Errorf\<close>, a sentinel the code compares with
  (\<^verbatim>\<open>pgx.ErrNoRows\<close>, \<^verbatim>\<open>redis.Nil\<close>), a PostgreSQL error with its SQLSTATE code, or a wrapped
  error (\<^verbatim>\<open>%w\<close>). \<open>err_is_norows\<close> is \<^verbatim>\<open>errors.Is(err, pgx.ErrNoRows)\<close>, which looks through wrapping.
\<close>

datatype goerr =
    Errorf string
  | ErrNoRows
  | ErrRedisNil
  | PgError string
  | Wrapped string goerr

type_synonym 'a res = "goerr + 'a"

fun err_is_norows :: "goerr \<Rightarrow> bool" where
  "err_is_norows ErrNoRows = True"
| "err_is_norows (Wrapped m e) = err_is_norows e"
| "err_is_norows _ = False"

text \<open>\<open>pg_code\<close> is \<^verbatim>\<open>errors.As(err, &pgErr)\<close>: the SQLSTATE of the first PostgreSQL error in the chain.\<close>

fun pg_code :: "goerr \<Rightarrow> string option" where
  "pg_code (PgError c) = Some c"
| "pg_code (Wrapped m e) = pg_code e"
| "pg_code _ = None"

section \<open>Nil-able values\<close>

text \<open>
  A Go interface value is nil only when it holds no type. A nil pointer stored in an interface
  (\<open>IPtr None\<close>) is not equal to nil: comparing it with nil gives false, and calling a method on
  it runs the method with a nil receiver.
\<close>

datatype 'a iface = INil | IPtr "'a option"

definition iface_is_nil :: "'a iface \<Rightarrow> bool" where
  "iface_is_nil i \<longleftrightarrow> (case i of INil \<Rightarrow> True | IPtr _ \<Rightarrow> False)"

lemma iface_is_nil_simps [simp]: "iface_is_nil INil" "\<not> iface_is_nil (IPtr p)"
  by (simp_all add: iface_is_nil_def)

section \<open>64-bit signed integers\<close>

text \<open>
  Go's \<^verbatim>\<open>int\<close>, \<^verbatim>\<open>int64\<close> and \<^verbatim>\<open>time.Duration\<close> are 64-bit two's complement; products and sums wrap around.
  \<open>int64_mul\<close> and \<open>int64_add\<close> are these on the integers the words denote.
\<close>

definition int64_mul :: "int \<Rightarrow> int \<Rightarrow> int" where
  "int64_mul a b = sint ((word_of_int a :: 64 word) * word_of_int b)"

definition int64_add :: "int \<Rightarrow> int \<Rightarrow> int" where
  "int64_add a b = sint ((word_of_int a :: 64 word) + word_of_int b)"

lemma int64_add_one: "int64_add 0 1 = 1"
  by (simp add: int64_add_def)

definition in_int64 :: "int \<Rightarrow> bool" where
  "in_int64 n \<longleftrightarrow> - (2 ^ 63) \<le> n \<and> n < 2 ^ 63"

lemma int64_mul_signed_take_bit: "int64_mul a b = signed_take_bit 63 (a * b)"
proof -
  have "int64_mul a b = sint (word_of_int (a * b) :: 64 word)"
    by (simp add: int64_mul_def)
  then show ?thesis
    by (simp only: sint_sbintrunc') simp
qed

lemma in_int64_mul: "in_int64 (int64_mul a b)"
  using signed_take_bit_int_greater_eq_minus_exp [of 63 "a * b"]
    signed_take_bit_int_less_exp [of 63 "a * b"]
  by (simp add: int64_mul_signed_take_bit in_int64_def)

lemma int64_mul_exact: "in_int64 (a * b) \<Longrightarrow> int64_mul a b = a * b"
  by (simp add: int64_mul_signed_take_bit in_int64_def signed_take_bit_int_eq_self)

section \<open>Durations and instants, in nanoseconds\<close>

type_synonym duration = int
type_synonym gotime = int

definition time_Second :: duration where "time_Second = 1000000000"
definition time_Minute :: duration where "time_Minute = 60 * time_Second"
definition time_Hour :: duration where "time_Hour = 3600 * time_Second"

lemmas time_unit_defs [go_defs] = time_Second_def time_Minute_def time_Hour_def

text \<open>The zero \<^verbatim>\<open>time.Time\<close> is 0001-01-01T00:00:00Z; instants count nanoseconds from the Unix epoch.\<close>

definition zero_time :: gotime where "zero_time = - 62135596800 * 1000000000"

definition time_IsZero :: "gotime \<Rightarrow> bool" where "time_IsZero t \<longleftrightarrow> t = zero_time"

section \<open>Lists\<close>

lemma find_Some_iff_filter: "find P xs = Some x \<longleftrightarrow> (\<exists>ys. filter P xs = x # ys)"
  by (induction xs) auto

lemma find_None_iff_all: "find P xs = None \<longleftrightarrow> (\<forall>x\<in>set xs. \<not> P x)"
  by (induction xs) auto

lemma find_append: "find P (xs @ ys) = (case find P xs of Some x \<Rightarrow> Some x | None \<Rightarrow> find P ys)"
  by (induction xs) auto

lemma set_takeD: "x \<in> set (take n xs) \<Longrightarrow> x \<in> set xs"
  by (rule in_set_takeD)

lemma map_of_filter_key:
  "map_of (filter (\<lambda>(k, v). k \<noteq> a) xs) b = (if b = a then None else map_of xs b)"
  by (induction xs) auto

end
