(* ===== verification/GoStrings.thy ===== *)
theory GoStrings
  imports Prelude
begin

text \<open>
  The parts of Go's \<^verbatim>\<open>strings\<close>, \<^verbatim>\<open>strconv\<close> and \<^verbatim>\<open>encoding/hex\<close> packages the sources call, on
  Go strings as byte sequences (\<^typ>\<open>string\<close>), and the lemmas about them that the components
  share: splitting and joining are inverse to each other, trimming is idempotent, decimal and
  hexadecimal rendering can be read back.
\<close>

section \<open>Prefixes, suffixes, separators\<close>

definition HasPrefix :: "string \<Rightarrow> string \<Rightarrow> bool" where
  "HasPrefix s p \<longleftrightarrow> prefix p s"

definition HasSuffix :: "string \<Rightarrow> string \<Rightarrow> bool" where
  "HasSuffix s p \<longleftrightarrow> suffix p s"

definition TrimPrefix :: "string \<Rightarrow> string \<Rightarrow> string" where
  "TrimPrefix s p = (if prefix p s then drop (length p) s else s)"

definition TrimSuffix :: "string \<Rightarrow> string \<Rightarrow> string" where
  "TrimSuffix s p = (if suffix p s then take (length s - length p) s else s)"

definition Contains :: "string \<Rightarrow> string \<Rightarrow> bool" where
  "Contains s p \<longleftrightarrow> sublist p s"

text \<open>\<^verbatim>\<open>strings.TrimRight(s, "c")\<close> for a cutset of one byte.\<close>

definition TrimRight :: "string \<Rightarrow> char \<Rightarrow> string" where
  "TrimRight s c = rev (dropWhile (\<lambda>x. x = c) (rev s))"

text \<open>\<^verbatim>\<open>strings.Split\<close> and \<^verbatim>\<open>strings.Join\<close> with a one-byte separator.\<close>

fun Split :: "char \<Rightarrow> string \<Rightarrow> string list" where
  "Split c [] = [[]]"
| "Split c (x # xs) =
     (if x = c then [] # Split c xs
      else (case Split c xs of [] \<Rightarrow> [[x]] | y # ys \<Rightarrow> (x # y) # ys))"

fun Join :: "char \<Rightarrow> string list \<Rightarrow> string" where
  "Join c [] = []"
| "Join c [x] = x"
| "Join c (x # y # ys) = x @ c # Join c (y # ys)"

text \<open>\<^verbatim>\<open>strings.Index\<close> of one byte, and the part before it.\<close>

definition before_byte :: "char \<Rightarrow> string \<Rightarrow> string" where
  "before_byte c s = takeWhile (\<lambda>x. x \<noteq> c) s"

definition after_byte :: "char \<Rightarrow> string \<Rightarrow> string" where
  "after_byte c s = drop 1 (dropWhile (\<lambda>x. x \<noteq> c) s)"

lemma HasPrefix_self [simp]: "HasPrefix s s"
  by (simp add: HasPrefix_def)

lemma HasPrefix_append [simp]: "HasPrefix (p @ s) p"
  by (simp add: HasPrefix_def)

lemma TrimPrefix_append [simp]: "TrimPrefix (p @ s) p = s"
  by (simp add: TrimPrefix_def)

lemma Split_not_Nil [simp]: "Split c s \<noteq> []"
  by (cases s) (auto split: list.splits)

lemma Split_no_sep: "c \<notin> set s \<Longrightarrow> Split c s = [s]"
  by (induction s) auto

lemma Split_elem_no_sep: "x \<in> set (Split c s) \<Longrightarrow> c \<notin> set x"
proof (induction s arbitrary: x)
  case Nil
  then show ?case by simp
next
  case (Cons a s)
  then show ?case
    by (cases "Split c s") (auto split: if_splits)
qed

lemma Split_append_sep: "Split c (x @ c # s) = (if c \<in> set x then Split c (x @ c # s) else x # Split c s)"
  by (induction x) auto

lemma Join_Cons: "ys \<noteq> [] \<Longrightarrow> Join c (x # ys) = x @ c # Join c ys"
  by (cases ys) auto

lemma Join_Split [simp]: "Join c (Split c s) = s"
proof (induction s)
  case Nil
  then show ?case by simp
next
  case (Cons a s)
  obtain y ys where y: "Split c s = y # ys"
    by (metis Split_not_Nil neq_Nil_conv)
  show ?case
  proof (cases "a = c")
    case True
    with Cons y show ?thesis by simp
  next
    case False
    with Cons y show ?thesis by (cases ys) auto
  qed
qed

lemma Split_Join: "xs \<noteq> [] \<Longrightarrow> \<forall>x\<in>set xs. c \<notin> set x \<Longrightarrow> Split c (Join c xs) = xs"
proof (induction xs rule: Join.induct [of _ c])
  case (3 c x y ys)
  then show ?case by (simp add: Split_append_sep)
qed (auto simp: Split_no_sep)

section \<open>White space\<close>

text \<open>
  \<^verbatim>\<open>unicode.IsSpace\<close> on UTF-8 bytes: the ASCII spaces, then U+0085, U+00A0 (two bytes) and
  U+1680, U+2000 to U+200A, U+2028, U+2029, U+202F, U+205F, U+3000 (three bytes).
\<close>

definition space1 :: "char \<Rightarrow> bool" where
  "space1 c \<longleftrightarrow> (of_char c :: int) \<in> {9, 10, 11, 12, 13, 32}"

definition space2 :: "char \<Rightarrow> char \<Rightarrow> bool" where
  "space2 c d \<longleftrightarrow> of_char c = (0xC2 :: int) \<and> (of_char d :: int) \<in> {0x85, 0xA0}"

definition space3 :: "char \<Rightarrow> char \<Rightarrow> char \<Rightarrow> bool" where
  "space3 c d e \<longleftrightarrow>
     ([of_char c, of_char d, of_char e] :: int list) \<in> {[0xE1, 0x9A, 0x80], [0xE2, 0x81, 0x9F], [0xE3, 0x80, 0x80]}
     \<or> (of_char c = (0xE2 :: int) \<and> of_char d = (0x80 :: int) \<and>
         (0x80 \<le> (of_char e :: int) \<and> (of_char e :: int) \<le> 0x8A \<or> (of_char e :: int) \<in> {0xA8, 0xA9, 0xAF}))"

text \<open>\<open>drop_space\<close> drops one leading space rune; \<open>drop_space_rev\<close> does so on a reversed string.\<close>

definition drop_space :: "string \<Rightarrow> string option" where
  "drop_space s = (case s of
     [] \<Rightarrow> None
   | c # s1 \<Rightarrow> if space1 c then Some s1 else (case s1 of
       [] \<Rightarrow> None
     | d # s2 \<Rightarrow> if space2 c d then Some s2 else (case s2 of
         [] \<Rightarrow> None
       | e # s3 \<Rightarrow> if space3 c d e then Some s3 else None)))"

definition drop_space_rev :: "string \<Rightarrow> string option" where
  "drop_space_rev s = (case s of
     [] \<Rightarrow> None
   | c # s1 \<Rightarrow> if space1 c then Some s1 else (case s1 of
       [] \<Rightarrow> None
     | d # s2 \<Rightarrow> if space2 d c then Some s2 else (case s2 of
         [] \<Rightarrow> None
       | e # s3 \<Rightarrow> if space3 e d c then Some s3 else None)))"

lemma drop_space_length: "drop_space s = Some s' \<Longrightarrow> length s' < length s"
  by (auto simp: drop_space_def split: list.splits if_splits)

lemma drop_space_rev_length: "drop_space_rev s = Some s' \<Longrightarrow> length s' < length s"
  by (auto simp: drop_space_rev_def split: list.splits if_splits)

function trim_left :: "string \<Rightarrow> string" where
  "trim_left s = (case drop_space s of None \<Rightarrow> s | Some s' \<Rightarrow> trim_left s')"
  by pat_completeness auto
termination
  by (relation "measure length") (auto dest: drop_space_length)

function trim_left_rev :: "string \<Rightarrow> string" where
  "trim_left_rev s = (case drop_space_rev s of None \<Rightarrow> s | Some s' \<Rightarrow> trim_left_rev s')"
  by pat_completeness auto
termination
  by (relation "measure length") (auto dest: drop_space_rev_length)

declare trim_left.simps [simp del] trim_left_rev.simps [simp del]

definition TrimSpace :: "string \<Rightarrow> string" where
  "TrimSpace s = rev (trim_left_rev (rev (trim_left s)))"

lemma drop_space_Nil [simp]: "drop_space [] = None" "drop_space_rev [] = None"
  by (simp_all add: drop_space_def drop_space_rev_def)

lemma trim_Nil [simp]: "trim_left [] = []" "trim_left_rev [] = []"
  by (simp_all add: trim_left.simps trim_left_rev.simps)

lemma TrimSpace_Nil [simp]: "TrimSpace [] = []"
  by (simp add: TrimSpace_def)

lemma trim_left_suffix: "\<exists>p. s = p @ trim_left s"
proof (induction s rule: trim_left.induct)
  case (1 s)
  show ?case
  proof (cases "drop_space s")
    case None
    then show ?thesis by (simp add: trim_left.simps [of s])
  next
    case (Some s')
    with "1" obtain p where p: "s' = p @ trim_left s'" by blast
    from Some obtain q where "s = q @ s'"
      by (auto simp: drop_space_def split: list.splits if_splits)
    with p have "s = (q @ p) @ trim_left s'" by simp
    moreover have "trim_left s = trim_left s'"
      using Some by (simp add: trim_left.simps [of s])
    ultimately show ?thesis by metis
  qed
qed

lemma trim_left_rev_suffix: "\<exists>p. s = p @ trim_left_rev s"
proof (induction s rule: trim_left_rev.induct)
  case (1 s)
  show ?case
  proof (cases "drop_space_rev s")
    case None
    then show ?thesis by (simp add: trim_left_rev.simps [of s])
  next
    case (Some s')
    with "1" obtain p where p: "s' = p @ trim_left_rev s'" by blast
    from Some obtain q where "s = q @ s'"
      by (auto simp: drop_space_rev_def split: list.splits if_splits)
    with p have "s = (q @ p) @ trim_left_rev s'" by simp
    moreover have "trim_left_rev s = trim_left_rev s'"
      using Some by (simp add: trim_left_rev.simps [of s])
    ultimately show ?thesis by metis
  qed
qed

lemma TrimSpace_sublist: "\<exists>p q. s = p @ TrimSpace s @ q"
proof -
  obtain p where p: "s = p @ trim_left s" using trim_left_suffix by blast
  obtain q where "rev (trim_left s) = q @ trim_left_rev (rev (trim_left s))"
    using trim_left_rev_suffix by blast
  then have "trim_left s = TrimSpace s @ rev q"
    by (metis TrimSpace_def rev_append rev_rev_ident)
  with p show ?thesis by (metis append_assoc)
qed

lemma set_TrimSpace: "set (TrimSpace s) \<subseteq> set s"
proof -
  obtain p q where "s = p @ TrimSpace s @ q" using TrimSpace_sublist by blast
  then have "set s = set p \<union> set (TrimSpace s) \<union> set q"
    by (metis set_append sup_assoc)
  then show ?thesis by blast
qed

lemma length_TrimSpace: "length (TrimSpace s) \<le> length s"
proof -
  obtain p q where "s = p @ TrimSpace s @ q" using TrimSpace_sublist by blast
  then have "length s = length p + length (TrimSpace s) + length q"
    by (metis length_append add.assoc)
  then show ?thesis by simp
qed

text \<open>A string with no space byte and only ASCII bytes at both ends is trimmed already.\<close>

definition graphic :: "char \<Rightarrow> bool" where
  "graphic c \<longleftrightarrow> 33 \<le> (of_char c :: int) \<and> (of_char c :: int) \<le> 126"

lemma drop_space_graphic: "graphic c \<Longrightarrow> drop_space (c # s) = None"
  by (auto simp: drop_space_def graphic_def space1_def space2_def space3_def split: list.splits)

lemma drop_space_rev_graphic: "graphic c \<Longrightarrow> drop_space_rev (c # s) = None"
  by (auto simp: drop_space_rev_def graphic_def space1_def space2_def space3_def split: list.splits)

lemma TrimSpace_graphic:
  assumes "s \<noteq> []" "graphic (hd s)" "graphic (last s)"
  shows "TrimSpace s = s"
proof -
  have l: "trim_left s = s"
    using assms by (cases s) (auto simp: trim_left.simps drop_space_graphic)
  have "drop_space_rev (rev s) = None"
    using assms drop_space_rev_graphic [of "last s" "rev (butlast s)"]
    by (metis append_butlast_last_id rev.simps(2) rev_append rev_rev_ident append.simps rev_singleton_conv)
  then have "trim_left_rev (rev s) = rev s"
    by (simp add: trim_left_rev.simps [of "rev s"])
  with l show ?thesis by (simp add: TrimSpace_def)
qed

lemma drop_space_prefix: "drop_space (t @ u) = None \<Longrightarrow> drop_space t = None"
  by (auto simp: drop_space_def split: list.splits if_splits)

lemma drop_space_trim_left: "drop_space (trim_left s) = None"
proof (induction s rule: trim_left.induct)
  case (1 s)
  then show ?case
    by (cases "drop_space s") (simp_all add: trim_left.simps [of s])
qed

lemma drop_space_rev_trim: "drop_space_rev (trim_left_rev s) = None"
proof (induction s rule: trim_left_rev.induct)
  case (1 s)
  then show ?case
    by (cases "drop_space_rev s") (simp_all add: trim_left_rev.simps [of s])
qed

lemma TrimSpace_idem [simp]: "TrimSpace (TrimSpace s) = TrimSpace s"
proof -
  obtain q where "rev (trim_left s) = q @ trim_left_rev (rev (trim_left s))"
    using trim_left_rev_suffix by blast
  then have "trim_left s = TrimSpace s @ rev q"
    by (metis TrimSpace_def rev_append rev_rev_ident)
  then have "drop_space (TrimSpace s) = None"
    using drop_space_trim_left [of s] drop_space_prefix by metis
  then have l: "trim_left (TrimSpace s) = TrimSpace s"
    by (simp add: trim_left.simps [of "TrimSpace s"])
  have "drop_space_rev (rev (TrimSpace s)) = None"
    by (simp add: TrimSpace_def drop_space_rev_trim)
  then have "trim_left_rev (rev (TrimSpace s)) = rev (TrimSpace s)"
    by (simp add: trim_left_rev.simps [of "rev (TrimSpace s)"])
  then show ?thesis by (simp add: TrimSpace_def [of "TrimSpace s"] l)
qed

text \<open>\<^verbatim>\<open>strings.Fields\<close>: the maximal runs of bytes between space runes.\<close>

function Fields_acc :: "string \<Rightarrow> string \<Rightarrow> string list" where
  "Fields_acc cur s =
     (case drop_space s of
        Some s' \<Rightarrow> (if cur = [] then [] else [cur]) @ Fields_acc [] s'
      | None \<Rightarrow> (case s of
          [] \<Rightarrow> (if cur = [] then [] else [cur])
        | c # cs \<Rightarrow> Fields_acc (cur @ [c]) cs))"
  by pat_completeness auto
termination
  by (relation "measure (\<lambda>(cur, s). length s)") (auto dest: drop_space_length)

declare Fields_acc.simps [simp del]

definition Fields :: "string \<Rightarrow> string list" where
  "Fields s = Fields_acc [] s"

section \<open>Case\<close>

definition ascii_lower :: "char \<Rightarrow> char" where
  "ascii_lower c = (if 65 \<le> (of_char c :: int) \<and> (of_char c :: int) \<le> 90 then char_of ((of_char c :: int) + 32) else c)"

definition ascii_upper :: "char \<Rightarrow> char" where
  "ascii_upper c = (if 97 \<le> (of_char c :: int) \<and> (of_char c :: int) \<le> 122 then char_of ((of_char c :: int) - 32) else c)"

text \<open>
  \<^verbatim>\<open>strings.ToLower\<close> where the result is compared with ASCII text. Besides the ASCII capitals only
  U+212A (Kelvin sign, to k) and U+0130 (to i) have an ASCII lower case; the lower case of any
  other rune is again outside ASCII and is left as it is.
\<close>

fun ToLower :: "string \<Rightarrow> string" where
  "ToLower [] = []"
| "ToLower (c # s) =
     (if of_char c = (0xE2 :: int) \<and> map of_char (take 2 s) = [0x84 :: int, 0xAA] then CHR ''k'' # ToLower (drop 2 s)
      else if of_char c = (0xC4 :: int) \<and> map of_char (take 1 s) = [0xB0 :: int] then CHR ''i'' # ToLower (drop 1 s)
      else ascii_lower c # ToLower s)"

text \<open>\<^verbatim>\<open>strings.EqualFold\<close> against a word of ASCII letters other than k and s, which fold to no other rune.\<close>

definition EqualFold :: "string \<Rightarrow> string \<Rightarrow> bool" where
  "EqualFold s t \<longleftrightarrow> map ascii_lower s = map ascii_lower t"

section \<open>Decimal numbers\<close>

definition is_digit :: "char \<Rightarrow> bool" where
  "is_digit c \<longleftrightarrow> 48 \<le> (of_char c :: int) \<and> (of_char c :: int) \<le> 57"

definition digit_val :: "char \<Rightarrow> int" where
  "digit_val c = of_char c - 48"

fun digits_val :: "int \<Rightarrow> string \<Rightarrow> int option" where
  "digits_val acc [] = Some acc"
| "digits_val acc (c # cs) = (if is_digit c then digits_val (10 * acc + digit_val c) cs else None)"

text \<open>\<^verbatim>\<open>strconv.Atoi\<close> and \<^verbatim>\<open>strconv.ParseInt(s, 10, 64)\<close>: an optional sign, decimal digits, in the range of int64.\<close>

definition Atoi :: "string \<Rightarrow> int option" where
  "Atoi s =
     (let neg = (s \<noteq> [] \<and> hd s = CHR ''-'');
          ds = (if s \<noteq> [] \<and> (hd s = CHR ''-'' \<or> hd s = CHR ''+'') then tl s else s)
      in if ds = [] then None
         else (case digits_val 0 ds of
                 None \<Rightarrow> None
               | Some n \<Rightarrow> (let v = (if neg then - n else n) in if in_int64 v then Some v else None)))"

text \<open>\<^verbatim>\<open>strconv.Itoa\<close>: decimal digits, most significant first.\<close>

function show_pos :: "int \<Rightarrow> string" where
  "show_pos n = (if n < 10 then [char_of (48 + n)] else show_pos (n div 10) @ [char_of (48 + n mod 10)])"
  by pat_completeness auto
termination
  by (relation "measure nat") auto

declare show_pos.simps [simp del]

definition Itoa :: "int \<Rightarrow> string" where
  "Itoa n = (if n < 0 then CHR ''-'' # show_pos (- n) else show_pos n)"

lemma Atoi_in_int64: "Atoi s = Some n \<Longrightarrow> in_int64 n"
  by (auto simp: Atoi_def Let_def split: if_splits option.splits)

lemma of_char_digit: "0 \<le> n \<Longrightarrow> n < 10 \<Longrightarrow> of_char (char_of (48 + n) :: char) = (48 + n :: int)"
  by (simp add: of_char_of take_bit_int_def)

lemma is_digit_char_of: "0 \<le> n \<Longrightarrow> n < 10 \<Longrightarrow> is_digit (char_of (48 + n :: int))"
  by (simp add: is_digit_def of_char_digit)

lemma digit_val_char_of: "0 \<le> n \<Longrightarrow> n < 10 \<Longrightarrow> digit_val (char_of (48 + n :: int)) = n"
  by (simp add: digit_val_def of_char_digit)

lemma digits_val_append:
  "digits_val acc (xs @ ys) = (case digits_val acc xs of None \<Rightarrow> None | Some m \<Rightarrow> digits_val m ys)"
  by (induction xs arbitrary: acc) auto

lemma digits_val_show_pos: "0 \<le> n \<Longrightarrow> digits_val 0 (show_pos n) = Some n"
proof (induction n rule: show_pos.induct)
  case (1 n)
  show ?case
  proof (cases "n < 10")
    case True
    with "1.prems" show ?thesis
      by (simp add: show_pos.simps [of n] is_digit_char_of digit_val_char_of)
  next
    case False
    with "1" have "digits_val 0 (show_pos (n div 10)) = Some (n div 10)" by simp
    with False show ?thesis
      by (simp add: show_pos.simps [of n] digits_val_append is_digit_char_of digit_val_char_of)
  qed
qed

lemma set_show_pos: "0 \<le> n \<Longrightarrow> c \<in> set (show_pos n) \<Longrightarrow> is_digit c"
proof (induction n rule: show_pos.induct)
  case (1 n)
  then show ?case
    by (cases "n < 10") (auto simp: show_pos.simps [of n] is_digit_char_of)
qed

lemma show_pos_not_Nil [simp]: "show_pos n \<noteq> []"
  by (subst show_pos.simps) simp

lemma show_pos_hd:
  assumes "0 \<le> n"
  shows "hd (show_pos n) \<noteq> CHR ''-'' \<and> hd (show_pos n) \<noteq> CHR ''+''"
proof -
  have "is_digit (hd (show_pos n))"
    using assms by (metis hd_in_set set_show_pos show_pos_not_Nil)
  then show ?thesis by (auto simp: is_digit_def)
qed

lemma Atoi_Itoa: "in_int64 n \<Longrightarrow> Atoi (Itoa n) = Some n"
  using show_pos_hd [of n] show_pos_hd [of "- n"]
  by (cases "n < 0") (simp_all add: Atoi_def Itoa_def digits_val_show_pos)

section \<open>Hexadecimal\<close>

type_synonym bytes = "8 word list"

definition hex_digit :: "int \<Rightarrow> char" where
  "hex_digit n = (if n < 10 then char_of (48 + n) else char_of (87 + n))"

definition HEX_digit :: "int \<Rightarrow> char" where
  "HEX_digit n = (if n < 10 then char_of (48 + n) else char_of (55 + n))"

fun hex_encode :: "bytes \<Rightarrow> string" where
  "hex_encode [] = []"
| "hex_encode (b # bs) = hex_digit (uint b div 16) # hex_digit (uint b mod 16) # hex_encode bs"

definition hex_val :: "char \<Rightarrow> int option" where
  "hex_val c = (let n = (of_char c :: int) in
     if 48 \<le> n \<and> n \<le> 57 then Some (n - 48)
     else if 97 \<le> n \<and> n \<le> 102 then Some (n - 87)
     else if 65 \<le> n \<and> n \<le> 70 then Some (n - 55)
     else None)"

text \<open>\<^verbatim>\<open>hex.DecodeString\<close>: fails on an odd length and on a byte that is not a hexadecimal digit.\<close>

fun hex_decode :: "string \<Rightarrow> bytes option" where
  "hex_decode [] = Some []"
| "hex_decode [c] = None"
| "hex_decode (c # d # s) =
     (case (hex_val c, hex_val d, hex_decode s) of
        (Some x, Some y, Some bs) \<Rightarrow> Some (word_of_int (16 * x + y) # bs)
      | _ \<Rightarrow> None)"

lemma hex_val_hex_digit: "0 \<le> n \<Longrightarrow> n < 16 \<Longrightarrow> hex_val (hex_digit n) = Some n"
  by (auto simp: hex_val_def hex_digit_def Let_def of_char_of take_bit_int_def)

lemma uint_nibbles:
  fixes b :: "8 word"
  shows "0 \<le> uint b div 16" "uint b div 16 < 16" "0 \<le> uint b mod 16" "uint b mod 16 < 16"
  using unsigned_less [of b, where 'a = int]
  by (auto simp: pos_imp_zdiv_nonneg_iff)

lemma hex_decode_encode [simp]: "hex_decode (hex_encode bs) = Some bs"
proof (induction bs)
  case Nil
  then show ?case by simp
next
  case (Cons b bs)
  have "(word_of_int (16 * (uint b div 16) + uint b mod 16) :: 8 word) = b"
    by (simp only: mult_div_mod_eq) simp
  with Cons show ?case
    by (simp add: hex_val_hex_digit uint_nibbles del: of_int_add of_int_mult)
qed

lemma length_hex_encode [simp]: "length (hex_encode bs) = 2 * length bs"
  by (induction bs) auto

lemma hex_encode_inj: "hex_encode a = hex_encode b \<longleftrightarrow> a = b"
  by (metis hex_decode_encode option.inject)

definition is_lower_hex :: "char \<Rightarrow> bool" where
  "is_lower_hex c \<longleftrightarrow> is_digit c \<or> (97 \<le> (of_char c :: int) \<and> (of_char c :: int) \<le> 102)"

lemma is_lower_hex_digit: "0 \<le> n \<Longrightarrow> n < 16 \<Longrightarrow> is_lower_hex (hex_digit n)"
  by (auto simp: is_lower_hex_def hex_digit_def is_digit_def of_char_of take_bit_int_def)

lemma set_hex_encode: "c \<in> set (hex_encode bs) \<Longrightarrow> is_lower_hex c"
proof (induction bs)
  case (Cons b bs)
  then show ?case by (auto simp: is_lower_hex_digit uint_nibbles)
qed simp

lemma is_lower_hex_graphic: "is_lower_hex c \<Longrightarrow> graphic c"
  by (auto simp: is_lower_hex_def is_digit_def graphic_def)

lemma hex_encode_eq_Nil [simp]: "hex_encode bs = [] \<longleftrightarrow> bs = []"
  by (cases bs) auto

lemma TrimSpace_hex_encode [simp]: "TrimSpace (hex_encode bs) = hex_encode bs"
proof (cases "bs = []")
  case False
  then have "hex_encode bs \<noteq> []" by simp
  then show ?thesis
    by (meson TrimSpace_graphic hd_in_set last_in_set is_lower_hex_graphic set_hex_encode)
qed simp

end
