(* ===== verification/GoJson.thy ===== *)
theory GoJson
  imports GoStrings
begin

text \<open>
  JSON values and the part of \<^verbatim>\<open>encoding/json\<close> that decodes a value tree into Go structs, and
  \<^verbatim>\<open>time.Parse\<close> for RFC 3339 timestamps. The step from bytes to a value tree (the JSON syntax)
  is an argument of the definitions that read a body, written \<open>jdec\<close>; \<open>None\<close> is a syntax error.
\<close>

section \<open>Values\<close>

text \<open>A number keeps its literal, which is what \<^verbatim>\<open>encoding/json\<close> hands to \<^verbatim>\<open>strconv\<close>.\<close>

datatype json =
    JNull
  | JBool bool
  | JNum string
  | JStr string
  | JArr "json list"
  | JObj "(string \<times> json) list"

type_synonym gomap = "(string \<times> json) list"

text \<open>A Go \<^verbatim>\<open>map[string]any\<close> as an association list: lookup, assignment, and reading of a string.\<close>

definition map_get :: "gomap \<Rightarrow> string \<Rightarrow> json option" where
  "map_get m k = map_of m k"

definition map_put :: "string \<Rightarrow> json \<Rightarrow> gomap \<Rightarrow> gomap" where
  "map_put k v m = AList.update k v m"

definition map_put_all :: "gomap \<Rightarrow> gomap \<Rightarrow> gomap" where
  "map_put_all kvs m = fold (\<lambda>(k, v). map_put k v) kvs m"

text \<open>\<^verbatim>\<open>v, _ := m[k].(string)\<close>: the string stored under a key, or the empty string.\<close>

definition map_str :: "gomap \<Rightarrow> string \<Rightarrow> string" where
  "map_str m k = (case map_get m k of Some (JStr s) \<Rightarrow> s | _ \<Rightarrow> [])"

lemma map_get_put [simp]: "map_get (map_put k v m) k' = (if k' = k then Some v else map_get m k')"
  by (simp add: map_get_def map_put_def update_conv')

lemma map_get_Nil [simp]: "map_get [] k = None"
  by (simp add: map_get_def)

lemma map_get_Cons [simp]: "map_get ((a, v) # m) k = (if k = a then Some v else map_get m k)"
  by (auto simp: map_get_def)

lemma map_put_all_Nil [simp]: "map_put_all [] m = m"
  by (simp add: map_put_all_def)

lemma map_put_all_Cons [simp]: "map_put_all ((k, v) # kvs) m = map_put_all kvs (map_put k v m)"
  by (simp add: map_put_all_def)

section \<open>Struct decoding\<close>

text \<open>
  A key of the document selects a struct field when the two are equal up to simple case
  folding: ASCII case, U+017F (long s) and U+212A (Kelvin sign). Later members override earlier
  ones, null leaves the field as it is, and a value of another type is an error.
\<close>

fun foldName :: "string \<Rightarrow> string" where
  "foldName [] = []"
| "foldName (c # s) =
     (if of_char c = (0xE2 :: int) \<and> map of_char (take 2 s) = [0x84 :: int, 0xAA] then CHR ''k'' # foldName (drop 2 s)
      else if of_char c = (0xC5 :: int) \<and> map of_char (take 1 s) = [0xBF :: int] then CHR ''s'' # foldName (drop 1 s)
      else ascii_lower c # foldName s)"

definition field_vals :: "string \<Rightarrow> gomap \<Rightarrow> json list" where
  "field_vals name m = map snd (filter (\<lambda>(k, v). foldName k = foldName name) m)"

fun dec_strs :: "string \<Rightarrow> json list \<Rightarrow> string option" where
  "dec_strs cur [] = Some cur"
| "dec_strs cur (JStr s # vs) = dec_strs s vs"
| "dec_strs cur (JNull # vs) = dec_strs cur vs"
| "dec_strs cur (v # vs) = None"

text \<open>A \<^verbatim>\<open>*string\<close> field: null resets it to nil.\<close>

fun dec_strps :: "string option \<Rightarrow> json list \<Rightarrow> string option option" where
  "dec_strps cur [] = Some cur"
| "dec_strps cur (JStr s # vs) = dec_strps (Some s) vs"
| "dec_strps cur (JNull # vs) = dec_strps None vs"
| "dec_strps cur (v # vs) = None"

fun dec_ints :: "int \<Rightarrow> json list \<Rightarrow> int option" where
  "dec_ints cur [] = Some cur"
| "dec_ints cur (JNum l # vs) = (case Atoi l of Some n \<Rightarrow> dec_ints n vs | None \<Rightarrow> None)"
| "dec_ints cur (JNull # vs) = dec_ints cur vs"
| "dec_ints cur (v # vs) = None"

text \<open>A \<^verbatim>\<open>map[string]any\<close> field: members are merged into the map, null resets it to nil.\<close>

fun dec_maps :: "gomap option \<Rightarrow> json list \<Rightarrow> gomap option option" where
  "dec_maps cur [] = Some cur"
| "dec_maps cur (JObj m # vs) = dec_maps (Some (map_put_all m (case cur of None \<Rightarrow> [] | Some c \<Rightarrow> c))) vs"
| "dec_maps cur (JNull # vs) = dec_maps None vs"
| "dec_maps cur (v # vs) = None"

text \<open>A \<^verbatim>\<open>json.RawMessage\<close> field keeps the value; absent is the empty message.\<close>

definition dec_raw :: "string \<Rightarrow> gomap \<Rightarrow> json option" where
  "dec_raw name m = (let vs = field_vals name m in if vs = [] then None else Some (last vs))"

definition dec_string :: "string \<Rightarrow> gomap \<Rightarrow> string option" where
  "dec_string name m = dec_strs [] (field_vals name m)"

definition dec_strptr :: "string \<Rightarrow> gomap \<Rightarrow> string option option" where
  "dec_strptr name m = dec_strps None (field_vals name m)"

definition dec_int :: "string \<Rightarrow> gomap \<Rightarrow> int option" where
  "dec_int name m = dec_ints 0 (field_vals name m)"

definition dec_map :: "string \<Rightarrow> gomap \<Rightarrow> gomap option option" where
  "dec_map name m = dec_maps None (field_vals name m)"

text \<open>The members a struct is decoded from: null decodes to the zero struct, other kinds are errors.\<close>

definition dec_object :: "json \<Rightarrow> gomap option" where
  "dec_object v = (case v of JObj m \<Rightarrow> Some m | JNull \<Rightarrow> Some [] | _ \<Rightarrow> None)"

section \<open>RFC 3339 timestamps\<close>

definition fixnum :: "nat \<Rightarrow> string \<Rightarrow> (int \<times> string) option" where
  "fixnum n s = (if length s < n then None
     else map_option (\<lambda>v. (v, drop n s)) (digits_val 0 (take n s)))"

definition expect :: "char \<Rightarrow> string \<Rightarrow> string option" where
  "expect c s = (case s of [] \<Rightarrow> None | x # xs \<Rightarrow> if x = c then Some xs else None)"

definition days_in :: "int \<Rightarrow> int \<Rightarrow> int" where
  "days_in y m = (if m = 2 then (if 4 dvd y \<and> (\<not> 100 dvd y \<or> 400 dvd y) then 29 else 28)
     else if m \<in> {4, 6, 9, 11} then 30 else 31)"

text \<open>Days from 1970-01-01 to a date of the proleptic Gregorian calendar.\<close>

definition days_civil :: "int \<Rightarrow> int \<Rightarrow> int \<Rightarrow> int" where
  "days_civil y m d =
     (let y' = (if m \<le> 2 then y - 1 else y);
          era = y' div 400; yoe = y' - era * 400;
          mp = (if m > 2 then m - 3 else m + 9);
          doy = (153 * mp + 2) div 5 + d - 1;
          doe = yoe * 365 + yoe div 4 - yoe div 100 + doy
      in era * 146097 + doe - 719468)"

text \<open>Nanoseconds of a fraction: the first nine digits count.\<close>

definition frac_nanos :: "string \<Rightarrow> int" where
  "frac_nanos ds = (case digits_val 0 (take 9 (ds @ replicate 9 (CHR ''0''))) of Some n \<Rightarrow> n | None \<Rightarrow> 0)"

definition parse_frac :: "bool \<Rightarrow> string \<Rightarrow> (int \<times> string) option" where
  "parse_frac strict s = (case s of
     c # d # r \<Rightarrow> if (c = CHR ''.'' \<or> c = CHR '','') \<and> is_digit d
       then (if strict \<and> c = CHR '','' then None
             else Some (frac_nanos (takeWhile is_digit (d # r)), dropWhile is_digit (d # r)))
       else Some (0, s)
   | _ \<Rightarrow> Some (0, s))"

text \<open>The zone: Z, or a signed offset. The lenient form also takes 24 hours and 60 minutes.\<close>

definition parse_zone :: "bool \<Rightarrow> string \<Rightarrow> int option" where
  "parse_zone strict s =
     (if s = ''Z'' then Some 0
      else (case s of [] \<Rightarrow> None
        | c # r \<Rightarrow> (if c \<noteq> CHR ''+'' \<and> c \<noteq> CHR ''-'' then None
            else Option.bind (fixnum 2 r) (\<lambda>(hh, r1).
                 Option.bind (expect (CHR '':'') r1) (\<lambda>r2.
                 Option.bind (fixnum 2 r2) (\<lambda>(mm, r3).
                   if r3 \<noteq> [] \<or> hh > (if strict then 23 else 24) \<or> mm > (if strict then 59 else 60) then None
                   else Some ((if c = CHR ''-'' then - 1 else 1) * (hh * 3600 + mm * 60))))))))"

text \<open>The lenient form reads a one-digit hour.\<close>

definition parse_hour :: "bool \<Rightarrow> string \<Rightarrow> (int \<times> string) option" where
  "parse_hour strict s = (case s of
     c # d # r \<Rightarrow> if is_digit c \<and> is_digit d then Some (10 * digit_val c + digit_val d, r)
                  else if is_digit c \<and> \<not> strict then Some (digit_val c, d # r) else None
   | _ \<Rightarrow> None)"

definition parse_rfc3339 :: "bool \<Rightarrow> string \<Rightarrow> gotime option" where
  "parse_rfc3339 strict s =
     Option.bind (fixnum 4 s) (\<lambda>(y, s).
     Option.bind (expect (CHR ''-'') s) (\<lambda>s.
     Option.bind (fixnum 2 s) (\<lambda>(mo, s).
     Option.bind (expect (CHR ''-'') s) (\<lambda>s.
     Option.bind (fixnum 2 s) (\<lambda>(d, s).
     Option.bind (expect (CHR ''T'') s) (\<lambda>s.
     Option.bind (parse_hour strict s) (\<lambda>(h, s).
     Option.bind (expect (CHR '':'') s) (\<lambda>s.
     Option.bind (fixnum 2 s) (\<lambda>(mi, s).
     Option.bind (expect (CHR '':'') s) (\<lambda>s.
     Option.bind (fixnum 2 s) (\<lambda>(sec, s).
     Option.bind (parse_frac strict s) (\<lambda>(ns, s).
     Option.bind (parse_zone strict s) (\<lambda>off.
       if mo < 1 \<or> 12 < mo \<or> d < 1 \<or> days_in y mo < d \<or> 23 < h \<or> 59 < mi \<or> 59 < sec then None
       else Some ((days_civil y mo d * 86400 + h * 3600 + mi * 60 + sec - off) * 1000000000 + ns))))))))))))))"

text \<open>\<^verbatim>\<open>time.Time\<close> fields of a document use the strict form; \<^verbatim>\<open>time.Parse(time.RFC3339, s)\<close> the lenient one.\<close>

definition time_Parse :: "string \<Rightarrow> gotime option" where
  "time_Parse s = parse_rfc3339 False s"

fun dec_times :: "gotime \<Rightarrow> json list \<Rightarrow> gotime option" where
  "dec_times cur [] = Some cur"
| "dec_times cur (JStr s # vs) = (case parse_rfc3339 True s of Some t \<Rightarrow> dec_times t vs | None \<Rightarrow> None)"
| "dec_times cur (JNull # vs) = dec_times cur vs"
| "dec_times cur (v # vs) = None"

definition dec_time :: "string \<Rightarrow> gomap \<Rightarrow> gotime option" where
  "dec_time name m = dec_times zero_time (field_vals name m)"

lemmas json_dec_defs [go_defs] =
  dec_string_def dec_strptr_def dec_int_def dec_map_def dec_raw_def dec_time_def dec_object_def field_vals_def

end
