(* ===== verification/GoHttp.thy ===== *)
theory GoHttp
  imports GoJson
begin

text \<open>
  The \<^verbatim>\<open>net/http\<close> vocabulary of the services: headers with canonical keys, the response writer
  with its write-once status line, and handlers as functions from a request, a writer and the
  service state to a result. A handler can panic; the result then carries what it had written.
\<close>

section \<open>Headers\<close>

text \<open>\<^verbatim>\<open>http.Header\<close> is a map from canonical keys to values; the server canonicalises what it reads.\<close>

type_synonym header = "string \<Rightarrow> string list option"

definition token_char :: "char \<Rightarrow> bool" where
  "token_char c \<longleftrightarrow> is_digit c
     \<or> (65 \<le> (of_char c :: int) \<and> (of_char c :: int) \<le> 90)
     \<or> (97 \<le> (of_char c :: int) \<and> (of_char c :: int) \<le> 122)
     \<or> c \<in> set ''!#$%&*+-.^_|~'' \<or> (of_char c :: int) \<in> {39, 96}"

fun canon_key :: "bool \<Rightarrow> string \<Rightarrow> string" where
  "canon_key up [] = []"
| "canon_key up (c # cs) = (if up then ascii_upper c else ascii_lower c) # canon_key (c = CHR ''-'') cs"

definition CanonicalHeaderKey :: "string \<Rightarrow> string" where
  "CanonicalHeaderKey k = (if list_all token_char k then canon_key True k else k)"

definition hdr_get :: "header \<Rightarrow> string \<Rightarrow> string" where
  "hdr_get h k = (case h (CanonicalHeaderKey k) of Some (v # vs) \<Rightarrow> v | _ \<Rightarrow> [])"

definition hdr_set :: "string \<Rightarrow> string \<Rightarrow> header \<Rightarrow> header" where
  "hdr_set k v h = h(CanonicalHeaderKey k \<mapsto> [v])"

definition hdr_del :: "string \<Rightarrow> header \<Rightarrow> header" where
  "hdr_del k h = h(CanonicalHeaderKey k := None)"

lemma hdr_get_set: "hdr_get (hdr_set k v h) k' =
    (if CanonicalHeaderKey k' = CanonicalHeaderKey k then v else hdr_get h k')"
  by (simp add: hdr_get_def hdr_set_def)

lemma hdr_get_del: "hdr_get (hdr_del k h) k' =
    (if CanonicalHeaderKey k' = CanonicalHeaderKey k then [] else hdr_get h k')"
  by (simp add: hdr_get_def hdr_del_def)

lemma canonical_keys [simp]:
  "CanonicalHeaderKey ''X-Request-Id'' = ''X-Request-Id''"
  "CanonicalHeaderKey ''X-User-Id'' = ''X-User-Id''"
  "CanonicalHeaderKey ''X-Tenant-Id'' = ''X-Tenant-Id''"
  "CanonicalHeaderKey ''X-Roles'' = ''X-Roles''"
  "CanonicalHeaderKey ''X-Scopes'' = ''X-Scopes''"
  "CanonicalHeaderKey ''X-Auth-Subject'' = ''X-Auth-Subject''"
  "CanonicalHeaderKey ''Authorization'' = ''Authorization''"
  "CanonicalHeaderKey ''X-Internal-Token'' = ''X-Internal-Token''"
  "CanonicalHeaderKey ''Content-Type'' = ''Content-Type''"
  "CanonicalHeaderKey ''traceparent'' = ''Traceparent''"
  "CanonicalHeaderKey ''X-Forwarded-For'' = ''X-Forwarded-For''"
  "CanonicalHeaderKey ''X-Real-IP'' = ''X-Real-Ip''"
  "CanonicalHeaderKey ''Retry-After'' = ''Retry-After''"
  by code_simp+

section \<open>Response writer\<close>

text \<open>
  \<open>WSent\<close> holds the status and the header snapshot once the status line is written; a later
  \<^verbatim>\<open>WriteHeader\<close> is ignored. Bodies are JSON values or raw bytes; the cookies set are kept in
  structured form instead of their \<^verbatim>\<open>Set-Cookie\<close> lines.
\<close>

datatype body = BJson json | BBytes string

record cookie =
  CName :: string
  CValue :: string
  CPath :: string
  CHttpOnly :: bool
  CSecure :: bool
  CSameSite :: string
  CMaxAge :: int
  CExpires :: gotime

record writer =
  WHeader :: header
  WSent :: "(int \<times> header) option"
  WBody :: "body list"
  WCookies :: "cookie list"

definition new_writer :: writer where
  "new_writer = \<lparr>WHeader = Map.empty, WSent = None, WBody = [], WCookies = []\<rparr>"

text \<open>\<^verbatim>\<open>http.SetCookie\<close>: an invalid name sets nothing; after the status line headers no longer count.\<close>

definition SetCookie :: "cookie \<Rightarrow> writer \<Rightarrow> writer" where
  "SetCookie c w =
     (if CName c = [] \<or> \<not> list_all token_char (CName c) \<or> WSent w \<noteq> None then w
      else w\<lparr>WCookies := WCookies w @ [c]\<rparr>)"

definition SetRespHeader :: "string \<Rightarrow> string \<Rightarrow> writer \<Rightarrow> writer" where
  "SetRespHeader k v w = w\<lparr>WHeader := hdr_set k v (WHeader w)\<rparr>"

definition WriteHeader :: "int \<Rightarrow> writer \<Rightarrow> writer" where
  "WriteHeader code w = (case WSent w of None \<Rightarrow> w\<lparr>WSent := Some (code, WHeader w)\<rparr> | Some _ \<Rightarrow> w)"

text \<open>Writing a body first writes the status 200 if none was written.\<close>

definition WriteBody :: "body \<Rightarrow> writer \<Rightarrow> writer" where
  "WriteBody b w = (let w' = WriteHeader 200 w in w'\<lparr>WBody := WBody w' @ [b]\<rparr>)"

text \<open>What the client sees: the status (200 when the handler wrote none) and the bodies.\<close>

definition final_status :: "writer \<Rightarrow> int" where
  "final_status w = (case WSent w of None \<Rightarrow> 200 | Some (c, h) \<Rightarrow> c)"

definition sent_header :: "writer \<Rightarrow> header" where
  "sent_header w = (case WSent w of None \<Rightarrow> WHeader w | Some (c, h) \<Rightarrow> h)"

lemmas writer_defs [go_defs] = SetRespHeader_def WriteHeader_def WriteBody_def final_status_def sent_header_def new_writer_def

lemma new_writer_simps [simp]:
  "WSent new_writer = None" "WBody new_writer = []" "WHeader new_writer = Map.empty" "WCookies new_writer = []"
  by (simp_all add: new_writer_def)

section \<open>Handler results\<close>

datatype 's hres = Served writer 's | Panicked string writer 's

fun hres_writer :: "'s hres \<Rightarrow> writer" where
  "hres_writer (Served w s) = w"
| "hres_writer (Panicked m w s) = w"

fun hres_state :: "'s hres \<Rightarrow> 's" where
  "hres_state (Served w s) = s"
| "hres_state (Panicked m w s) = s"

text \<open>\<^verbatim>\<open>http.NotFound\<close>.\<close>

definition http_NotFound :: "writer \<Rightarrow> writer" where
  "http_NotFound w = WriteBody (BBytes ''404 page not found'')
     (WriteHeader 404 (SetRespHeader ''Content-Type'' ''text/plain; charset=utf-8'' w))"

end
