(* ===== verification/Errs.thy ===== *)
theory Errs
  imports GoHttp
begin

text \<open>
  \<^verbatim>\<open>pkg/errs/errs.go\<close>, \<^verbatim>\<open>pkg/contracts/error.go\<close>, \<^verbatim>\<open>pkg/httpx/errors.go\<close> and \<^verbatim>\<open>respond.go\<close>: the
  application error, its wire envelope, and the function every handler answers errors with.
\<close>

record app_error =
  Code :: string
  Message :: string
  Status :: int

text \<open>A Go error handed to \<^verbatim>\<open>WriteError\<close>: an \<^verbatim>\<open>*errs.Error\<close> or anything else.\<close>

datatype any_error = AppErr app_error | OtherErr goerr

definition errs_Error :: "app_error \<Rightarrow> string" where
  "errs_Error e = Code e @ '': '' @ Message e"

definition errs_New :: "int \<Rightarrow> string \<Rightarrow> string \<Rightarrow> app_error" where
  "errs_New status code msg = \<lparr>Code = code, Message = msg, Status = status\<rparr>"

definition BadRequest :: "string \<Rightarrow> string \<Rightarrow> app_error" where
  "BadRequest code msg = errs_New 400 code msg"
definition Unauthorized :: "string \<Rightarrow> string \<Rightarrow> app_error" where
  "Unauthorized code msg = errs_New 401 code msg"
definition Forbidden :: "string \<Rightarrow> string \<Rightarrow> app_error" where
  "Forbidden code msg = errs_New 403 code msg"
definition NotFound :: "string \<Rightarrow> string \<Rightarrow> app_error" where
  "NotFound code msg = errs_New 404 code msg"
definition Internal :: "string \<Rightarrow> string \<Rightarrow> app_error" where
  "Internal code msg = errs_New 500 code msg"

lemmas errs_ctor_defs [go_defs] =
  errs_New_def BadRequest_def Unauthorized_def Forbidden_def NotFound_def Internal_def

section \<open>The wire envelope\<close>

text \<open>The generated proto message: an optional inner error with code, message and request id.\<close>

record proto_error =
  PCode :: string
  PMessage :: string
  PRequestId :: string

type_synonym proto_error_response = "proto_error option"

definition ErrorToProto :: "app_error option \<Rightarrow> string \<Rightarrow> proto_error_response option" where
  "ErrorToProto e requestID = (case e of
     None \<Rightarrow> None
   | Some e \<Rightarrow> Some (Some \<lparr>PCode = Code e, PMessage = Message e, PRequestId = requestID\<rparr>))"

definition ErrorFromProto :: "proto_error_response option \<Rightarrow> int \<Rightarrow> app_error option" where
  "ErrorFromProto m status = (case m of
     None \<Rightarrow> None
   | Some None \<Rightarrow> None
   | Some (Some inner) \<Rightarrow> Some (errs_New (if status \<le> 0 then 500 else status) (PCode inner) (PMessage inner)))"

text \<open>\<^verbatim>\<open>httpx.JSON\<close>.\<close>

definition respond_JSON :: "int \<Rightarrow> json \<Rightarrow> writer \<Rightarrow> writer" where
  "respond_JSON status v w =
     WriteBody (BJson v) (WriteHeader status (SetRespHeader ''Content-Type'' ''application/json; charset=utf-8'' w))"

text \<open>\<^verbatim>\<open>errs.Write\<close>: the request id is left out of the body when empty (\<^verbatim>\<open>omitempty\<close>).\<close>

definition errs_Write :: "string \<Rightarrow> any_error \<Rightarrow> writer \<Rightarrow> writer" where
  "errs_Write requestID err w =
     (let e = (case err of AppErr e \<Rightarrow> e | OtherErr _ \<Rightarrow> Internal ''internal'' ''internal server error'') in
      WriteBody (BJson (JObj [(''error'', JObj ([(''code'', JStr (Code e)), (''message'', JStr (Message e))]
          @ (if requestID = [] then [] else [(''request_id'', JStr requestID)])))]))
        (WriteHeader (Status e) (SetRespHeader ''Content-Type'' ''application/json; charset=utf-8'' w)))"

text \<open>\<^verbatim>\<open>httpx.WriteError\<close>, through the proto contract.\<close>

definition WriteError :: "string \<Rightarrow> any_error \<Rightarrow> writer \<Rightarrow> writer" where
  "WriteError requestID err w =
     (let e = (case err of AppErr e \<Rightarrow> e | OtherErr _ \<Rightarrow> Internal ''internal'' ''internal server error'') in
      case ErrorToProto (Some e) requestID of
        None \<Rightarrow> errs_Write requestID (AppErr e) w
      | Some None \<Rightarrow> errs_Write requestID (AppErr e) w
      | Some (Some inner) \<Rightarrow>
          respond_JSON (Status e)
            (JObj [(''error'', JObj ([(''code'', JStr (PCode inner)), (''message'', JStr (PMessage inner))]
               @ (if PRequestId inner \<noteq> [] then [(''request_id'', JStr (PRequestId inner))] else [])))]) w)"

abbreviation fail :: "string \<Rightarrow> app_error \<Rightarrow> writer \<Rightarrow> writer" where
  "fail rid e w \<equiv> WriteError rid (AppErr e) w"

section \<open>Facts about error responses\<close>

text \<open>Both writers produce the same response, so the contract layer changes nothing on the wire.\<close>

lemma WriteError_eq_errs_Write: "WriteError rid err w = errs_Write rid err w"
  by (cases err) (auto simp: WriteError_def errs_Write_def ErrorToProto_def respond_JSON_def Let_def)

text \<open>The error code a response body carries.\<close>

definition body_error_code :: "body \<Rightarrow> string option" where
  "body_error_code b = (case b of
     BJson (JObj [(k, JObj ((k', JStr c) # _))]) \<Rightarrow> if k = ''error'' \<and> k' = ''code'' then Some c else None
   | _ \<Rightarrow> None)"

definition error_code :: "writer \<Rightarrow> string option" where
  "error_code w = (case WBody w of [] \<Rightarrow> None | b # _ \<Rightarrow> body_error_code b)"

lemma fail_status [simp]: "WSent w = None \<Longrightarrow> final_status (fail rid e w) = Status e"
  by (simp add: WriteError_def ErrorToProto_def respond_JSON_def go_defs Let_def)

lemma fail_code [simp]: "WBody w = [] \<Longrightarrow> error_code (fail rid e w) = Some (Code e)"
  by (auto simp: WriteError_def ErrorToProto_def respond_JSON_def go_defs Let_def error_code_def
      body_error_code_def split: option.splits)

lemma fail_body [simp]: "WBody (fail rid e w) = WBody w @ [BJson (JObj [(''error'',
     JObj ([(''code'', JStr (Code e)), (''message'', JStr (Message e))]
       @ (if rid = [] then [] else [(''request_id'', JStr rid)])))])]"
  by (auto simp: WriteError_def ErrorToProto_def respond_JSON_def go_defs Let_def split: option.splits)

lemma SetRespHeader_simps [simp]:
  "WSent (SetRespHeader k v w) = WSent w" "WBody (SetRespHeader k v w) = WBody w"
  by (simp_all add: SetRespHeader_def)

lemma respond_JSON_status [simp]: "WSent w = None \<Longrightarrow> final_status (respond_JSON st v w) = st"
  by (simp add: respond_JSON_def go_defs Let_def)

lemma respond_JSON_body [simp]: "WBody (respond_JSON st v w) = WBody w @ [BJson v]"
  by (auto simp: respond_JSON_def go_defs Let_def split: option.splits)

lemma Status_ctors [simp]:
  "Status (BadRequest c m) = 400" "Status (Unauthorized c m) = 401" "Status (Forbidden c m) = 403"
  "Status (NotFound c m) = 404" "Status (Internal c m) = 500" "Status (errs_New s c m) = s"
  by (simp_all add: go_defs)

lemma Code_ctors [simp]:
  "Code (BadRequest c m) = c" "Code (Unauthorized c m) = c" "Code (Forbidden c m) = c"
  "Code (NotFound c m) = c" "Code (Internal c m) = c" "Code (errs_New s c m) = c"
  by (simp_all add: go_defs)

end
