(* ===== verification/Identity.thy ===== *)
theory Identity
  imports Errs
begin

text \<open>
  \<^verbatim>\<open>pkg/identity\<close> and \<^verbatim>\<open>pkg/contracts/identity.go\<close>: the trusted identity, its header encoding, the
  request record (whose context may hold an identity), and the contract mapping. The lemmas show
  that stripping removes every identity header, that injection can be read back, and where the
  comma-separated encoding loses information.
\<close>

section \<open>Data\<close>

definition HeaderRequestID :: string where "HeaderRequestID = ''X-Request-Id''"
definition HeaderUserID :: string where "HeaderUserID = ''X-User-Id''"
definition HeaderTenantID :: string where "HeaderTenantID = ''X-Tenant-Id''"
definition HeaderRoles :: string where "HeaderRoles = ''X-Roles''"
definition HeaderScopes :: string where "HeaderScopes = ''X-Scopes''"
definition HeaderAuthSubject :: string where "HeaderAuthSubject = ''X-Auth-Subject''"

lemmas header_names = HeaderRequestID_def HeaderUserID_def HeaderTenantID_def HeaderRoles_def
  HeaderScopes_def HeaderAuthSubject_def

definition allHeaders :: "string list" where
  "allHeaders = [HeaderUserID, HeaderTenantID, HeaderRoles, HeaderScopes, HeaderAuthSubject, HeaderRequestID]"

record Identity =
  RequestID :: string
  UserID :: string
  TenantID :: string
  Roles :: "string list"
  Scopes :: "string list"
  Subject :: string

definition zero_Identity :: Identity where
  "zero_Identity = \<lparr>RequestID = [], UserID = [], TenantID = [], Roles = [], Scopes = [], Subject = []\<rparr>"

text \<open>
  A request as \<^verbatim>\<open>net/http\<close> presents it: the decoded path, query and cookies, the body (or a
  read error), the path values of the matched route, and the identity stored in its context.
\<close>

record request =
  Method :: string
  Path :: string
  Query :: "(string \<times> string) list"
  Header :: header
  Cookies :: "(string \<times> string) list"
  Body :: "string res"
  RemoteAddr :: string
  PathValues :: "(string \<times> string) list"
  Ctx :: "Identity option"

definition query_get :: "request \<Rightarrow> string \<Rightarrow> string" where
  "query_get r k = (case map_of (Query r) k of None \<Rightarrow> [] | Some v \<Rightarrow> v)"

definition path_value :: "request \<Rightarrow> string \<Rightarrow> string" where
  "path_value r k = (case map_of (PathValues r) k of None \<Rightarrow> [] | Some v \<Rightarrow> v)"

definition req_header :: "request \<Rightarrow> string \<Rightarrow> string" where
  "req_header r k = hdr_get (Header r) k"

type_synonym 's handler = "request \<Rightarrow> writer \<Rightarrow> 's \<Rightarrow> 's hres"

section \<open>Operations\<close>

definition Authenticated :: "Identity \<Rightarrow> bool" where
  "Authenticated idn \<longleftrightarrow> UserID idn \<noteq> []"

definition HasRole :: "Identity \<Rightarrow> string \<Rightarrow> bool" where
  "HasRole idn role = (if role = [] then False else list_ex (\<lambda>r. r = role) (Roles idn))"

definition StripUntrusted :: "header \<Rightarrow> header" where
  "StripUntrusted h = fold hdr_del allHeaders h"

definition setNonEmpty :: "string \<Rightarrow> string \<Rightarrow> header \<Rightarrow> header" where
  "setNonEmpty k v h = (if v \<noteq> [] then hdr_set k v h else h)"

definition Inject :: "Identity \<Rightarrow> header \<Rightarrow> header" where
  "Inject idn h =
     (let h = setNonEmpty HeaderRequestID (RequestID idn) h;
          h = setNonEmpty HeaderUserID (UserID idn) h;
          h = setNonEmpty HeaderTenantID (TenantID idn) h;
          h = setNonEmpty HeaderRoles (Join (CHR '','') (Roles idn)) h;
          h = setNonEmpty HeaderScopes (Join (CHR '','') (Scopes idn)) h
      in setNonEmpty HeaderAuthSubject (Subject idn) h)"

definition splitCSV :: "string \<Rightarrow> string list" where
  "splitCSV s = (if s = [] then [] else filter (\<lambda>p. p \<noteq> []) (map TrimSpace (Split (CHR '','') s)))"

definition FromHeaders :: "header \<Rightarrow> Identity" where
  "FromHeaders h =
     \<lparr>RequestID = hdr_get h HeaderRequestID,
      UserID = hdr_get h HeaderUserID,
      TenantID = hdr_get h HeaderTenantID,
      Roles = splitCSV (hdr_get h HeaderRoles),
      Scopes = splitCSV (hdr_get h HeaderScopes),
      Subject = hdr_get h HeaderAuthSubject\<rparr>"

definition NewContext :: "Identity \<Rightarrow> request \<Rightarrow> request" where
  "NewContext idn r = r\<lparr>Ctx := Some idn\<rparr>"

text \<open>\<^verbatim>\<open>id, ok := identity.FromContext(ctx)\<close>: without a stored identity the zero value and false.\<close>

definition FromContext :: "request \<Rightarrow> Identity \<times> bool" where
  "FromContext r = (case Ctx r of None \<Rightarrow> (zero_Identity, False) | Some idn \<Rightarrow> (idn, True))"

definition identity_Middleware :: "'s handler \<Rightarrow> 's handler" where
  "identity_Middleware next_h r w s = next_h (NewContext (FromHeaders (Header r)) r) w s"

text \<open>\<^verbatim>\<open>pkg/contracts/identity.go\<close>; a nil message is \<open>None\<close>.\<close>

record IdentityContext =
  PbRequestId :: string
  PbUserId :: string
  PbTenantId :: string
  PbRoles :: "string list"
  PbScopes :: "string list"
  PbSubject :: string

definition IdentityToProto :: "Identity \<Rightarrow> IdentityContext" where
  "IdentityToProto idn =
     \<lparr>PbRequestId = RequestID idn, PbUserId = UserID idn, PbTenantId = TenantID idn,
      PbRoles = [] @ Roles idn, PbScopes = [] @ Scopes idn, PbSubject = Subject idn\<rparr>"

definition IdentityFromProto :: "IdentityContext option \<Rightarrow> Identity" where
  "IdentityFromProto m = (case m of
     None \<Rightarrow> zero_Identity
   | Some m \<Rightarrow> \<lparr>RequestID = PbRequestId m, UserID = PbUserId m, TenantID = PbTenantId m,
       Roles = [] @ PbRoles m, Scopes = [] @ PbScopes m, Subject = PbSubject m\<rparr>)"

section \<open>Stripping and injecting\<close>

definition identity_keys :: "string set" where
  "identity_keys = {''X-Request-Id'', ''X-User-Id'', ''X-Tenant-Id'', ''X-Roles'', ''X-Scopes'', ''X-Auth-Subject''}"

lemma StripUntrusted_apply: "StripUntrusted h k = (if k \<in> identity_keys then None else h k)"
  by (auto simp: StripUntrusted_def allHeaders_def header_names hdr_del_def identity_keys_def)

lemma hdr_get_StripUntrusted:
  "hdr_get (StripUntrusted h) k = (if CanonicalHeaderKey k \<in> identity_keys then [] else hdr_get h k)"
  by (simp add: hdr_get_def StripUntrusted_apply)

text \<open>Two requests that differ only in identity headers are equal once stripped.\<close>

lemma StripUntrusted_cong:
  "(\<And>k. k \<notin> identity_keys \<Longrightarrow> h k = h' k) \<Longrightarrow> StripUntrusted h = StripUntrusted h'"
  by (rule ext) (simp add: StripUntrusted_apply)

definition strip_identity :: "request \<Rightarrow> request" where
  "strip_identity r = r\<lparr>Header := StripUntrusted (Header r)\<rparr>"

lemma hdr_get_setNonEmpty:
  "hdr_get (setNonEmpty k v h) k' =
     (if CanonicalHeaderKey k' = CanonicalHeaderKey k \<and> v \<noteq> [] then v else hdr_get h k')"
  by (simp add: setNonEmpty_def hdr_get_set)

lemma hdr_get_Inject_other:
  "CanonicalHeaderKey k \<notin> identity_keys \<Longrightarrow> hdr_get (Inject idn h) k = hdr_get h k"
  by (auto simp: Inject_def Let_def hdr_get_setNonEmpty header_names identity_keys_def)

text \<open>After stripping, every identity header is what \<open>Inject\<close> put there, or absent.\<close>

lemma hdr_get_Inject_Strip:
  "hdr_get (Inject idn (StripUntrusted h)) HeaderRequestID = RequestID idn"
  "hdr_get (Inject idn (StripUntrusted h)) HeaderUserID = UserID idn"
  "hdr_get (Inject idn (StripUntrusted h)) HeaderTenantID = TenantID idn"
  "hdr_get (Inject idn (StripUntrusted h)) HeaderRoles = Join (CHR '','') (Roles idn)"
  "hdr_get (Inject idn (StripUntrusted h)) HeaderScopes = Join (CHR '','') (Scopes idn)"
  "hdr_get (Inject idn (StripUntrusted h)) HeaderAuthSubject = Subject idn"
  by (auto simp: Inject_def Let_def hdr_get_setNonEmpty header_names hdr_get_StripUntrusted identity_keys_def)

section \<open>The comma-separated encoding\<close>

text \<open>Names that survive the encoding: non-empty, without comma, without surrounding space.\<close>

definition csv_name :: "string \<Rightarrow> bool" where
  "csv_name s \<longleftrightarrow> s \<noteq> [] \<and> CHR '','' \<notin> set s \<and> TrimSpace s = s"

lemma splitCSV_Join:
  assumes "\<forall>x\<in>set xs. csv_name x"
  shows "splitCSV (Join (CHR '','') xs) = xs"
proof (cases "xs = []")
  case True
  then show ?thesis by (simp add: splitCSV_def)
next
  case False
  then have ne: "Join (CHR '','') xs \<noteq> []"
    using assms by (cases xs; cases "tl xs") (auto simp: csv_name_def)
  have "Split (CHR '','') (Join (CHR '','') xs) = xs"
    using assms False by (intro Split_Join) (auto simp: csv_name_def)
  moreover have "map TrimSpace xs = xs"
    using assms by (auto simp: csv_name_def intro: map_idI)
  moreover have "filter (\<lambda>p. p \<noteq> []) xs = xs"
    using assms by (auto simp: csv_name_def filter_id_conv)
  ultimately show ?thesis using ne by (simp add: splitCSV_def)
qed

lemma splitCSV_csv_name: "x \<in> set (splitCSV s) \<Longrightarrow> csv_name x"
  using Split_elem_no_sep set_TrimSpace
  by (fastforce simp: splitCSV_def csv_name_def split: if_splits)

text \<open>Reading, re-encoding and reading again changes nothing: propagation between services is stable.\<close>

lemma splitCSV_stable: "splitCSV (Join (CHR '','') (splitCSV s)) = splitCSV s"
  by (rule splitCSV_Join) (auto dest: splitCSV_csv_name)

definition csv_identity :: "Identity \<Rightarrow> bool" where
  "csv_identity idn \<longleftrightarrow> (\<forall>x\<in>set (Roles idn). csv_name x) \<and> (\<forall>x\<in>set (Scopes idn). csv_name x)"

lemma FromHeaders_Inject_Strip:
  "csv_identity idn \<Longrightarrow> FromHeaders (Inject idn (StripUntrusted h)) = idn"
  by (simp add: FromHeaders_def hdr_get_Inject_Strip splitCSV_Join csv_identity_def)

lemma HasRole_iff: "HasRole idn role \<longleftrightarrow> role \<noteq> [] \<and> role \<in> set (Roles idn)"
  by (auto simp: HasRole_def list_ex_iff)

lemma IdentityFromProto_ToProto [simp]: "IdentityFromProto (Some (IdentityToProto idn)) = idn"
  by (simp add: IdentityFromProto_def IdentityToProto_def)

end
