(* ===== verification/Httpx.thy ===== *)
theory Httpx
  imports Identity
begin

text \<open>
  \<^verbatim>\<open>pkg/httpx\<close> (middleware, authorisation, gateway trust, internal tokens, health, path
  normalisation), \<^verbatim>\<open>pkg/trace\<close> and \<^verbatim>\<open>pkg/config/placeholder.go\<close>. Random bytes a function draws from
  \<^verbatim>\<open>crypto/rand\<close> and the process environment are arguments; log output is not part of the state.
\<close>

section \<open>Environment\<close>

text \<open>\<^verbatim>\<open>os.Getenv\<close> as a function; an unset variable is the empty string.\<close>

type_synonym osenv = "string \<Rightarrow> string"

definition Env :: "osenv \<Rightarrow> string \<Rightarrow> string \<Rightarrow> string" where
  "Env env key def = (let v = env key in if v \<noteq> [] then v else def)"

text \<open>\<^verbatim>\<open>envInt\<close> as \<^verbatim>\<open>pkg/mq/consumer.go\<close> and the rate limiter define it.\<close>

definition envInt :: "osenv \<Rightarrow> string \<Rightarrow> int \<Rightarrow> int" where
  "envInt env key def =
     (let v = Env env key [] in
      if v = [] then def
      else (case Atoi v of None \<Rightarrow> def | Some n \<Rightarrow> if n < 0 then def else n))"

definition IsPlaceholder :: "string \<Rightarrow> bool" where
  "IsPlaceholder v =
     (let s = ToLower (TrimSpace v) in
      if s = [] then True
      else list_ex (Contains s)
        [''placeholder'', ''rm-xxx'', ''redis-placeholder'', ''oss-placeholder'', ''mq-placeholder'', ''example.invalid''])"

definition RequireInternalToken :: "osenv \<Rightarrow> bool" where
  "RequireInternalToken env =
     (if Env env ''REQUIRE_INTERNAL_TOKEN'' [] = ''true'' then True
      else EqualFold (TrimSpace (Env env ''APP_ENV'' [])) ''production'')"

definition LoadInternalToken :: "osenv \<Rightarrow> string \<times> bool" where
  "LoadInternalToken env =
     (let token = TrimSpace (Env env ''INTERNAL_API_TOKEN'' []) in
      if RequireInternalToken env \<and> token = [] then ([], False) else (token, True))"

section \<open>Trace context\<close>

definition HeaderTraceparent :: string where "HeaderTraceparent = ''traceparent''"

definition TraceIDFromParent :: "string \<Rightarrow> string" where
  "TraceIDFromParent traceparent =
     (let parts = Split (CHR ''-'') (TrimSpace traceparent) in
      if length parts < 2 then []
      else (let traceID = parts ! 1 in
        if length traceID \<noteq> 32 then []
        else if list_ex (\<lambda>c. hex_val c = None) traceID then []
        else map ascii_lower traceID))"

text \<open>The two arguments are the 16 and 8 random bytes.\<close>

definition NewTraceparent :: "bytes \<Rightarrow> bytes \<Rightarrow> string" where
  "NewTraceparent traceID spanID = ''00-'' @ hex_encode traceID @ ''-'' @ hex_encode spanID @ ''-01''"

definition EnsureRequest :: "bytes \<Rightarrow> bytes \<Rightarrow> header \<Rightarrow> writer \<Rightarrow> header \<times> writer" where
  "EnsureRequest b16 b8 h w =
     (let tp = hdr_get h HeaderTraceparent in
      if tp = [] then
        (let tp' = NewTraceparent b16 b8
         in (hdr_set HeaderTraceparent tp' h, SetRespHeader HeaderTraceparent tp' w))
      else (h, SetRespHeader HeaderTraceparent tp w))"

section \<open>Middleware\<close>

definition NewRequestID :: "bytes \<Rightarrow> string" where
  "NewRequestID b = hex_encode b"

definition RequestID_mw :: "bytes \<Rightarrow> 's handler \<Rightarrow> 's handler" where
  "RequestID_mw b next_h r w s =
     (let rid = req_header r HeaderRequestID in
      if rid = [] then
        (let rid' = NewRequestID b
         in next_h (r\<lparr>Header := hdr_set HeaderRequestID rid' (Header r)\<rparr>) (SetRespHeader HeaderRequestID rid' w) s)
      else next_h r (SetRespHeader HeaderRequestID rid w) s)"

definition TraceContext :: "bytes \<Rightarrow> bytes \<Rightarrow> 's handler \<Rightarrow> 's handler" where
  "TraceContext b16 b8 next_h r w s =
     (case EnsureRequest b16 b8 (Header r) w of (h, w') \<Rightarrow> next_h (r\<lparr>Header := h\<rparr>) w' s)"

definition Recover :: "'s handler \<Rightarrow> 's handler" where
  "Recover next_h r w s =
     (case next_h r w s of
        Served w' s' \<Rightarrow> Served w' s'
      | Panicked m w' s' \<Rightarrow>
          Served (fail (req_header r HeaderRequestID) (Internal ''internal'' ''internal server error'') w') s')"

text \<open>
  The access log as far as the answer goes: it hands the request on. The line it writes is in theory Logging
  (\<open>AccessLog_writing\<close>), where both are shown to answer alike.
\<close>

definition AccessLog :: "'s handler \<Rightarrow> 's handler" where
  "AccessLog next_h r w s = next_h r w s"

lemma AccessLog_id [simp]: "AccessLog h = h"
  by (simp add: AccessLog_def fun_eq_iff)

text \<open>The loop of \<^verbatim>\<open>Chain\<close>, from the last middleware down to the first.\<close>

fun Chain_loop :: "('h \<Rightarrow> 'h) list \<Rightarrow> nat \<Rightarrow> 'h \<Rightarrow> 'h" where
  "Chain_loop mw 0 h = h"
| "Chain_loop mw (Suc i) h = Chain_loop mw i ((mw ! i) h)"

definition Chain :: "'h \<Rightarrow> ('h \<Rightarrow> 'h) list \<Rightarrow> 'h" where
  "Chain h mw = Chain_loop mw (length mw) h"

section \<open>Authorisation\<close>

definition RequireAuthenticated :: "'s handler \<Rightarrow> 's handler" where
  "RequireAuthenticated next_h r w s =
     (case FromContext r of (idn, ok) \<Rightarrow>
        if \<not> ok \<or> \<not> Authenticated idn
        then Served (fail (RequestID idn) (Unauthorized ''unauthenticated'' ''authentication required'') w) s
        else next_h r w s)"

definition RequireRole :: "string \<Rightarrow> 's handler \<Rightarrow> 's handler" where
  "RequireRole role next_h r w s =
     (case FromContext r of (idn, ok) \<Rightarrow>
        if \<not> ok \<or> \<not> Authenticated idn
        then Served (fail (RequestID idn) (Unauthorized ''unauthenticated'' ''authentication required'') w) s
        else if \<not> HasRole idn role
        then Served (fail (RequestID idn) (Forbidden ''forbidden'' (role @ '' role required'')) w) s
        else next_h r w s)"

definition TrustedAuth :: "'s handler \<Rightarrow> 's handler" where
  "TrustedAuth next_h = identity_Middleware (RequireAuthenticated next_h)"

definition TrustedRole :: "string \<Rightarrow> 's handler \<Rightarrow> 's handler" where
  "TrustedRole role next_h = identity_Middleware (RequireRole role next_h)"

definition internalTokenOK :: "request \<Rightarrow> string \<Rightarrow> bool" where
  "internalTokenOK r want =
     (if req_header r ''X-Internal-Token'' = want then True
      else (let auth = req_header r ''Authorization'' in
        if HasPrefix auth ''Bearer '' then TrimPrefix auth ''Bearer '' = want else False))"

definition InternalAuth :: "string \<Rightarrow> 's handler \<Rightarrow> 's handler" where
  "InternalAuth token next_h r w s =
     (let rid = req_header r HeaderRequestID in
      if token = [] then Served (fail rid (Internal ''internal_auth_misconfigured'' ''internal auth not configured'') w) s
      else if \<not> internalTokenOK r token then Served (fail rid (Unauthorized ''unauthorized'' ''invalid internal token'') w) s
      else next_h r w s)"

definition gatewayTrustSkipped :: "string \<Rightarrow> bool" where
  "gatewayTrustSkipped path =
     (if path = ''/healthz'' \<or> path = ''/readyz'' \<or> path = ''/metrics'' then True else HasPrefix path ''/internal/'')"

definition GatewayTrust :: "string \<Rightarrow> 's handler \<Rightarrow> 's handler" where
  "GatewayTrust token next_h r w s =
     (if token = [] \<or> gatewayTrustSkipped (Path r) then next_h r w s
      else (let rid = req_header r HeaderRequestID in
        if \<not> internalTokenOK r token
        then Served (fail rid (Unauthorized ''untrusted_caller'' ''request must come through Gateway'') w) s
        else next_h r w s))"

section \<open>Health\<close>

text \<open>A readiness check: its name and what its probe returns in this run (\<open>None\<close> is no error).\<close>

record Check =
  CheckName :: string
  Probe :: "string option"

definition health_Register :: "Check \<Rightarrow> Check list \<Rightarrow> Check list" where
  "health_Register c checks = checks @ [c]"

fun readyz_loop :: "Check list \<Rightarrow> bool \<times> gomap \<Rightarrow> bool \<times> gomap" where
  "readyz_loop [] acc = acc"
| "readyz_loop (c # cs) (ready, results) =
     (case Probe c of
        Some e \<Rightarrow> readyz_loop cs (False, map_put (CheckName c) (JStr (''error: '' @ e)) results)
      | None \<Rightarrow> readyz_loop cs (ready, map_put (CheckName c) (JStr ''ok'') results))"

definition readyz :: "Check list \<Rightarrow> writer \<Rightarrow> writer" where
  "readyz checks w =
     (case readyz_loop checks (True, []) of (ready, results) \<Rightarrow>
        respond_JSON (if \<not> ready then 503 else 200)
          (JObj [(''ready'', JBool ready), (''checks'', JObj results)]) w)"

definition healthz :: "writer \<Rightarrow> writer" where
  "healthz w = respond_JSON 200 (JObj [(''status'', JStr ''ok'')]) w"

section \<open>Path normalisation for access logs\<close>

definition uuid_at :: "string \<Rightarrow> bool" where
  "uuid_at s \<longleftrightarrow> 36 \<le> length s \<and>
     list_all (\<lambda>i. if i \<in> {8, 13, 18, 23} then s ! i = CHR ''-'' else hex_val (s ! i) \<noteq> None) [0..<36]"

definition uuidSegment :: "string \<Rightarrow> bool" where
  "uuidSegment s \<longleftrightarrow> list_ex uuid_at (suffixes s)"

text \<open>Case-insensitive matching also folds U+017F and U+212A, as \<open>foldName\<close> does.\<close>

definition idSegment :: "string \<Rightarrow> bool" where
  "idSegment s \<longleftrightarrow> (let f = foldName s in 12 \<le> length f \<and>
     list_all (\<lambda>c. is_digit c \<or> (97 \<le> (of_char c :: int) \<and> (of_char c :: int) \<le> 122)) f)"

definition numSegment :: "string \<Rightarrow> bool" where
  "numSegment s \<longleftrightarrow> s \<noteq> [] \<and> list_all is_digit s"

definition id_like :: "string \<Rightarrow> bool" where
  "id_like part \<longleftrightarrow> uuidSegment part \<or> idSegment part \<or> numSegment part"

definition NormalizePath :: "string \<Rightarrow> string" where
  "NormalizePath path =
     (if path = [] \<or> path = ''/'' then path
      else (let parts = map (\<lambda>part. if part = [] then part else if id_like part then '':id'' else part) (Split (CHR ''/'') path);
                out = Join (CHR ''/'') parts
            in if \<not> HasPrefix out ''/'' then ''/'' @ out else out))"

section \<open>Facts\<close>

lemma Chain_loop_append: "i \<le> length xs \<Longrightarrow> Chain_loop (xs @ ys) i h = Chain_loop xs i h"
  by (induction i arbitrary: h) (auto simp: nth_append)

lemma Chain_loop_all: "Chain_loop xs (length xs) h = foldr (\<lambda>m. m) xs h"
proof (induction xs arbitrary: h rule: rev_induct)
  case Nil
  then show ?case by simp
next
  case (snoc m xs)
  then show ?case by (simp add: Chain_loop_append)
qed

lemma TraceIDFromParent_NewTraceparent:
  assumes "length traceID = 16"
  shows "TraceIDFromParent (NewTraceparent traceID spanID) = hex_encode traceID"
proof -
  have nosep: "CHR ''-'' \<notin> set (hex_encode bs)" for bs
    using set_hex_encode [of "CHR ''-''" bs] by (auto simp: is_lower_hex_def is_digit_def)
  have trim: "TrimSpace (NewTraceparent traceID spanID) = NewTraceparent traceID spanID"
    by (rule TrimSpace_graphic) (simp_all add: NewTraceparent_def graphic_def)
  have "Split (CHR ''-'') (NewTraceparent traceID spanID)
      = ''00'' # hex_encode traceID # Split (CHR ''-'') (hex_encode spanID @ ''-01'')"
    by (simp add: NewTraceparent_def Split_append_sep nosep)
  moreover have "\<not> list_ex (\<lambda>c. hex_val c = None) (hex_encode traceID)"
    using set_hex_encode
    by (fastforce simp: list_ex_iff is_lower_hex_def is_digit_def hex_val_def Let_def)
  moreover have "map ascii_lower (hex_encode traceID) = hex_encode traceID"
    by (rule map_idI) (auto dest!: set_hex_encode simp: is_lower_hex_def is_digit_def ascii_lower_def)
  ultimately show ?thesis
    using assms by (simp add: TraceIDFromParent_def trim)
qed

lemma TraceIDFromParent_shape:
  "TraceIDFromParent s = [] \<or> (length (TraceIDFromParent s) = 32 \<and> list_all is_lower_hex (TraceIDFromParent s))"
proof (cases "TraceIDFromParent s = []")
  case False
  then obtain t where t: "length t = 32" "\<not> list_ex (\<lambda>c. hex_val c = None) t" "TraceIDFromParent s = map ascii_lower t"
    by (auto simp: TraceIDFromParent_def Let_def split: if_splits)
  have "is_lower_hex (ascii_lower c)" if "hex_val c \<noteq> None" for c
    using that by (auto simp: hex_val_def Let_def ascii_lower_def is_lower_hex_def is_digit_def
        of_char_of take_bit_int_def split: if_splits)
  with t show ?thesis by (auto simp: list_ex_iff list_all_iff)
qed simp

lemma readyz_loop_ready: "fst (readyz_loop cs (r, m)) \<longleftrightarrow> r \<and> (\<forall>c\<in>set cs. Probe c = None)"
  by (induction cs "(r, m)" arbitrary: r m rule: readyz_loop.induct) (auto split: option.splits)

text \<open>The token check compares with the configured secret only.\<close>

lemma internalTokenOK_iff:
  "internalTokenOK r t \<longleftrightarrow> req_header r ''X-Internal-Token'' = t
     \<or> req_header r ''Authorization'' = ''Bearer '' @ t"
  by (auto simp: internalTokenOK_def Let_def HasPrefix_def TrimPrefix_def prefix_def)

end
