(* ===== verification/Redis.thy ===== *)
theory Redis
  imports Httpx
begin

text \<open>
  Redis is a service outside the repository: the commands the sources issue are the fields of
  the parameter \<open>redis\<close>, over an abstract server state. \<open>redis_laws\<close> collects the documented
  behaviour of a command that succeeds, stated through the keys visible at an instant; a command may
  always fail, and then nothing is assumed. \<open>mem_redis\<close> is an instance used by the witnesses. The
  second half is \<^verbatim>\<open>pkg/revocation/store.go\<close>.
\<close>

section \<open>Commands\<close>

record 'r redis =
  rGet :: "gotime \<Rightarrow> string \<Rightarrow> 'r \<Rightarrow> string res"
  rExists :: "gotime \<Rightarrow> string \<Rightarrow> 'r \<Rightarrow> int res"
  rSet :: "gotime \<Rightarrow> string \<Rightarrow> string \<Rightarrow> duration \<Rightarrow> 'r \<Rightarrow> goerr option \<times> 'r"
  rDel :: "gotime \<Rightarrow> string \<Rightarrow> 'r \<Rightarrow> goerr option \<times> 'r"
  rIncr :: "gotime \<Rightarrow> string \<Rightarrow> 'r \<Rightarrow> int res \<times> 'r"
  rExpire :: "gotime \<Rightarrow> string \<Rightarrow> duration \<Rightarrow> 'r \<Rightarrow> goerr option \<times> 'r"

text \<open>\<open>view s t k\<close> is the value visible under key \<open>k\<close> at instant \<open>t\<close>, if any.\<close>

type_synonym 'r view = "'r \<Rightarrow> gotime \<Rightarrow> string \<Rightarrow> string option"

definition read_laws :: "'r redis \<Rightarrow> 'r view \<Rightarrow> bool" where
  "read_laws R view \<longleftrightarrow>
     (\<forall>t k s v. rGet R t k s = Inr v \<longrightarrow> view s t k = Some v) \<and>
     (\<forall>t k s. view s t k = None \<longrightarrow> (\<forall>v. rGet R t k s \<noteq> Inr v)) \<and>
     (\<forall>t k s n. rExists R t k s = Inr n \<longrightarrow> n = (if view s t k = None then 0 else 1))"

text \<open>
  \<^verbatim>\<open>go-redis\<close> sends the expiry of SET in whole milliseconds and that of EXPIRE in whole seconds, at least
  one. SET with a positive expiry is visible until then, with expiry 0 for ever; DEL removes the key.
\<close>

definition px :: "duration \<Rightarrow> duration" where
  "px d = max 1000000 (d div 1000000 * 1000000)"

definition ex_secs :: "duration \<Rightarrow> duration" where
  "ex_secs d = (if 0 < d \<and> d < time_Second then time_Second else d div time_Second * time_Second)"

lemma px_pos: "0 < px d"
  by (simp add: px_def)

lemma px_lower: "d - 1000000 < px d"
proof -
  have "d mod 1000000 < 1000000" by simp
  then have "d - 1000000 < d div 1000000 * 1000000"
    using div_mult_mod_eq [of d 1000000] by linarith
  then show ?thesis by (simp add: px_def)
qed

definition write_laws :: "'r redis \<Rightarrow> 'r view \<Rightarrow> bool" where
  "write_laws R view \<longleftrightarrow>
     (\<forall>t k v ttl s s'. rSet R t k v ttl s = (None, s') \<longrightarrow> 0 \<le> ttl \<longrightarrow>
        (\<forall>t' k'. t \<le> t' \<longrightarrow> view s' t' k' =
           (if k' = k then (if ttl = 0 \<or> t' < t + px ttl then Some v else None) else view s t' k'))) \<and>
     (\<forall>t k s s'. rDel R t k s = (None, s') \<longrightarrow>
        (\<forall>t' k'. t \<le> t' \<longrightarrow> view s' t' k' = (if k' = k then None else view s t' k')))"

text \<open>
  INCR creates a missing counter at 1 without expiry and otherwise adds one, keeping the expiry;
  EXPIRE replaces the expiry of a visible key and leaves a missing one missing.
\<close>

definition counter_laws :: "'r redis \<Rightarrow> 'r view \<Rightarrow> bool" where
  "counter_laws R view \<longleftrightarrow>
     (\<forall>t k s n s'. rIncr R t k s = (Inr n, s') \<longrightarrow>
        n = (case view s t k of None \<Rightarrow> 1 | Some c \<Rightarrow> (case Atoi c of Some m \<Rightarrow> m + 1 | None \<Rightarrow> n)) \<and>
        view s' t k = Some (Itoa n) \<and>
        (\<forall>t' k'. t \<le> t' \<longrightarrow> k' \<noteq> k \<longrightarrow> view s' t' k' = view s t' k') \<and>
        (\<forall>t'. t \<le> t' \<longrightarrow> view s t k = None \<or> view s t' k \<noteq> None \<longrightarrow> view s' t' k = Some (Itoa n))) \<and>
     (\<forall>t k d s s'. rExpire R t k d s = (None, s') \<longrightarrow>
        (\<forall>t' k'. t \<le> t' \<longrightarrow> view s' t' k' =
           (case view s t k of
              Some v \<Rightarrow> if k' = k then (if t' < t + ex_secs d then Some v else None) else view s t' k'
            | None \<Rightarrow> view s t' k')))"

definition redis_laws :: "'r redis \<Rightarrow> 'r view \<Rightarrow> bool" where
  "redis_laws R view \<longleftrightarrow> read_laws R view \<and> write_laws R view \<and> counter_laws R view"

text \<open>A server that answers: reads report what is visible, writes succeed.\<close>

definition redis_up :: "'r redis \<Rightarrow> 'r view \<Rightarrow> bool" where
  "redis_up R view \<longleftrightarrow>
     (\<forall>t k s. rGet R t k s = (case view s t k of None \<Rightarrow> Inl ErrRedisNil | Some v \<Rightarrow> Inr v)) \<and>
     (\<forall>t k s. rExists R t k s = Inr (if view s t k = None then 0 else 1)) \<and>
     (\<forall>t k v d s. fst (rSet R t k v d s) = None) \<and>
     (\<forall>t k s. fst (rDel R t k s) = None) \<and>
     (\<forall>t k d s. fst (rExpire R t k d s) = None) \<and>
     (\<forall>t k s. (case view s t k of None \<Rightarrow> True | Some c \<Rightarrow> Atoi c \<noteq> None) \<longrightarrow> (\<exists>n. fst (rIncr R t k s) = Inr n)) \<and>
     (\<forall>t k s e. fst (rIncr R t k s) = Inl e \<longrightarrow> snd (rIncr R t k s) = s)"

section \<open>An instance\<close>

type_synonym mem = "string \<Rightarrow> (string \<times> gotime option) option"

definition mem_view :: "mem view" where
  "mem_view s t k = (case s k of
     None \<Rightarrow> None
   | Some (v, e) \<Rightarrow> (case e of None \<Rightarrow> Some v | Some u \<Rightarrow> if t < u then Some v else None))"

definition mem_redis :: "mem redis" where
  "mem_redis = \<lparr>
     rGet = (\<lambda>t k s. case mem_view s t k of None \<Rightarrow> Inl ErrRedisNil | Some v \<Rightarrow> Inr v),
     rExists = (\<lambda>t k s. Inr (if mem_view s t k = None then 0 else 1)),
     rSet = (\<lambda>t k v ttl s. (None, s(k \<mapsto> (v, if ttl = 0 then None else Some (t + px ttl))))),
     rDel = (\<lambda>t k s. (None, s(k := None))),
     rIncr = (\<lambda>t k s. case mem_view s t k of
        None \<Rightarrow> (Inr 1, s(k \<mapsto> (Itoa 1, None)))
      | Some c \<Rightarrow> (case Atoi c of
          None \<Rightarrow> (Inl (Errorf ''value is not an integer''), s)
        | Some m \<Rightarrow> (Inr (m + 1), s(k \<mapsto> (Itoa (m + 1), case s k of Some (v, e) \<Rightarrow> e | None \<Rightarrow> None))))),
     rExpire = (\<lambda>t k d s. (None, case mem_view s t k of
        None \<Rightarrow> s | Some v \<Rightarrow> s(k \<mapsto> (v, Some (t + ex_secs d)))))\<rparr>"

section \<open>Revocation store\<close>

record rev_store =
  rev_rdb :: bool
  rev_prefix :: string
  rev_ttl :: duration

definition rev_defaultTTL :: duration where "rev_defaultTTL = 30 * 24 * time_Hour"

text \<open>\<^verbatim>\<open>NewStore\<close>; the first argument is \<^verbatim>\<open>time.ParseDuration\<close>.\<close>

definition rev_NewStore :: "(string \<Rightarrow> duration res) \<Rightarrow> osenv \<Rightarrow> bool \<Rightarrow> rev_store" where
  "rev_NewStore parseDuration env rdb =
     (let s = Env env ''AUTH_REVOCATION_TTL'' [];
          ttl = (if s \<noteq> [] then (case parseDuration s of
                   Inr d \<Rightarrow> if d > 0 then d else rev_defaultTTL
                 | Inl _ \<Rightarrow> rev_defaultTTL) else rev_defaultTTL)
      in \<lparr>rev_rdb = rdb, rev_prefix = Env env ''AUTH_REVOCATION_REDIS_PREFIX'' ''auth:revoked:'', rev_ttl = ttl\<rparr>)"

definition rev_Enabled :: "rev_store option \<Rightarrow> bool" where
  "rev_Enabled s \<longleftrightarrow> (case s of None \<Rightarrow> False | Some s \<Rightarrow> rev_rdb s)"

definition rev_set :: "'r redis \<Rightarrow> gotime \<Rightarrow> rev_store option \<Rightarrow> string \<Rightarrow> 'r \<Rightarrow> goerr option \<times> 'r" where
  "rev_set R now s key st = (case s of
     None \<Rightarrow> (None, st)
   | Some rs \<Rightarrow>
       if \<not> rev_Enabled s \<or> key = [] then (None, st)
       else if rev_ttl rs > 0 then rSet R now (rev_prefix rs @ key) ''1'' (rev_ttl rs) st
       else rSet R now (rev_prefix rs @ key) ''1'' 0 st)"

definition rev_exists :: "'r redis \<Rightarrow> gotime \<Rightarrow> rev_store option \<Rightarrow> string \<Rightarrow> 'r \<Rightarrow> bool res" where
  "rev_exists R now s key st = (case s of
     None \<Rightarrow> Inr False
   | Some rs \<Rightarrow>
       if \<not> rev_Enabled s \<or> key = [] then Inr False
       else (case rExists R now (rev_prefix rs @ key) st of
               Inl err \<Rightarrow> Inl (Wrapped ''revocation lookup'' err)
             | Inr n \<Rightarrow> Inr (n > 0)))"

definition RevokeSubject :: "'r redis \<Rightarrow> gotime \<Rightarrow> rev_store option \<Rightarrow> string \<Rightarrow> 'r \<Rightarrow> goerr option \<times> 'r" where
  "RevokeSubject R now s subject st = rev_set R now s (''sub:'' @ subject) st"

definition RevokeSession :: "'r redis \<Rightarrow> gotime \<Rightarrow> rev_store option \<Rightarrow> string \<Rightarrow> 'r \<Rightarrow> goerr option \<times> 'r" where
  "RevokeSession R now s sessionID st = rev_set R now s (''session:'' @ sessionID) st"

definition IsSubjectRevoked :: "'r redis \<Rightarrow> gotime \<Rightarrow> rev_store option \<Rightarrow> string \<Rightarrow> 'r \<Rightarrow> bool res" where
  "IsSubjectRevoked R now s subject st = rev_exists R now s (''sub:'' @ subject) st"

definition IsSessionRevoked :: "'r redis \<Rightarrow> gotime \<Rightarrow> rev_store option \<Rightarrow> string \<Rightarrow> 'r \<Rightarrow> bool res" where
  "IsSessionRevoked R now s sessionID st = rev_exists R now s (''session:'' @ sessionID) st"

lemmas revocation_defs = RevokeSubject_def RevokeSession_def IsSubjectRevoked_def IsSessionRevoked_def
  rev_set_def rev_exists_def rev_Enabled_def

section \<open>Consequences of the laws\<close>

lemma rSet_view:
  assumes "redis_laws R view" "rSet R t k v ttl s = (None, s')" "0 \<le> ttl" "t \<le> t'"
  shows "view s' t' k' = (if k' = k then (if ttl = 0 \<or> t' < t + px ttl then Some v else None) else view s t' k')"
  using assms unfolding redis_laws_def write_laws_def by blast

lemma rDel_view:
  assumes "redis_laws R view" "rDel R t k s = (None, s')" "t \<le> t'"
  shows "view s' t' k' = (if k' = k then None else view s t' k')"
  using assms unfolding redis_laws_def write_laws_def by blast

lemma rGet_view: "redis_laws R view \<Longrightarrow> rGet R t k s = Inr v \<Longrightarrow> view s t k = Some v"
  unfolding redis_laws_def read_laws_def by blast

lemma rGet_invisible: "redis_laws R view \<Longrightarrow> view s t k = None \<Longrightarrow> \<exists>e. rGet R t k s = Inl e"
  unfolding redis_laws_def read_laws_def by (metis Inr_not_Inl sum.exhaust)

lemma rExists_view: "redis_laws R view \<Longrightarrow> rExists R t k s = Inr n \<Longrightarrow> (n > 0) = (view s t k \<noteq> None)"
  unfolding redis_laws_def read_laws_def by (metis less_numeral_extra(1) less_numeral_extra(3))

text \<open>An entry that was written is visible until it expires, and writing one hides no other.\<close>

lemma rev_set_view:
  assumes laws: "redis_laws R view" and en: "rev_Enabled (Some rs)"
    and set: "rev_set R t (Some rs) key st = (None, st')" and nz: "key \<noteq> []"
    and t: "t \<le> t'" "rev_ttl rs > 0 \<longrightarrow> t' < t + px (rev_ttl rs)"
  shows "view st' t' k = (if k = rev_prefix rs @ key then Some ''1'' else view st t' k)"
proof (cases "rev_ttl rs > 0")
  case True
  with set en nz have "rSet R t (rev_prefix rs @ key) ''1'' (rev_ttl rs) st = (None, st')"
    by (simp add: rev_set_def)
  from rSet_view [OF laws this] True t show ?thesis by auto
next
  case False
  with set en nz have "rSet R t (rev_prefix rs @ key) ''1'' 0 st = (None, st')"
    by (simp add: rev_set_def)
  from rSet_view [OF laws this] t show ?thesis by simp
qed

lemma rev_set_visible:
  assumes "redis_laws R view" "rev_Enabled (Some rs)" "rev_set R t (Some rs) key st = (None, st')" "key \<noteq> []"
    "t \<le> t'" "rev_ttl rs > 0 \<longrightarrow> t' < t + px (rev_ttl rs)"
  shows "view st' t' (rev_prefix rs @ key) \<noteq> None"
  using rev_set_view [OF assms] by simp

lemma rev_set_keeps:
  assumes "redis_laws R view" "rev_Enabled (Some rs)" "rev_set R t (Some rs) key st = (None, st')" "key \<noteq> []"
    "t \<le> t'" "rev_ttl rs > 0 \<longrightarrow> t' < t + px (rev_ttl rs)" "view st t' k \<noteq> None"
  shows "view st' t' k \<noteq> None"
  using rev_set_view [OF assms(1-6)] assms(7) by simp

text \<open>A revoked subject is reported as revoked until the entry expires, unless the lookup itself fails.\<close>

lemma revoke_then_check:
  assumes laws: "redis_laws R view" and en: "rev_Enabled (Some rs)"
    and set: "rev_set R t (Some rs) key st = (None, st')" and nz: "key \<noteq> []"
    and t: "t \<le> t'" "rev_ttl rs > 0 \<longrightarrow> t' < t + px (rev_ttl rs)"
    and ex: "rev_exists R t' (Some rs) key st' = Inr b"
  shows b
  using rev_set_view [OF laws en set nz t, of "rev_prefix rs @ key"] ex en nz
  by (auto simp: rev_exists_def rExists_view [OF laws] split: sum.splits)

lemma rev_exists_visible:
  assumes "redis_laws R view" "rev_Enabled (Some rs)" "key \<noteq> []" "rev_exists R t (Some rs) key st = Inr b"
  shows "b \<longleftrightarrow> view st t (rev_prefix rs @ key) \<noteq> None"
  using assms by (auto simp: rev_exists_def rExists_view split: sum.splits)

section \<open>The instance satisfies the laws\<close>

lemma mem_read_laws: "read_laws mem_redis mem_view"
  by (auto simp: read_laws_def mem_redis_def split: option.splits)

lemma mem_write_laws: "write_laws mem_redis mem_view"
  by (auto simp: write_laws_def mem_redis_def mem_view_def split: option.splits)

lemma mem_view_stable: "mem_view s t' k = Some v \<Longrightarrow> t \<le> t' \<Longrightarrow> mem_view s t k = Some v"
  by (auto simp: mem_view_def split: option.splits if_splits prod.splits)

lemma mem_counter_laws: "counter_laws mem_redis mem_view"
  by (auto simp: counter_laws_def mem_redis_def mem_view_def split: option.splits if_splits prod.splits)

lemma mem_redis_laws: "redis_laws mem_redis mem_view"
  by (simp add: redis_laws_def mem_read_laws mem_write_laws mem_counter_laws)

lemma mem_redis_up: "redis_up mem_redis mem_view"
  by (auto simp: redis_up_def mem_redis_def split: option.splits)

end
