(* ===== verification/AuthVerifier.thy ===== *)
theory AuthVerifier
  imports Httpx
begin

text \<open>
  \<^verbatim>\<open>pkg/auth\<close>: verification of bearer tokens and the mapping of claims to identities
  (\<^verbatim>\<open>verifier.go\<close>), the token issuer of auth-service (\<^verbatim>\<open>issuer.go\<close>) and development tokens
  (\<^verbatim>\<open>devtoken.go\<close>). The JWT library (\<^verbatim>\<open>golang-jwt\<close>, \<^verbatim>\<open>keyfunc\<close>) is the parameter \<open>jwt_lib\<close>;
  \<open>jwt_sound\<close> states what its documentation promises of an accepted token.
\<close>

section \<open>The JWT library as a parameter\<close>

text \<open>A parsed token: algorithm, key id, claims (\<open>None\<close> when they are not \<^verbatim>\<open>MapClaims\<close>) and validity.\<close>

record jwt_token =
  TokAlg :: string
  TokKid :: string
  TokClaims :: "gomap option"
  TokValid :: bool

text \<open>A key function maps the algorithm and key id of the token header to a key, or refuses.\<close>

type_synonym keyfunc = "string \<Rightarrow> string \<Rightarrow> string res"

text \<open>
  \<open>jwtParse\<close> is \<^verbatim>\<open>jwt.Parse\<close> with \<^verbatim>\<open>WithExpirationRequired\<close> and, when given, \<^verbatim>\<open>WithValidMethods\<close>, at
  an instant; \<open>jwtExp\<close> is \<^verbatim>\<open>claims.GetExpirationTime()\<close> on claims that hold an expiry; \<open>jwtSign\<close> is
  \<^verbatim>\<open>tok.SignedString\<close> for an algorithm, a key and the header's key id; \<open>jwtSig\<close> says that a token
  string carries a valid signature under an algorithm and a key.
\<close>

record jwt_lib =
  jwtParse :: "keyfunc \<Rightarrow> string list option \<Rightarrow> gotime \<Rightarrow> string \<Rightarrow> jwt_token res"
  jwtExp :: "gomap \<Rightarrow> gotime res"
  jwtSign :: "string \<Rightarrow> string \<Rightarrow> string \<Rightarrow> gomap \<Rightarrow> string res"
  jwtSig :: "string \<Rightarrow> string \<Rightarrow> string \<Rightarrow> bool"

text \<open>An accepted token has an allowed algorithm, a key from the key function, and a signature under it.\<close>

definition jwt_sound :: "jwt_lib \<Rightarrow> bool" where
  "jwt_sound L \<longleftrightarrow> (\<forall>kf methods now s tok. jwtParse L kf methods now s = Inr tok \<longrightarrow>
     (case methods of None \<Rightarrow> True | Some ms \<Rightarrow> TokAlg tok \<in> set ms) \<and>
     (\<exists>key. kf (TokAlg tok) (TokKid tok) = Inr key \<and> jwtSig L (TokAlg tok) key s))"

text \<open>
  A signed token that has not expired parses back to its claims under a key function that returns the verification key
  (\<open>pub\<close>) of the signing key; a numeric \<^verbatim>\<open>exp\<close> claim that a 64-bit float
  holds exactly is read as seconds.
\<close>

definition jwt_complete :: "jwt_lib \<Rightarrow> (string \<Rightarrow> string) \<Rightarrow> bool" where
  "jwt_complete L pub \<longleftrightarrow> (\<forall>alg key kid claims s kf methods now e.
     jwtSign L alg key kid claims = Inr s \<longrightarrow> (case methods of None \<Rightarrow> True | Some ms \<Rightarrow> alg \<in> set ms) \<longrightarrow>
     kf alg kid = Inr (pub key) \<longrightarrow> jwtExp L claims = Inr e \<longrightarrow> now < e \<longrightarrow>
     jwtParse L kf methods now s = Inr \<lparr>TokAlg = alg, TokKid = kid, TokClaims = Some claims, TokValid = True\<rparr>)"

definition jwt_exp_law :: "jwt_lib \<Rightarrow> bool" where
  "jwt_exp_law L \<longleftrightarrow> (\<forall>claims n. 0 \<le> n \<longrightarrow> n < 2 ^ 53 \<longrightarrow> map_get claims ''exp'' = Some (JNum (Itoa n)) \<longrightarrow> jwtExp L claims = Inr (n * time_Second))"

section \<open>Configuration\<close>

record auth_config =
  Issuers :: "string list"
  JWKSURLs :: "string list"
  Audience :: string
  DevSecret :: string

definition appendNonEmpty :: "string list \<Rightarrow> string \<Rightarrow> string list" where
  "appendNonEmpty xs v = (if v = [] \<or> IsPlaceholder v then xs else xs @ [v])"

definition auth_ConfigFromEnv :: "osenv \<Rightarrow> auth_config" where
  "auth_ConfigFromEnv env =
     \<lparr>Issuers = appendNonEmpty (appendNonEmpty [] (Env env ''OIDC_ISSUER'' [])) (Env env ''AUTH_OIDC_ISSUER'' []),
      JWKSURLs = appendNonEmpty (appendNonEmpty [] (Env env ''OIDC_JWKS_URL'' [])) (Env env ''AUTH_JWKS_URL'' []),
      Audience = Env env ''OIDC_AUDIENCE'' [],
      DevSecret = Env env ''GATEWAY_DEV_JWT_SECRET'' []\<rparr>"

record verifier =
  vcfg :: auth_config
  vjwks :: "keyfunc option"

text \<open>\<^verbatim>\<open>NewVerifier\<close>; the argument \<open>load\<close> is \<^verbatim>\<open>keyfunc.NewDefaultCtx\<close>.\<close>

definition NewVerifier :: "(string list \<Rightarrow> keyfunc res) \<Rightarrow> auth_config \<Rightarrow> verifier res" where
  "NewVerifier load cfg =
     (if JWKSURLs cfg \<noteq> [] then
        (case load (JWKSURLs cfg) of
           Inl err \<Rightarrow> if DevSecret cfg = [] then Inl (Wrapped ''jwks'' err) else Inr \<lparr>vcfg = cfg, vjwks = None\<rparr>
         | Inr k \<Rightarrow> Inr \<lparr>vcfg = cfg, vjwks = Some k\<rparr>)
      else Inr \<lparr>vcfg = cfg, vjwks = None\<rparr>)"

definition verifier_Enabled :: "verifier \<Rightarrow> bool" where
  "verifier_Enabled v \<longleftrightarrow> vjwks v \<noteq> None \<or> DevSecret (vcfg v) \<noteq> []"

section \<open>Claims\<close>

definition audienceContains :: "json option \<Rightarrow> string \<Rightarrow> bool" where
  "audienceContains audClaim want = (case audClaim of
     Some (JStr aud) \<Rightarrow> aud = want
   | Some (JArr aud) \<Rightarrow> list_ex (\<lambda>item. item = JStr want) aud
   | _ \<Rightarrow> False)"

definition issuerAllowed :: "string \<Rightarrow> string list \<Rightarrow> bool" where
  "issuerAllowed iss allowed = list_ex (\<lambda>want. iss = want) allowed"

definition validateStandardClaims :: "jwt_lib \<Rightarrow> gotime \<Rightarrow> verifier \<Rightarrow> gomap \<Rightarrow> goerr option" where
  "validateStandardClaims L now v claims =
     (if Issuers (vcfg v) \<noteq> [] \<and> \<not> issuerAllowed (map_str claims ''iss'') (Issuers (vcfg v))
      then Some (Errorf ''jwt: issuer mismatch'')
      else if Audience (vcfg v) \<noteq> [] \<and> \<not> audienceContains (map_get claims ''aud'') (Audience (vcfg v))
      then Some (Errorf ''jwt: audience mismatch'')
      else (case jwtExp L claims of
              Inr exp \<Rightarrow> if exp < now then Some (Errorf ''jwt: expired'') else None
            | Inl _ \<Rightarrow> None))"

definition stringClaim :: "gomap \<Rightarrow> string \<Rightarrow> string" where
  "stringClaim claims key = map_str claims key"

fun strings_of :: "json list \<Rightarrow> string list" where
  "strings_of [] = []"
| "strings_of (JStr s # vs) = (if s \<noteq> [] then s # strings_of vs else strings_of vs)"
| "strings_of (v # vs) = strings_of vs"

definition stringSliceClaim :: "gomap \<Rightarrow> string \<Rightarrow> string list" where
  "stringSliceClaim claims key = (case map_get claims key of
     None \<Rightarrow> []
   | Some (JArr v) \<Rightarrow> strings_of v
   | Some (JStr v) \<Rightarrow> if v = [] then [] else Split (CHR '','') v
   | Some _ \<Rightarrow> [])"

definition scopesClaim :: "gomap \<Rightarrow> string list" where
  "scopesClaim claims = (case map_get claims ''scope'' of
     Some (JStr s) \<Rightarrow> if s \<noteq> [] then Fields s else stringSliceClaim claims ''scopes''
   | _ \<Rightarrow> stringSliceClaim claims ''scopes'')"

definition mapClaims :: "gomap \<Rightarrow> Identity" where
  "mapClaims claims =
     (let sub = map_str claims ''sub'';
          userID = stringClaim claims ''user_id'';
          userID = (if userID = [] then sub else userID)
      in \<lparr>RequestID = [], UserID = userID, TenantID = stringClaim claims ''tenant_id'',
          Roles = stringSliceClaim claims ''roles'', Scopes = scopesClaim claims, Subject = sub\<rparr>)"

section \<open>Verification\<close>

definition jwks_methods :: "string list" where
  "jwks_methods = [''RS256'', ''RS384'', ''RS512'', ''ES256'', ''ES384'', ''ES512'']"

text \<open>The checks both parsers make on a parsed token.\<close>

definition check_token :: "jwt_lib \<Rightarrow> gotime \<Rightarrow> verifier \<Rightarrow> jwt_token res \<Rightarrow> gomap res" where
  "check_token L now v parsed = (case parsed of
     Inl err \<Rightarrow> Inl (Wrapped ''jwt'' err)
   | Inr tok \<Rightarrow> (case TokClaims tok of
       None \<Rightarrow> Inl (Errorf ''jwt: invalid claims'')
     | Some claims \<Rightarrow>
         if \<not> TokValid tok then Inl (Errorf ''jwt: invalid claims'')
         else (case validateStandardClaims L now v claims of
                 Some err \<Rightarrow> Inl err
               | None \<Rightarrow> Inr claims)))"

definition parseWithJWKS :: "jwt_lib \<Rightarrow> gotime \<Rightarrow> verifier \<Rightarrow> keyfunc \<Rightarrow> string \<Rightarrow> gomap res" where
  "parseWithJWKS L now v kf tokenString =
     check_token L now v (jwtParse L kf (Some jwks_methods) now tokenString)"

definition hmac_keyfunc :: "string \<Rightarrow> keyfunc" where
  "hmac_keyfunc secret alg kid =
     (if alg \<noteq> ''HS256'' then Inl (Errorf ''unexpected signing method'') else Inr secret)"

definition parseWithHMAC :: "jwt_lib \<Rightarrow> gotime \<Rightarrow> verifier \<Rightarrow> string \<Rightarrow> gomap res" where
  "parseWithHMAC L now v tokenString =
     check_token L now v (jwtParse L (hmac_keyfunc (DevSecret (vcfg v))) None now tokenString)"

definition Verify :: "jwt_lib \<Rightarrow> gotime \<Rightarrow> verifier \<Rightarrow> string \<Rightarrow> Identity res" where
  "Verify L now v tokenString =
     (if \<not> verifier_Enabled v then Inl (Errorf ''jwt verifier not configured'')
      else
        (let hmac = (case parseWithHMAC L now v tokenString of
                       Inl err \<Rightarrow> Inl err
                     | Inr claims \<Rightarrow> Inr (mapClaims claims))
         in case vjwks v of
              Some kf \<Rightarrow>
                (case parseWithJWKS L now v kf tokenString of
                   Inr claims \<Rightarrow> Inr (mapClaims claims)
                 | Inl err \<Rightarrow> if DevSecret (vcfg v) = [] then Inl err else hmac)
            | None \<Rightarrow> hmac))"

section \<open>Minting\<close>

text \<open>The claims both issuers build; \<^verbatim>\<open>iss\<close> and \<^verbatim>\<open>aud\<close> only when configured.\<close>

definition base_claims :: "string \<Rightarrow> string \<Rightarrow> string list \<Rightarrow> gotime \<Rightarrow> duration \<Rightarrow> gomap" where
  "base_claims userID tenantID roles now ttl =
     [(''sub'', JStr userID), (''user_id'', JStr userID), (''tenant_id'', JStr tenantID),
      (''roles'', JArr (map JStr roles)),
      (''iat'', JNum (Itoa (now div time_Second))), (''exp'', JNum (Itoa ((now + ttl) div time_Second)))]"

definition DevToken_claims :: "auth_config \<Rightarrow> string \<Rightarrow> string \<Rightarrow> string list \<Rightarrow> gotime \<Rightarrow> duration \<Rightarrow> gomap" where
  "DevToken_claims cfg userID tenantID roles now ttl =
     (let claims = base_claims userID tenantID roles now ttl;
          claims = (case Issuers cfg of [] \<Rightarrow> claims | iss # _ \<Rightarrow> map_put ''iss'' (JStr iss) claims)
      in if Audience cfg \<noteq> [] then map_put ''aud'' (JStr (Audience cfg)) claims else claims)"

definition DevToken :: "jwt_lib \<Rightarrow> auth_config \<Rightarrow> string \<Rightarrow> string \<Rightarrow> string list \<Rightarrow> gotime \<Rightarrow> duration \<Rightarrow> string res" where
  "DevToken L cfg userID tenantID roles now ttl =
     (if DevSecret cfg = [] then Inl (Errorf ''token is malformed'')
      else jwtSign L ''HS256'' (DevSecret cfg) [] (DevToken_claims cfg userID tenantID roles now ttl))"

record issuer =
  iss_issuer :: string
  iss_audience :: string
  iss_key :: "string option"
  iss_kid :: string

definition AccessToken_claims :: "issuer \<Rightarrow> string \<Rightarrow> string \<Rightarrow> string list \<Rightarrow> gotime \<Rightarrow> duration \<Rightarrow> gomap" where
  "AccessToken_claims i userID tenantID roles now ttl =
     (let claims = base_claims userID tenantID roles now ttl;
          claims = (if iss_issuer i \<noteq> [] then map_put ''iss'' (JStr (iss_issuer i)) claims else claims)
      in if iss_audience i \<noteq> [] then map_put ''aud'' (JStr (iss_audience i)) claims else claims)"

definition AccessToken :: "jwt_lib \<Rightarrow> issuer option \<Rightarrow> string \<Rightarrow> string \<Rightarrow> string list \<Rightarrow> gotime \<Rightarrow> duration \<Rightarrow> string res" where
  "AccessToken L iopt userID tenantID roles now ttl = (case iopt of
     None \<Rightarrow> Inl (Errorf ''issuer not configured'')
   | Some i \<Rightarrow> (case iss_key i of
       None \<Rightarrow> Inl (Errorf ''issuer not configured'')
     | Some key \<Rightarrow> jwtSign L ''RS256'' key (iss_kid i) (AccessToken_claims i userID tenantID roles now ttl)))"

text \<open>
  \<^verbatim>\<open>loadOrGenerateKey\<close>: the PEM and DER readers and the key generator of the standard library are
  arguments; a PKCS8 key that is not RSA is \<open>Inr None\<close>.
\<close>

definition loadOrGenerateKey ::
  "(string \<Rightarrow> string option) \<Rightarrow> (string \<Rightarrow> string res) \<Rightarrow> (string \<Rightarrow> string option res) \<Rightarrow> string res
    \<Rightarrow> string \<Rightarrow> bool \<Rightarrow> (string \<times> string) res" where
  "loadOrGenerateKey pemDecode parsePKCS1 parsePKCS8 generated pemStr allowGenerate =
     (if pemStr \<noteq> [] then
        (case pemDecode pemStr of
           None \<Rightarrow> Inl (Errorf ''invalid AUTH_JWT_PRIVATE_KEY_PEM'')
         | Some block \<Rightarrow> (case parsePKCS1 block of
             Inr key \<Rightarrow> Inr (key, ''auth-rsa-1'')
           | Inl err \<Rightarrow> (case parsePKCS8 block of
               Inl err2 \<Rightarrow> Inl (Wrapped ''parse private key'' err)
             | Inr None \<Rightarrow> Inl (Errorf ''private key is not RSA'')
             | Inr (Some key) \<Rightarrow> Inr (key, ''auth-rsa-1''))))
      else if \<not> allowGenerate then Inl (Errorf ''AUTH_JWT_PRIVATE_KEY_PEM required in production'')
      else (case generated of Inl err \<Rightarrow> Inl err | Inr key \<Rightarrow> Inr (key, ''auth-dev-rsa'')))"

text \<open>\<^verbatim>\<open>NewIssuer\<close>, given what \<open>loadOrGenerateKey\<close> returned.\<close>

definition NewIssuer :: "string \<Rightarrow> string \<Rightarrow> (string \<times> string) res \<Rightarrow> issuer res" where
  "NewIssuer iss aud loaded = (case loaded of
     Inl err \<Rightarrow> Inl err
   | Inr (key, kid) \<Rightarrow> Inr \<lparr>iss_issuer = iss, iss_audience = aud, iss_key = Some key, iss_kid = kid\<rparr>)"

section \<open>Facts\<close>

lemma issuerAllowed_iff [simp]: "issuerAllowed iss allowed \<longleftrightarrow> iss \<in> set allowed"
  by (auto simp: issuerAllowed_def list_ex_iff)

lemma check_token_Inr:
  "check_token L now v parsed = Inr claims \<longleftrightarrow>
     (\<exists>tok. parsed = Inr tok \<and> TokClaims tok = Some claims \<and> TokValid tok \<and>
       validateStandardClaims L now v claims = None)"
  by (auto simp: check_token_def split: sum.splits option.splits if_splits)

lemma validateStandardClaims_None:
  "validateStandardClaims L now v claims = None \<longleftrightarrow>
     (Issuers (vcfg v) = [] \<or> map_str claims ''iss'' \<in> set (Issuers (vcfg v))) \<and>
     (Audience (vcfg v) = [] \<or> audienceContains (map_get claims ''aud'') (Audience (vcfg v))) \<and>
     (\<forall>exp. jwtExp L claims = Inr exp \<longrightarrow> now \<le> exp)"
  by (auto simp: validateStandardClaims_def split: sum.splits)

lemma Verify_Inr:
  "Verify L now v s = Inr idn \<Longrightarrow>
     \<exists>claims. idn = mapClaims claims \<and>
       ((\<exists>kf. vjwks v = Some kf \<and> parseWithJWKS L now v kf s = Inr claims)
        \<or> (DevSecret (vcfg v) \<noteq> [] \<and> parseWithHMAC L now v s = Inr claims))"
  by (auto simp: Verify_def Let_def verifier_Enabled_def split: if_splits option.splits sum.splits)

lemma map_str_base_claims:
  "map_str (base_claims u t r now ttl) ''sub'' = u"
  "map_str (base_claims u t r now ttl) ''user_id'' = u"
  "map_str (base_claims u t r now ttl) ''tenant_id'' = t"
  by (simp_all add: map_str_def base_claims_def)

lemma map_str_put: "map_str (map_put k (JStr v) m) k' = (if k' = k then v else map_str m k')"
  by (simp add: map_str_def)

lemma strings_of_JStr: "strings_of (map JStr xs) = filter (\<lambda>s. s \<noteq> []) xs"
  by (induction xs) auto

text \<open>A token auth-service mints has the same user id and subject.\<close>

lemma mapClaims_base:
  "mapClaims (base_claims u t r now ttl) =
     \<lparr>RequestID = [], UserID = u, TenantID = t, Roles = filter (\<lambda>s. s \<noteq> []) r, Scopes = [], Subject = u\<rparr>"
  by (simp add: mapClaims_def Let_def map_str_base_claims stringClaim_def stringSliceClaim_def
      scopesClaim_def strings_of_JStr) (simp add: base_claims_def stringSliceClaim_def strings_of_JStr)

lemma stringSliceClaim_put: "key \<noteq> k \<Longrightarrow> stringSliceClaim (map_put k v c) key = stringSliceClaim c key"
  by (simp add: stringSliceClaim_def)

lemma mapClaims_put_iss_aud:
  "mapClaims (map_put ''iss'' v c) = mapClaims c" "mapClaims (map_put ''aud'' v c) = mapClaims c"
  by (simp_all add: mapClaims_def Let_def map_str_def stringClaim_def stringSliceClaim_put scopesClaim_def
      split: option.split json.split)

lemma mapClaims_AccessToken:
  "mapClaims (AccessToken_claims i u t r now ttl) = mapClaims (base_claims u t r now ttl)"
  by (simp add: AccessToken_claims_def Let_def mapClaims_put_iss_aud)

lemma mapClaims_DevToken:
  "mapClaims (DevToken_claims cfg u t r now ttl) = mapClaims (base_claims u t r now ttl)"
  by (simp add: DevToken_claims_def Let_def mapClaims_put_iss_aud split: list.splits)

lemma AccessToken_claims_get:
  "map_get (AccessToken_claims i u t r now ttl) ''exp'' = Some (JNum (Itoa ((now + ttl) div time_Second)))"
  "iss_issuer i \<noteq> [] \<Longrightarrow> map_str (AccessToken_claims i u t r now ttl) ''iss'' = iss_issuer i"
  "iss_audience i \<noteq> [] \<Longrightarrow> map_get (AccessToken_claims i u t r now ttl) ''aud'' = Some (JStr (iss_audience i))"
  by (simp_all add: AccessToken_claims_def base_claims_def Let_def map_str_def)

text \<open>A token the issuer mints is accepted by a verifier that trusts the issuer and its key, until it expires.\<close>

lemma minted_token_verifies:
  assumes lib: "jwt_complete L pub" "jwt_exp_law L"
    and tok: "AccessToken L (Some i) u ten r now ttl = Inr tok" "iss_key i = Some key"
    and key: "vjwks v = Some kf" "kf ''RS256'' (iss_kid i) = Inr (pub key)"
    and iss: "Issuers (vcfg v) = [] \<or> iss_issuer i \<noteq> [] \<and> iss_issuer i \<in> set (Issuers (vcfg v))"
    and aud: "Audience (vcfg v) = [] \<or> Audience (vcfg v) = iss_audience i"
    and t: "t < (now + ttl) div time_Second * time_Second" "0 \<le> now + ttl" "(now + ttl) div time_Second < 2 ^ 53"
  shows "Verify L t v tok = Inr (mapClaims (base_claims u ten r now ttl))"
proof -
  let ?c = "AccessToken_claims i u ten r now ttl"
  have e: "jwtExp L ?c = Inr ((now + ttl) div time_Second * time_Second)"
    using lib(2) AccessToken_claims_get(1) t(2,3) unfolding jwt_exp_law_def time_Second_def
    by (metis pos_imp_zdiv_nonneg_iff zero_less_numeral)
  have "jwtSign L ''RS256'' key (iss_kid i) ?c = Inr tok" using tok by (simp add: AccessToken_def)
  then have "jwtParse L kf (Some jwks_methods) t tok =
      Inr \<lparr>TokAlg = ''RS256'', TokKid = iss_kid i, TokClaims = Some ?c, TokValid = True\<rparr>"
    using lib(1) key(2) e t(1) unfolding jwt_complete_def jwks_methods_def by force
  moreover have "validateStandardClaims L t v ?c = None"
  proof -
    have "Audience (vcfg v) = [] \<or> audienceContains (map_get ?c ''aud'') (Audience (vcfg v))"
      using aud by (cases "iss_audience i = []") (auto simp: audienceContains_def AccessToken_claims_get(3))
    with iss e t(1) show ?thesis by (auto simp: validateStandardClaims_None AccessToken_claims_get(2))
  qed
  ultimately show ?thesis
    using key(1) by (simp add: Verify_def verifier_Enabled_def parseWithJWKS_def check_token_def mapClaims_AccessToken)
qed

end
