(* ===== verification/Session.thy ===== *)
theory Session
  imports Redis AuthVerifier
begin

text \<open>
  \<^verbatim>\<open>services/gateway/internal/session/store.go\<close>: browser sessions and pending logins kept in Redis.
  The JSON text form of the two stored structs is the parameter \<open>codec\<close>; \<open>codec_ok\<close> says that a
  value survives it. Each operation reads the clock once. The lemmas give the life cycle of a
  session; callbacks that overlap on one pending login are in theory GatewayReplicas.
\<close>

section \<open>Data\<close>

record session_data =
  AccessToken :: string
  RefreshToken :: string
  SIdentity :: Identity
  ExpiresAt :: gotime

record sess_store =
  sess_rdb :: bool
  sess_ttl :: duration
  sess_cookieName :: string
  sess_prefix :: string

record PendingLogin =
  ReturnTo :: string
  Nonce :: string

record 'a codec =
  marshal :: "'a \<Rightarrow> string res"
  unmarshal :: "string \<Rightarrow> 'a res"

definition codec_ok :: "'a codec \<Rightarrow> 'a \<Rightarrow> bool" where
  "codec_ok C x \<longleftrightarrow> (\<exists>raw. marshal C x = Inr raw \<and> unmarshal C raw = Inr x)"

section \<open>Operations\<close>

text \<open>\<^verbatim>\<open>NewStore\<close>: any parsable \<^verbatim>\<open>SESSION_TTL\<close> is taken, zero and negative ones included.\<close>

definition sess_NewStore :: "(string \<Rightarrow> duration res) \<Rightarrow> osenv \<Rightarrow> bool \<Rightarrow> sess_store" where
  "sess_NewStore parseDuration env rdb =
     (let s = Env env ''SESSION_TTL'' [];
          ttl = (if s \<noteq> [] then (case parseDuration s of Inr d \<Rightarrow> d | Inl _ \<Rightarrow> 24 * time_Hour) else 24 * time_Hour)
      in \<lparr>sess_rdb = rdb, sess_ttl = ttl, sess_cookieName = Env env ''SESSION_COOKIE_NAME'' ''tb_session'',
          sess_prefix = Env env ''SESSION_REDIS_PREFIX'' ''gw:session:''\<rparr>)"

definition sess_Enabled :: "sess_store option \<Rightarrow> bool" where
  "sess_Enabled s \<longleftrightarrow> (case s of None \<Rightarrow> False | Some s \<Rightarrow> sess_rdb s)"

definition CookieName :: "sess_store option \<Rightarrow> string" where
  "CookieName s = (case s of None \<Rightarrow> ''tb_session'' | Some s \<Rightarrow> sess_cookieName s)"

definition sess_newID :: "bytes res \<Rightarrow> string res" where
  "sess_newID rnd = (case rnd of Inl err \<Rightarrow> Inl err | Inr b \<Rightarrow> Inr (hex_encode b))"

definition save_ttl :: "gotime \<Rightarrow> sess_store \<Rightarrow> session_data \<Rightarrow> duration" where
  "save_ttl now s data =
     (if \<not> time_IsZero (ExpiresAt data) then
        (let d = ExpiresAt data - now in if 0 < d \<and> d < sess_ttl s then d else sess_ttl s)
      else sess_ttl s)"

definition sess_save ::
  "'r redis \<Rightarrow> session_data codec \<Rightarrow> gotime \<Rightarrow> sess_store \<Rightarrow> string \<Rightarrow> session_data \<Rightarrow> 'r \<Rightarrow> goerr option \<times> 'r" where
  "sess_save R C now s sid data st = (case marshal C data of
     Inl err \<Rightarrow> (Some err, st)
   | Inr raw \<Rightarrow> rSet R now (sess_prefix s @ sid) raw (save_ttl now s data) st)"

definition sess_Create ::
  "'r redis \<Rightarrow> session_data codec \<Rightarrow> gotime \<Rightarrow> bytes res \<Rightarrow> sess_store option \<Rightarrow> session_data \<Rightarrow> 'r
    \<Rightarrow> string res \<times> 'r" where
  "sess_Create R C now rnd so data st = (case so of
     None \<Rightarrow> (Inl (Errorf ''session store unavailable''), st)
   | Some s \<Rightarrow>
       if \<not> sess_Enabled so then (Inl (Errorf ''session store unavailable''), st)
       else (case sess_newID rnd of
         Inl err \<Rightarrow> (Inl err, st)
       | Inr sid \<Rightarrow> (case sess_save R C now s sid data st of
           (Some err, st') \<Rightarrow> (Inl err, st')
         | (None, st') \<Rightarrow> (Inr sid, st'))))"

definition sess_Delete :: "'r redis \<Rightarrow> gotime \<Rightarrow> sess_store option \<Rightarrow> string \<Rightarrow> 'r \<Rightarrow> goerr option \<times> 'r" where
  "sess_Delete R now so sid st = (case so of
     None \<Rightarrow> (None, st)
   | Some s \<Rightarrow> if \<not> sess_Enabled so \<or> sid = [] then (None, st) else rDel R now (sess_prefix s @ sid) st)"

definition sess_Get ::
  "'r redis \<Rightarrow> session_data codec \<Rightarrow> gotime \<Rightarrow> sess_store option \<Rightarrow> string \<Rightarrow> 'r \<Rightarrow> session_data res \<times> 'r" where
  "sess_Get R C now so sid st = (case so of
     None \<Rightarrow> (Inl (Errorf ''session store unavailable''), st)
   | Some s \<Rightarrow>
       if \<not> sess_Enabled so then (Inl (Errorf ''session store unavailable''), st)
       else if sid = [] then (Inl (Errorf ''empty session id''), st)
       else (case rGet R now (sess_prefix s @ sid) st of
         Inl err \<Rightarrow> (Inl err, st)
       | Inr raw \<Rightarrow> (case unmarshal C raw of
           Inl err \<Rightarrow> (Inl err, st)
         | Inr data \<Rightarrow>
             if \<not> time_IsZero (ExpiresAt data) \<and> ExpiresAt data < now
             then (Inl (Errorf ''session expired''), snd (sess_Delete R now so sid st))
             else (Inr data, st))))"

definition pending_key :: "string \<Rightarrow> string" where
  "pending_key state = ''gw:oidc:state:'' @ state"

definition SavePending ::
  "'r redis \<Rightarrow> PendingLogin codec \<Rightarrow> gotime \<Rightarrow> sess_store option \<Rightarrow> string \<Rightarrow> PendingLogin \<Rightarrow> 'r \<Rightarrow> goerr option \<times> 'r" where
  "SavePending R C now so state p st =
     (if \<not> sess_Enabled so then (Some (Errorf ''session store unavailable''), st)
      else (case marshal C p of
        Inl err \<Rightarrow> (Some err, st)
      | Inr raw \<Rightarrow> rSet R now (pending_key state) raw (10 * time_Minute) st))"

definition ConsumePending ::
  "'r redis \<Rightarrow> PendingLogin codec \<Rightarrow> gotime \<Rightarrow> sess_store option \<Rightarrow> string \<Rightarrow> 'r \<Rightarrow> PendingLogin res \<times> 'r" where
  "ConsumePending R C now so state st =
     (if \<not> sess_Enabled so then (Inl (Errorf ''session store unavailable''), st)
      else (case rGet R now (pending_key state) st of
        Inl err \<Rightarrow> (Inl err, st)
      | Inr raw \<Rightarrow> (let st' = snd (rDel R now (pending_key state) st) in
          case unmarshal C raw of Inl err \<Rightarrow> (Inl err, st') | Inr p \<Rightarrow> (Inr p, st'))))"

section \<open>Life cycle\<close>

lemma save_ttl_pos: "0 < sess_ttl s \<Longrightarrow> 0 < save_ttl now s data"
  by (simp add: save_ttl_def Let_def)

lemma sess_Create_view:
  assumes laws: "redis_laws R view" and up: "redis_up R view" and en: "sess_rdb s" and ttl: "0 < sess_ttl s"
    and raw: "marshal C data = Inr raw"
  obtains st' where "sess_Create R C t (Inr b) (Some s) data st = (Inr (hex_encode b), st')"
    and "\<And>t' k. t \<le> t' \<Longrightarrow> view st' t' k =
      (if k = sess_prefix s @ hex_encode b
       then (if t' < t + px (save_ttl t s data) then Some raw else None) else view st t' k)"
proof -
  let ?k = "sess_prefix s @ hex_encode b" and ?d = "save_ttl t s data"
  obtain st' where set: "rSet R t ?k raw ?d st = (None, st')"
    using up by (metis redis_up_def prod.collapse)
  have "sess_Create R C t (Inr b) (Some s) data st = (Inr (hex_encode b), st')"
    using en raw set by (simp add: sess_Create_def sess_Enabled_def sess_newID_def sess_save_def)
  moreover have "view st' t' k = (if k = ?k then (if t' < t + px ?d then Some raw else None) else view st t' k)"
    if "t \<le> t'" for t' k
    using rSet_view [OF laws set _ that, of k] save_ttl_pos [OF ttl, of t data] by simp
  ultimately show thesis using that by blast
qed

lemma sess_Get_visible:
  assumes "redis_up R view" "sess_rdb s" "sid \<noteq> []" "view st t (sess_prefix s @ sid) = Some raw"
    "unmarshal C raw = Inr data" "time_IsZero (ExpiresAt data) \<or> t \<le> ExpiresAt data"
  shows "sess_Get R C t (Some s) sid st = (Inr data, st)"
proof -
  have "rGet R t (sess_prefix s @ sid) st = Inr raw"
    using assms(1,4) by (simp add: redis_up_def)
  with assms show ?thesis
    by (auto simp: sess_Get_def sess_Enabled_def)
qed

lemma sess_Get_invisible:
  assumes "redis_laws R view" "view st t (sess_prefix s @ sid) = None"
  shows "\<exists>e. sess_Get R C t (Some s) sid st = (Inl e, st)"
  using rGet_invisible [OF assms] by (auto simp: sess_Get_def)

text \<open>Whatever \<open>sess_Get\<close> returns was stored under the cookie's key and has not expired.\<close>

lemma sess_Get_Inr:
  assumes "sess_Get R C t so sid st = (Inr data, st')"
  obtains s raw where "so = Some s" "sess_rdb s" "sid \<noteq> []" "st' = st"
    "rGet R t (sess_prefix s @ sid) st = Inr raw" "unmarshal C raw = Inr data"
    "time_IsZero (ExpiresAt data) \<or> t \<le> ExpiresAt data"
  using assms by (auto simp: sess_Get_def sess_Enabled_def split: option.splits if_splits sum.splits)

text \<open>
  C24 A session that was created can be read back by its id, unchanged, until its expiry; then, and from
  a deletion on, reading it is an error.
\<close>

theorem session_life_cycle:
  assumes laws: "redis_laws R view" and up: "redis_up R view" and en: "sess_rdb s" and ttl: "0 < sess_ttl s"
    and codec: "codec_ok C data" and b: "b \<noteq> []"
  shows "\<exists>st'. sess_Create R C t (Inr b) (Some s) data st = (Inr (hex_encode b), st') \<and>
     (\<forall>t'. t \<le> t' \<longrightarrow> t' < t + px (save_ttl t s data) \<longrightarrow> time_IsZero (ExpiresAt data) \<or> t' \<le> ExpiresAt data \<longrightarrow>
        sess_Get R C t' (Some s) (hex_encode b) st' = (Inr data, st')) \<and>
     (\<forall>t'. t + px (save_ttl t s data) \<le> t' \<longrightarrow> (\<exists>e. sess_Get R C t' (Some s) (hex_encode b) st' = (Inl e, st'))) \<and>
     (\<forall>t1 t2 st''. t \<le> t1 \<longrightarrow> t1 \<le> t2 \<longrightarrow> sess_Delete R t1 (Some s) (hex_encode b) st' = (None, st'') \<longrightarrow>
        (\<exists>e. sess_Get R C t2 (Some s) (hex_encode b) st'' = (Inl e, st'')))"
proof -
  obtain raw where raw: "marshal C data = Inr raw" "unmarshal C raw = Inr data"
    using codec by (auto simp: codec_ok_def)
  obtain st' where create: "sess_Create R C t (Inr b) (Some s) data st = (Inr (hex_encode b), st')"
    and view: "\<And>t' k. t \<le> t' \<Longrightarrow> view st' t' k = (if k = sess_prefix s @ hex_encode b
       then (if t' < t + px (save_ttl t s data) then Some raw else None) else view st t' k)"
    using sess_Create_view [OF laws up en ttl raw(1)] by blast
  have "sess_Get R C t' (Some s) (hex_encode b) st' = (Inr data, st')"
    if "t \<le> t'" "t' < t + px (save_ttl t s data)" "time_IsZero (ExpiresAt data) \<or> t' \<le> ExpiresAt data" for t'
    by (rule sess_Get_visible [OF up en _ _ raw(2) that(3)]) (simp_all add: b view that)
  moreover have "\<exists>e. sess_Get R C t' (Some s) (hex_encode b) st' = (Inl e, st')"
    if "t + px (save_ttl t s data) \<le> t'" for t'
    using that px_pos [of "save_ttl t s data"] by (intro sess_Get_invisible [OF laws]) (simp add: view)
  moreover have "\<exists>e. sess_Get R C t2 (Some s) (hex_encode b) st'' = (Inl e, st'')"
    if "t1 \<le> t2" "sess_Delete R t1 (Some s) (hex_encode b) st' = (None, st'')" for t1 t2 st''
  proof -
    have "rDel R t1 (sess_prefix s @ hex_encode b) st' = (None, st'')"
      using that en b by (simp add: sess_Delete_def sess_Enabled_def)
    from rDel_view [OF laws this that(1)] show ?thesis
      by (intro sess_Get_invisible [OF laws]) simp
  qed
  ultimately show ?thesis using create by blast
qed

lemma SavePending_then_Consume:
  assumes laws: "redis_laws R view" and up: "redis_up R view" and en: "sess_Enabled so"
    and codec: "codec_ok C p" and t: "t \<le> t'" "t' < t + 10 * time_Minute"
  shows "\<exists>st' st''. SavePending R C t so state p st = (None, st') \<and>
     ConsumePending R C t' so state st' = (Inr p, st'')"
proof -
  obtain raw where raw: "marshal C p = Inr raw" "unmarshal C raw = Inr p"
    using codec by (auto simp: codec_ok_def)
  obtain st' where set: "rSet R t (pending_key state) raw (10 * time_Minute) st = (None, st')"
    using up by (metis redis_up_def prod.collapse)
  have "view st' t' (pending_key state) = Some raw"
    using rSet_view [OF laws set _ t(1), of "pending_key state"] t by (simp add: go_defs px_def)
  then have "rGet R t' (pending_key state) st' = Inr raw"
    using up by (simp add: redis_up_def)
  with raw set en show ?thesis
    by (auto simp: SavePending_def ConsumePending_def Let_def)
qed

end
