(* ===== verification/GoUrl.thy ===== *)
theory GoUrl
  imports Identity
begin

text \<open>
  Paths and URLs of the standard library as the gateway uses them: \<^verbatim>\<open>path.Clean\<close>, \<^verbatim>\<open>path.Join\<close>,
  \<^verbatim>\<open>path.Base\<close> (equal to their \<^verbatim>\<open>filepath\<close> namesakes on Unix), when \<^verbatim>\<open>url.Parse\<close> accepts a rooted
  reference, and \<^verbatim>\<open>http.Redirect\<close>.
\<close>

section \<open>Paths\<close>

fun clean_step :: "bool \<Rightarrow> string list \<Rightarrow> string \<Rightarrow> string list" where
  "clean_step rooted stack c =
     (if c = [] \<or> c = ''.'' then stack
      else if c = ''..'' then (case stack of
          x # rest \<Rightarrow> if x = ''..'' then c # stack else rest
        | [] \<Rightarrow> if rooted then [] else [c])
      else c # stack)"

text \<open>The elements that remain, first to last.\<close>

definition clean_parts :: "string \<Rightarrow> string list" where
  "clean_parts p = rev (foldl (clean_step (HasPrefix p ''/'')) [] (Split (CHR ''/'') p))"

definition path_Clean :: "string \<Rightarrow> string" where
  "path_Clean p =
     (if HasPrefix p ''/'' then CHR ''/'' # Join (CHR ''/'') (clean_parts p)
      else if clean_parts p = [] then ''.''
      else Join (CHR ''/'') (clean_parts p))"

definition path_Join :: "string list \<Rightarrow> string" where
  "path_Join elems =
     (let es = filter (\<lambda>e. e \<noteq> []) elems in if es = [] then [] else path_Clean (Join (CHR ''/'') es))"

definition path_Base :: "string \<Rightarrow> string" where
  "path_Base p =
     (if p = [] then ''.''
      else (let q = TrimRight p (CHR ''/'') in if q = [] then ''/'' else last (Split (CHR ''/'') q)))"

text \<open>The directory part of \<^verbatim>\<open>path.Split\<close>: everything up to the last slash.\<close>

definition path_dir :: "string \<Rightarrow> string" where
  "path_dir p = rev (dropWhile (\<lambda>c. c \<noteq> CHR ''/'') (rev p))"

section \<open>URL references\<close>

text \<open>A percent sign must be followed by two hexadecimal digits.\<close>

fun escapes_ok :: "string \<Rightarrow> bool" where
  "escapes_ok [] = True"
| "escapes_ok (c # s) =
     (if c = CHR ''%'' then (case s of
          a # b # r \<Rightarrow> hex_val a \<noteq> None \<and> hex_val b \<noteq> None \<and> escapes_ok r
        | _ \<Rightarrow> False)
      else escapes_ok s)"

definition ctl_byte :: "char \<Rightarrow> bool" where
  "ctl_byte c \<longleftrightarrow> (of_char c :: int) < 32 \<or> (of_char c :: int) = 127"

text \<open>
  \<^verbatim>\<open>url.Parse\<close> on a reference that starts with a single slash: no scheme and no host; it fails on
  control bytes before the fragment and on bad escapes in the path or the fragment.
\<close>

definition rooted_parse_ok :: "string \<Rightarrow> bool" where
  "rooted_parse_ok raw \<longleftrightarrow>
     (let u = before_byte (CHR ''#'') raw; frag = after_byte (CHR ''#'') raw
      in \<not> list_ex ctl_byte u \<and> escapes_ok (before_byte (CHR ''?'') u) \<and> escapes_ok frag)"

definition rooted :: "string \<Rightarrow> bool" where
  "rooted raw \<longleftrightarrow> HasPrefix raw ''/'' \<and> \<not> HasPrefix raw ''//''"

text \<open>The target \<^verbatim>\<open>http.Redirect\<close> puts into \<^verbatim>\<open>Location\<close> for a rooted reference; others are kept.\<close>

definition redirect_target :: "string \<Rightarrow> string" where
  "redirect_target url =
     (if rooted url \<and> rooted_parse_ok url then
        (let p = takeWhile (\<lambda>c. c \<noteq> CHR ''?'') url; q = dropWhile (\<lambda>c. c \<noteq> CHR ''?'') url;
             cl = path_Clean p
         in (if p \<noteq> [] \<and> last p = CHR ''/'' \<and> last cl \<noteq> CHR ''/'' then cl @ ''/'' else cl) @ q)
      else url)"

text \<open>\<^verbatim>\<open>hexEscapeNonASCII\<close>.\<close>

definition hexEscapeNonASCII :: "string \<Rightarrow> string" where
  "hexEscapeNonASCII s = concat (map (\<lambda>c. if (of_char c :: int) \<ge> 128
     then [CHR ''%'', hex_digit ((of_char c :: int) div 16), hex_digit ((of_char c :: int) mod 16)] else [c]) s)"

definition html_char :: "char \<Rightarrow> string" where
  "html_char c = (if c = CHR ''&'' then ''&amp;'' else if c = CHR ''<'' then ''&lt;''
     else if c = CHR ''>'' then ''&gt;'' else if (of_char c :: int) = 34 then ''&#34;''
     else if (of_char c :: int) = 39 then ''&#39;'' else [c])"

text \<open>\<^verbatim>\<open>http.Redirect\<close> with a status and its text, for a target that is rooted or absolute.\<close>

definition redirect_with :: "int \<Rightarrow> string \<Rightarrow> request \<Rightarrow> string \<Rightarrow> writer \<Rightarrow> writer" where
  "redirect_with code txt r url w =
     (let target = redirect_target url;
          hadCT = (WHeader w ''Content-Type'' \<noteq> None);
          w1 = SetRespHeader ''Location'' (hexEscapeNonASCII target) w;
          w2 = (if \<not> hadCT \<and> (Method r = ''GET'' \<or> Method r = ''HEAD'')
                then SetRespHeader ''Content-Type'' ''text/html; charset=utf-8'' w1 else w1);
          w3 = WriteHeader code w2
      in if \<not> hadCT \<and> Method r = ''GET''
         then WriteBody (BBytes (''<a href='' @ [char_of (34 :: int)] @ concat (map html_char target) @ [char_of (34 :: int)]
                @ ''>'' @ txt @ ''</a>.'' @ [CHR 0x0A, CHR 0x0A])) w3
         else w3)"

definition http_Redirect :: "request \<Rightarrow> string \<Rightarrow> writer \<Rightarrow> writer" where
  "http_Redirect r url w = redirect_with 302 ''Found'' r url w"

section \<open>Facts about cleaned paths\<close>

definition plain_elem :: "string \<Rightarrow> bool" where
  "plain_elem c \<longleftrightarrow> c \<noteq> [] \<and> c \<noteq> ''.'' \<and> c \<noteq> ''..'' \<and> CHR ''/'' \<notin> set c"

lemma clean_step_rooted:
  assumes "list_all plain_elem st" "CHR ''/'' \<notin> set c"
  shows "list_all plain_elem (clean_step True st c)"
proof (cases st)
  case Nil
  with assms show ?thesis by (simp add: plain_elem_def)
next
  case (Cons x rest)
  with assms have "x \<noteq> ''..''" by (simp add: plain_elem_def)
  with Cons assms show ?thesis by (simp add: plain_elem_def)
qed

lemma clean_fold_rooted:
  "list_all plain_elem st \<Longrightarrow> \<forall>c\<in>set cs. CHR ''/'' \<notin> set c \<Longrightarrow>
   list_all plain_elem (foldl (clean_step True) st cs)"
  by (induction cs arbitrary: st) (simp_all add: clean_step_rooted del: clean_step.simps)

text \<open>A cleaned rooted path has no empty, dot or dot-dot element.\<close>

lemma clean_parts_rooted:
  assumes "HasPrefix p ''/''" "c \<in> set (clean_parts p)"
  shows "plain_elem c"
proof -
  have "list_all plain_elem (foldl (clean_step True) [] (Split (CHR ''/'') p))"
    by (rule clean_fold_rooted) (auto dest: Split_elem_no_sep)
  with assms show ?thesis
    by (simp add: clean_parts_def list_all_iff del: clean_step.simps)
qed

lemma Join_hd: "xs \<noteq> [] \<Longrightarrow> hd xs \<noteq> [] \<Longrightarrow> Join c xs \<noteq> [] \<and> hd (Join c xs) = hd (hd xs)"
  by (cases xs; cases "tl xs") auto

text \<open>A cleaned rooted path is rooted and does not start with two slashes.\<close>

lemma path_Clean_rooted:
  assumes "HasPrefix p ''/''"
  shows "rooted (path_Clean p)"
proof -
  let ?ps = "clean_parts p"
  have eq: "path_Clean p = CHR ''/'' # Join (CHR ''/'') ?ps"
    using assms by (simp add: path_Clean_def)
  have "\<not> HasPrefix (Join (CHR ''/'') ?ps) ''/''"
  proof (cases "?ps = []")
    case False
    then have in_ps: "hd ?ps \<in> set ?ps" by simp
    note ps = clean_parts_rooted [OF assms in_ps]
    then have ne: "hd ?ps \<noteq> []" by (simp add: plain_elem_def)
    then have "hd (hd ?ps) \<in> set (hd ?ps)" by simp
    with ps have "hd (hd ?ps) \<noteq> CHR ''/''" unfolding plain_elem_def by metis
    with Join_hd [OF False ne, of "CHR ''/''"] show ?thesis
      by (cases "Join (CHR ''/'') ?ps") (auto simp: HasPrefix_def)
  qed (simp add: HasPrefix_def)
  then show ?thesis
    by (simp add: rooted_def eq HasPrefix_def)
qed

end
