(* ===== verification/AuditEvents.thy ===== *)
theory AuditEvents
  imports Httpx
begin

text \<open>
  \<^verbatim>\<open>pkg/audit\<close> and \<^verbatim>\<open>pkg/contracts/audit.go\<close>: the audit event, its JSON form, gateway entry events, the
  HTTP emitter and its asynchronous wrapper, and the contract mapping. Outgoing HTTP is the
  parameter \<open>http_client\<close> over the state of the world outside the process.
\<close>

section \<open>Outgoing HTTP\<close>

record http_out =
  OMethod :: string
  OURL :: string
  OHeader :: header
  OBody :: string

text \<open>The client returns an error, or a status with a body (or an error reading it).\<close>

type_synonym 'n http_client = "http_out \<Rightarrow> 'n \<Rightarrow> (int \<times> string res) res \<times> 'n"

section \<open>Events\<close>

record Event =
  EvID :: string
  EvSource :: string
  EvType :: string
  EvSubject :: string
  EvTime :: gotime
  EvTenantID :: string
  EvActorUserID :: string
  EvData :: "gomap option"

definition SourceIdP :: string where "SourceIdP = ''auth-service''"
definition SourceGateway :: string where "SourceGateway = ''gateway''"

text \<open>\<open>b\<close> are the 16 random bytes of the id.\<close>

definition audit_newID :: "bytes \<Rightarrow> string" where
  [simp]: "audit_newID b = hex_encode b"

definition NewEvent :: "bytes \<Rightarrow> gotime \<Rightarrow> string \<Rightarrow> string \<Rightarrow> Event" where
  "NewEvent b now source eventType =
     \<lparr>EvID = audit_newID b, EvSource = source, EvType = eventType, EvSubject = [], EvTime = now,
      EvTenantID = [], EvActorUserID = [], EvData = None\<rparr>"

definition omitempty :: "string \<Rightarrow> string \<Rightarrow> gomap" where
  "omitempty k v = (if v = [] then [] else [(k, JStr v)])"

text \<open>\<^verbatim>\<open>json.Marshal\<close> of an event; \<open>fmtTime\<close> is the RFC 3339 rendering of a time.\<close>

definition event_json :: "(gotime \<Rightarrow> string) \<Rightarrow> Event \<Rightarrow> json" where
  "event_json fmtTime e = JObj
     ([(''id'', JStr (EvID e)), (''source'', JStr (EvSource e)), (''type'', JStr (EvType e))]
      @ omitempty ''subject'' (EvSubject e)
      @ [(''time'', JStr (fmtTime (EvTime e)))]
      @ omitempty ''tenant_id'' (EvTenantID e)
      @ omitempty ''actor_user_id'' (EvActorUserID e)
      @ (case EvData e of None \<Rightarrow> [] | Some [] \<Rightarrow> [] | Some m \<Rightarrow> [(''data'', JObj m)]))"

text \<open>\<^verbatim>\<open>json.Unmarshal\<close> into an event, on the value tree.\<close>

definition event_of_json :: "json \<Rightarrow> Event option" where
  "event_of_json v =
     Option.bind (dec_object v) (\<lambda>m.
     Option.bind (dec_string ''id'' m) (\<lambda>i.
     Option.bind (dec_string ''source'' m) (\<lambda>so.
     Option.bind (dec_string ''type'' m) (\<lambda>ty.
     Option.bind (dec_string ''subject'' m) (\<lambda>su.
     Option.bind (dec_time ''time'' m) (\<lambda>t.
     Option.bind (dec_string ''tenant_id'' m) (\<lambda>te.
     Option.bind (dec_string ''actor_user_id'' m) (\<lambda>ac.
     Option.bind (dec_map ''data'' m) (\<lambda>d.
       Some \<lparr>EvID = i, EvSource = so, EvType = ty, EvSubject = su, EvTime = t, EvTenantID = te,
             EvActorUserID = ac, EvData = d\<rparr>)))))))))"

section \<open>Gateway entry events\<close>

definition entry_clientIP :: "request \<Rightarrow> string" where
  "entry_clientIP r =
     (let xff = req_header r ''X-Forwarded-For'' in
      if xff \<noteq> [] then xff
      else (let xri = req_header r ''X-Real-IP'' in if xri \<noteq> [] then xri else RemoteAddr r))"

definition EntryEvent :: "bytes \<Rightarrow> gotime \<Rightarrow> string \<Rightarrow> request \<Rightarrow> string \<Rightarrow> gomap \<Rightarrow> Event" where
  "EntryEvent b now eventType r requestID extra =
     (let ev = NewEvent b now SourceGateway eventType;
          data = [(''path'', JStr (Path r)), (''method'', JStr (Method r)), (''request_id'', JStr requestID)];
          ip = entry_clientIP r;
          data = (if ip \<noteq> [] then map_put ''client_ip'' (JStr ip) data else data)
      in ev\<lparr>EvSubject := Method r @ '' '' @ Path r, EvData := Some (map_put_all extra data)\<rparr>)"

section \<open>Emitters\<close>

record http_emitter =
  em_baseURL :: string
  em_token :: string

definition NewHTTPEmitter :: "string \<Rightarrow> string \<Rightarrow> http_emitter" where
  "NewHTTPEmitter baseURL token = \<lparr>em_baseURL = TrimRight baseURL (CHR ''/''), em_token = token\<rparr>"

definition emitter_Enabled :: "http_emitter option \<Rightarrow> bool" where
  "emitter_Enabled e \<longleftrightarrow> (case e of None \<Rightarrow> False | Some e \<Rightarrow> em_baseURL e \<noteq> [])"

text \<open>
  \<open>jenc\<close> prints a value tree; \<open>badURL\<close> is the error of \<^verbatim>\<open>http.NewRequest\<close> on a URL, if any; \<open>urlString\<close> prints
  a path with a query.
\<close>

record json_env =
  jenc :: "json \<Rightarrow> string"
  jdec :: "string \<Rightarrow> json option"
  fmtTime :: "gotime \<Rightarrow> string"
  badURL :: "string \<Rightarrow> goerr option"
  urlString :: "string \<Rightarrow> (string \<times> string) list \<Rightarrow> string"

definition emit_request :: "json_env \<Rightarrow> http_emitter \<Rightarrow> Event \<Rightarrow> http_out" where
  "emit_request J e ev =
     (let h = hdr_set ''Content-Type'' ''application/json'' Map.empty;
          h = (if em_token e \<noteq> [] then hdr_set ''X-Internal-Token'' (em_token e) h else h)
      in \<lparr>OMethod = ''POST'', OURL = em_baseURL e @ ''/internal/audit/events'', OHeader = h,
          OBody = jenc J (event_json (fmtTime J) ev)\<rparr>)"

definition HTTPEmitter_Emit ::
  "json_env \<Rightarrow> 'n http_client \<Rightarrow> http_emitter option \<Rightarrow> Event \<Rightarrow> 'n \<Rightarrow> goerr option \<times> 'n" where
  "HTTPEmitter_Emit J cl eo ev n = (case eo of
     None \<Rightarrow> (None, n)
   | Some e \<Rightarrow>
       if em_baseURL e = [] then (None, n)
       else if EvID ev = [] \<or> EvSource ev = [] \<or> EvType ev = []
       then (Some (Errorf ''audit event: id, source, and type are required''), n)
       else (case badURL J (em_baseURL e @ ''/internal/audit/events'') of
         Some err \<Rightarrow> (Some err, n)
       | None \<Rightarrow> (case cl (emit_request J e ev) n of
           (Inl err, n') \<Rightarrow> (Some (Wrapped ''audit post'' err), n')
         | (Inr (status, _), n') \<Rightarrow>
             if status \<ge> 300 then (Some (Errorf ''audit post: status''), n') else (None, n'))))"

text \<open>
  \<^verbatim>\<open>Async\<close> wraps an emitter value (an interface); its \<^verbatim>\<open>Emit\<close> only schedules the delivery, so the model
  appends the event to the list of scheduled events, whose delivery is \<open>deliver\<close>.
\<close>

record async_emitter =
  as_inner :: "http_emitter iface"

definition NewAsync :: "http_emitter iface \<Rightarrow> async_emitter option" where
  "NewAsync inner = (case inner of
     INil \<Rightarrow> None
   | IPtr e \<Rightarrow> if \<not> emitter_Enabled e then None else Some \<lparr>as_inner = inner\<rparr>)"

definition Async_Enabled :: "async_emitter option \<Rightarrow> bool" where
  "Async_Enabled a \<longleftrightarrow> (case a of None \<Rightarrow> False | Some a \<Rightarrow> \<not> iface_is_nil (as_inner a))"

definition Async_Emit :: "async_emitter option \<Rightarrow> Event \<Rightarrow> Event list \<Rightarrow> Event list" where
  "Async_Emit a ev scheduled = (if \<not> Async_Enabled a then scheduled else scheduled @ [ev])"

definition deliver :: "json_env \<Rightarrow> 'n http_client \<Rightarrow> async_emitter \<Rightarrow> Event \<Rightarrow> 'n \<Rightarrow> 'n" where
  "deliver J cl a ev n = (case as_inner a of INil \<Rightarrow> n | IPtr e \<Rightarrow> snd (HTTPEmitter_Emit J cl e ev n))"

text \<open>\<^verbatim>\<open>EmitEntry\<close>: the emitter is an interface, which may hold a nil \<^verbatim>\<open>*Async\<close>.\<close>

definition EmitEntry ::
  "async_emitter iface \<Rightarrow> bytes \<Rightarrow> gotime \<Rightarrow> request \<Rightarrow> string \<Rightarrow> string \<Rightarrow> gomap \<Rightarrow> Event list \<Rightarrow> Event list" where
  "EmitEntry emitter b now r requestID eventType extra scheduled = (case emitter of
     INil \<Rightarrow> scheduled
   | IPtr a \<Rightarrow> Async_Emit a (EntryEvent b now eventType r requestID extra) scheduled)"

definition RequestIDFrom :: "request \<Rightarrow> string" where
  "RequestIDFrom r = req_header r HeaderRequestID"

section \<open>The proto contract\<close>

text \<open>\<^verbatim>\<open>structpb\<close> is the parameter \<open>newStruct\<close> with its inverse \<open>asMap\<close>.\<close>

record 'st AuditEvent =
  PaId :: string
  PaSource :: string
  PaType :: string
  PaSubject :: string
  PaTime :: "gotime option"
  PaTenantId :: string
  PaActorUserId :: string
  PaData :: "'st option"

definition AuditToProto :: "(gomap \<Rightarrow> 'st res) \<Rightarrow> gotime \<Rightarrow> Event \<Rightarrow> 'st AuditEvent res" where
  "AuditToProto newStruct now e =
     (let mk = (\<lambda>data. \<lparr>PaId = EvID e, PaSource = EvSource e, PaType = EvType e, PaSubject = EvSubject e,
           PaTime = Some (if time_IsZero (EvTime e) then now else EvTime e),
           PaTenantId = EvTenantID e, PaActorUserId = EvActorUserID e, PaData = data\<rparr>)
      in case EvData e of
        Some (kv # m) \<Rightarrow> (case newStruct (kv # m) of Inl err \<Rightarrow> Inl err | Inr d \<Rightarrow> Inr (mk (Some d)))
      | _ \<Rightarrow> Inr (mk None))"

definition ValidateAuditEvent :: "(gomap \<Rightarrow> 'st res) \<Rightarrow> gotime \<Rightarrow> Event \<Rightarrow> goerr option" where
  "ValidateAuditEvent newStruct now e = (case AuditToProto newStruct now e of Inl err \<Rightarrow> Some err | Inr _ \<Rightarrow> None)"

definition AuditFromProto :: "('st \<Rightarrow> gomap) \<Rightarrow> 'st AuditEvent option \<Rightarrow> Event" where
  "AuditFromProto asMap mo = (case mo of
     None \<Rightarrow> \<lparr>EvID = [], EvSource = [], EvType = [], EvSubject = [], EvTime = zero_time, EvTenantID = [],
              EvActorUserID = [], EvData = None\<rparr>
   | Some m \<Rightarrow> \<lparr>EvID = PaId m, EvSource = PaSource m, EvType = PaType m, EvSubject = PaSubject m,
       EvTime = (case PaTime m of None \<Rightarrow> zero_time | Some t \<Rightarrow> t), EvTenantID = PaTenantId m,
       EvActorUserID = PaActorUserId m, EvData = map_option asMap (PaData m)\<rparr>)"

section \<open>Facts\<close>

text \<open>The event the ingest handler decodes is the event that was printed.\<close>

definition wire_ok :: "(gotime \<Rightarrow> string) \<Rightarrow> Event \<Rightarrow> bool" where
  "wire_ok fmt e \<longleftrightarrow> parse_rfc3339 True (fmt (EvTime e)) = Some (EvTime e) \<and>
     (case EvData e of None \<Rightarrow> True | Some m \<Rightarrow> m \<noteq> [] \<and> distinct (map fst m))"

lemma foldName_event_keys [simp]:
  "foldName ''id'' = ''id''" "foldName ''source'' = ''source''" "foldName ''type'' = ''type''"
  "foldName ''subject'' = ''subject''" "foldName ''time'' = ''time''" "foldName ''tenant_id'' = ''tenant_id''"
  "foldName ''actor_user_id'' = ''actor_user_id''" "foldName ''data'' = ''data''"
  by code_simp+

lemma map_put_append: "k \<notin> fst ` set acc \<Longrightarrow> map_put k v acc = acc @ [(k, v)]"
  by (induction acc) (auto simp: map_put_def)

lemma map_put_all_append:
  "distinct (map fst m) \<Longrightarrow> fst ` set m \<inter> fst ` set acc = {} \<Longrightarrow> map_put_all m acc = acc @ m"
proof (induction m arbitrary: acc)
  case (Cons kv m)
  obtain k v where kv: "kv = (k, v)" by (cases kv)
  with Cons.prems have "map_put k v acc = acc @ [(k, v)]" by (intro map_put_append) auto
  with Cons kv show ?case by (force simp: Cons.IH)
qed simp

lemma map_put_all_distinct: "distinct (map fst m) \<Longrightarrow> map_put_all m [] = m"
  by (simp add: map_put_all_append)

lemma event_json_roundtrip:
  assumes "wire_ok fmt e"
  shows "event_of_json (event_json fmt e) = Some e"
proof -
  have t: "parse_rfc3339 True (fmt (EvTime e)) = Some (EvTime e)"
    using assms by (simp add: wire_ok_def)
  let ?m = "case event_json fmt e of JObj m \<Rightarrow> m"
  have obj: "dec_object (event_json fmt e) = Some ?m"
    by (simp add: event_json_def dec_object_def)
  have data: "dec_map ''data'' ?m = Some (EvData e)"
    using assms
    by (auto simp: wire_ok_def event_json_def omitempty_def dec_map_def field_vals_def map_put_all_distinct
        simp del: foldName.simps map_put_all_Cons split: option.splits list.splits)
  have strs: "dec_string ''id'' ?m = Some (EvID e)" "dec_string ''source'' ?m = Some (EvSource e)"
    "dec_string ''type'' ?m = Some (EvType e)" "dec_string ''subject'' ?m = Some (EvSubject e)"
    "dec_string ''tenant_id'' ?m = Some (EvTenantID e)" "dec_string ''actor_user_id'' ?m = Some (EvActorUserID e)"
    by (auto simp: event_json_def omitempty_def dec_string_def field_vals_def
        simp del: foldName.simps split: option.splits list.splits)
  have time: "dec_time ''time'' ?m = Some (EvTime e)"
    using t by (auto simp: event_json_def omitempty_def dec_time_def field_vals_def
        simp del: foldName.simps split: option.splits list.splits)
  show ?thesis
    by (simp add: event_of_json_def obj data strs time)
qed

text \<open>An event survives the contract mapping, when \<^verbatim>\<open>structpb\<close> keeps its data.\<close>

lemma AuditFromProto_ToProto:
  assumes "\<not> time_IsZero (EvTime e)" "EvData e \<noteq> Some []"
    and "\<And>m. EvData e = Some m \<Longrightarrow> \<exists>d. newStruct m = Inr d \<and> asMap d = m"
  shows "\<exists>p. AuditToProto newStruct now e = Inr p \<and> AuditFromProto asMap (Some p) = e"
proof (cases "EvData e")
  case None
  with assms(1) show ?thesis by (simp add: AuditToProto_def AuditFromProto_def)
next
  case (Some m)
  with assms obtain kv m' d where "m = kv # m'" "newStruct m = Inr d" "asMap d = m"
    by (metis list.exhaust)
  with Some assms(1) show ?thesis by (simp add: AuditToProto_def AuditFromProto_def)
qed

end
