(* ===== verification/Bff.thy ===== *)
theory Bff
  imports Session GoUrl AuditEvents
begin

text \<open>
  \<^verbatim>\<open>pkg/oidc/client.go\<close> and \<^verbatim>\<open>services/gateway/internal/bff\<close>: the OIDC client, the sign-in, callback,
  sign-out and development sign-in handlers, and the identity of a session cookie. The state is
  that of the Redis server and of the identity provider; random bytes and the clock are arguments.
\<close>

section \<open>OIDC client\<close>

record ClientConfig =
  oIssuer :: string
  oClientID :: string
  oClientSecret :: string
  oRedirectURI :: string
  oScopes :: string
  oResource :: string
  oAuthURL :: string
  oTokenURL :: string

definition oidc_ConfigFromEnv :: "osenv \<Rightarrow> ClientConfig" where
  "oidc_ConfigFromEnv env =
     (let issuer = TrimRight (Env env ''OIDC_ISSUER'' []) (CHR ''/'');
          resource = Env env ''OIDC_RESOURCE'' [];
          resource = (if resource = [] then Env env ''OIDC_AUDIENCE'' [] else resource);
          authURL = Env env ''OIDC_AUTHORIZATION_URL'' [];
          tokenURL = Env env ''OIDC_TOKEN_URL'' [];
          redirect = Env env ''OIDC_REDIRECT_URI'' []
      in \<lparr>oIssuer = issuer, oClientID = Env env ''OIDC_CLIENT_ID'' [],
          oClientSecret = Env env ''OIDC_CLIENT_SECRET'' [],
          oRedirectURI = (if redirect = []
            then TrimRight (Env env ''GATEWAY_PUBLIC_URL'' ''http://127.0.0.1:8080'') (CHR ''/'') @ ''/callback''
            else redirect),
          oScopes = Env env ''OIDC_SCOPES'' ''openid profile email'', oResource = resource,
          oAuthURL = (if authURL = [] \<and> issuer \<noteq> [] then issuer @ ''/auth'' else authURL),
          oTokenURL = (if tokenURL = [] \<and> issuer \<noteq> [] then issuer @ ''/token'' else tokenURL)\<rparr>)"

definition oidc_Ready :: "ClientConfig \<Rightarrow> bool" where
  "oidc_Ready c \<longleftrightarrow> oClientID c \<noteq> [] \<and> oClientSecret c \<noteq> [] \<and> oAuthURL c \<noteq> [] \<and> oTokenURL c \<noteq> [] \<and> oRedirectURI c \<noteq> []"

text \<open>
  \<open>setQuery\<close> is \<^verbatim>\<open>url.Parse\<close> of a base URL followed by setting query values and printing it, \<open>formEncode\<close>
  is \<^verbatim>\<open>url.Values.Encode\<close>.
\<close>

record url_env =
  setQuery :: "string \<Rightarrow> (string \<times> string) list \<Rightarrow> string res"
  formEncode :: "(string \<times> string) list \<Rightarrow> string"

definition AuthorizeURL :: "url_env \<Rightarrow> ClientConfig \<Rightarrow> string \<Rightarrow> string \<Rightarrow> string res" where
  "AuthorizeURL U c state nonce =
     (if \<not> oidc_Ready c then Inl (Errorf ''oidc client not configured'')
      else setQuery U (oAuthURL c)
        ([(''client_id'', oClientID c), (''redirect_uri'', oRedirectURI c), (''response_type'', ''code''),
          (''scope'', oScopes c), (''state'', state), (''nonce'', nonce)]
         @ (if oResource c \<noteq> [] then [(''resource'', oResource c)] else [])))"

record TokenResponse =
  trAccessToken :: string
  trRefreshToken :: string
  trIDToken :: string
  trTokenType :: string
  trExpiresIn :: int

definition token_of_json :: "json \<Rightarrow> TokenResponse option" where
  "token_of_json v =
     Option.bind (dec_object v) (\<lambda>m.
     Option.bind (dec_string ''access_token'' m) (\<lambda>a.
     Option.bind (dec_string ''refresh_token'' m) (\<lambda>r.
     Option.bind (dec_string ''id_token'' m) (\<lambda>i.
     Option.bind (dec_string ''token_type'' m) (\<lambda>t.
     Option.bind (dec_int ''expires_in'' m) (\<lambda>e.
       Some \<lparr>trAccessToken = a, trRefreshToken = r, trIDToken = i, trTokenType = t, trExpiresIn = e\<rparr>))))))"

definition ExchangeCode ::
  "json_env \<Rightarrow> url_env \<Rightarrow> 'n http_client \<Rightarrow> ClientConfig \<Rightarrow> string \<Rightarrow> 'n \<Rightarrow> TokenResponse res \<times> 'n" where
  "ExchangeCode J U cl c code n =
     (if \<not> oidc_Ready c then (Inl (Errorf ''oidc client not configured''), n)
      else (let form = [(''grant_type'', ''authorization_code''), (''code'', code), (''redirect_uri'', oRedirectURI c),
              (''client_id'', oClientID c), (''client_secret'', oClientSecret c)]
              @ (if oResource c \<noteq> [] then [(''resource'', oResource c)] else [])
        in case badURL J (oTokenURL c) of
          Some err \<Rightarrow> (Inl err, n)
        | None \<Rightarrow> (case cl \<lparr>OMethod = ''POST'', OURL = oTokenURL c,
              OHeader = hdr_set ''Content-Type'' ''application/x-www-form-urlencoded'' Map.empty,
              OBody = formEncode U form\<rparr> n of
            (Inl err, n') \<Rightarrow> (Inl (Wrapped ''token request'' err), n')
          | (Inr (status, rd), n') \<Rightarrow> (case rd of
              Inl err \<Rightarrow> (Inl err, n')
            | Inr full \<Rightarrow>
                (if status \<noteq> 200 then (Inl (Errorf ''token endpoint''), n')
                 else (case Option.bind (jdec J (take 1048576 full)) token_of_json of
                   None \<Rightarrow> (Inl (Errorf ''decode token response''), n')
                 | Some tr \<Rightarrow>
                     if trAccessToken tr = [] then (Inl (Errorf ''token response missing access_token''), n')
                     else (Inr tr, n')))))))"

section \<open>Handler state and environment\<close>

record ('r, 'n) bff_state =
  bRedis :: 'r
  bNet :: 'n

record bff_handler =
  hOidc :: ClientConfig
  hSessions :: "sess_store option"
  hVerifier :: verifier
  hAuthCfg :: auth_config
  hRevocations :: "rev_store option"
  hDevLogin :: bool

definition bff_New ::
  "osenv \<Rightarrow> ClientConfig \<Rightarrow> sess_store option \<Rightarrow> verifier \<Rightarrow> auth_config \<Rightarrow> rev_store option \<Rightarrow> bff_handler" where
  "bff_New env oc sessions v ac revs =
     \<lparr>hOidc = oc, hSessions = sessions, hVerifier = v, hAuthCfg = ac, hRevocations = revs,
      hDevLogin = (Env env ''GATEWAY_BFF_DEV_LOGIN'' [] = ''true'')\<rparr>"

text \<open>What the handlers take from outside: libraries, codecs, clients, clock, random bytes, environment.\<close>

record ('r, 'n) bff_env =
  eJwt :: jwt_lib
  eRedis :: "'r redis"
  eData :: "session_data codec"
  ePending :: "PendingLogin codec"
  eJson :: json_env
  eUrl :: url_env
  eHttp :: "'n http_client"
  eNow :: gotime
  eRandom :: "nat \<Rightarrow> bytes res"
  eOs :: osenv

section \<open>Helpers\<close>

definition sessionCookieSecure :: "osenv \<Rightarrow> bool" where
  "sessionCookieSecure env =
     (let v = ToLower (TrimSpace (Env env ''SESSION_COOKIE_SECURE'' [])) in
      if v = ''true'' \<or> v = ''1'' \<or> v = ''yes'' then True
      else if v = ''false'' \<or> v = ''0'' \<or> v = ''no'' then False
      else EqualFold (Env env ''APP_ENV'' []) ''production'')"

definition setSessionCookie :: "osenv \<Rightarrow> bff_handler \<Rightarrow> string \<Rightarrow> gotime \<Rightarrow> writer \<Rightarrow> writer" where
  "setSessionCookie env h sessionID expiresAt w = SetCookie
     \<lparr>CName = CookieName (hSessions h), CValue = sessionID, CPath = ''/'', CHttpOnly = True,
      CSecure = sessionCookieSecure env, CSameSite = ''Lax'', CMaxAge = 0, CExpires = expiresAt\<rparr> w"

definition clearSessionCookie :: "osenv \<Rightarrow> bff_handler \<Rightarrow> writer \<Rightarrow> writer" where
  "clearSessionCookie env h w = SetCookie
     \<lparr>CName = CookieName (hSessions h), CValue = [], CPath = ''/'', CHttpOnly = True,
      CSecure = sessionCookieSecure env, CSameSite = ''Lax'', CMaxAge = - 1, CExpires = zero_time\<rparr> w"

definition devRolesFromQuery :: "string \<Rightarrow> string list" where
  "devRolesFromQuery raw =
     (if raw = [] then [''user'', ''admin'']
      else (let out = filter (\<lambda>p. p \<noteq> []) (map TrimSpace (Split (CHR '','') raw))
            in if out = [] then [''user'', ''admin''] else out))"

definition safeReturnTo :: "string \<Rightarrow> string \<Rightarrow> string" where
  "safeReturnTo raw fallback =
     (if raw = [] then fallback
      else if \<not> HasPrefix raw ''/'' \<or> HasPrefix raw ''//'' then fallback
      else if \<not> rooted_parse_ok raw then fallback
      else raw)"

definition randomHex :: "bytes res \<Rightarrow> string res" where
  "randomHex rnd = (case rnd of Inl err \<Rightarrow> Inl err | Inr b \<Rightarrow> Inr (hex_encode b))"

definition req_cookie :: "request \<Rightarrow> string \<Rightarrow> string option" where
  "req_cookie r name = (if name = [] then None else map_of (Cookies r) name)"

section \<open>Handlers\<close>

text \<open>\<^verbatim>\<open>SignIn\<close>; random draws 0 and 1 are the state and the nonce.\<close>

definition SignIn :: "('r, 'n) bff_env \<Rightarrow> bff_handler \<Rightarrow> ('r, 'n, 'z) bff_state_scheme handler" where
  "SignIn E h r w s =
     (if \<not> oidc_Ready (hOidc h) then Served (fail [] (Internal ''oidc_not_configured''
          ''OIDC BFF not configured; set OIDC_CLIENT_ID/SECRET or use GATEWAY_BFF_DEV_LOGIN'') w) s
      else if \<not> sess_Enabled (hSessions h)
      then Served (fail [] (Internal ''session_unavailable'' ''redis required for BFF sessions'') w) s
      else
        (let returnTo = safeReturnTo (query_get r ''return_to'') ''/'';
             stateErr = (\<lambda>s. Served (fail [] (Internal ''state_error'' ''could not start login'') w) s)
         in case randomHex (eRandom E 0) of
           Inl _ \<Rightarrow> stateErr s
         | Inr state \<Rightarrow> (case randomHex (eRandom E 1) of
             Inl _ \<Rightarrow> stateErr s
           | Inr nonce \<Rightarrow>
               (case SavePending (eRedis E) (ePending E) (eNow E) (hSessions h) state
                   \<lparr>ReturnTo = returnTo, Nonce = nonce\<rparr> (bRedis s) of
                 (Some _, rd) \<Rightarrow> stateErr (s\<lparr>bRedis := rd\<rparr>)
               | (None, rd) \<Rightarrow> (case AuthorizeURL (eUrl E) (hOidc h) state nonce of
                   Inl _ \<Rightarrow> Served (fail [] (Internal ''oidc_error'' ''could not build authorize URL'') w) (s\<lparr>bRedis := rd\<rparr>)
                 | Inr url \<Rightarrow> Served (http_Redirect r url w) (s\<lparr>bRedis := rd\<rparr>))))))"

definition callback_expiry :: "gotime \<Rightarrow> TokenResponse \<Rightarrow> gotime" where
  "callback_expiry now tokens =
     (if trExpiresIn tokens > 0 then now + int64_mul (trExpiresIn tokens) time_Second else now + 24 * time_Hour)"

definition Callback :: "('r, 'n) bff_env \<Rightarrow> bff_handler \<Rightarrow> ('r, 'n, 'z) bff_state_scheme handler" where
  "Callback E h r w s =
     (let errMsg = query_get r ''error''; code = query_get r ''code''; state = query_get r ''state'' in
      if errMsg \<noteq> []
      then Served (fail [] (Unauthorized ''oidc_denied'' (errMsg @ '': '' @ query_get r ''error_description'')) w) s
      else if code = [] \<or> state = []
      then Served (fail [] (BadRequest ''invalid_callback'' ''missing code or state'') w) s
      else (case ConsumePending (eRedis E) (ePending E) (eNow E) (hSessions h) state (bRedis s) of
        (Inl _, rd) \<Rightarrow> Served (fail [] (Unauthorized ''invalid_state'' ''login session expired or invalid'') w) (s\<lparr>bRedis := rd\<rparr>)
      | (Inr pending, rd) \<Rightarrow> (case ExchangeCode (eJson E) (eUrl E) (eHttp E) (hOidc h) code (bNet s) of
          (Inl _, n) \<Rightarrow> Served (fail [] (Unauthorized ''token_exchange_failed'' ''could not complete login'') w)
              (s\<lparr>bRedis := rd, bNet := n\<rparr>)
        | (Inr tokens, n) \<Rightarrow>
            (let token = (if trAccessToken tokens = [] then trIDToken tokens else trAccessToken tokens) in
             case Verify (eJwt E) (eNow E) (hVerifier h) token of
               Inl _ \<Rightarrow> Served (fail [] (Unauthorized ''invalid_token'' ''invalid token from IdP'') w) (s\<lparr>bRedis := rd, bNet := n\<rparr>)
             | Inr idn \<Rightarrow>
                 (let expiresAt = callback_expiry (eNow E) tokens in
                  case sess_Create (eRedis E) (eData E) (eNow E) (eRandom E 0) (hSessions h)
                      \<lparr>AccessToken = trAccessToken tokens, RefreshToken = trRefreshToken tokens, SIdentity = idn,
                       ExpiresAt = expiresAt\<rparr> rd of
                    (Inl _, rd') \<Rightarrow> Served (fail [] (Internal ''session_error'' ''could not create session'') w)
                        (s\<lparr>bRedis := rd', bNet := n\<rparr>)
                  | (Inr sid, rd') \<Rightarrow> Served
                      (http_Redirect r (ReturnTo pending) (setSessionCookie (eOs E) h sid expiresAt w))
                      (s\<lparr>bRedis := rd', bNet := n\<rparr>))))))"

definition SignOut :: "('r, 'n) bff_env \<Rightarrow> bff_handler \<Rightarrow> ('r, 'n, 'z) bff_state_scheme handler" where
  "SignOut E h r w s =
     (let s' = (case req_cookie r (CookieName (hSessions h)) of
            None \<Rightarrow> s
          | Some v \<Rightarrow>
              if v = [] then s
              else (let rd = snd (sess_Delete (eRedis E) (eNow E) (hSessions h) v (bRedis s));
                        rd = (if rev_Enabled (hRevocations h)
                              then snd (RevokeSession (eRedis E) (eNow E) (hRevocations h) v rd) else rd)
                    in s\<lparr>bRedis := rd\<rparr>))
      in Served (http_Redirect r (safeReturnTo (query_get r ''return_to'') ''/'') (clearSessionCookie (eOs E) h w)) s')"

definition DevSignIn :: "('r, 'n) bff_env \<Rightarrow> bff_handler \<Rightarrow> ('r, 'n, 'z) bff_state_scheme handler" where
  "DevSignIn E h r w s =
     (if \<not> hDevLogin h then Served (http_NotFound w) s
      else if \<not> sess_Enabled (hSessions h)
      then Served (fail [] (Internal ''session_unavailable'' ''redis required for BFF sessions'') w) s
      else if DevSecret (hAuthCfg h) = []
      then Served (fail [] (Internal ''dev_auth_unconfigured'' ''set GATEWAY_DEV_JWT_SECRET for dev login'') w) s
      else
        (let userID = (if query_get r ''user_id'' = [] then ''dev-user'' else query_get r ''user_id'');
             tenantID = (if query_get r ''tenant_id'' = [] then ''dev-tenant'' else query_get r ''tenant_id'');
             returnTo = safeReturnTo (query_get r ''return_to'') ''/'';
             roles = devRolesFromQuery (query_get r ''roles'');
             expiresAt = eNow E + 24 * time_Hour
         in case DevToken (eJwt E) (hAuthCfg h) userID tenantID roles (eNow E) (24 * time_Hour) of
           Inl _ \<Rightarrow> Served (fail [] (Internal ''dev_token_error'' ''could not mint dev token'') w) s
         | Inr tok \<Rightarrow> (case Verify (eJwt E) (eNow E) (hVerifier h) tok of
             Inl _ \<Rightarrow> Served (fail [] (Internal ''dev_token_error'' ''dev token verification failed'') w) s
           | Inr idn \<Rightarrow>
               (case sess_Create (eRedis E) (eData E) (eNow E) (eRandom E 0) (hSessions h)
                   \<lparr>AccessToken = tok, RefreshToken = [], SIdentity = idn, ExpiresAt = expiresAt\<rparr> (bRedis s) of
                 (Inl _, rd) \<Rightarrow> Served (fail [] (Internal ''session_error'' ''could not create session'') w) (s\<lparr>bRedis := rd\<rparr>)
               | (Inr sid, rd) \<Rightarrow> Served (http_Redirect r returnTo (setSessionCookie (eOs E) h sid expiresAt w)) (s\<lparr>bRedis := rd\<rparr>)))))"

text \<open>\<^verbatim>\<open>IdentityFromRequest\<close>: the identity and the session id of the cookie.\<close>

definition IdentityFromRequest ::
  "jwt_lib \<Rightarrow> 'r redis \<Rightarrow> session_data codec \<Rightarrow> gotime \<Rightarrow> request \<Rightarrow> sess_store option \<Rightarrow> verifier option \<Rightarrow> 'r
    \<Rightarrow> (Identity \<times> string) res \<times> 'r" where
  "IdentityFromRequest L R C now r sessions vo rd = (case vo of
     None \<Rightarrow> (Inl (Errorf ''session auth unavailable''), rd)
   | Some v \<Rightarrow>
       if \<not> sess_Enabled sessions then (Inl (Errorf ''session auth unavailable''), rd)
       else (case req_cookie r (CookieName sessions) of
         None \<Rightarrow> (Inl (Errorf ''no session cookie''), rd)
       | Some c \<Rightarrow>
           if c = [] then (Inl (Errorf ''no session cookie''), rd)
           else (case sess_Get R C now sessions c rd of
             (Inl err, rd') \<Rightarrow> (Inl err, rd')
           | (Inr data, rd') \<Rightarrow> (case Verify L now v (AccessToken data) of
               Inl err \<Rightarrow> (Inl err, snd (sess_Delete R now sessions c rd'))
             | Inr idn \<Rightarrow> (Inr (idn, c), rd')))))"

section \<open>Redirect targets\<close>

lemma rooted_append: "rooted p \<Longrightarrow> q = [] \<or> hd q \<noteq> CHR ''/'' \<or> 2 \<le> length p \<Longrightarrow> rooted (p @ q)"
  by (cases p; cases "tl p"; cases q) (auto simp: rooted_def HasPrefix_def)

lemma rooted_last: "rooted p \<Longrightarrow> last p \<noteq> CHR ''/'' \<Longrightarrow> 2 \<le> length p"
  by (cases p; cases "tl p") (auto simp: rooted_def HasPrefix_def)

lemma dropWhile_hd: "dropWhile P xs = [] \<or> \<not> P (hd (dropWhile P xs))"
  by (induction xs) auto

lemma redirect_target_rooted:
  assumes "rooted url"
  shows "rooted (redirect_target url)"
proof (cases "rooted_parse_ok url")
  case True
  let ?p = "takeWhile (\<lambda>c. c \<noteq> CHR ''?'') url" and ?q = "dropWhile (\<lambda>c. c \<noteq> CHR ''?'') url"
  have "HasPrefix ?p ''/''"
    using assms by (cases url) (auto simp: rooted_def HasPrefix_def)
  then have cl: "rooted (path_Clean ?p)" by (rule path_Clean_rooted)
  have q: "?q = [] \<or> hd ?q \<noteq> CHR ''/''"
    using dropWhile_hd [of "\<lambda>c. c \<noteq> CHR ''?''" url] by auto
  let ?c = "if ?p \<noteq> [] \<and> last ?p = CHR ''/'' \<and> last (path_Clean ?p) \<noteq> CHR ''/'' then path_Clean ?p @ ''/'' else path_Clean ?p"
  have "rooted ?c"
    using cl rooted_last [OF cl] rooted_append [OF cl, of "''/''"] by auto
  then have "rooted (?c @ ?q)" using q by (intro rooted_append) auto
  then show ?thesis using True assms by (simp add: redirect_target_def Let_def)
qed (use assms in \<open>simp add: redirect_target_def\<close>)

lemma safeReturnTo_rooted: "rooted fallback \<Longrightarrow> rooted (safeReturnTo raw fallback)"
  by (simp add: safeReturnTo_def rooted_def)

text \<open>
  Whatever \<^verbatim>\<open>return_to\<close> a client sends, the redirect after sign-out or development sign-in goes to a
  path that starts with one slash and not with two, so it has neither scheme nor host.
\<close>

theorem return_to_stays_local: "rooted (redirect_target (safeReturnTo raw ''/''))"
  by (intro redirect_target_rooted safeReturnTo_rooted) (simp add: rooted_def HasPrefix_def)

text \<open>
  The check lets a slash followed by a backslash through unchanged, which browsers read as the start of
  a host name.
\<close>

theorem return_to_backslash:
  "redirect_target (safeReturnTo (CHR ''/'' # CHR 0x5C # ''evil.example/x'') ''/'') = CHR ''/'' # CHR 0x5C # ''evil.example/x''"
  by code_simp

section \<open>The login flow\<close>

definition login_data :: "gotime \<Rightarrow> TokenResponse \<Rightarrow> Identity \<Rightarrow> session_data" where
  "login_data now tokens idn = \<lparr>AccessToken = trAccessToken tokens, RefreshToken = trRefreshToken tokens, SIdentity = idn,
     ExpiresAt = callback_expiry now tokens\<rparr>"

lemma IdentityFromRequest_session:
  assumes "sess_rdb ss" "req_cookie r (sess_cookieName ss) = Some sid" "sid \<noteq> []"
    and "sess_Get R C now (Some ss) sid rd = (Inr data, rd)" "Verify L now v (AccessToken data) = Inr idn"
  shows "IdentityFromRequest L R C now r (Some ss) (Some v) rd = (Inr (idn, sid), rd)"
  using assms by (simp add: IdentityFromRequest_def sess_Enabled_def CookieName_def)

lemma ExchangeCode_AccessToken: "ExchangeCode J U cl c code n = (Inr tokens, n') \<Longrightarrow> trAccessToken tokens \<noteq> []"
  by (auto simp: ExchangeCode_def Let_def split: if_splits option.splits prod.splits sum.splits)

lemma login_session:
  assumes laws: "redis_laws (eRedis E) view" and up: "redis_up (eRedis E) view"
    and ss: "hSessions h = Some ss" "sess_rdb ss" "0 < sess_ttl ss"
    and q: "query_get r ''error'' = []" "query_get r ''code'' = code" "query_get r ''state'' = state" "code \<noteq> []" "state \<noteq> []"
    and pending: "ConsumePending (eRedis E) (ePending E) (eNow E) (Some ss) state (bRedis s) = (Inr p, rd)"
    and tokens: "ExchangeCode (eJson E) (eUrl E) (eHttp E) (hOidc h) code (bNet s) = (Inr tokens, n)"
    and verify: "Verify (eJwt E) (eNow E) (hVerifier h) (trAccessToken tokens) = Inr idn"
    and rnd: "eRandom E 0 = Inr b" "b \<noteq> []"
    and codec: "codec_ok (eData E) (login_data (eNow E) tokens idn)"
  shows "\<exists>s'. Callback E h r w s = Served (http_Redirect r (ReturnTo p)
        (setSessionCookie (eOs E) h (hex_encode b) (callback_expiry (eNow E) tokens) w)) s' \<and>
     (\<forall>t' r' idn'. eNow E \<le> t' \<longrightarrow> t' < eNow E + px (save_ttl (eNow E) ss (login_data (eNow E) tokens idn)) \<longrightarrow>
        t' \<le> callback_expiry (eNow E) tokens \<longrightarrow> req_cookie r' (sess_cookieName ss) = Some (hex_encode b) \<longrightarrow>
        Verify (eJwt E) t' (hVerifier h) (trAccessToken tokens) = Inr idn' \<longrightarrow>
        IdentityFromRequest (eJwt E) (eRedis E) (eData E) t' r' (Some ss) (Some (hVerifier h)) (bRedis s')
          = (Inr (idn', hex_encode b), bRedis s'))"
proof -
  let ?data = "login_data (eNow E) tokens idn"
  obtain raw where raw: "marshal (eData E) ?data = Inr raw" "unmarshal (eData E) raw = Inr ?data"
    using codec by (auto simp: codec_ok_def)
  obtain rd' where create: "sess_Create (eRedis E) (eData E) (eNow E) (Inr b) (Some ss) ?data rd = (Inr (hex_encode b), rd')"
    and view: "\<And>t' k. eNow E \<le> t' \<Longrightarrow> view rd' t' k = (if k = sess_prefix ss @ hex_encode b
       then (if t' < eNow E + px (save_ttl (eNow E) ss ?data) then Some raw else None) else view rd t' k)"
    using sess_Create_view [OF laws up ss(2,3) raw(1)] by blast
  have cb: "Callback E h r w s = Served (http_Redirect r (ReturnTo p)
        (setSessionCookie (eOs E) h (hex_encode b) (callback_expiry (eNow E) tokens) w)) (s\<lparr>bRedis := rd', bNet := n\<rparr>)"
    using q ss pending tokens verify rnd create ExchangeCode_AccessToken [OF tokens]
    by (simp add: Callback_def Let_def login_data_def)
  have "IdentityFromRequest (eJwt E) (eRedis E) (eData E) t' r' (Some ss) (Some (hVerifier h)) rd'
      = (Inr (idn', hex_encode b), rd')"
    if "eNow E \<le> t'" "t' < eNow E + px (save_ttl (eNow E) ss ?data)" "t' \<le> callback_expiry (eNow E) tokens"
      "req_cookie r' (sess_cookieName ss) = Some (hex_encode b)" "Verify (eJwt E) t' (hVerifier h) (trAccessToken tokens) = Inr idn'"
    for t' r' idn'
  proof (rule IdentityFromRequest_session [OF ss(2) that(4)])
    show "sess_Get (eRedis E) (eData E) t' (Some ss) (hex_encode b) rd' = (Inr ?data, rd')"
      by (rule sess_Get_visible [OF up ss(2) _ _ raw(2)]) (use that rnd view in \<open>auto simp: login_data_def\<close>)
  qed (use that rnd in \<open>simp_all add: login_data_def\<close>)
  with cb show ?thesis by auto
qed

text \<open>
  C22 A login that goes through (pending state found, code exchanged, token accepted) sets the session cookie, and
  from then on, until the session expires, a request with that cookie is identified by whatever the verifier
  reads from the stored access token.
\<close>

theorem login_establishes_session:
  assumes laws: "redis_laws (eRedis E) view" and up: "redis_up (eRedis E) view"
    and ss: "hSessions h = Some ss" "sess_rdb ss" "0 < sess_ttl ss"
    and q: "query_get r ''error'' = []" "query_get r ''code'' = code" "query_get r ''state'' = state" "code \<noteq> []" "state \<noteq> []"
    and pending: "ConsumePending (eRedis E) (ePending E) (eNow E) (Some ss) state (bRedis s) = (Inr p, rd)"
    and tokens: "ExchangeCode (eJson E) (eUrl E) (eHttp E) (hOidc h) code (bNet s) = (Inr tokens, n)"
    and verify: "Verify (eJwt E) (eNow E) (hVerifier h) (trAccessToken tokens) = Inr idn"
    and rnd: "eRandom E 0 = Inr b" "b \<noteq> []"
    and codec: "codec_ok (eData E) (login_data (eNow E) tokens idn)"
  shows "\<exists>s'. Callback E h r w s = Served (http_Redirect r (ReturnTo p)
        (setSessionCookie (eOs E) h (hex_encode b) (callback_expiry (eNow E) tokens) w)) s' \<and>
     (\<forall>t' r' idn'. eNow E \<le> t' \<longrightarrow> t' < eNow E + px (save_ttl (eNow E) ss (login_data (eNow E) tokens idn)) \<longrightarrow>
        t' \<le> callback_expiry (eNow E) tokens \<longrightarrow> req_cookie r' (sess_cookieName ss) = Some (hex_encode b) \<longrightarrow>
        Verify (eJwt E) t' (hVerifier h) (trAccessToken tokens) = Inr idn' \<longrightarrow>
        IdentityFromRequest (eJwt E) (eRedis E) (eData E) t' r' (Some ss) (Some (hVerifier h)) (bRedis s')
          = (Inr (idn', hex_encode b), bRedis s'))"
  using assms by (rule login_session)

lemma setSessionCookie_WSent [simp]: "WSent (setSessionCookie env h sid t w) = WSent w"
  by (simp add: setSessionCookie_def SetCookie_def)

lemma WCookies_fail [simp]: "WCookies (fail rid e w) = WCookies w"
  by (auto simp: WriteError_def ErrorToProto_def respond_JSON_def go_defs Let_def split: option.splits)

text \<open>
  The callback sets a cookie only after it found and consumed the pending state, exchanged the code, and
  the verifier accepted the token it received.
\<close>

theorem callback_cookie_needs_verification:
  assumes "Callback E h r w s = Served w' s'" "WCookies w' \<noteq> WCookies w"
  shows "\<exists>p rd tokens n idn. query_get r ''error'' = [] \<and> query_get r ''code'' \<noteq> [] \<and> query_get r ''state'' \<noteq> [] \<and>
     ConsumePending (eRedis E) (ePending E) (eNow E) (hSessions h) (query_get r ''state'') (bRedis s) = (Inr p, rd) \<and>
     ExchangeCode (eJson E) (eUrl E) (eHttp E) (hOidc h) (query_get r ''code'') (bNet s) = (Inr tokens, n) \<and>
     Verify (eJwt E) (eNow E) (hVerifier h) (trAccessToken tokens) = Inr idn"
proof -
  note ex = ExchangeCode_AccessToken [of "eJson E" "eUrl E" "eHttp E" "hOidc h" "query_get r ''code''" "bNet s"]
  show ?thesis
    using assms ex
    by (auto simp: Callback_def Let_def split: if_splits prod.splits sum.splits)
qed


end
