(* ===== verification/Guards.thy ===== *)
theory Guards
  imports Httpx
begin

text \<open>
  The contract shared by the access-control middlewares: a guard either hands a (possibly
  rewritten) request to the next handler, once, or answers itself without calling it. The locale
  \<open>guard\<close> states it and proves its consequences; it is interpreted on the middlewares of
  \<^verbatim>\<open>pkg/httpx\<close> here and on the gateway's rate limiter and authentication in their theories.
\<close>

section \<open>The contract\<close>

locale guard =
  fixes mw :: "'s handler \<Rightarrow> 's handler"
    and admit :: "request \<Rightarrow> writer \<Rightarrow> 's \<Rightarrow> (request \<times> writer \<times> 's) option"
    and reject :: "request \<Rightarrow> writer \<Rightarrow> 's \<Rightarrow> writer \<times> 's"
  assumes guard_law: "mw next_h r w s =
    (case admit r w s of
       Some (r', w', s') \<Rightarrow> next_h r' w' s'
     | None \<Rightarrow> (case reject r w s of (w', s') \<Rightarrow> Served w' s'))"
begin

lemma admitted: "admit r w s = Some (r', w', s') \<Longrightarrow> mw next_h r w s = next_h r' w' s'"
  by (simp add: guard_law)

lemma rejected: "admit r w s = None \<Longrightarrow> mw next_h r w s = Served (fst (reject r w s)) (snd (reject r w s))"
  by (simp add: guard_law split: prod.split)

text \<open>A refused request is answered the same way whatever the next handler is.\<close>

lemma next_irrelevant: "admit r w s = None \<Longrightarrow> mw h1 r w s = mw h2 r w s"
  by (simp add: guard_law)

text \<open>The next handler can influence the result only when the request was admitted.\<close>

lemma depends_iff: "(\<exists>h1 h2. mw h1 r w s \<noteq> mw h2 r w s) \<longleftrightarrow> admit r w s \<noteq> None"
proof
  assume "admit r w s \<noteq> None"
  then obtain r' w' s' where a: "admit r w s = Some (r', w', s')" by auto
  show "\<exists>h1 h2. mw h1 r w s \<noteq> mw h2 r w s"
    by (rule exI [of _ "\<lambda>_ w s. Panicked ''a'' w s"], rule exI [of _ "\<lambda>_ w s. Served w s"]) (simp add: admitted [OF a])
qed (metis next_irrelevant)

text \<open>A panic can only come from the next handler.\<close>

lemma panic_from_next:
  "mw next_h r w s = Panicked m w' s' \<Longrightarrow> \<exists>r1 w1 s1. admit r w s = Some (r1, w1, s1) \<and> next_h r1 w1 s1 = Panicked m w' s'"
  by (auto simp: guard_law split: option.splits prod.splits)

end

text \<open>
  Guards compose: the inner one decides on the request the outer one admitted. Together they are a guard again, so that all the
  above holds of the pair.
\<close>

definition seq_admit ::
  "(request \<Rightarrow> writer \<Rightarrow> 's \<Rightarrow> (request \<times> writer \<times> 's) option) \<Rightarrow> (request \<Rightarrow> writer \<Rightarrow> 's \<Rightarrow> (request \<times> writer \<times> 's) option)
    \<Rightarrow> request \<Rightarrow> writer \<Rightarrow> 's \<Rightarrow> (request \<times> writer \<times> 's) option" where
  "seq_admit a1 a2 r w s = Option.bind (a1 r w s) (\<lambda>(r1, w1, s1). a2 r1 w1 s1)"

definition seq_reject ::
  "(request \<Rightarrow> writer \<Rightarrow> 's \<Rightarrow> (request \<times> writer \<times> 's) option) \<Rightarrow> (request \<Rightarrow> writer \<Rightarrow> 's \<Rightarrow> writer \<times> 's) \<Rightarrow> (request \<Rightarrow> writer \<Rightarrow> 's \<Rightarrow> writer \<times> 's)
    \<Rightarrow> request \<Rightarrow> writer \<Rightarrow> 's \<Rightarrow> writer \<times> 's" where
  "seq_reject a1 j1 j2 r w s = (case a1 r w s of Some (r1, w1, s1) \<Rightarrow> j2 r1 w1 s1 | None \<Rightarrow> j1 r w s)"

locale guard_pair = outer: guard mw1 admit1 reject1 + inner: guard mw2 admit2 reject2
  for mw1 :: "'s handler \<Rightarrow> 's handler" and admit1 reject1
    and mw2 :: "'s handler \<Rightarrow> 's handler" and admit2 reject2

sublocale guard_pair \<subseteq> both: guard "\<lambda>h. mw1 (mw2 h)" "seq_admit admit1 admit2" "seq_reject admit1 reject1 reject2"
  by unfold_locales (simp add: outer.guard_law inner.guard_law seq_admit_def seq_reject_def split: option.splits prod.splits)

section \<open>The service middlewares\<close>

text \<open>What each middleware admits, and its refusal.\<close>

definition pass_if :: "(request \<Rightarrow> bool) \<Rightarrow> request \<Rightarrow> writer \<Rightarrow> 's \<Rightarrow> (request \<times> writer \<times> 's) option" where
  "pass_if P r w s = (if P r then Some (r, w, s) else None)"

definition trust_pass :: "string \<Rightarrow> request \<Rightarrow> bool" where
  "trust_pass token r \<longleftrightarrow> token = [] \<or> gatewayTrustSkipped (Path r) \<or> internalTokenOK r token"

definition trust_reject :: "request \<Rightarrow> writer \<Rightarrow> 's \<Rightarrow> writer \<times> 's" where
  "trust_reject r w s =
     (fail (req_header r HeaderRequestID) (Unauthorized ''untrusted_caller'' ''request must come through Gateway'') w, s)"

definition internal_pass :: "string \<Rightarrow> request \<Rightarrow> bool" where
  "internal_pass token r \<longleftrightarrow> token \<noteq> [] \<and> internalTokenOK r token"

definition internal_reject :: "string \<Rightarrow> request \<Rightarrow> writer \<Rightarrow> 's \<Rightarrow> writer \<times> 's" where
  "internal_reject token r w s =
     (fail (req_header r HeaderRequestID)
        (if token = [] then Internal ''internal_auth_misconfigured'' ''internal auth not configured''
         else Unauthorized ''unauthorized'' ''invalid internal token'') w, s)"

text \<open>\<open>TrustedAuth\<close> and \<open>TrustedRole\<close> also put the identity of the headers into the context.\<close>

definition header_identity :: "request \<Rightarrow> Identity" where
  "header_identity r = FromHeaders (Header r)"

definition user_admit :: "request \<Rightarrow> writer \<Rightarrow> 's \<Rightarrow> (request \<times> writer \<times> 's) option" where
  "user_admit r w s =
     (if Authenticated (header_identity r) then Some (NewContext (header_identity r) r, w, s) else None)"

definition user_reject :: "request \<Rightarrow> writer \<Rightarrow> 's \<Rightarrow> writer \<times> 's" where
  "user_reject r w s =
     (fail (RequestID (header_identity r)) (Unauthorized ''unauthenticated'' ''authentication required'') w, s)"

definition role_admit :: "string \<Rightarrow> request \<Rightarrow> writer \<Rightarrow> 's \<Rightarrow> (request \<times> writer \<times> 's) option" where
  "role_admit role r w s =
     (if Authenticated (header_identity r) \<and> HasRole (header_identity r) role
      then Some (NewContext (header_identity r) r, w, s) else None)"

definition role_reject :: "string \<Rightarrow> request \<Rightarrow> writer \<Rightarrow> 's \<Rightarrow> writer \<times> 's" where
  "role_reject role r w s =
     (if \<not> Authenticated (header_identity r) then user_reject r w s
      else (fail (RequestID (header_identity r)) (Forbidden ''forbidden'' (role @ '' role required'')) w, s))"

interpretation trust: guard "GatewayTrust token" "pass_if (trust_pass token)" trust_reject
  by unfold_locales (auto simp: GatewayTrust_def pass_if_def trust_pass_def trust_reject_def Let_def)

interpretation internal: guard "InternalAuth token" "pass_if (internal_pass token)" "internal_reject token"
  by unfold_locales (auto simp: InternalAuth_def pass_if_def internal_pass_def internal_reject_def Let_def)

interpretation user: guard TrustedAuth user_admit user_reject
  by unfold_locales
    (auto simp: TrustedAuth_def identity_Middleware_def RequireAuthenticated_def user_admit_def user_reject_def
      header_identity_def NewContext_def FromContext_def)

interpretation role: guard "TrustedRole role" "role_admit role" "role_reject role"
  by unfold_locales
    (auto simp: TrustedRole_def identity_Middleware_def RequireRole_def role_admit_def role_reject_def
      user_reject_def header_identity_def NewContext_def FromContext_def)

text \<open>The stack of every service: first the gateway check, then the identity check.\<close>

interpretation trust_user: guard_pair "GatewayTrust token" "pass_if (trust_pass token)" trust_reject
  TrustedAuth user_admit user_reject
  by unfold_locales

interpretation trust_role: guard_pair "GatewayTrust token" "pass_if (trust_pass token)" trust_reject
  "TrustedRole role" "role_admit role" "role_reject role"
  by unfold_locales

lemmas guard_defs = pass_if_def trust_pass_def trust_reject_def internal_pass_def internal_reject_def
  user_admit_def user_reject_def role_admit_def role_reject_def header_identity_def

section \<open>The stack of a service\<close>

text \<open>
  The middlewares around the routes of a service add a request id and a trace header and otherwise hand the request on;
  what the routes serve is what the service serves.
\<close>

lemma service_stack:
  assumes "trust_pass token r"
  shows "\<exists>hd w'. WSent w' = None \<and> WBody w' = [] \<and> (\<forall>k. k \<notin> {''X-Request-Id'', ''Traceparent''} \<longrightarrow> hd k = Header r k) \<and>
    (\<forall>s w'' s'. h (r\<lparr>Header := hd\<rparr>) w' s = Served w'' s' \<longrightarrow>
      Chain h [GatewayTrust token, RequestID_mw b0, Recover, AccessLog, TraceContext b1 b2] r new_writer s = Served w'' s')"
proof -
  define rid where "rid = (if req_header r HeaderRequestID = [] then NewRequestID b0 else req_header r HeaderRequestID)"
  define h1 where "h1 = (if req_header r HeaderRequestID = [] then hdr_set HeaderRequestID rid (Header r) else Header r)"
  define w1 where "w1 = SetRespHeader HeaderRequestID rid new_writer"
  obtain hd w' where e: "EnsureRequest b1 b2 h1 w1 = (hd, w')" by fastforce
  have keys: "hd k = Header r k" if "k \<notin> {''X-Request-Id'', ''Traceparent''}" for k
    using e that
    by (auto simp: EnsureRequest_def Let_def h1_def hdr_set_def header_names HeaderTraceparent_def split: if_splits)
  have blank: "WSent w' = None" "WBody w' = []"
    using e by (auto simp: EnsureRequest_def Let_def w1_def split: if_splits)
  have "Chain h [GatewayTrust token, RequestID_mw b0, Recover, AccessLog, TraceContext b1 b2] r new_writer s = Served w'' s'"
    if "h (r\<lparr>Header := hd\<rparr>) w' s = Served w'' s'" for s w'' s'
  proof -
    have "Chain h [GatewayTrust token, RequestID_mw b0, Recover, AccessLog, TraceContext b1 b2] r new_writer s =
        RequestID_mw b0 (Recover (TraceContext b1 b2 h)) r new_writer s"
      using assms by (simp add: Chain_def numeral_eq_Suc pass_if_def trust.guard_law)
    also have "\<dots> = Recover (TraceContext b1 b2 h) (r\<lparr>Header := h1\<rparr>) w1 s"
      by (simp add: RequestID_mw_def Let_def h1_def rid_def w1_def)
    also have "\<dots> = Served w'' s'" using that e by (simp add: Recover_def TraceContext_def)
    finally show ?thesis .
  qed
  with keys blank show ?thesis by blast
qed

section \<open>Properties\<close>

text \<open>
  On a service route, a request without the gateway's token is refused with 401 and reaches no
  handler, whatever identity headers it carries.
\<close>

theorem forged_headers_rejected:
  assumes "token \<noteq> []" "\<not> gatewayTrustSkipped (Path r)"
    and "req_header r ''X-Internal-Token'' \<noteq> token" "req_header r ''Authorization'' \<noteq> ''Bearer '' @ token"
    and "WSent w = None" "WBody w = []"
  shows "\<exists>w'. GatewayTrust token (TrustedRole role next_h) r w s = Served w' s \<and>
     final_status w' = 401 \<and> error_code w' = Some ''untrusted_caller''"
proof -
  have "pass_if (trust_pass token) r w s = None"
    using assms by (simp add: guard_defs internalTokenOK_iff)
  from trust.rejected [OF this] assms(5,6) show ?thesis
    by (simp add: trust_reject_def)
qed

theorem forged_headers_rejected_witness:
  "\<exists>w'. GatewayTrust ''s3cret'' (TrustedRole ''admin'' (\<lambda>r w s. Panicked [] w s))
      \<lparr>Method = ''GET'', Path = ''/v1/users'', Query = [], Header = Map.empty(''X-User-Id'' \<mapsto> [''root''], ''X-Roles'' \<mapsto> [''admin'']),
       Cookies = [], Body = Inr [], RemoteAddr = [], PathValues = [], Ctx = None\<rparr> new_writer (0::nat) = Served w' 0
     \<and> final_status w' = 401 \<and> error_code w' = Some ''untrusted_caller''"
  by (rule forged_headers_rejected) (simp_all add: gatewayTrustSkipped_def HasPrefix_def req_header_def hdr_get_def)

text \<open>
  A role-protected route reaches its handler exactly when the request passed the gateway check and
  its headers carry a user id and the role; the handler then sees that identity in its context.
\<close>

theorem role_route_reached:
  "(\<exists>h1 h2. GatewayTrust token (TrustedRole role h1) r w s \<noteq> GatewayTrust token (TrustedRole role h2) r w s)
     \<longleftrightarrow> trust_pass token r \<and> UserID (FromHeaders (Header r)) \<noteq> [] \<and> role \<noteq> [] \<and> role \<in> set (Roles (FromHeaders (Header r)))"
proof -
  show ?thesis
    by (subst trust_role.both.depends_iff)
      (auto simp: seq_admit_def guard_defs Authenticated_def HasRole_iff split: if_splits)
qed

end
