(* ===== verification/GatewayAuth.thy ===== *)
theory GatewayAuth
  imports Bff Guards
begin

text \<open>
  \<^verbatim>\<open>services/gateway/internal/auth\<close> and \<^verbatim>\<open>identityresolve\<close>: anonymous and sensitive path rules, the call
  that maps an identity provider's subject to a platform user, the revocation check, and the
  \<^verbatim>\<open>Authenticate\<close> middleware. \<open>Authenticate\<close> is shown to satisfy the \<open>guard\<close> contract.
\<close>

section \<open>Anonymous paths\<close>

record AnonPrefixes =
  exact :: "string list"
  prefix_rules :: "string list"

definition defaultAnonEnv :: string where
  "defaultAnonEnv = ''=/healthz,=/readyz,=/metrics,=/sign-in,=/callback,=/sign-out,=/internal/webhooks/logto,=/,/v1/business/ping,/admin,/v1/auth/''"

definition anon_part :: "AnonPrefixes \<Rightarrow> string \<Rightarrow> AnonPrefixes" where
  "anon_part out part0 =
     (let part = TrimSpace part0 in
      if part = [] then out
      else if HasPrefix part ''='' then
        (let path = TrimSpace (drop 1 part);
             path = (if path \<noteq> [] \<and> \<not> HasPrefix path ''/'' then ''/'' @ path else path)
         in if path \<noteq> [] then out\<lparr>exact := exact out @ [path]\<rparr> else out)
      else (let part = (if \<not> HasPrefix part ''/'' then ''/'' @ part else part)
            in out\<lparr>prefix_rules := prefix_rules out @ [part]\<rparr>))"

definition anon_rules :: "string \<Rightarrow> AnonPrefixes" where
  "anon_rules raw = foldl anon_part \<lparr>exact = [], prefix_rules = []\<rparr> (Split (CHR '','') (TrimSpace raw))"

definition anon_IsEmpty :: "AnonPrefixes \<Rightarrow> bool" where
  "anon_IsEmpty p \<longleftrightarrow> exact p = [] \<and> prefix_rules p = []"

text \<open>\<^verbatim>\<open>ParseAnonPrefixes\<close>: its two recursive calls pass the default, on which neither recurses again.\<close>

definition ParseAnonPrefixes :: "string \<Rightarrow> AnonPrefixes" where
  "ParseAnonPrefixes raw =
     (if TrimSpace raw = [] then anon_rules defaultAnonEnv
      else (let out = anon_rules raw in if anon_IsEmpty out then anon_rules defaultAnonEnv else out))"

definition DefaultAnonPrefixes :: AnonPrefixes where
  "DefaultAnonPrefixes = ParseAnonPrefixes defaultAnonEnv"

definition withExact :: "AnonPrefixes \<Rightarrow> string \<Rightarrow> AnonPrefixes" where
  "withExact p path = (if list_ex (\<lambda>e. e = path) (exact p) then p else p\<lparr>exact := exact p @ [path]\<rparr>)"

definition ResolveAnonPrefixes :: "osenv \<Rightarrow> AnonPrefixes" where
  "ResolveAnonPrefixes env =
     (let rules = ParseAnonPrefixes (Env env ''GATEWAY_ANON_PREFIXES'' []) in
      if Env env ''GATEWAY_BFF_DEV_LOGIN'' [] = ''true'' then withExact rules ''/sign-in/dev'' else rules)"

definition AnonPrefixesFromEnv :: "osenv \<Rightarrow> AnonPrefixes" where
  "AnonPrefixesFromEnv env = ParseAnonPrefixes (Env env ''GATEWAY_ANON_PREFIXES'' [])"

definition anon_Allows :: "AnonPrefixes \<Rightarrow> string \<Rightarrow> bool" where
  "anon_Allows p path =
     (if list_ex (\<lambda>e. path = e) (exact p) then True else list_ex (HasPrefix path) (prefix_rules p))"

section \<open>Sensitive paths\<close>

type_synonym SensitivePrefixes = "string list"

definition defaultSensitiveEnv :: string where "defaultSensitiveEnv = ''/v1/files/''"

definition sensitive_rules :: "string \<Rightarrow> SensitivePrefixes" where
  "sensitive_rules raw =
     map (\<lambda>part. if \<not> HasPrefix part ''/'' then ''/'' @ part else part)
       (filter (\<lambda>part. part \<noteq> []) (map TrimSpace (Split (CHR '','') (TrimSpace raw))))"

definition ParseSensitivePrefixes :: "string \<Rightarrow> SensitivePrefixes" where
  "ParseSensitivePrefixes raw =
     (if TrimSpace raw = [] then sensitive_rules defaultSensitiveEnv else sensitive_rules raw)"

definition ResolveSensitivePrefixes :: "osenv \<Rightarrow> SensitivePrefixes" where
  "ResolveSensitivePrefixes env =
     (let raw = Env env ''GATEWAY_SENSITIVE_PREFIXES'' [] in
      if raw = ''-'' \<or> raw = ''none'' then [] else ParseSensitivePrefixes raw)"

definition RequiresRevocationCheck :: "SensitivePrefixes \<Rightarrow> string \<Rightarrow> bool" where
  "RequiresRevocationCheck p path = list_ex (HasPrefix path) p"

section \<open>Identity resolution\<close>

record resolver =
  res_baseURL :: string
  res_token :: string

definition res_NewClient :: "string \<Rightarrow> string \<Rightarrow> resolver option" where
  "res_NewClient authServiceURL internalToken =
     (let u = TrimRight (TrimSpace authServiceURL) (CHR ''/'') in
      if u = [] then None else Some \<lparr>res_baseURL = u, res_token = internalToken\<rparr>)"

definition res_FromEnv :: "osenv \<Rightarrow> resolver option" where
  "res_FromEnv env = res_NewClient (Env env ''AUTH_SERVICE_URL'' ''http://127.0.0.1:8084'') (Env env ''INTERNAL_API_TOKEN'' [])"

text \<open>\<open>jdec J\<close> reads the first value of the response, as the streaming decoder does.\<close>

definition res_resolve ::
  "json_env \<Rightarrow> 'n http_client \<Rightarrow> resolver \<Rightarrow> string \<Rightarrow> string \<Rightarrow> string \<Rightarrow> 'n \<Rightarrow> string res \<times> 'n" where
  "res_resolve J cl c provider providerUID requestID n =
     (let url = res_baseURL c @ ''/internal/identity/resolve'';
          h = hdr_set ''Content-Type'' ''application/json'' Map.empty;
          h = (if res_token c \<noteq> [] then hdr_set ''X-Internal-Token'' (res_token c) h else h);
          h = (if requestID \<noteq> [] then hdr_set HeaderRequestID requestID h else h)
      in case badURL J url of
        Some err \<Rightarrow> (Inl err, n)
      | None \<Rightarrow> (case cl \<lparr>OMethod = ''POST'', OURL = url, OHeader = h,
            OBody = jenc J (JObj [(''provider'', JStr provider), (''provider_uid'', JStr providerUID)])\<rparr> n of
          (Inl err, n') \<Rightarrow> (Inl err, n')
        | (Inr (status, rd), n') \<Rightarrow>
            (if status \<noteq> 200 then (Inl (Errorf ''identity resolve: status''), n')
             else (case rd of
               Inl err \<Rightarrow> (Inl err, n')
             | Inr body \<Rightarrow> (case Option.bind (Option.bind (jdec J body) dec_object) (dec_string ''user_id'') of
                 None \<Rightarrow> (Inl (Errorf ''decode''), n')
               | Some uid \<Rightarrow> if uid = [] then (Inl (Errorf ''identity resolve: empty user_id''), n') else (Inr uid, n'))))))"

definition ResolveLogto ::
  "json_env \<Rightarrow> 'n http_client \<Rightarrow> resolver option \<Rightarrow> string \<Rightarrow> string \<Rightarrow> 'n \<Rightarrow> string res \<times> 'n" where
  "ResolveLogto J cl co logtoSub requestID n = (case co of
     None \<Rightarrow> (Inl (Errorf ''identity resolver not configured''), n)
   | Some c \<Rightarrow> res_resolve J cl c ''logto'' logtoSub requestID n)"

definition mapPlatformUserID ::
  "json_env \<Rightarrow> 'n http_client \<Rightarrow> resolver option \<Rightarrow> Identity \<Rightarrow> string \<Rightarrow> 'n \<Rightarrow> Identity \<times> 'n" where
  "mapPlatformUserID J cl co idn requestID n =
     (if co = None \<or> Subject idn = [] then (idn, n)
      else if UserID idn \<noteq> [] \<and> UserID idn \<noteq> Subject idn then (idn, n)
      else (case ResolveLogto J cl co (Subject idn) requestID n of
        (Inl _, n') \<Rightarrow> (idn, n')
      | (Inr userID, n') \<Rightarrow> (idn\<lparr>UserID := userID\<rparr>, n')))"

section \<open>The middleware\<close>

record ('r, 'n) gw = "('r, 'n) bff_state" +
  gAudit :: "Event list"

text \<open>What \<^verbatim>\<open>Authenticate\<close> closes over.\<close>

record auth_mw =
  aVerifier :: "verifier option"
  aSessions :: "sess_store option"
  aAnon :: AnonPrefixes
  aResolver :: "resolver option"
  aEntryAudit :: "async_emitter iface"
  aRevocations :: "rev_store option"
  aSensitive :: SensitivePrefixes

definition effective_anon :: "auth_mw \<Rightarrow> AnonPrefixes" where
  "effective_anon A = (if anon_IsEmpty (aAnon A) then DefaultAnonPrefixes else aAnon A)"

definition checkRevocation ::
  "'r redis \<Rightarrow> gotime \<Rightarrow> rev_store option \<Rightarrow> Identity \<Rightarrow> string \<Rightarrow> 'r \<Rightarrow> bool \<times> string" where
  "checkRevocation R now revs idn sessionID rd =
     (if \<not> rev_Enabled revs then (False, [])
      else if sessionID \<noteq> [] \<and> IsSessionRevoked R now revs sessionID rd = Inr True then (True, ''auth.session_revoked'')
      else (let subject = (if Subject idn = [] then UserID idn else Subject idn) in
        if subject \<noteq> [] \<and> IsSubjectRevoked R now revs subject rd = Inr True then (True, ''auth.subject_revoked'')
        else (False, [])))"

text \<open>
  The credential step: refuse (with the event to emit, if any), or go on with an identity, whether it is
  authenticated, and the session id. \<open>r\<close> is the request after stripping, \<open>rid\<close> the new request id.
\<close>

datatype cred = Refuse app_error "(string \<times> string) option" | Go_on Identity bool string

definition credentials ::
  "('r, 'n) bff_env \<Rightarrow> auth_mw \<Rightarrow> request \<Rightarrow> string \<Rightarrow> ('r, 'n, 'z) gw_scheme \<Rightarrow> cred \<times> ('r, 'n, 'z) gw_scheme" where
  "credentials E A r rid s =
     (let bearer = req_header r ''Authorization''; anonymous = Go_on (zero_Identity\<lparr>RequestID := rid\<rparr>) False [] in
      if HasPrefix bearer ''Bearer '' then
        (case aVerifier A of
           None \<Rightarrow> (Refuse (Internal ''auth_unconfigured'' ''jwt verification not configured'') None, s)
         | Some v \<Rightarrow>
             if \<not> verifier_Enabled v
             then (Refuse (Internal ''auth_unconfigured'' ''jwt verification not configured'') None, s)
             else (case Verify (eJwt E) (eNow E) v (TrimSpace (TrimPrefix bearer ''Bearer '')) of
               Inl _ \<Rightarrow> (Refuse (Unauthorized ''invalid_token'' ''invalid or expired token'')
                          (Some (''api.token.invalid'', ''invalid_token'')), s)
             | Inr verified \<Rightarrow>
                 (case mapPlatformUserID (eJson E) (eHttp E) (aResolver A) (verified\<lparr>RequestID := rid\<rparr>) rid (bNet s) of
                   (idn, n) \<Rightarrow> (Go_on idn (UserID idn \<noteq> [] \<or> Subject idn \<noteq> []) [], s\<lparr>bNet := n\<rparr>))))
      else if sess_Enabled (aSessions A) \<and> (case aVerifier A of None \<Rightarrow> False | Some v \<Rightarrow> verifier_Enabled v) then
        (case IdentityFromRequest (eJwt E) (eRedis E) (eData E) (eNow E) r (aSessions A) (aVerifier A) (bRedis s) of
           (Inl _, rd) \<Rightarrow> (anonymous, s\<lparr>bRedis := rd\<rparr>)
         | (Inr (cookieID, sid), rd) \<Rightarrow>
             (case mapPlatformUserID (eJson E) (eHttp E) (aResolver A) (cookieID\<lparr>RequestID := rid\<rparr>) rid (bNet s) of
               (idn, n) \<Rightarrow> (Go_on idn (UserID idn \<noteq> [] \<or> Subject idn \<noteq> []) sid, s\<lparr>bRedis := rd, bNet := n\<rparr>)))
      else (anonymous, s))"

definition emit_entry ::
  "('r, 'n) bff_env \<Rightarrow> auth_mw \<Rightarrow> bytes \<Rightarrow> request \<Rightarrow> string \<Rightarrow> string \<Rightarrow> string \<Rightarrow> ('r, 'n, 'z) gw_scheme \<Rightarrow> ('r, 'n, 'z) gw_scheme" where
  "emit_entry E A evb r rid eventType reason s =
     s\<lparr>gAudit := EmitEntry (aEntryAudit A) evb (eNow E) r rid eventType [(''reason'', JStr reason)] (gAudit s)\<rparr>"

text \<open>\<open>ridb\<close> and \<open>evb\<close> are the random bytes of the request id and of the audit event's id.\<close>

definition Authenticate ::
  "('r, 'n) bff_env \<Rightarrow> auth_mw \<Rightarrow> bytes \<Rightarrow> bytes \<Rightarrow> ('r, 'n, 'z) gw_scheme handler \<Rightarrow> ('r, 'n, 'z) gw_scheme handler" where
  "Authenticate E A ridb evb next_h r0 w0 s0 =
     (let rid = NewRequestID ridb;
          r = r0\<lparr>Header := hdr_set HeaderRequestID rid (StripUntrusted (Header r0))\<rparr>;
          w = SetRespHeader HeaderRequestID rid w0
      in case credentials E A r rid s0 of
        (Refuse err ev, s) \<Rightarrow>
          Served (fail rid err w) (case ev of None \<Rightarrow> s | Some (ty, reason) \<Rightarrow> emit_entry E A evb r rid ty reason s)
      | (Go_on idn authenticated sessionID, s) \<Rightarrow>
          if \<not> authenticated \<and> \<not> anon_Allows (effective_anon A) (Path r)
          then Served (fail rid (Unauthorized ''auth.unauthenticated'' ''authentication required'') w)
                 (emit_entry E A evb r rid ''api.access.denied'' ''auth.unauthenticated'' s)
          else (case (if authenticated \<and> RequiresRevocationCheck (aSensitive A) (Path r)
                      then checkRevocation (eRedis E) (eNow E) (aRevocations A) idn sessionID (bRedis s) else (False, [])) of
            (True, reason) \<Rightarrow> Served (fail rid (Unauthorized ''auth.revoked'' ''credentials have been revoked'') w)
                 (emit_entry E A evb r rid ''api.access.denied'' reason s)
          | (False, _) \<Rightarrow> next_h (r\<lparr>Header := Inject idn (Header r)\<rparr>) w s))"

section \<open>The middleware as a guard\<close>

definition stamped :: "bytes \<Rightarrow> request \<Rightarrow> request" where
  "stamped ridb r = r\<lparr>Header := hdr_set HeaderRequestID (NewRequestID ridb) (StripUntrusted (Header r))\<rparr>"

definition revoked_on :: "('r, 'n) bff_env \<Rightarrow> auth_mw \<Rightarrow> request \<Rightarrow> Identity \<Rightarrow> bool \<Rightarrow> string \<Rightarrow> 'r \<Rightarrow> bool" where
  "revoked_on E A r idn authenticated sid rd \<longleftrightarrow> authenticated \<and> RequiresRevocationCheck (aSensitive A) (Path r) \<and>
     fst (checkRevocation (eRedis E) (eNow E) (aRevocations A) idn sid rd)"

definition auth_admit ::
  "('r, 'n) bff_env \<Rightarrow> auth_mw \<Rightarrow> bytes \<Rightarrow> request \<Rightarrow> writer \<Rightarrow> ('r, 'n, 'z) gw_scheme
    \<Rightarrow> (request \<times> writer \<times> ('r, 'n, 'z) gw_scheme) option" where
  "auth_admit E A ridb r w s =
     (case credentials E A (stamped ridb r) (NewRequestID ridb) s of
        (Refuse err ev, s') \<Rightarrow> None
      | (Go_on idn authenticated sid, s') \<Rightarrow>
          if (authenticated \<or> anon_Allows (effective_anon A) (Path r)) \<and> \<not> revoked_on E A r idn authenticated sid (bRedis s')
          then Some (r\<lparr>Header := Inject idn (Header (stamped ridb r))\<rparr>, SetRespHeader HeaderRequestID (NewRequestID ridb) w, s')
          else None)"

definition auth_reject ::
  "('r, 'n) bff_env \<Rightarrow> auth_mw \<Rightarrow> bytes \<Rightarrow> bytes \<Rightarrow> request \<Rightarrow> writer \<Rightarrow> ('r, 'n, 'z) gw_scheme
    \<Rightarrow> writer \<times> ('r, 'n, 'z) gw_scheme" where
  "auth_reject E A ridb evb r w s =
     (let res = Authenticate E A ridb evb (\<lambda>r w s. Served w s) r w s in (hres_writer res, hres_state res))"

interpretation edge: guard "Authenticate E A ridb evb" "auth_admit E A ridb" "auth_reject E A ridb evb"
  by unfold_locales
    (auto simp: Authenticate_def auth_admit_def auth_reject_def stamped_def revoked_on_def Let_def
      split: prod.splits cred.splits bool.splits)

section \<open>Path rules\<close>

definition rules_rooted :: "AnonPrefixes \<Rightarrow> bool" where
  "rules_rooted p \<longleftrightarrow> list_all (\<lambda>e. HasPrefix e ''/'') (exact p) \<and> list_all (\<lambda>e. HasPrefix e ''/'') (prefix_rules p)"

lemma anon_part_rooted: "rules_rooted p \<Longrightarrow> rules_rooted (anon_part p x)"
  by (auto simp: anon_part_def rules_rooted_def Let_def HasPrefix_def)

lemma anon_fold_rooted: "rules_rooted p \<Longrightarrow> rules_rooted (foldl anon_part p xs)"
  by (induction xs arbitrary: p) (simp_all add: anon_part_rooted)

lemma anon_rules_rooted: "rules_rooted (anon_rules raw)"
  unfolding anon_rules_def by (rule anon_fold_rooted) (simp add: rules_rooted_def)

lemma anon_default:
  "anon_rules defaultAnonEnv =
     \<lparr>exact = [''/healthz'', ''/readyz'', ''/metrics'', ''/sign-in'', ''/callback'', ''/sign-out'', ''/internal/webhooks/logto'', ''/''],
      prefix_rules = [''/v1/business/ping'', ''/admin'', ''/v1/auth/'']\<rparr>"
  by code_simp

lemma DefaultAnonPrefixes_eq: "DefaultAnonPrefixes = anon_rules defaultAnonEnv"
  by (simp add: DefaultAnonPrefixes_def ParseAnonPrefixes_def Let_def anon_default anon_IsEmpty_def)

lemma anon_Allows_iff:
  "anon_Allows p path \<longleftrightarrow> path \<in> set (exact p) \<or> (\<exists>q\<in>set (prefix_rules p). HasPrefix path q)"
  by (auto simp: anon_Allows_def list_ex_iff)

text \<open>
  Whatever \<^verbatim>\<open>GATEWAY_ANON_PREFIXES\<close> holds, the parsed rules are not empty and every one is a
  rooted path, so no rule makes every path anonymous by being the empty prefix.
\<close>

theorem anon_rules_sound:
  "\<not> anon_IsEmpty (ParseAnonPrefixes raw) \<and> rules_rooted (ParseAnonPrefixes raw)"
proof -
  have "\<not> anon_IsEmpty (anon_rules defaultAnonEnv)" by (simp add: anon_default anon_IsEmpty_def)
  then show ?thesis by (simp add: ParseAnonPrefixes_def Let_def anon_rules_rooted)
qed

text \<open>
  Without configuration the development sign-in needs credentials, and switching it on
  adds exactly that one path to the anonymous ones.
\<close>

theorem dev_sign_in_anonymous_iff:
  "anon_Allows (ResolveAnonPrefixes (env(''GATEWAY_ANON_PREFIXES'' := []))) path \<longleftrightarrow>
     path \<in> {''/healthz'', ''/readyz'', ''/metrics'', ''/sign-in'', ''/callback'', ''/sign-out'', ''/internal/webhooks/logto'', ''/''}
     \<or> HasPrefix path ''/v1/business/ping'' \<or> HasPrefix path ''/admin'' \<or> HasPrefix path ''/v1/auth/''
     \<or> (env ''GATEWAY_BFF_DEV_LOGIN'' = ''true'' \<and> path = ''/sign-in/dev'')"
proof -
  have "ParseAnonPrefixes [] = anon_rules defaultAnonEnv"
    by (simp add: ParseAnonPrefixes_def)
  then show ?thesis
    by (auto simp: ResolveAnonPrefixes_def Env_def Let_def withExact_def anon_Allows_iff anon_default)
qed

section \<open>What reaches the services\<close>

text \<open>An identity that a token accepted by the verifier gave rise to, possibly with a resolved user id.\<close>

definition from_token :: "('r, 'n) bff_env \<Rightarrow> auth_mw \<Rightarrow> string \<Rightarrow> string \<Rightarrow> Identity \<Rightarrow> bool" where
  "from_token E A rid tok idn \<longleftrightarrow>
     (\<exists>v verified uid. aVerifier A = Some v \<and> Verify (eJwt E) (eNow E) v tok = Inr verified \<and>
        idn = verified\<lparr>RequestID := rid, UserID := uid\<rparr> \<and>
        (uid = UserID verified \<or> (aResolver A \<noteq> None \<and> Subject verified \<noteq> [] \<and> uid \<noteq> []
           \<and> (UserID verified = [] \<or> UserID verified = Subject verified))))"

definition bearer_token :: "request \<Rightarrow> string option" where
  "bearer_token r = (let b = req_header r ''Authorization'' in
     if HasPrefix b ''Bearer '' then Some (TrimSpace (TrimPrefix b ''Bearer '')) else None)"

lemma res_resolve_nonempty: "res_resolve J cl c p u rid n = (Inr uid, n') \<Longrightarrow> uid \<noteq> []"
  by (auto simp: res_resolve_def Let_def split: option.splits sum.splits prod.splits if_splits)

lemma mapPlatformUserID_spec:
  assumes "mapPlatformUserID J cl co idn rid n = (idn', n')"
  shows "\<exists>uid. idn' = idn\<lparr>UserID := uid\<rparr> \<and> (uid = UserID idn \<or> (co \<noteq> None \<and> Subject idn \<noteq> [] \<and> uid \<noteq> []
     \<and> (UserID idn = [] \<or> UserID idn = Subject idn)))"
proof -
  consider "idn' = idn" | uid where "idn' = idn\<lparr>UserID := uid\<rparr>" "co \<noteq> None" "Subject idn \<noteq> []" "uid \<noteq> []"
      "UserID idn = [] \<or> UserID idn = Subject idn"
    using assms
    by (auto simp: mapPlatformUserID_def ResolveLogto_def split: if_splits prod.splits sum.splits option.splits)
      (metis res_resolve_nonempty)+
  then show ?thesis
  proof cases
    case 1
    then show ?thesis by (intro exI [of _ "UserID idn"]) simp
  next
    case (2 uid)
    then show ?thesis by (intro exI [of _ uid]) simp
  qed
qed

lemma from_token_intro:
  assumes "aVerifier A = Some v" "Verify (eJwt E) (eNow E) v tok = Inr verified"
    and "mapPlatformUserID J cl (aResolver A) (verified\<lparr>RequestID := rid\<rparr>) rid n = (idn, n')"
  shows "from_token E A rid tok idn"
  using assms(1,2) mapPlatformUserID_spec [OF assms(3)] unfolding from_token_def by force

lemma from_token_RequestID: "from_token E A rid tok idn \<Longrightarrow> RequestID idn = rid"
  by (auto simp: from_token_def)

text \<open>The token of an accepted credential: the bearer token, else the one stored in the cookie's session.\<close>

definition session_token :: "('r, 'n) bff_env \<Rightarrow> auth_mw \<Rightarrow> request \<Rightarrow> 'r \<Rightarrow> string \<Rightarrow> string \<Rightarrow> bool" where
  "session_token E A r rd sid tok \<longleftrightarrow> bearer_token r = None \<and> req_cookie r (CookieName (aSessions A)) = Some sid \<and>
     (\<exists>data. tok = AccessToken data \<and> fst (sess_Get (eRedis E) (eData E) (eNow E) (aSessions A) sid rd) = Inr data)"

lemma IdentityFromRequest_Inr:
  assumes "IdentityFromRequest L R C now r ss vo rd = (Inr (idn, sid), rd')"
  obtains v data where "vo = Some v" "req_cookie r (CookieName ss) = Some sid"
    "fst (sess_Get R C now ss sid rd) = Inr data" "Verify L now v (AccessToken data) = Inr idn"
  using assms
  by (auto simp: IdentityFromRequest_def split: option.splits if_splits prod.splits sum.splits)

lemma credentials_Go_on:
  assumes "credentials E A r rid s = (Go_on idn authenticated sid, s')"
  shows "(authenticated \<longleftrightarrow> UserID idn \<noteq> [] \<or> Subject idn \<noteq> []) \<and> RequestID idn = rid \<and>
     (authenticated \<longrightarrow> (\<exists>tok. from_token E A rid tok idn \<and>
        (bearer_token r = Some tok \<and> sid = [] \<or> session_token E A r (bRedis s) sid tok)))"
proof (cases "HasPrefix (req_header r ''Authorization'') ''Bearer ''")
  case True
  then obtain v verified n where *: "aVerifier A = Some v"
      "Verify (eJwt E) (eNow E) v (TrimSpace (TrimPrefix (req_header r ''Authorization'') ''Bearer '')) = Inr verified"
      "mapPlatformUserID (eJson E) (eHttp E) (aResolver A) (verified\<lparr>RequestID := rid\<rparr>) rid (bNet s) = (idn, n)"
      "authenticated \<longleftrightarrow> UserID idn \<noteq> [] \<or> Subject idn \<noteq> []" "sid = []"
    using assms by (auto simp: credentials_def Let_def split: option.splits if_splits sum.splits prod.splits)
  have bt: "bearer_token r = Some (TrimSpace (TrimPrefix (req_header r ''Authorization'') ''Bearer ''))"
    using True by (simp add: bearer_token_def)
  from from_token_intro [OF *(1-3)] from_token_RequestID * bt show ?thesis by blast
next
  case False
  then have nb: "bearer_token r = None" by (simp add: bearer_token_def)
  consider "idn = zero_Identity\<lparr>RequestID := rid\<rparr>" "\<not> authenticated"
    | v cid n rd' where "aVerifier A = Some v"
      "IdentityFromRequest (eJwt E) (eRedis E) (eData E) (eNow E) r (aSessions A) (Some v) (bRedis s) = (Inr (cid, sid), rd')"
      "mapPlatformUserID (eJson E) (eHttp E) (aResolver A) (cid\<lparr>RequestID := rid\<rparr>) rid (bNet s) = (idn, n)"
      "authenticated \<longleftrightarrow> UserID idn \<noteq> [] \<or> Subject idn \<noteq> []"
    using assms False
    by (auto simp: credentials_def Let_def split: option.splits if_splits sum.splits prod.splits)
  then show ?thesis
  proof cases
    case 1
    then show ?thesis by (simp add: zero_Identity_def)
  next
    case (2 v cid n rd')
    from IdentityFromRequest_Inr [OF 2(2)] obtain data where
      "req_cookie r (CookieName (aSessions A)) = Some sid"
      "fst (sess_Get (eRedis E) (eData E) (eNow E) (aSessions A) sid (bRedis s)) = Inr data"
      "Verify (eJwt E) (eNow E) v (AccessToken data) = Inr cid" by (metis option.inject)
    then have "session_token E A r (bRedis s) sid (AccessToken data)" "from_token E A rid (AccessToken data) idn"
      using nb from_token_intro [OF 2(1) _ 2(3)] by (auto simp: session_token_def)
    with 2(4) from_token_RequestID show ?thesis by blast
  qed
qed

section \<open>Edge properties\<close>

text \<open>Replacing the identity headers of a request by anything a client may send.\<close>

definition forge :: "header \<Rightarrow> request \<Rightarrow> request" where
  "forge forged r = r\<lparr>Header := (\<lambda>k. if k \<in> identity_keys then forged k else Header r k)\<rparr>"

lemma StripUntrusted_forge: "StripUntrusted (Header (forge forged r)) = StripUntrusted (Header r)"
  by (rule StripUntrusted_cong) (simp add: forge_def)

text \<open>
  Identity headers sent by the client have no influence at all: the response, the state changes,
  the audit events and the request handed on are the same for every choice of these headers.
\<close>

lemma identity_headers_ignored:
  "Authenticate E A ridb evb next_h (forge forged r) w s = Authenticate E A ridb evb next_h r w s"
proof -
  have "(forge forged r)\<lparr>Header := h\<rparr> = r\<lparr>Header := h\<rparr>" for h
    by (simp add: forge_def)
  then show ?thesis
    by (simp only: Authenticate_def StripUntrusted_forge)
qed

lemma hdr_get_stamped:
  "CanonicalHeaderKey k \<notin> identity_keys \<Longrightarrow> req_header (stamped ridb r) k = req_header r k"
  by (auto simp: stamped_def req_header_def hdr_get_set hdr_get_StripUntrusted header_names identity_keys_def)

lemma stamped_credentials [simp]:
  "bearer_token (stamped ridb r) = bearer_token r" "req_cookie (stamped ridb r) n = req_cookie r n"
  "Path (stamped ridb r) = Path r" "session_token E A (stamped ridb r) rd sid tok = session_token E A r rd sid tok"
  by (simp_all add: bearer_token_def hdr_get_stamped identity_keys_def req_cookie_def session_token_def)
    (simp_all add: stamped_def)

lemma hdr_set_before_Inject:
  "Inject idn (hdr_set HeaderRequestID rid (StripUntrusted h)) =
     (if RequestID idn = rid then Inject idn (StripUntrusted h) else Inject idn (hdr_set HeaderRequestID rid (StripUntrusted h)))
   \<or> rid = []"
  by (auto simp: Inject_def setNonEmpty_def hdr_set_def Let_def fun_upd_upd)

lemma forwarded_identity:
  assumes reached: "Authenticate E A ridb evb h1 r w s \<noteq> Authenticate E A ridb evb h2 r w s" and rb: "ridb \<noteq> []"
  shows "\<exists>idn w' s'. (\<forall>h. Authenticate E A ridb evb h r w s = h (r\<lparr>Header := Inject idn (StripUntrusted (Header r))\<rparr>) w' s') \<and>
     RequestID idn = NewRequestID ridb \<and>
     ((\<exists>tok sid. from_token E A (NewRequestID ridb) tok idn \<and>
         (bearer_token r = Some tok \<or> session_token E A r (bRedis s) sid tok))
      \<or> (anon_Allows (effective_anon A) (Path r) \<and> UserID idn = [] \<and> Subject idn = []))"
proof -
  let ?rid = "NewRequestID ridb"
  obtain r' w' s' where adm: "auth_admit E A ridb r w s = Some (r', w', s')"
    using reached edge.depends_iff by (metis option.exhaust prod_cases3)
  obtain idn authenticated sid where go: "credentials E A (stamped ridb r) ?rid s = (Go_on idn authenticated sid, s')"
    and ok: "authenticated \<or> anon_Allows (effective_anon A) (Path r)"
    and r': "r' = r\<lparr>Header := Inject idn (Header (stamped ridb r))\<rparr>"
    using adm by (auto simp: auth_admit_def split: prod.splits cred.splits if_splits)
  have rid: "RequestID idn = ?rid" and auth: "authenticated \<longleftrightarrow> UserID idn \<noteq> [] \<or> Subject idn \<noteq> []"
    and tok: "authenticated \<longrightarrow> (\<exists>tok. from_token E A ?rid tok idn \<and>
        (bearer_token r = Some tok \<and> sid = [] \<or> session_token E A r (bRedis s) sid tok))"
    using credentials_Go_on [OF go] by auto
  have "?rid \<noteq> []" using rb by (simp add: NewRequestID_def)
  then have "Inject idn (Header (stamped ridb r)) = Inject idn (StripUntrusted (Header r))"
    using hdr_set_before_Inject [of idn ?rid "Header r"] rid by (simp add: stamped_def)
  then have "\<forall>h. Authenticate E A ridb evb h r w s = h (r\<lparr>Header := Inject idn (StripUntrusted (Header r))\<rparr>) w' s'"
    using edge.admitted [OF adm] r' by simp
  with rid auth tok ok show ?thesis by blast
qed

lemma Authenticate_Refuse:
  assumes "credentials E A (stamped ridb r) (NewRequestID ridb) s = (Refuse err ev, s')"
  shows "Authenticate E A ridb evb next_h r w s =
     Served (fail (NewRequestID ridb) err (SetRespHeader HeaderRequestID (NewRequestID ridb) w))
       (case ev of None \<Rightarrow> s' | Some (ty, reason) \<Rightarrow> emit_entry E A evb (stamped ridb r) (NewRequestID ridb) ty reason s')"
  using assms unfolding stamped_def by (simp add: Authenticate_def Let_def)

text \<open>
  C16 Without a bearer token and without a session cookie, a path that is not anonymous is answered 401
  by the gateway itself, an \<^verbatim>\<open>api.access.denied\<close> event is scheduled, and nothing else changes.
\<close>

theorem unauthenticated_rejected:
  assumes "bearer_token r = None" "req_cookie r (CookieName (aSessions A)) = None"
    and "\<not> anon_Allows (effective_anon A) (Path r)" "WSent w = None" "WBody w = []"
    and em: "aEntryAudit A = IPtr (Some \<lparr>as_inner = IPtr e\<rparr>)"
  shows "\<exists>w' ev. Authenticate E A ridb evb next_h r w s = Served w' (s\<lparr>gAudit := gAudit s @ [ev]\<rparr>) \<and>
     final_status w' = 401 \<and> error_code w' = Some ''auth.unauthenticated'' \<and> EvType ev = ''api.access.denied''"
proof -
  let ?rid = "NewRequestID ridb"
  have nb: "\<not> HasPrefix (req_header (stamped ridb r) ''Authorization'') ''Bearer ''"
    using assms(1) by (simp add: bearer_token_def hdr_get_stamped identity_keys_def Let_def split: if_splits)
  have "credentials E A (stamped ridb r) ?rid s = (Go_on (zero_Identity\<lparr>RequestID := ?rid\<rparr>) False [], s)"
    using nb assms(2) by (auto simp: credentials_def Let_def IdentityFromRequest_def split: option.splits)
  then have "Authenticate E A ridb evb next_h r w s =
      Served (fail ?rid (Unauthorized ''auth.unauthenticated'' ''authentication required'') (SetRespHeader HeaderRequestID ?rid w))
        (emit_entry E A evb (stamped ridb r) ?rid ''api.access.denied'' ''auth.unauthenticated'' s)"
    using assms(3) by (simp add: Authenticate_def stamped_def Let_def)
  with assms(4,5) em show ?thesis
    by (auto simp: emit_entry_def EmitEntry_def Async_Emit_def Async_Enabled_def EntryEvent_def NewEvent_def Let_def)
qed

text \<open>
  A bearer token the verifier does not accept is answered 401 even on an anonymous path, and an
  \<^verbatim>\<open>api.token.invalid\<close> event is scheduled.
\<close>

theorem invalid_token_rejected:
  assumes "bearer_token r = Some tok" "aVerifier A = Some v" "verifier_Enabled v"
    and "Verify (eJwt E) (eNow E) v tok = Inl err" "WSent w = None" "WBody w = []"
    and em: "aEntryAudit A = IPtr (Some \<lparr>as_inner = IPtr e\<rparr>)"
  shows "\<exists>w' ev. Authenticate E A ridb evb next_h r w s = Served w' (s\<lparr>gAudit := gAudit s @ [ev]\<rparr>) \<and>
     final_status w' = 401 \<and> error_code w' = Some ''invalid_token'' \<and> EvType ev = ''api.token.invalid''"
proof -
  have "HasPrefix (req_header r ''Authorization'') ''Bearer ''"
    "TrimSpace (TrimPrefix (req_header r ''Authorization'') ''Bearer '') = tok"
    using assms(1) by (auto simp: bearer_token_def Let_def split: if_splits)
  then have "credentials E A (stamped ridb r) (NewRequestID ridb) s =
      (Refuse (Unauthorized ''invalid_token'' ''invalid or expired token'') (Some (''api.token.invalid'', ''invalid_token'')), s)"
    using assms(2-4) by (simp add: credentials_def Let_def hdr_get_stamped identity_keys_def)
  from Authenticate_Refuse [OF this] assms(5,6) em show ?thesis
    by (auto simp: emit_entry_def EmitEntry_def Async_Emit_def Async_Enabled_def EntryEvent_def NewEvent_def Let_def)
qed

lemma checkRevocation_subject:
  assumes "rev_Enabled revs" "Subject idn \<noteq> []" "IsSubjectRevoked R now revs (Subject idn) rd = Inr True"
  shows "fst (checkRevocation R now revs idn sid rd)"
  using assms by (simp add: checkRevocation_def Let_def)

lemma revoked_bearer_refused:
  assumes revs: "aRevocations A = Some rs" "rev_rdb rs" and revoked: "IsSubjectRevoked (eRedis E) (eNow E) (Some rs) sub (bRedis s) = Inr True"
    and tok: "bearer_token r = Some tok" "aVerifier A = Some v" "Verify (eJwt E) (eNow E) v tok = Inr verified"
    and sub: "Subject verified = sub" "sub \<noteq> []"
    and path: "RequiresRevocationCheck (aSensitive A) (Path r)"
    and w: "WSent w = None" "WBody w = []"
  shows "\<exists>w' s'. (\<forall>next_h. Authenticate E A ridb evb next_h r w s = Served w' s') \<and>
     final_status w' = 401 \<and> error_code w' = Some ''auth.revoked''"
proof -
  let ?rid = "NewRequestID ridb"
  have en: "rev_Enabled (Some rs)" using revs by (simp add: rev_Enabled_def)
  obtain idn n where m: "mapPlatformUserID (eJson E) (eHttp E) (aResolver A) (verified\<lparr>RequestID := ?rid\<rparr>) ?rid (bNet s) = (idn, n)"
    by fastforce
  have subj: "Subject idn = sub" using mapPlatformUserID_spec [OF m] sub by auto
  have "HasPrefix (req_header r ''Authorization'') ''Bearer ''"
    "TrimSpace (TrimPrefix (req_header r ''Authorization'') ''Bearer '') = tok"
    using tok(1) by (auto simp: bearer_token_def Let_def split: if_splits)
  moreover have "verifier_Enabled v" using tok(3) by (auto simp: Verify_def split: if_splits)
  ultimately have "credentials E A (stamped ridb r) ?rid s = (Go_on idn True [], s\<lparr>bNet := n\<rparr>)"
    using tok(2,3) m subj sub by (simp add: credentials_def Let_def hdr_get_stamped identity_keys_def)
  moreover obtain reason where "checkRevocation (eRedis E) (eNow E) (Some rs) idn [] (bRedis s) = (True, reason)"
    using checkRevocation_subject [OF en, of idn] subj sub revoked by (metis prod.collapse)
  ultimately show ?thesis
    using path w revs(1) by (simp add: Authenticate_def stamped_def Let_def)
qed

text \<open>
  After a subject has been revoked, a valid token of that subject is refused on every sensitive path
  until the revocation entry expires.
\<close>

theorem revoked_subject_rejected:
  assumes laws: "redis_laws (eRedis E) view" and up: "redis_up (eRedis E) view"
    and revs: "aRevocations A = Some rs" "rev_rdb rs"
    and revoke: "RevokeSubject (eRedis E) t (Some rs) sub rd0 = (None, bRedis s)"
    and t: "t \<le> eNow E" "0 < rev_ttl rs \<longrightarrow> eNow E < t + px (rev_ttl rs)"
    and tok: "bearer_token r = Some tok" "aVerifier A = Some v" "Verify (eJwt E) (eNow E) v tok = Inr verified"
    and sub: "Subject verified = sub" "sub \<noteq> []"
    and path: "RequiresRevocationCheck (aSensitive A) (Path r)"
    and w: "WSent w = None" "WBody w = []"
  shows "\<exists>w' s'. Authenticate E A ridb evb next_h r w s = Served w' s' \<and>
     final_status w' = 401 \<and> error_code w' = Some ''auth.revoked''"
proof -
  have en: "rev_Enabled (Some rs)" using revs by (simp add: rev_Enabled_def)
  obtain b where b: "IsSubjectRevoked (eRedis E) (eNow E) (Some rs) sub (bRedis s) = Inr b"
    using up en by (auto simp: IsSubjectRevoked_def rev_exists_def redis_up_def)
  have "b" using revoke_then_check [OF laws en, of t "''sub:'' @ sub" rd0 "bRedis s" "eNow E"] revoke t b
    by (simp add: RevokeSubject_def IsSubjectRevoked_def)
  with b have "IsSubjectRevoked (eRedis E) (eNow E) (Some rs) sub (bRedis s) = Inr True" by simp
  from revoked_bearer_refused [OF revs this tok sub path w] show ?thesis by blast
qed

text \<open>
  A token that auth-service minted carries its user id as the subject, so the gateway does ask the
  resolver for it and forwards the resolved id instead.
\<close>

theorem auth_service_token_resolved:
  assumes "u \<noteq> []" "ResolveLogto J cl (Some c) u rid n = (Inr uid, n')"
  shows "mapPlatformUserID J cl (Some c) (mapClaims (AccessToken_claims i u tn roles now ttl)) rid n =
     ((mapClaims (AccessToken_claims i u tn roles now ttl))\<lparr>UserID := uid\<rparr>, n')"
  using assms by (simp add: mapPlatformUserID_def mapClaims_AccessToken mapClaims_base)

text \<open>An unset or empty \<^verbatim>\<open>GATEWAY_SENSITIVE_PREFIXES\<close> leaves the revocation check on for file routes.\<close>

theorem sensitive_empty_is_default:
  "env ''GATEWAY_SENSITIVE_PREFIXES'' = [] \<Longrightarrow> ResolveSensitivePrefixes env = [''/v1/files/'']"
proof -
  have "sensitive_rules defaultSensitiveEnv = [''/v1/files/'']" by code_simp
  then show "env ''GATEWAY_SENSITIVE_PREFIXES'' = [] \<Longrightarrow> ResolveSensitivePrefixes env = [''/v1/files/'']"
    by (simp add: ResolveSensitivePrefixes_def Env_def Let_def ParseSensitivePrefixes_def)
qed

end
