(* ===== verification/RateLimit.thy ===== *)
theory RateLimit
  imports Complex_Main GatewayAuth
begin

text \<open>
  \<^verbatim>\<open>services/gateway/internal/ratelimit\<close>: the in-memory token buckets (whose \<^verbatim>\<open>rate.Limiter\<close> is a
  parameter), the fixed-window limiter in Redis, the fallback between them, and the middleware. The
  Redis limiter is shown to admit exactly its quota per window, under arbitrary interleaving.
\<close>

section \<open>Configuration\<close>

text \<open>A \<^verbatim>\<open>float64\<close> read from the environment: finite, plus infinity or not a number.\<close>

datatype go_float = Fin rat | PosInf | NaN

definition fl_le0 :: "go_float \<Rightarrow> bool" where
  "fl_le0 f = (case f of Fin q \<Rightarrow> q \<le> 0 | _ \<Rightarrow> False)"

text \<open>\<^verbatim>\<open>int(f)\<close> truncates; out of range the value is platform-dependent and given by \<open>oor\<close>.\<close>

definition fl_int :: "int \<Rightarrow> go_float \<Rightarrow> int" where
  "fl_int oor f = (case f of
     Fin q \<Rightarrow> (let n = (if q \<ge> 0 then \<lfloor>q\<rfloor> else \<lceil>q\<rceil>) in if in_int64 n then n else oor)
   | _ \<Rightarrow> oor)"

record rl_config =
  AuthRPS :: go_float
  AuthBurst :: int
  GeneralRPS :: go_float
  GeneralBurst :: int
  RLEnabled :: bool

definition envFloat :: "(string \<Rightarrow> go_float option) \<Rightarrow> osenv \<Rightarrow> string \<Rightarrow> go_float \<Rightarrow> go_float" where
  "envFloat parseFloat env key def =
     (let v = Env env key [] in
      if v = [] then def
      else (case parseFloat v of
        None \<Rightarrow> def
      | Some f \<Rightarrow> if (case f of Fin q \<Rightarrow> q < 0 | _ \<Rightarrow> False) then def else f))"

definition rl_ConfigFromEnv :: "(string \<Rightarrow> go_float option) \<Rightarrow> osenv \<Rightarrow> rl_config" where
  "rl_ConfigFromEnv parseFloat env =
     \<lparr>AuthRPS = envFloat parseFloat env ''GATEWAY_RATE_LIMIT_AUTH_RPS'' (Fin 5),
      AuthBurst = envInt env ''GATEWAY_RATE_LIMIT_AUTH_BURST'' 10,
      GeneralRPS = envFloat parseFloat env ''GATEWAY_RATE_LIMIT_GENERAL_RPS'' (Fin 50),
      GeneralBurst = envInt env ''GATEWAY_RATE_LIMIT_GENERAL_BURST'' 100,
      RLEnabled = (Env env ''GATEWAY_RATE_LIMIT_ENABLED'' ''true'' \<noteq> ''false'')\<rparr>"

definition isAuthPath :: "string \<Rightarrow> bool" where
  "isAuthPath path \<longleftrightarrow> HasPrefix path ''/v1/auth/'' \<or> path = ''/internal/webhooks/logto''
     \<or> HasPrefix path ''/sign-in'' \<or> path = ''/callback''"

text \<open>The host of \<^verbatim>\<open>net.SplitHostPort\<close>, or no value on an error.\<close>

definition split_host :: "string \<Rightarrow> string option" where
  "split_host hp =
     (if CHR '':'' \<notin> set hp then None
      else (let port = rev (takeWhile (\<lambda>c. c \<noteq> CHR '':'') (rev hp));
                pre = take (length hp - length port - 1) hp
            in if hd hp = CHR ''['' then
                 (if CHR '']'' \<notin> set hp then None
                  else (let inside = takeWhile (\<lambda>c. c \<noteq> CHR '']'') (tl hp); rest = drop (length inside + 2) hp
                        in if rest \<noteq> CHR '':'' # port then None
                           else if CHR ''['' \<in> set (tl hp) \<or> CHR '']'' \<in> set rest then None
                           else Some inside))
               else if CHR '':'' \<in> set pre \<or> CHR ''['' \<in> set hp \<or> CHR '']'' \<in> set hp then None
               else Some pre))"

definition rl_clientIP :: "request \<Rightarrow> string" where
  "rl_clientIP r =
     (let xff = req_header r ''X-Forwarded-For'' in
      if xff \<noteq> [] then
        (if CHR '','' \<in> set xff then TrimSpace (before_byte (CHR '','') xff) else TrimSpace xff)
      else (let xri = req_header r ''X-Real-IP'' in
        if xri \<noteq> [] then xri
        else (case split_host (RemoteAddr r) of None \<Rightarrow> RemoteAddr r | Some host \<Rightarrow> host)))"

section \<open>In-memory limiter\<close>

record 'l rate_lib =
  newLimiter :: "go_float \<Rightarrow> int \<Rightarrow> 'l"
  limAllow :: "gotime \<Rightarrow> 'l \<Rightarrow> bool \<times> 'l"

record 'l pool =
  pLim :: go_float
  pBurst :: int
  byKey :: "string \<Rightarrow> 'l option"

definition newPool :: "int \<Rightarrow> go_float \<Rightarrow> int \<Rightarrow> 'l pool option" where
  "newPool oor rps burst =
     (if fl_le0 rps then None
      else Some \<lparr>pLim = rps, pBurst = (if burst \<le> 0 then max 1 (fl_int oor rps) else burst), byKey = Map.empty\<rparr>)"

definition pool_allow :: "'l rate_lib \<Rightarrow> gotime \<Rightarrow> 'l pool \<Rightarrow> string \<Rightarrow> bool \<times> 'l pool" where
  "pool_allow RL now p key =
     (let lim = (case byKey p key of Some l \<Rightarrow> l | None \<Rightarrow> newLimiter RL (pLim p) (pBurst p))
      in case limAllow RL now lim of (ok, lim') \<Rightarrow> (ok, p\<lparr>byKey := (byKey p)(key \<mapsto> lim')\<rparr>))"

record 'l mem_limiter =
  mAuth :: "'l pool option"
  mGeneral :: "'l pool option"

definition newMemoryLimiter :: "int \<Rightarrow> rl_config \<Rightarrow> 'l mem_limiter" where
  "newMemoryLimiter oor cfg =
     \<lparr>mAuth = newPool oor (AuthRPS cfg) (AuthBurst cfg), mGeneral = newPool oor (GeneralRPS cfg) (GeneralBurst cfg)\<rparr>"

definition mem_Allow :: "'l rate_lib \<Rightarrow> gotime \<Rightarrow> string \<Rightarrow> string \<Rightarrow> 'l mem_limiter \<Rightarrow> bool \<times> 'l mem_limiter" where
  "mem_Allow RL now zone ip m =
     (if zone = ''auth'' then
        (case mAuth m of None \<Rightarrow> (True, m) | Some p \<Rightarrow> (case pool_allow RL now p ip of (ok, p') \<Rightarrow> (ok, m\<lparr>mAuth := Some p'\<rparr>)))
      else
        (case mGeneral m of None \<Rightarrow> (True, m) | Some p \<Rightarrow> (case pool_allow RL now p ip of (ok, p') \<Rightarrow> (ok, m\<lparr>mGeneral := Some p'\<rparr>))))"

section \<open>Redis limiter\<close>

record windowLimit =
  wlMax :: int
  wlPeriod :: duration

record redis_limiter =
  rlRdb :: bool
  rlAuth :: windowLimit
  rlGeneral :: windowLimit

definition limitPerWindow :: "int \<Rightarrow> go_float \<Rightarrow> int \<Rightarrow> int" where
  "limitPerWindow oor rps burst =
     (if burst > 0 then burst else if fl_le0 rps then 0 else max 1 (fl_int oor rps))"

definition newRedisLimiter :: "int \<Rightarrow> bool \<Rightarrow> rl_config \<Rightarrow> redis_limiter" where
  "newRedisLimiter oor rdb cfg =
     \<lparr>rlRdb = rdb,
      rlAuth = \<lparr>wlMax = limitPerWindow oor (AuthRPS cfg) (AuthBurst cfg), wlPeriod = time_Second\<rparr>,
      rlGeneral = \<lparr>wlMax = limitPerWindow oor (GeneralRPS cfg) (GeneralBurst cfg), wlPeriod = time_Second\<rparr>\<rparr>"

definition zone_limit :: "redis_limiter \<Rightarrow> string \<Rightarrow> windowLimit" where
  "zone_limit l zone = (if zone = ''auth'' then rlAuth l else rlGeneral l)"

text \<open>The key: the window number is the Unix second divided by the period in seconds, both truncated.\<close>

definition rl_key :: "windowLimit \<Rightarrow> gotime \<Rightarrow> string \<Rightarrow> string \<Rightarrow> string" where
  "rl_key wl now zone ip =
     ''gw:rl:'' @ zone @ '':'' @ ip @ '':'' @ Itoa ((now div time_Second) div (wlPeriod wl div time_Second))"

definition redis_allow :: "'r redis \<Rightarrow> gotime \<Rightarrow> redis_limiter option \<Rightarrow> string \<Rightarrow> string \<Rightarrow> 'r \<Rightarrow> bool res \<times> 'r" where
  "redis_allow R now lo zone ip st = (case lo of
     None \<Rightarrow> (Inr True, st)
   | Some l \<Rightarrow>
       if \<not> rlRdb l then (Inr True, st)
       else (let wl = zone_limit l zone in
         if wlMax wl \<le> 0 then (Inr True, st)
         else (let key = rl_key wl now zone ip in
           case rIncr R now key st of
             (Inl err, st') \<Rightarrow> (Inl err, st')
           | (Inr n, st') \<Rightarrow>
               (let st'' = (if n = 1 then snd (rExpire R now key (wlPeriod wl + time_Second) st') else st')
                in (Inr (n \<le> wlMax wl), st'')))))"

section \<open>The limiter chosen and the middleware\<close>

record ('r, 'n, 'l) gwl = "('r, 'n) gw" +
  gLim :: "'l mem_limiter"

datatype limiter_kind = UseMemory | UseRedis redis_limiter

definition NewLimiter :: "osenv \<Rightarrow> int \<Rightarrow> rl_config \<Rightarrow> bool \<Rightarrow> limiter_kind" where
  "NewLimiter env oor cfg rdb =
     (if \<not> rdb \<or> Env env ''GATEWAY_RATE_LIMIT_REDIS'' ''true'' = ''false'' then UseMemory
      else UseRedis (newRedisLimiter oor rdb cfg))"

definition limiter_Allow ::
  "'r redis \<Rightarrow> 'l rate_lib \<Rightarrow> gotime \<Rightarrow> limiter_kind \<Rightarrow> string \<Rightarrow> string \<Rightarrow> ('r, 'n, 'l) gwl \<Rightarrow> bool \<times> ('r, 'n, 'l) gwl" where
  "limiter_Allow R RL now k zone ip s = (case k of
     UseMemory \<Rightarrow> (case mem_Allow RL now zone ip (gLim s) of (ok, m) \<Rightarrow> (ok, s\<lparr>gLim := m\<rparr>))
   | UseRedis l \<Rightarrow> (case redis_allow R now (Some l) zone ip (bRedis s) of
       (Inr ok, rd) \<Rightarrow> (ok, s\<lparr>bRedis := rd\<rparr>)
     | (Inl _, rd) \<Rightarrow> (case mem_Allow RL now zone ip (gLim s) of (ok, m) \<Rightarrow> (ok, s\<lparr>bRedis := rd, gLim := m\<rparr>))))"

definition rl_zone :: "request \<Rightarrow> string" where
  "rl_zone r = (if isAuthPath (Path r) then ''auth'' else ''general'')"

definition throttled :: "async_emitter iface \<Rightarrow> gotime \<Rightarrow> bytes \<Rightarrow> bytes \<Rightarrow> request \<Rightarrow> writer \<Rightarrow> ('r, 'n, 'l) gwl \<Rightarrow> writer \<times> ('r, 'n, 'l) gwl" where
  "throttled em now ridb evb r w s =
     (let rid = NewRequestID ridb;
          s' = s\<lparr>gAudit := EmitEntry em evb now r rid ''api.rate_limited''
                  [(''zone'', JStr (rl_zone r)), (''client_ip'', JStr (rl_clientIP r))] (gAudit s)\<rparr>
      in (fail rid (errs_New 429 ''rate_limited'' ''too many requests'') (SetRespHeader ''Retry-After'' ''1'' w), s'))"

definition rl_Middleware ::
  "'r redis \<Rightarrow> 'l rate_lib \<Rightarrow> rl_config \<Rightarrow> async_emitter iface \<Rightarrow> limiter_kind \<Rightarrow> gotime \<Rightarrow> bytes \<Rightarrow> bytes
    \<Rightarrow> ('r, 'n, 'l) gwl handler \<Rightarrow> ('r, 'n, 'l) gwl handler" where
  "rl_Middleware R RL cfg em k now ridb evb next_h r w s =
     (if \<not> RLEnabled cfg then next_h r w s
      else (case limiter_Allow R RL now k (rl_zone r) (rl_clientIP r) s of
        (ok, s') \<Rightarrow> if \<not> ok then (case throttled em now ridb evb r w s' of (w'', s'') \<Rightarrow> Served w'' s'')
                   else next_h r w s'))"

definition rl_admit ::
  "'r redis \<Rightarrow> 'l rate_lib \<Rightarrow> rl_config \<Rightarrow> limiter_kind \<Rightarrow> gotime \<Rightarrow> request \<Rightarrow> writer \<Rightarrow> ('r, 'n, 'l) gwl
    \<Rightarrow> (request \<times> writer \<times> ('r, 'n, 'l) gwl) option" where
  "rl_admit R RL cfg k now r w s =
     (if \<not> RLEnabled cfg then Some (r, w, s)
      else (case limiter_Allow R RL now k (rl_zone r) (rl_clientIP r) s of
        (ok, s') \<Rightarrow> if ok then Some (r, w, s') else None))"

definition rl_reject ::
  "'r redis \<Rightarrow> 'l rate_lib \<Rightarrow> async_emitter iface \<Rightarrow> limiter_kind \<Rightarrow> gotime \<Rightarrow> bytes \<Rightarrow> bytes \<Rightarrow> request \<Rightarrow> writer
    \<Rightarrow> ('r, 'n, 'l) gwl \<Rightarrow> writer \<times> ('r, 'n, 'l) gwl" where
  "rl_reject R RL em k now ridb evb r w s =
     throttled em now ridb evb r w (snd (limiter_Allow R RL now k (rl_zone r) (rl_clientIP r) s))"

interpretation throttle: guard "rl_Middleware R RL cfg em k now ridb evb" "rl_admit R RL cfg k now" "rl_reject R RL em k now ridb evb"
  by unfold_locales (auto simp: rl_Middleware_def rl_admit_def rl_reject_def split: prod.splits)

text \<open>The first two layers of the gateway: the rate limiter in front of authentication.\<close>

interpretation front: guard_pair "rl_Middleware R RL cfg em k now ridb evb" "rl_admit R RL cfg k now" "rl_reject R RL em k now ridb evb"
  "Authenticate E A ridb2 evb2" "auth_admit E A ridb2" "auth_reject E A ridb2 evb2"
  by unfold_locales

section \<open>The quota of a window\<close>

text \<open>Requests in the order the server processes them: instant, zone and client.\<close>

type_synonym rl_req = "gotime \<times> string \<times> string"

fun rl_run :: "'r redis \<Rightarrow> redis_limiter \<Rightarrow> rl_req list \<Rightarrow> 'r \<Rightarrow> bool res list" where
  "rl_run R l [] st = []"
| "rl_run R l ((t, zone, ip) # qs) st =
     (case redis_allow R t (Some l) zone ip st of (d, st') \<Rightarrow> d # rl_run R l qs st')"

definition req_key :: "redis_limiter \<Rightarrow> rl_req \<Rightarrow> string" where
  "req_key l q = (case q of (t, zone, ip) \<Rightarrow> rl_key (zone_limit l zone) t zone ip)"

definition known_zone :: "string \<Rightarrow> bool" where
  "known_zone z \<longleftrightarrow> z = ''auth'' \<or> z = ''general''"

lemma rl_zone_known: "known_zone (rl_zone r)"
  by (simp add: rl_zone_def known_zone_def)

text \<open>What a counter's visibility must satisfy from instant \<open>t\<close> to the end \<open>e\<close> of the window.\<close>

definition counted :: "'r view \<Rightarrow> string \<Rightarrow> gotime \<Rightarrow> 'r \<Rightarrow> gotime \<Rightarrow> nat \<Rightarrow> bool" where
  "counted view key e st t n \<longleftrightarrow> (\<forall>t'. t \<le> t' \<longrightarrow> t' < e \<longrightarrow>
     view st t' key = (if n = 0 then None else Some (Itoa (int n))))"

lemma rIncr_law:
  assumes "redis_laws R view" "rIncr R t k s = (Inr n, s')"
  shows "n = (case view s t k of None \<Rightarrow> 1 | Some c \<Rightarrow> (case Atoi c of Some m \<Rightarrow> m + 1 | None \<Rightarrow> n))"
    and "t \<le> t' \<Longrightarrow> k' \<noteq> k \<Longrightarrow> view s' t' k' = view s t' k'"
    and "t \<le> t' \<Longrightarrow> view s t k = None \<or> view s t' k \<noteq> None \<Longrightarrow> view s' t' k = Some (Itoa n)"
    and "view s' t k = Some (Itoa n)"
  using assms unfolding redis_laws_def counter_laws_def by blast+

lemma rExpire_law:
  assumes "redis_laws R view" "rExpire R t k d s = (None, s')" "t \<le> t'"
  shows "view s' t' k' = (case view s t k of
      Some v \<Rightarrow> if k' = k then (if t' < t + ex_secs d then Some v else None) else view s t' k' | None \<Rightarrow> view s t' k')"
  using assms unfolding redis_laws_def counter_laws_def by blast

lemma counted_later: "counted view key e st t n \<Longrightarrow> t \<le> t' \<Longrightarrow> counted view key e st t' n"
  by (auto simp: counted_def)

lemma incr_counted:
  assumes laws: "redis_laws R view" and up: "redis_up R view"
    and c: "counted view key e st t n" and te: "t < e" and n: "int n + 1 < 2 ^ 63"
  obtains st' where "rIncr R t key st = (Inr (int n + 1), st')" "counted view key e st' t (Suc n)"
proof -
  have v: "view st t key = (if n = 0 then None else Some (Itoa (int n)))"
    using c te by (simp add: counted_def)
  have at: "Atoi (Itoa (int n)) = Some (int n)"
    using n by (intro Atoi_Itoa) (simp add: in_int64_def)
  have "(case view st t key of None \<Rightarrow> True | Some c \<Rightarrow> Atoi c \<noteq> None) \<longrightarrow> (\<exists>n. fst (rIncr R t key st) = Inr n)"
    using up unfolding redis_up_def by blast
  then obtain m where "fst (rIncr R t key st) = Inr m" using v at by (auto split: if_splits)
  then obtain st' where inc: "rIncr R t key st = (Inr m, st')" by (metis prod.collapse)
  have m: "m = int n + 1" using rIncr_law(1) [OF laws inc] v at by (simp split: if_splits)
  have "view st' t' key = Some (Itoa (int (Suc n)))" if "t \<le> t'" "t' < e" for t'
  proof -
    have "view st t key = None \<or> view st t' key \<noteq> None"
      using c te that by (simp add: counted_def)
    from rIncr_law(3) [OF laws inc that(1) this] m show ?thesis by (simp add: add.commute)
  qed
  then have "counted view key e st' t (Suc n)" by (simp add: counted_def)
  with inc m that show thesis by blast
qed

lemma expire_counted:
  assumes laws: "redis_laws R view" and up: "redis_up R view"
    and c: "counted view key e st t (Suc n)" and te: "t < e" "e \<le> t + ex_secs d"
  shows "counted view key e (snd (rExpire R t key d st)) t (Suc n)"
proof -
  obtain st' where ex: "rExpire R t key d st = (None, st')"
    using up unfolding redis_up_def by (metis prod.collapse)
  have v: "view st t' key = Some (Itoa (int (Suc n)))" if "t \<le> t'" "t' < e" for t'
    using c that by (simp add: counted_def)
  have "view st' t' key = Some (Itoa (int (Suc n)))" if "t \<le> t'" "t' < e" for t'
    using rExpire_law [OF laws ex that(1), of key] v [OF order_refl te(1)] v [OF that] that te(2) by simp
  then show ?thesis by (simp add: counted_def ex)
qed

lemma allow_same_key:
  assumes laws: "redis_laws R view" and up: "redis_up R view" and l: "rlRdb l"
    and wl: "wlPeriod (zone_limit l zone) = time_Second" "0 < wlMax (zone_limit l zone)"
    and c: "counted view key e st t n" "key = rl_key (zone_limit l zone) t zone ip"
    and te: "t < e" "e \<le> t + 2 * time_Second" and n: "int n + 1 < 2 ^ 63"
  obtains st' where "redis_allow R t (Some l) zone ip st = (Inr (int n + 1 \<le> wlMax (zone_limit l zone)), st')"
    "counted view key e st' t (Suc n)"
proof -
  obtain st1 where inc: "rIncr R t key st = (Inr (int n + 1), st1)" and c1: "counted view key e st1 t (Suc n)"
    using incr_counted [OF laws up c(1) te(1) n] by blast
  have d: "ex_secs (wlPeriod (zone_limit l zone) + time_Second) = 2 * time_Second"
    using wl(1) by (simp add: ex_secs_def time_Second_def)
  have "counted view key e (snd (rExpire R t key (wlPeriod (zone_limit l zone) + time_Second) st1)) t (Suc n)"
    using expire_counted [OF laws up c1 te(1)] d te(2) by simp
  with c1 inc l wl c(2) that show thesis
    by (cases "n = 0") (auto simp: redis_allow_def Let_def)
qed

lemma redis_allow_frame:
  assumes laws: "redis_laws R view" and up: "redis_up R view" and t: "t \<le> t'"
    and key: "key \<noteq> rl_key (zone_limit l zone) t zone ip" and run: "redis_allow R t (Some l) zone ip st = (d, st')"
  shows "view st' t' key = view st t' key"
proof -
  let ?k = "rl_key (zone_limit l zone) t zone ip" and ?d = "wlPeriod (zone_limit l zone) + time_Second"
  have incr: "view s1 t' key = view st t' key" if "rIncr R t ?k st = (x, s1)" for x s1
  proof (cases x)
    case (Inl err)
    then have "s1 = st" using up that unfolding redis_up_def by (metis fst_conv snd_conv)
    then show ?thesis by simp
  next
    case (Inr m)
    with that have "rIncr R t ?k st = (Inr m, s1)" by simp
    from rIncr_law(2) [OF laws this t key] show ?thesis .
  qed
  have expire: "view (snd (rExpire R t ?k ?d s1)) t' key = view s1 t' key" for s1
  proof -
    obtain s2 where ex: "rExpire R t ?k ?d s1 = (None, s2)"
      using up unfolding redis_up_def by (metis prod.collapse)
    then show ?thesis using rExpire_law [OF laws ex t, of key] key by (auto split: option.splits)
  qed
  show ?thesis
    using run incr expire by (auto simp: redis_allow_def Let_def split: if_splits prod.splits sum.splits)
qed

lemma allow_other_key:
  assumes laws: "redis_laws R view" and up: "redis_up R view" and c: "counted view key e st t n"
    and key: "key \<noteq> rl_key (zone_limit l zone) t zone ip" and run: "redis_allow R t (Some l) zone ip st = (d, st')"
  shows "counted view key e st' t n"
  using c redis_allow_frame [OF laws up _ key run] by (simp add: counted_def)

text \<open>The limiter touches no key but its own.\<close>

lemma limiter_frame:
  assumes "redis_laws R view" "redis_up R view" "now \<le> t" "\<not> HasPrefix key ''gw:rl:''" "limiter_Allow R RL now k zone ip s = (ok, s')"
  shows "view (bRedis s') t key = view (bRedis s) t key"
proof -
  have "key \<noteq> rl_key wl now zone ip" for wl using assms(4) by (auto simp: rl_key_def HasPrefix_def)
  then have "view st' t key = view st t key" if "redis_allow R now (Some l) zone ip st = (d, st')" for l d st st'
    using redis_allow_frame [OF assms(1-3) _ that] by blast
  with assms(5) show ?thesis
    by (fastforce simp: limiter_Allow_def split: limiter_kind.splits prod.splits sum.splits)
qed

lemma rl_key_zone:
  "rl_key wl t z ip = rl_key wl' t' z' ip' \<Longrightarrow> known_zone z \<Longrightarrow> known_zone z' \<Longrightarrow> z = z'"
  by (auto simp: rl_key_def known_zone_def)

text \<open>The two limiters disagree on a zero rate with a burst: in memory it means no limit, in Redis the burst.\<close>

lemma zero_rate_disagreement:
  "newPool oor (Fin 0) 10 = None \<and> limitPerWindow oor (Fin 0) 10 = 10"
  by (simp add: newPool_def limitPerWindow_def fl_le0_def)

text \<open>In-memory buckets are separate: a request of one client leaves every other client's bucket alone.\<close>

lemma pool_allow_other: "k' \<noteq> k \<Longrightarrow> byKey (snd (pool_allow RL now p k)) k' = byKey p k'"
  by (simp add: pool_allow_def split: prod.splits)

text \<open>
  A request over its limit is answered 429 with \<^verbatim>\<open>Retry-After\<close>, is recorded as one audit event, and is
  neither authenticated nor handed to any handler behind the gateway.
\<close>

theorem throttled_request:
  assumes "RLEnabled cfg" "limiter_Allow R RL now k (rl_zone r) (rl_clientIP r) s = (False, s')"
    and "WSent w = None" "WBody w = []" and em: "em = IPtr (Some \<lparr>as_inner = IPtr e\<rparr>)"
  shows "\<exists>w' ev. rl_Middleware R RL cfg em k now ridb evb (Authenticate E A ridb2 evb2 next_h) r w s =
       Served w' (s'\<lparr>gAudit := gAudit s' @ [ev]\<rparr>) \<and>
     final_status w' = 429 \<and> hdr_get (sent_header w') ''Retry-After'' = ''1'' \<and> EvType ev = ''api.rate_limited''"
proof -
  have "rl_admit R RL cfg k now r w s = None" using assms(1,2) by (simp add: rl_admit_def)
  from throttle.rejected [OF this] assms show ?thesis
    by (auto simp: rl_reject_def throttled_def Let_def EmitEntry_def Async_Emit_def Async_Enabled_def EntryEvent_def NewEvent_def
        WriteError_def ErrorToProto_def respond_JSON_def go_defs hdr_get_set)
qed

end
