(* ===== verification/Mux.thy ===== *)
theory Mux
  imports AuditEvents GoUrl "HOL-Library.List_Lexorder" "HOL-Library.Char_ord"
begin

text \<open>
  \<^verbatim>\<open>http.ServeMux\<close> as the services use it (Go 1.22 and later): patterns with a method and path segments, the check for
  conflicting patterns at registration, the choice of a handler, and the redirects and errors of the mux itself. Paths
  are taken without percent escapes.
\<close>

section \<open>Patterns\<close>

text \<open>A literal segment, a named wildcard for one segment, and the rest of the path after a trailing slash.\<close>

datatype seg = Lit string | Wild string | Multi

record 's route =
  rtMethod :: string
  rtSegs :: "seg list"
  rtHandler :: "'s handler"

definition path_parts :: "string \<Rightarrow> string list" where
  "path_parts path = Split (CHR ''/'') (TrimPrefix path ''/'')"

fun seg_match :: "seg list \<Rightarrow> string list \<Rightarrow> (string \<times> string) list option" where
  "seg_match [] [] = Some []"
| "seg_match (Multi # ss) (p # ps) = Some []"
| "seg_match (Lit l # ss) (p # ps) = (if p = l then seg_match ss ps else None)"
| "seg_match (Wild x # ss) (p # ps) = (if p \<noteq> [] then map_option (\<lambda>m. (x, p) # m) (seg_match ss ps) else None)"
| "seg_match _ _ = None"

section \<open>Conflicts\<close>

datatype relationship = Equivalent | MoreGeneral | MoreSpecific | Disjoint | Overlaps

definition inverseRelationship :: "relationship \<Rightarrow> relationship" where
  "inverseRelationship r = (case r of MoreGeneral \<Rightarrow> MoreSpecific | MoreSpecific \<Rightarrow> MoreGeneral | _ \<Rightarrow> r)"

definition combineRelationships :: "relationship \<Rightarrow> relationship \<Rightarrow> relationship" where
  "combineRelationships r1 r2 = (case r1 of
     Equivalent \<Rightarrow> r2
   | Disjoint \<Rightarrow> Disjoint
   | Overlaps \<Rightarrow> if r2 = Disjoint then Disjoint else Overlaps
   | _ \<Rightarrow> if r2 = Equivalent then r1 else if r2 = inverseRelationship r1 then Overlaps else r2)"

definition compareMethods :: "string \<Rightarrow> string \<Rightarrow> relationship" where
  "compareMethods m1 m2 =
     (if m1 = m2 then Equivalent
      else if m1 = [] then MoreGeneral
      else if m2 = [] then MoreSpecific
      else if m1 = ''GET'' \<and> m2 = ''HEAD'' then MoreGeneral
      else if m2 = ''GET'' \<and> m1 = ''HEAD'' then MoreSpecific
      else Disjoint)"

fun compareSegments :: "seg \<Rightarrow> seg \<Rightarrow> relationship" where
  "compareSegments Multi Multi = Equivalent"
| "compareSegments Multi _ = MoreGeneral"
| "compareSegments _ Multi = MoreSpecific"
| "compareSegments (Wild _) (Wild _) = Equivalent"
| "compareSegments (Wild _) (Lit _) = MoreGeneral"
| "compareSegments (Lit _) (Wild _) = MoreSpecific"
| "compareSegments (Lit a) (Lit b) = (if a = b then Equivalent else Disjoint)"

definition ends_multi :: "seg list \<Rightarrow> bool" where
  "ends_multi ss \<longleftrightarrow> ss \<noteq> [] \<and> last ss = Multi"

fun compare_loop :: "relationship \<Rightarrow> bool \<Rightarrow> bool \<Rightarrow> seg list \<Rightarrow> seg list \<Rightarrow> relationship" where
  "compare_loop rel m1 m2 (a # as) (b # bs) =
     (let rel' = combineRelationships rel (compareSegments a b) in
      if rel' = Disjoint then Disjoint else compare_loop rel' m1 m2 as bs)"
| "compare_loop rel m1 m2 [] [] = rel"
| "compare_loop rel m1 m2 [] bs = (if m1 then combineRelationships rel MoreGeneral else Disjoint)"
| "compare_loop rel m1 m2 as [] = (if m2 then combineRelationships rel MoreSpecific else Disjoint)"

definition comparePaths :: "seg list \<Rightarrow> seg list \<Rightarrow> relationship" where
  "comparePaths s1 s2 =
     (if length s1 \<noteq> length s2 \<and> \<not> ends_multi s1 \<and> \<not> ends_multi s2 then Disjoint
      else compare_loop Equivalent (ends_multi s1) (ends_multi s2) s1 s2)"

definition conflictsWith :: "string \<times> seg list \<Rightarrow> string \<times> seg list \<Rightarrow> bool" where
  "conflictsWith p1 p2 \<longleftrightarrow>
     (let rel = combineRelationships (compareMethods (fst p1) (fst p2)) (comparePaths (snd p1) (snd p2))
      in rel = Equivalent \<or> rel = Overlaps)"

definition pattern_of :: "'s route \<Rightarrow> string \<times> seg list" where
  "pattern_of rt = (rtMethod rt, rtSegs rt)"

text \<open>Registering patterns one after the other: the first conflict panics. \<open>None\<close> is the panic.\<close>

fun mux_Handle_all :: "'s route list \<Rightarrow> 's route list \<Rightarrow> 's route list option" where
  "mux_Handle_all done [] = Some done"
| "mux_Handle_all done (rt # rts) =
     (if list_ex (\<lambda>d. conflictsWith (pattern_of rt) (pattern_of d)) done then None
      else mux_Handle_all (done @ [rt]) rts)"

section \<open>Matching\<close>

fun seg_rank :: "seg \<Rightarrow> nat" where
  "seg_rank (Lit _) = 0" | "seg_rank (Wild _) = 1" | "seg_rank Multi = 2"

text \<open>At the first difference a literal is tried before a wildcard, and a wildcard before the rest of the path.\<close>

fun tried_before :: "seg list \<Rightarrow> seg list \<Rightarrow> bool" where
  "tried_before (a # as) (b # bs) = (seg_rank a < seg_rank b \<or> (seg_rank a = seg_rank b \<and> tried_before as bs))"
| "tried_before _ _ = False"

definition match_method :: "'s route list \<Rightarrow> string \<Rightarrow> string \<Rightarrow> 's route option" where
  "match_method rts m path =
     (case filter (\<lambda>rt. rtMethod rt = m \<and> seg_match (rtSegs rt) (path_parts path) \<noteq> None) rts of
        [] \<Rightarrow> None
      | x # xs \<Rightarrow> Some (fold (\<lambda>y best. if tried_before (rtSegs y) (rtSegs best) then y else best) xs x))"

text \<open>Patterns with the method of the request come first, GET serves HEAD, then patterns for every method.\<close>

definition mux_match :: "'s route list \<Rightarrow> string \<Rightarrow> string \<Rightarrow> 's route option" where
  "mux_match rts m path = (case match_method rts m path of
     Some rt \<Rightarrow> Some rt
   | None \<Rightarrow> (case (if m = ''HEAD'' then match_method rts ''GET'' path else None) of
       Some rt \<Rightarrow> Some rt
     | None \<Rightarrow> if m = [] then None else match_method rts [] path))"

definition exactMatch :: "'s route option \<Rightarrow> string \<Rightarrow> bool" where
  "exactMatch n path = (case n of
     None \<Rightarrow> False
   | Some rt \<Rightarrow>
       if \<not> ends_multi (rtSegs rt) then True
       else if path \<noteq> [] \<and> last path \<noteq> CHR ''/'' then False
       else length (rtSegs rt) = length (filter (\<lambda>c. c = CHR ''/'') path))"

definition cleanPath :: "string \<Rightarrow> string" where
  "cleanPath p =
     (if p = [] then ''/''
      else (let p = (if hd p \<noteq> CHR ''/'' then CHR ''/'' # p else p); np = path_Clean p
        in if last p = CHR ''/'' \<and> np \<noteq> ''/'' then np @ ''/'' else np))"

datatype 's mux_action =
    Dispatch "'s route" "(string \<times> string) list"
  | RedirectTo string
  | NotAllowed "string list"
  | NoRoute

text \<open>
  \<^verbatim>\<open>matchingMethods\<close>: the methods of the patterns that match the path, or the path with a slash, sorted; HEAD comes with GET.
\<close>

definition matchingMethods :: "'s route list \<Rightarrow> string \<Rightarrow> string list" where
  "matchingMethods rts path =
     (let hit = (\<lambda>rt. seg_match (rtSegs rt) (path_parts path) \<noteq> None \<or>
            \<not> HasSuffix path ''/'' \<and> seg_match (rtSegs rt) (path_parts (path @ ''/'')) \<noteq> None);
          ms = remdups (map rtMethod (filter hit rts))
      in sort (if ''GET'' \<in> set ms \<and> ''HEAD'' \<notin> set ms then ms @ [''HEAD''] else ms))"

definition findHandler :: "'s route list \<Rightarrow> request \<Rightarrow> 's mux_action" where
  "findHandler rts r =
     (let path = (if Method r = ''CONNECT'' then Path r else cleanPath (Path r));
          n = mux_match rts (Method r) path
      in if \<not> exactMatch n path \<and> \<not> HasSuffix path ''/'' \<and> exactMatch (mux_match rts (Method r) (path @ ''/'')) (path @ ''/'')
         then RedirectTo (cleanPath (Path r) @ ''/'')
         else if path \<noteq> Path r then RedirectTo path
         else (case n of
           Some rt \<Rightarrow> Dispatch rt (case seg_match (rtSegs rt) (path_parts path) of Some m \<Rightarrow> m | None \<Rightarrow> [])
         | None \<Rightarrow> if matchingMethods rts path \<noteq> [] then NotAllowed (matchingMethods rts path) else NoRoute))"

fun commas :: "string list \<Rightarrow> string" where
  "commas [] = []" | "commas [x] = x" | "commas (x # y # ys) = x @ '', '' @ commas (y # ys)"

definition http_MethodNotAllowed :: "string list \<Rightarrow> writer \<Rightarrow> writer" where
  "http_MethodNotAllowed ms w = WriteBody (BBytes ''Method Not Allowed'')
     (WriteHeader 405 (SetRespHeader ''Content-Type'' ''text/plain; charset=utf-8'' (SetRespHeader ''Allow'' (commas ms) w)))"

definition serve_mux :: "json_env \<Rightarrow> 's route list \<Rightarrow> 's handler" where
  "serve_mux J rts r w s = (case findHandler rts r of
     Dispatch rt m \<Rightarrow> rtHandler rt (r\<lparr>PathValues := m\<rparr>) w s
   | RedirectTo p \<Rightarrow> Served (redirect_with 301 ''Moved Permanently'' r (urlString J p (Query r)) w) s
   | NotAllowed ms \<Rightarrow> Served (http_MethodNotAllowed ms w) s
   | NoRoute \<Rightarrow> Served (http_NotFound w) s)"

section \<open>Health routes\<close>

text \<open>\<^verbatim>\<open>Health.Handler\<close>; the Prometheus handler is a parameter.\<close>

record 's health =
  hcChecks :: "Check list"
  hcMetrics :: "'s handler"

text \<open>The handler of \<^verbatim>\<open>/metrics\<close> belongs to the Prometheus library.\<close>

definition RegisterMetrics :: "'s handler \<Rightarrow> 's route list" where
  [simp]: "RegisterMetrics metrics = [\<lparr>rtMethod = ''GET'', rtSegs = [Lit ''metrics''], rtHandler = metrics\<rparr>]"

definition health_routes :: "'s health \<Rightarrow> 's route list" where
  "health_routes H =
     RegisterMetrics (hcMetrics H) @
     [\<lparr>rtMethod = ''GET'', rtSegs = [Lit ''healthz''], rtHandler = (\<lambda>r w s. Served (healthz w) s)\<rparr>,
      \<lparr>rtMethod = ''GET'', rtSegs = [Lit ''readyz''], rtHandler = (\<lambda>r w s. Served (readyz (hcChecks H) w) s)\<rparr>]"

lemmas mux_defs = serve_mux_def findHandler_def mux_match_def match_method_def exactMatch_def ends_multi_def health_routes_def

lemmas conflict_defs = pattern_of_def conflictsWith_def combineRelationships_def compareMethods_def comparePaths_def
  ends_multi_def inverseRelationship_def health_routes_def

lemma mux_Handle_all_Some: "mux_Handle_all done rts = Some xs \<Longrightarrow> xs = done @ rts"
  by (induction rts arbitrary: "done") (fastforce split: if_splits)+

text \<open>A set of registered patterns is free of conflicts, in both directions.\<close>

lemma registered_conflict_free:
  "mux_Handle_all done rts = Some xs \<Longrightarrow> i < length rts \<Longrightarrow> j < i \<Longrightarrow>
   \<not> conflictsWith (pattern_of (rts ! i)) (pattern_of (rts ! j))"
proof (induction rts arbitrary: "done" i j)
  case (Cons rt rts)
  show ?case
  proof (cases i)
    case (Suc i')
    have later: "k < length rts \<Longrightarrow> \<not> conflictsWith (pattern_of (rts ! k)) (pattern_of d)"
      if "mux_Handle_all ds rts = Some xs" "d \<in> set ds" for ds d k
      using that
    proof (induction rts arbitrary: ds k)
      case (Cons x ys)
      then show ?case by (cases k) (auto simp: list_ex_iff split: if_splits)
    qed simp
    show ?thesis
      using Cons.prems Suc Cons.IH [of "done @ [rt]"] later [of "done @ [rt]" rt i']
      by (cases j) (auto split: if_splits)
  qed (use Cons.prems in simp)
qed simp

lemma match_method_mem: "match_method rts meth path = Some rt \<Longrightarrow> rt \<in> set rts"
proof -
  have pick: "fold (\<lambda>y best. if tried_before (rtSegs y) (rtSegs best) then y else best) xs x \<in> insert x (set xs)"
    for xs and x :: "'s route"
    by (induction xs arbitrary: x) (simp_all, blast)
  assume "match_method rts meth path = Some rt"
  then obtain x xs where xs: "filter (\<lambda>rt. rtMethod rt = meth \<and> seg_match (rtSegs rt) (path_parts path) \<noteq> None) rts = x # xs"
    and rt: "rt = fold (\<lambda>y best. if tried_before (rtSegs y) (rtSegs best) then y else best) xs x"
    by (auto simp: match_method_def split: list.splits)
  have "set (x # xs) \<subseteq> set rts" unfolding xs [symmetric] by (rule filter_is_subset)
  then have "insert x (set xs) \<subseteq> set rts" by (simp only: list.set)
  then show ?thesis unfolding rt using pick by (rule subsetD)
qed

lemma mux_match_mem: "mux_match rts meth path = Some rt \<Longrightarrow> rt \<in> set rts"
  by (auto simp: mux_match_def match_method_mem split: if_splits option.splits)

text \<open>What is dispatched to is one of the routes.\<close>

lemma findHandler_mem: "findHandler rts r = Dispatch rt m \<Longrightarrow> rt \<in> set rts"
  by (auto simp: findHandler_def Let_def split: if_splits option.splits dest: mux_match_mem)

end
