(* ===== verification/Proxy.thy ===== *)
theory Proxy
  imports RateLimit Mux
begin

text \<open>
  \<^verbatim>\<open>services/gateway/internal/proxy\<close>, \<^verbatim>\<open>siteproxy\<close>, \<^verbatim>\<open>adminstatic\<close> and the composition in
  \<^verbatim>\<open>services/gateway/main.go\<close>. What an upstream does with a forwarded request, and the serving of a
  file, are parameters (handlers); \<open>proxy_header\<close> is the header \<^verbatim>\<open>httputil.ReverseProxy\<close> sends, for
  requests that ask neither for a protocol upgrade nor for trailers.
\<close>

section \<open>Reverse proxy headers\<close>

definition ascii_space :: "char \<Rightarrow> bool" where
  "ascii_space c \<longleftrightarrow> (of_char c :: int) \<in> {32, 9, 10, 13}"

definition TrimString :: "string \<Rightarrow> string" where
  "TrimString s = rev (dropWhile ascii_space (rev (dropWhile ascii_space s)))"

definition hopHeaders :: "string list" where
  "hopHeaders = [''Connection'', ''Proxy-Connection'', ''Keep-Alive'', ''Proxy-Authenticate'', ''Proxy-Authorization'',
     ''Te'', ''Trailer'', ''Transfer-Encoding'', ''Upgrade'']"

text \<open>The header names a client lists in its \<^verbatim>\<open>Connection\<close> header.\<close>

definition connection_listed :: "header \<Rightarrow> string list" where
  "connection_listed h = (case h ''Connection'' of
     None \<Rightarrow> []
   | Some vs \<Rightarrow> filter (\<lambda>sf. sf \<noteq> []) (map TrimString (concat (map (Split (CHR '','')) vs))))"

definition removeHopByHopHeaders :: "header \<Rightarrow> header" where
  "removeHopByHopHeaders h = fold hdr_del hopHeaders (fold hdr_del (connection_listed h) h)"

definition comma_join :: "string list \<Rightarrow> string" where
  "comma_join vs = concat (map (\<lambda>v. v @ '', '') vs)"

definition proxy_header :: "string \<Rightarrow> request \<Rightarrow> header" where
  "proxy_header internalToken r =
     (let h = (if internalToken \<noteq> [] then hdr_set ''X-Internal-Token'' internalToken (Header r) else Header r);
          h = removeHopByHopHeaders h
      in case split_host (RemoteAddr r) of
        None \<Rightarrow> h
      | Some ip \<Rightarrow> hdr_set ''X-Forwarded-For''
          ((case h ''X-Forwarded-For'' of None \<Rightarrow> [] | Some prior \<Rightarrow> comma_join prior) @ ip) h)"

section \<open>Router\<close>

type_synonym routes = "(string \<times> string) list"

record router =
  rt_prefixes :: "string list"
  rt_targets :: "(string \<times> string) list"
  rt_token :: string

text \<open>
  \<^verbatim>\<open>New\<close>: the route table is a Go map, here an association list in the order the range loop happens to
  visit it; \<open>parseURL\<close> is \<^verbatim>\<open>url.Parse\<close>. The prefixes are sorted by decreasing length.
\<close>

definition proxy_New :: "(string \<Rightarrow> goerr option) \<Rightarrow> routes \<Rightarrow> string \<Rightarrow> router res" where
  "proxy_New parseURL rts internalToken =
     (case find (\<lambda>(p, target). parseURL target \<noteq> None) rts of
        Some (p, target) \<Rightarrow> (case parseURL target of Some err \<Rightarrow> Inl err | None \<Rightarrow> Inl (Errorf []))
      | None \<Rightarrow> Inr \<lparr>rt_prefixes = sort_key (\<lambda>p. - int (length p)) (map fst rts), rt_targets = rts, rt_token = internalToken\<rparr>)"

definition route_for :: "string list \<Rightarrow> string \<Rightarrow> string option" where
  "route_for ps path = find (HasPrefix path) ps"

text \<open>\<open>up\<close> maps an upstream's URL to what it does with the request it receives.\<close>

definition router_ServeHTTP :: "(string \<Rightarrow> 's handler) \<Rightarrow> router \<Rightarrow> 's handler" where
  "router_ServeHTTP up rt r w s =
     (case route_for (rt_prefixes rt) (Path r) of
        Some p \<Rightarrow> (case map_of (rt_targets rt) p of
            Some target \<Rightarrow> up target (r\<lparr>Header := proxy_header (rt_token rt) r\<rparr>) w s
          | None \<Rightarrow> Panicked ''nil proxy'' w s)
      | None \<Rightarrow> Served (fail (req_header r HeaderRequestID) (NotFound ''route.not_found'' ''no route'') w) s)"

definition gateway_routes :: "osenv \<Rightarrow> routes" where
  "gateway_routes env =
     [(''/v1/users/'', Env env ''USER_SERVICE_URL'' ''http://127.0.0.1:8081''),
      (''/v1/business/'', Env env ''BUSINESS_SERVICE_URL'' ''http://127.0.0.1:3005''),
      (''/v1/files/'', Env env ''FILE_SERVICE_URL'' ''http://127.0.0.1:8083''),
      (''/v1/auth/'', Env env ''AUTH_SERVICE_URL'' ''http://127.0.0.1:8084''),
      (''/v1/audit/'', Env env ''AUDIT_SERVICE_URL'' ''http://127.0.0.1:8085''),
      (''/internal/webhooks/'', Env env ''AUTH_SERVICE_URL'' ''http://127.0.0.1:8084'')]"

section \<open>Site proxy\<close>

definition IsAPIPath :: "string \<Rightarrow> bool" where
  "IsAPIPath path \<longleftrightarrow> HasPrefix path ''/v1/'' \<or> HasPrefix path ''/internal/''"

definition site_FromEnv :: "(string \<Rightarrow> goerr option) \<Rightarrow> osenv \<Rightarrow> string option res" where
  "site_FromEnv parseURL env =
     (let raw = TrimSpace (Env env ''SITE_SERVICE_URL'' ''http://127.0.0.1:3006'') in
      if raw = [] \<or> IsPlaceholder raw then Inr None
      else (case parseURL raw of Some err \<Rightarrow> Inl (Wrapped ''site url'' err) | None \<Rightarrow> Inr (Some raw)))"

definition site_error_body :: string where
  "site_error_body = map (\<lambda>c. if c = CHR ''~'' then CHR 0x22 else c)
     ''{~error~:{~code~:~not_found~,~message~:~site not configured~}}'' @ [CHR 0x0A]"

definition site_ServeHTTP :: "(string \<Rightarrow> 's handler) \<Rightarrow> string option \<Rightarrow> 's handler" where
  "site_ServeHTTP up site r w s = (case site of
     None \<Rightarrow> Served (WriteBody (BBytes site_error_body) (WriteHeader 404
        (SetRespHeader ''X-Content-Type-Options'' ''nosniff'' (SetRespHeader ''Content-Type'' ''text/plain; charset=utf-8'' w)))) s
   | Some target \<Rightarrow> up target (r\<lparr>Header := proxy_header [] r\<rparr>) w s)"

definition ComposeAPIAndSite :: "'s handler \<Rightarrow> (string \<Rightarrow> 's handler) \<Rightarrow> string option \<Rightarrow> 's handler" where
  "ComposeAPIAndSite api up site r w s =
     (if IsAPIPath (Path r) then api r w s
      else if site \<noteq> None then site_ServeHTTP up site r w s
      else api r w s)"

section \<open>Admin files\<close>

text \<open>\<open>stat\<close> says whether a path exists and is a directory; \<open>serveFile\<close> is \<^verbatim>\<open>http.ServeFile\<close>.\<close>

definition admin_Handler :: "(string \<Rightarrow> bool option) \<Rightarrow> (string \<Rightarrow> 's handler) \<Rightarrow> string \<Rightarrow> 's handler" where
  "admin_Handler stat serveFile distDir0 r w s =
     (let distDir = path_Clean distDir0; index = path_Join [distDir, ''index.html''] in
      if Method r \<noteq> ''GET'' \<and> Method r \<noteq> ''HEAD'' then Served (http_NotFound w) s
      else (let rel = TrimPrefix (TrimPrefix (Path r) ''/admin'') ''/'' in
        if rel = [] then serveFile index r w s
        else (let target = path_Join [distDir, path_Clean rel] in
          if \<not> HasPrefix target (distDir @ ''/'') \<and> target \<noteq> distDir then Served (http_NotFound w) s
          else (case stat target of
            None \<Rightarrow> serveFile index r w s
          | Some isDir \<Rightarrow> if isDir then serveFile index r w s else serveFile target r w s))))"

definition admin_ResolveDir :: "(string \<Rightarrow> bool option) \<Rightarrow> string list \<Rightarrow> string" where
  "admin_ResolveDir stat candidates =
     (case find (\<lambda>dir. dir \<noteq> [] \<and> stat dir = Some True \<and> stat (path_Join [dir, ''index.html'']) \<noteq> None) candidates of
        Some dir \<Rightarrow> dir | None \<Rightarrow> [])"

section \<open>The gateway\<close>

text \<open>What \<^verbatim>\<open>main\<close> wires together, with the handlers outside the repository as fields.\<close>

record 's gw_routes =
  grChecks :: "Check list"
  grMetrics :: "'s handler"
  grBff :: bff_handler
  grAdminDir :: string
  grStat :: "string \<Rightarrow> bool option"
  grServeFile :: "string \<Rightarrow> 's handler"
  grRouter :: router
  grSite :: "string option"
  grUp :: "string \<Rightarrow> 's handler"

text \<open>
  The patterns of the gateway: the fixed routes answer GET (and HEAD), the admin subtree is there when its directory was
  found, everything else goes to the API or the site.
\<close>

definition gateway_patterns :: "('r, 'n) bff_env \<Rightarrow> ('r, 'n, 'l) gwl gw_routes \<Rightarrow> ('r, 'n, 'l) gwl route list" where
  "gateway_patterns E G =
     health_routes \<lparr>hcChecks = grChecks G, hcMetrics = grMetrics G\<rparr> @
     [\<lparr>rtMethod = ''GET'', rtSegs = [Lit ''sign-in''], rtHandler = SignIn E (grBff G)\<rparr>,
      \<lparr>rtMethod = ''GET'', rtSegs = [Lit ''callback''], rtHandler = Callback E (grBff G)\<rparr>,
      \<lparr>rtMethod = ''GET'', rtSegs = [Lit ''sign-out''], rtHandler = SignOut E (grBff G)\<rparr>,
      \<lparr>rtMethod = ''GET'', rtSegs = [Lit ''sign-in'', Lit ''dev''], rtHandler = DevSignIn E (grBff G)\<rparr>] @
     (if grAdminDir G \<noteq> [] then
       [\<lparr>rtMethod = [], rtSegs = [Lit ''admin'', Multi], rtHandler = admin_Handler (grStat G) (grServeFile G) (grAdminDir G)\<rparr>,
        \<lparr>rtMethod = ''GET'', rtSegs = [Lit ''admin''], rtHandler = (\<lambda>r w s. Served (http_Redirect r ''/admin/items'' w) s)\<rparr>]
      else []) @
     [\<lparr>rtMethod = [], rtSegs = [Multi],
       rtHandler = ComposeAPIAndSite (router_ServeHTTP (grUp G) (grRouter G)) (grUp G) (grSite G)\<rparr>]"

definition gateway_mux :: "('r, 'n) bff_env \<Rightarrow> ('r, 'n, 'l) gwl gw_routes \<Rightarrow> ('r, 'n, 'l) gwl handler" where
  "gateway_mux E G = serve_mux (eJson E) (gateway_patterns E G)"

text \<open>The middleware stack of \<^verbatim>\<open>main\<close>; \<open>rnd\<close> gives the random bytes of each layer.\<close>

definition gateway_handler ::
  "('r, 'n) bff_env \<Rightarrow> 'l rate_lib \<Rightarrow> rl_config \<Rightarrow> limiter_kind \<Rightarrow> auth_mw \<Rightarrow> (nat \<Rightarrow> bytes)
    \<Rightarrow> ('r, 'n, 'l) gwl gw_routes \<Rightarrow> ('r, 'n, 'l) gwl handler" where
  "gateway_handler E RL cfg k A rnd G =
     Chain (gateway_mux E G)
       [rl_Middleware (eRedis E) RL cfg (aEntryAudit A) k (eNow E) (rnd 0) (rnd 1),
        Authenticate E A (rnd 2) (rnd 3), Recover, AccessLog, TraceContext (rnd 4) (rnd 5)]"

section \<open>Longest prefix\<close>

lemma HasPrefix_prefix: "HasPrefix path p \<longleftrightarrow> take (length p) path = p"
  by (auto simp: HasPrefix_def prefix_def) (metis append_take_drop_id)

lemma find_first_sorted:
  assumes "sorted (map (\<lambda>p. - int (length p)) ps)" "find P ps = Some p" "q \<in> set ps" "P q"
  shows "length q \<le> length p"
  using assms
proof (induction ps)
  case (Cons x xs)
  then show ?case by (cases "P x") auto
qed simp

lemma find_SomeD: "find P xs = Some x \<Longrightarrow> P x \<and> x \<in> set xs"
  by (induction xs) (auto split: if_splits)

lemma find_sorted_longest:
  assumes "find P (sort_key (\<lambda>p. - int (length p)) ps) = Some p"
  shows "P p \<and> p \<in> set ps \<and> (\<forall>q\<in>set ps. P q \<longrightarrow> length q \<le> length p)"
  using find_SomeD [OF assms] find_first_sorted [OF sorted_sort_key assms] by auto

text \<open>
  C39 The router picks the longest configured prefix of the path, and none only when no prefix matches; the order
  in which the route table is iterated does not matter.
\<close>

theorem router_longest_prefix:
  assumes new: "proxy_New parseURL rts token = Inr rt" "proxy_New parseURL rts' token = Inr rt'"
    and same: "set rts = set rts'"
  shows "(case route_for (rt_prefixes rt) path of
       None \<Rightarrow> \<forall>p\<in>fst ` set rts. \<not> HasPrefix path p
     | Some p \<Rightarrow> p \<in> fst ` set rts \<and> HasPrefix path p \<and> (\<forall>q\<in>fst ` set rts. HasPrefix path q \<longrightarrow> length q \<le> length p))
    \<and> route_for (rt_prefixes rt') path = route_for (rt_prefixes rt) path"
proof -
  have rt: "rt_prefixes rt = sort_key (\<lambda>p. - int (length p)) (map fst rts)"
    "rt_prefixes rt' = sort_key (\<lambda>p. - int (length p)) (map fst rts')"
    using new by (auto simp: proxy_New_def split: option.splits prod.splits)
  have longest: "HasPrefix path p \<and> p \<in> fst ` set rs \<and> (\<forall>q\<in>fst ` set rs. HasPrefix path q \<longrightarrow> length q \<le> length p)"
    if "find (HasPrefix path) (sort_key (\<lambda>p. - int (length p)) (map fst rs)) = Some p" for rs :: routes and p
    using find_sorted_longest [OF that] by auto
  have none: "find (HasPrefix path) (sort_key (\<lambda>p. - int (length p)) (map fst rs)) = None
      \<longleftrightarrow> (\<forall>p\<in>fst ` set rs. \<not> HasPrefix path p)" for rs :: routes
    by (simp add: find_None_iff_all)
  have "route_for (rt_prefixes rt') path = route_for (rt_prefixes rt) path"
  proof (cases "route_for (rt_prefixes rt) path")
    case None
    then have "\<forall>p\<in>fst ` set rts'. \<not> HasPrefix path p" using none [of rts] same by (simp add: route_for_def rt)
    with None show ?thesis using none [of rts'] by (simp add: route_for_def rt)
  next
    case (Some p)
    then have p: "HasPrefix path p" "p \<in> fst ` set rts" "\<forall>q\<in>fst ` set rts. HasPrefix path q \<longrightarrow> length q \<le> length p"
      using longest by (simp_all add: route_for_def rt)
    then obtain p' where p': "route_for (rt_prefixes rt') path = Some p'"
      using none [of rts'] same by (auto simp: route_for_def rt)
    then have "HasPrefix path p'" "p' \<in> fst ` set rts" "length p \<le> length p'"
      using longest [of rts' p'] same p by (auto simp: route_for_def rt)
    with p have "p' = p" by (metis HasPrefix_prefix le_antisym)
    with p' Some show ?thesis by simp
  qed
  with longest none show ?thesis by (auto simp: route_for_def rt split: option.split)
qed

section \<open>What an upstream receives\<close>

lemma fold_hdr_del: "hdr_get (fold hdr_del ks h) k =
    (if CanonicalHeaderKey k \<in> CanonicalHeaderKey ` set ks then [] else hdr_get h k)"
  by (induction ks arbitrary: h) (auto simp: hdr_get_del)

lemma hop_canonical: "map CanonicalHeaderKey hopHeaders = hopHeaders"
  by code_simp

lemma hdr_get_proxy:
  assumes "CanonicalHeaderKey k \<notin> set hopHeaders" "CanonicalHeaderKey k \<noteq> ''X-Forwarded-For''"
  shows "hdr_get (proxy_header token r) k =
     (if CanonicalHeaderKey k \<in> CanonicalHeaderKey ` set (connection_listed (Header r)) then []
      else if CanonicalHeaderKey k = ''X-Internal-Token'' \<and> token \<noteq> [] then token
      else req_header r k)"
proof -
  have hop: "CanonicalHeaderKey ` set hopHeaders = set hopHeaders"
    using hop_canonical by (metis set_map)
  have con: "connection_listed (hdr_set ''X-Internal-Token'' token h) = connection_listed h" for h
    by (simp add: connection_listed_def hdr_set_def)
  show ?thesis
    using assms
    by (auto simp: proxy_header_def Let_def removeHopByHopHeaders_def fold_hdr_del hop con hdr_get_set req_header_def
        split: option.splits)
qed

lemma Inject_Connection: "Inject idn (StripUntrusted h) ''Connection'' = h ''Connection''"
  by (simp add: Inject_def Let_def setNonEmpty_def hdr_set_def header_names StripUntrusted_apply identity_keys_def)

lemma proxied_trusted:
  assumes "token \<noteq> []"
    and "\<forall>k\<in>set (connection_listed (Header r)). CanonicalHeaderKey k \<notin> insert ''X-Internal-Token'' identity_keys"
  shows "internalTokenOK (r\<lparr>Header := proxy_header token r\<rparr>) token \<and>
     FromHeaders (proxy_header token r) = FromHeaders (Header r)"
proof -
  have get: "hdr_get (proxy_header token r) k = req_header r k"
    if "CanonicalHeaderKey k = k" "k \<in> identity_keys" for k
  proof -
    have "k \<notin> set hopHeaders" "k \<noteq> ''X-Forwarded-For''" "k \<noteq> ''X-Internal-Token''"
      using that by (auto simp: identity_keys_def hopHeaders_def)
    moreover have "k \<notin> CanonicalHeaderKey ` set (connection_listed (Header r))"
      using assms(2) that by auto
    ultimately show ?thesis using hdr_get_proxy [of k token r] that by simp
  qed
  have "hdr_get (proxy_header token r) ''X-Internal-Token'' = token"
    using hdr_get_proxy [of "''X-Internal-Token''" token r] assms by (auto simp: hopHeaders_def)
  moreover have "FromHeaders (proxy_header token r) = FromHeaders (Header r)"
    by (simp add: FromHeaders_def get header_names identity_keys_def req_header_def)
  ultimately show ?thesis by (simp add: internalTokenOK_iff req_header_def)
qed

text \<open>
  With an internal token configured, an upstream receives that token and the injected identity, whatever
  the client put into these headers, as long as the client's \<^verbatim>\<open>Connection\<close> header does not name them.
\<close>

theorem proxied_request_trusted:
  assumes "token \<noteq> []"
    and "\<forall>k\<in>set (connection_listed (Header r)). CanonicalHeaderKey k \<notin> insert ''X-Internal-Token'' identity_keys"
  shows "internalTokenOK (r\<lparr>Header := proxy_header token r\<rparr>) token \<and>
     FromHeaders (proxy_header token r) = FromHeaders (Header r)"
  using assms by (rule proxied_trusted)

text \<open>
  A client can make the gateway's reverse proxy drop an identity header the gateway has just injected, by
  naming it in \<^verbatim>\<open>Connection\<close>: the upstream then sees an authenticated user without a tenant.
\<close>

lemma connection_header_drops_tenant:
  assumes "Header r ''Connection'' = Some [''X-Tenant-Id'']" "token \<noteq> []"
  shows "TenantID (FromHeaders (proxy_header token r)) = [] \<and>
     UserID (FromHeaders (proxy_header token r)) = UserID (FromHeaders (Header r)) \<and>
     Roles (FromHeaders (proxy_header token r)) = Roles (FromHeaders (Header r)) \<and>
     internalTokenOK (r\<lparr>Header := proxy_header token r\<rparr>) token"
proof -
  have con: "connection_listed (Header r) = [''X-Tenant-Id'']"
  proof -
    have "filter (\<lambda>sf. sf \<noteq> []) (map TrimString (concat (map (Split (CHR '','')) [''X-Tenant-Id'']))) = [''X-Tenant-Id'']"
      by code_simp
    then show ?thesis using assms(1) by (simp add: connection_listed_def)
  qed
  have "hdr_get (proxy_header token r) ''X-Tenant-Id'' = []"
    "hdr_get (proxy_header token r) ''X-User-Id'' = req_header r ''X-User-Id''"
    "hdr_get (proxy_header token r) ''X-Roles'' = req_header r ''X-Roles''"
    "hdr_get (proxy_header token r) ''X-Internal-Token'' = token"
    using assms(2) hdr_get_proxy [of "''X-Tenant-Id''" token r] hdr_get_proxy [of "''X-User-Id''" token r]
      hdr_get_proxy [of "''X-Roles''" token r] hdr_get_proxy [of "''X-Internal-Token''" token r]
    by (simp_all add: con hopHeaders_def)
  then show ?thesis
    by (simp add: FromHeaders_def header_names internalTokenOK_iff req_header_def)
qed

text \<open>
  The admin file handler serves nothing but its index page and files strictly below its directory.
\<close>

theorem admin_files_contained:
  "(\<forall>serve. admin_Handler stat serve dir r w s = Served (http_NotFound w) s)
   \<or> (\<exists>p. (\<forall>serve. admin_Handler stat serve dir r w s = serve p r w s) \<and>
         (p = path_Join [path_Clean dir, ''index.html''] \<or> HasPrefix p (path_Clean dir @ ''/'') \<or> p = path_Clean dir))"
proof -
  define d rel target index where "d = path_Clean dir" and "rel = TrimPrefix (TrimPrefix (Path r) ''/admin'') ''/''"
    and "target = path_Join [d, path_Clean rel]" and "index = path_Join [d, ''index.html'']"
  note defs = d_def rel_def target_def index_def
  define bad out where "bad = (Method r \<noteq> ''GET'' \<and> Method r \<noteq> ''HEAD'')"
    and "out = (\<not> HasPrefix target (d @ ''/'') \<and> target \<noteq> d)"
  have eq: "admin_Handler stat serve dir r w s =
      (if bad \<or> rel \<noteq> [] \<and> out then Served (http_NotFound w) s
       else if rel = [] \<or> stat target \<noteq> Some False then serve index r w s else serve target r w s)" for serve
    unfolding admin_Handler_def Let_def bad_def out_def defs by (auto split: option.splits)
  have "\<not> out \<Longrightarrow> HasPrefix target (d @ ''/'') \<or> target = d" by (auto simp: out_def)
  then have "(\<forall>serve. admin_Handler stat serve dir r w s = Served (http_NotFound w) s)
   \<or> (\<exists>p. (\<forall>serve. admin_Handler stat serve dir r w s = serve p r w s) \<and>
         (p = index \<or> HasPrefix p (d @ ''/'') \<or> p = d))"
    unfolding eq by (cases "bad \<or> rel \<noteq> [] \<and> out"; cases "rel = [] \<or> stat target \<noteq> Some False") auto
  then show ?thesis unfolding defs .
qed

text \<open>The patterns of the gateway register without a conflict.\<close>

lemma gateway_patterns_registered: "mux_Handle_all [] (gateway_patterns E G) = Some (gateway_patterns E G)"
  by (simp add: gateway_patterns_def conflict_defs)

end
