(* ===== verification/Mq.thy ===== *)
theory Mq
  imports AuditEvents "HOL-Library.Multiset"
begin

text \<open>
  \<^verbatim>\<open>pkg/mq\<close>: the job envelope, publishing, and the consumer. RabbitMQ is modelled by the documented effect of
  an acknowledgement on its queues, as the step relation \<open>mq_step\<close>, which \<^verbatim>\<open>Run\<close> is shown to implement. Several consumers and lost
  connections are in \<open>ConsumerReplicas\<close>.
\<close>

section \<open>Jobs\<close>

record Job =
  jID :: string
  jType :: string
  jTime :: gotime
  jActor :: string
  jTenant :: string
  jPayload :: "gomap option"

definition job_json :: "(gotime \<Rightarrow> string) \<Rightarrow> Job \<Rightarrow> json" where
  "job_json fmt j = JObj
     ([(''id'', JStr (jID j)), (''type'', JStr (jType j)), (''time'', JStr (fmt (jTime j)))]
      @ omitempty ''actor_user_id'' (jActor j) @ omitempty ''tenant_id'' (jTenant j)
      @ (case jPayload j of None \<Rightarrow> [] | Some [] \<Rightarrow> [] | Some m \<Rightarrow> [(''payload'', JObj m)]))"

definition job_of_json :: "json \<Rightarrow> Job option" where
  "job_of_json v =
     Option.bind (dec_object v) (\<lambda>m.
     Option.bind (dec_string ''id'' m) (\<lambda>i.
     Option.bind (dec_string ''type'' m) (\<lambda>ty.
     Option.bind (dec_time ''time'' m) (\<lambda>t.
     Option.bind (dec_string ''actor_user_id'' m) (\<lambda>ac.
     Option.bind (dec_string ''tenant_id'' m) (\<lambda>te.
     Option.bind (dec_map ''payload'' m) (\<lambda>p.
       Some \<lparr>jID = i, jType = ty, jTime = t, jActor = ac, jTenant = te, jPayload = p\<rparr>)))))))"

definition ParseJob :: "json_env \<Rightarrow> gotime \<Rightarrow> string \<Rightarrow> Job res" where
  "ParseJob J now raw = (case Option.bind (jdec J raw) job_of_json of
     None \<Rightarrow> Inl (Errorf ''job json'')
   | Some j \<Rightarrow>
       if jType j = [] then Inl (Errorf ''job type is required'')
       else if jID j = [] then Inl (Errorf ''job id is required'')
       else Inr (if time_IsZero (jTime j) then j\<lparr>jTime := now\<rparr> else j))"

definition job_Marshal :: "json_env \<Rightarrow> gotime \<Rightarrow> Job \<Rightarrow> string res" where
  "job_Marshal J now j =
     (if jType j = [] \<or> jID j = [] then Inl (Errorf ''job id and type are required'')
      else Inr (jenc J (job_json (fmtTime J) (if time_IsZero (jTime j) then j\<lparr>jTime := now\<rparr> else j))))"

section \<open>Topology and publishing\<close>

record WorkQueue =
  qExchange :: string
  qQueue :: string
  qDLX :: string
  qDLQ :: string
  qRoutingKey :: string

definition DefaultWorkQueue :: "osenv \<Rightarrow> WorkQueue" where
  "DefaultWorkQueue env =
     (let p = Env env ''RABBITMQ_QUEUE_PREFIX'' ''ting.jobs'' in
      \<lparr>qExchange = p, qQueue = p @ ''.platform'', qDLX = p @ ''.dlx'', qDLQ = p @ ''.platform.dlq'', qRoutingKey = ''platform''\<rparr>)"

text \<open>The declarations, in order; each may fail. Nothing is declared after the first failure.\<close>

datatype amqp_decl =
    ExchangeDeclare string
  | QueueDeclare string "(string \<times> string) list"
  | QueueBind string string string

definition declarations :: "WorkQueue \<Rightarrow> amqp_decl list" where
  "declarations q =
     [ExchangeDeclare (qExchange q), ExchangeDeclare (qDLX q), QueueDeclare (qDLQ q) [],
      QueueBind (qDLQ q) (qRoutingKey q) (qDLX q),
      QueueDeclare (qQueue q) [(''x-dead-letter-exchange'', qDLX q), (''x-dead-letter-routing-key'', qRoutingKey q)],
      QueueBind (qQueue q) (qRoutingKey q) (qExchange q)]"

fun run_decls :: "(amqp_decl \<Rightarrow> goerr option) \<Rightarrow> amqp_decl list \<Rightarrow> amqp_decl list \<Rightarrow> goerr option \<times> amqp_decl list" where
  "run_decls ch [] done = (None, done)"
| "run_decls ch (d # ds) done = (case ch d of
     Some err \<Rightarrow> (Some (Wrapped ''declare'' err), done)
   | None \<Rightarrow> run_decls ch ds (done @ [d]))"

definition Declare :: "(amqp_decl \<Rightarrow> goerr option) option \<Rightarrow> WorkQueue \<Rightarrow> goerr option \<times> amqp_decl list" where
  "Declare ch q = (case ch of
     None \<Rightarrow> (Some (Errorf ''rabbitmq channel is nil''), [])
   | Some ch \<Rightarrow> run_decls ch (declarations q) [])"

text \<open>
  A connection opens channels; a channel declares, sets its prefetch count, consumes and publishes, each of which may fail.
  A publisher keeps its channel, or has lost it.
\<close>

record amqp_chan =
  chDecl :: "amqp_decl \<Rightarrow> goerr option"
  chQos :: "int \<Rightarrow> goerr option"
  chConsume :: "string \<Rightarrow> goerr option"
  chPublish :: "string \<Rightarrow> string \<Rightarrow> string \<Rightarrow> goerr option"
  chClose :: "goerr option"

type_synonym amqp_conn = "amqp_chan res"

record publisher =
  puCh :: "amqp_chan option"
  puQueue :: WorkQueue

definition NewPublisher :: "osenv \<Rightarrow> amqp_conn option \<Rightarrow> WorkQueue \<Rightarrow> publisher res" where
  "NewPublisher env conn queue = (case conn of
     None \<Rightarrow> Inl (Errorf ''rabbitmq connection is nil'')
   | Some c \<Rightarrow>
       (let queue = (if qExchange queue = [] then DefaultWorkQueue env else queue) in
        case c of
          Inl err \<Rightarrow> Inl (Wrapped ''open channel'' err)
        | Inr ch \<Rightarrow> (case fst (Declare (Some (chDecl ch)) queue) of
            Some err \<Rightarrow> Inl err
          | None \<Rightarrow> Inr \<lparr>puCh = Some ch, puQueue = queue\<rparr>)))"

text \<open>The error, and what was handed to the broker: exchange, routing key and body.\<close>

definition Publish :: "json_env \<Rightarrow> gotime \<Rightarrow> publisher option \<Rightarrow> Job \<Rightarrow> goerr option \<times> (string \<times> string \<times> string) option" where
  "Publish J now p job = (case p of
     None \<Rightarrow> (Some (Errorf ''publisher unavailable''), None)
   | Some p \<Rightarrow> (case puCh p of
       None \<Rightarrow> (Some (Errorf ''publisher unavailable''), None)
     | Some ch \<Rightarrow> (case job_Marshal J now job of
         Inl err \<Rightarrow> (Some err, None)
       | Inr body \<Rightarrow>
           (let ex = qExchange (puQueue p); key = qRoutingKey (puQueue p) in
            case chPublish ch ex key body of Some err \<Rightarrow> (Some err, None) | None \<Rightarrow> (None, Some (ex, key, body))))))"

definition publisher_Close :: "publisher option \<Rightarrow> goerr option" where
  "publisher_Close p = (case p of
     None \<Rightarrow> None | Some p \<Rightarrow> (case puCh p of None \<Rightarrow> None | Some ch \<Rightarrow> chClose ch))"

text \<open>
  Where the broker puts a message: into every queue bound to the exchange with that routing key (a direct exchange), and when
  a queue gives up a message, into the queues of its dead-letter exchange.
\<close>

definition routed :: "amqp_decl list \<Rightarrow> string \<Rightarrow> string \<Rightarrow> string list" where
  "routed ds ex key = concat (map (\<lambda>d. case d of QueueBind q k e \<Rightarrow> if k = key \<and> e = ex then [q] else [] | _ \<Rightarrow> []) ds)"

definition dead_lettered :: "amqp_decl list \<Rightarrow> string \<Rightarrow> string list" where
  "dead_lettered ds queue = concat (map (\<lambda>d. case d of
     QueueDeclare q args \<Rightarrow>
       if q = queue then (case (map_of args ''x-dead-letter-exchange'', map_of args ''x-dead-letter-routing-key'') of
           (Some ex, Some key) \<Rightarrow> routed ds ex key | _ \<Rightarrow> []) else []
   | _ \<Rightarrow> []) ds)"

section \<open>Consumer\<close>

text \<open>Header values of a delivery: integers (of any width, a float truncated), tables, lists and the rest.\<close>

datatype amqp =
    AInt int
  | ATable "(string \<times> amqp) list"
  | AList "amqp list"
  | AOther

type_synonym amqp_headers = "(string \<times> amqp) list"

record msg =
  mBody :: string
  mHeaders :: amqp_headers

definition death_item :: "amqp \<Rightarrow> int" where
  "death_item item = (case item of
     ATable m \<Rightarrow> (case map_of m ''count'' of Some (AInt n) \<Rightarrow> n | _ \<Rightarrow> 0)
   | _ \<Rightarrow> 0)"

definition deathCount :: "amqp_headers \<Rightarrow> int" where
  "deathCount headers = (case map_of headers ''x-death'' of
     Some (AList items) \<Rightarrow> foldl (\<lambda>total item. int64_add total (death_item item)) 0 items
   | _ \<Rightarrow> 0)"

record consumer =
  cQueue :: WorkQueue
  cPrefetch :: int
  cMaxRetries :: int

text \<open>\<open>conn\<close> and \<open>handler\<close> say whether there is one.\<close>

definition NewConsumer :: "osenv \<Rightarrow> bool \<Rightarrow> bool \<Rightarrow> WorkQueue \<Rightarrow> int \<Rightarrow> int \<Rightarrow> consumer option" where
  "NewConsumer env conn handler queue prefetch maxRetries =
     (if \<not> conn \<or> \<not> handler then None
      else Some
       \<lparr>cQueue = (if qExchange queue = [] then DefaultWorkQueue env else queue),
        cPrefetch = (if prefetch \<le> 0 then envInt env ''RABBITMQ_PREFETCH'' 10 else prefetch),
        cMaxRetries = (if maxRetries \<le> 0 then envInt env ''RABBITMQ_MAX_RETRIES'' 3 else maxRetries)\<rparr>)"

text \<open>What a job handler does: it returns nil, an error, or panics (and takes the process down).\<close>

datatype job_res = JobOk | JobErr goerr | JobPanic

datatype verdict = Ack | Nack bool | Crash

type_synonym 's job_handler = "Job \<Rightarrow> 's \<Rightarrow> job_res \<times> 's"

definition handleDelivery :: "json_env \<Rightarrow> gotime \<Rightarrow> consumer \<Rightarrow> 's job_handler \<Rightarrow> msg \<Rightarrow> 's \<Rightarrow> verdict \<times> 's" where
  "handleDelivery J now c H d s = (case ParseJob J now (mBody d) of
     Inl _ \<Rightarrow> (Nack False, s)
   | Inr job \<Rightarrow> (case H job s of
       (JobOk, s') \<Rightarrow> (Ack, s')
     | (JobErr err, s') \<Rightarrow>
         (let retries = int64_add (deathCount (mHeaders d)) 1; requeue = retries < cMaxRetries c in (Nack requeue, s'))
     | (JobPanic, s') \<Rightarrow> (Crash, s')))"

text \<open>
  \<^verbatim>\<open>Run\<close>: what the select statement meets, in order (a delivery, the end of the context, a closed channel), and how the call
  ends: it returns, still waits when nothing more comes, or the process dies. The settlements made are kept in order.
\<close>

datatype run_event = CtxDone goerr | ChanClosed | Delivered gotime msg

datatype run_end = Waiting | Returned "goerr option" | Died

fun Run_loop :: "json_env \<Rightarrow> consumer \<Rightarrow> 's job_handler \<Rightarrow> run_event list \<Rightarrow> 's \<Rightarrow> run_end \<times> (msg \<times> verdict) list \<times> 's" where
  "Run_loop J c H [] s = (Waiting, [], s)"
| "Run_loop J c H (CtxDone err # evs) s = (Returned (Some err), [], s)"
| "Run_loop J c H (ChanClosed # evs) s = (Returned (Some (Errorf ''rabbitmq deliveries channel closed'')), [], s)"
| "Run_loop J c H (Delivered now d # evs) s = (case handleDelivery J now c H d s of
     (Crash, s') \<Rightarrow> (Died, [(d, Crash)], s')
   | (v, s') \<Rightarrow> (case Run_loop J c H evs s' of (e, out, s'') \<Rightarrow> (e, (d, v) # out, s'')))"

definition consumer_setup :: "amqp_conn \<Rightarrow> consumer \<Rightarrow> goerr option" where
  "consumer_setup conn c = (case conn of
     Inl err \<Rightarrow> Some (Wrapped ''open channel'' err)
   | Inr ch \<Rightarrow> (case fst (Declare (Some (chDecl ch)) (cQueue c)) of
       Some err \<Rightarrow> Some err
     | None \<Rightarrow> (case chQos ch (cPrefetch c) of
         Some err \<Rightarrow> Some (Wrapped ''qos'' err)
       | None \<Rightarrow> map_option (Wrapped ''consume'') (chConsume ch (qQueue (cQueue c))))))"

definition consumer_Run ::
  "json_env \<Rightarrow> amqp_conn \<Rightarrow> consumer option \<Rightarrow> 's job_handler \<Rightarrow> run_event list \<Rightarrow> 's \<Rightarrow> run_end \<times> (msg \<times> verdict) list \<times> 's" where
  "consumer_Run J conn co H evs s = (case co of
     None \<Rightarrow> (Returned None, [], s)
   | Some c \<Rightarrow> (case consumer_setup conn c of
       Some err \<Rightarrow> (Returned (Some err), [], s)
     | None \<Rightarrow> Run_loop J c H evs s))"

section \<open>The queue\<close>

text \<open>
  The broker's part: an acknowledged message is gone, one refused without requeue moves to the dead-letter queue, one
  refused with requeue stays queued with its headers unchanged, and when the consumer dies the broker requeues what was not
  acknowledged. Prefetching lets any queued message be the next one handled.
\<close>

record 's mq_state =
  mqQueue :: "msg list"
  mqDlq :: "msg list"
  mqAcked :: "msg list"
  mqWork :: 's

definition settle :: "msg \<Rightarrow> verdict \<Rightarrow> 's \<Rightarrow> 's mq_state \<Rightarrow> 's mq_state" where
  "settle m v s' st = (case v of
     Ack \<Rightarrow> st\<lparr>mqQueue := remove1 m (mqQueue st), mqAcked := mqAcked st @ [m], mqWork := s'\<rparr>
   | Nack requeue \<Rightarrow>
       if requeue then st\<lparr>mqWork := s'\<rparr>
       else st\<lparr>mqQueue := remove1 m (mqQueue st), mqDlq := mqDlq st @ [m], mqWork := s'\<rparr>
   | Crash \<Rightarrow> st\<lparr>mqWork := s'\<rparr>)"

text \<open>A step publishes a message (its label) or handles a delivery.\<close>

inductive mq_step :: "json_env \<Rightarrow> consumer \<Rightarrow> 's job_handler \<Rightarrow> 's mq_state \<Rightarrow> msg option \<Rightarrow> 's mq_state \<Rightarrow> bool"
  for J :: json_env and c :: consumer and H :: "'s job_handler" where
  publish: "mq_step J c H st (Some m) (st\<lparr>mqQueue := mqQueue st @ [m]\<rparr>)"
| deliver: "m \<in> set (mqQueue st) \<Longrightarrow> handleDelivery J now c H m (mqWork st) = (v, s') \<Longrightarrow>
    mq_step J c H st None (settle m v s' st)"

inductive_cases mq_stepE [elim]: "mq_step J c H st l st'"

text \<open>Reachability, with the messages published on the way.\<close>

inductive mq_reach :: "json_env \<Rightarrow> consumer \<Rightarrow> 's job_handler \<Rightarrow> 's mq_state \<Rightarrow> msg list \<Rightarrow> 's mq_state \<Rightarrow> bool"
  for J :: json_env and c :: consumer and H :: "'s job_handler" and st0 :: "'s mq_state" where
  start: "mq_reach J c H st0 [] st0"
| step: "mq_reach J c H st0 ms st \<Longrightarrow> mq_step J c H st l st' \<Longrightarrow>
    mq_reach J c H st0 (case l of Some m \<Rightarrow> m # ms | None \<Rightarrow> ms) st'"

definition held :: "'s mq_state \<Rightarrow> msg multiset" where
  "held st = mset (mqQueue st) + mset (mqDlq st) + mset (mqAcked st)"

lemma held_settle: "m \<in> set (mqQueue st) \<Longrightarrow> held (settle m v s' st) = held st"
  by (cases v) (auto simp: settle_def held_def insert_DiffM)

text \<open>No message is lost or duplicated: what the broker holds is what it held and what was published.\<close>

lemma mq_reach_held:
  assumes "mq_reach J c H st0 ms st"
  shows "held st = held st0 + mset ms"
  using assms
proof induction
  case (step ms st l st')
  from step.hyps(2) show ?case
    by cases (use step.IH in \<open>simp_all add: held_settle, simp add: held_def\<close>)
qed simp

text \<open>A message that does not parse goes to the dead-letter queue at its first delivery.\<close>

lemma malformed_job_dead_lettered:
  "ParseJob J now (mBody m) = Inl e \<Longrightarrow> handleDelivery J now c H m s = (Nack False, s)"
  by (simp add: handleDelivery_def)

section \<open>Round trip\<close>

definition job_wire_ok :: "json_env \<Rightarrow> Job \<Rightarrow> bool" where
  "job_wire_ok J j \<longleftrightarrow> jdec J (jenc J (job_json (fmtTime J) j)) = Some (job_json (fmtTime J) j) \<and>
     parse_rfc3339 True (fmtTime J (jTime j)) = Some (jTime j) \<and>
     (case jPayload j of None \<Rightarrow> True | Some m \<Rightarrow> m \<noteq> [] \<and> distinct (map fst m))"

lemma foldName_job_keys [simp]: "foldName ''payload'' = ''payload''"
  by code_simp

lemma job_json_roundtrip:
  assumes "job_wire_ok J j"
  shows "job_of_json (job_json (fmtTime J) j) = Some j"
proof -
  let ?m = "case job_json (fmtTime J) j of JObj m \<Rightarrow> m"
  have obj: "dec_object (job_json (fmtTime J) j) = Some ?m"
    by (simp add: job_json_def dec_object_def)
  have data: "dec_map ''payload'' ?m = Some (jPayload j)"
    using assms
    by (auto simp: job_wire_ok_def job_json_def omitempty_def dec_map_def field_vals_def map_put_all_distinct
        simp del: foldName.simps map_put_all_Cons split: option.splits list.splits)
  have strs: "dec_string ''id'' ?m = Some (jID j)" "dec_string ''type'' ?m = Some (jType j)"
    "dec_string ''tenant_id'' ?m = Some (jTenant j)" "dec_string ''actor_user_id'' ?m = Some (jActor j)"
    by (auto simp: job_json_def omitempty_def dec_string_def field_vals_def
        simp del: foldName.simps split: option.splits list.splits)
  have time: "dec_time ''time'' ?m = Some (jTime j)"
    using assms by (auto simp: job_wire_ok_def job_json_def omitempty_def dec_time_def field_vals_def
        simp del: foldName.simps split: option.splits list.splits)
  show ?thesis by (simp add: job_of_json_def obj data strs time)
qed

lemma job_roundtrip:
  assumes "job_wire_ok J j" "jType j \<noteq> []" "jID j \<noteq> []" "\<not> time_IsZero (jTime j)"
  shows "\<exists>raw. job_Marshal J now j = Inr raw \<and> ParseJob J now' raw = Inr j"
  using assms job_json_roundtrip [OF assms(1)]
  by (simp add: job_Marshal_def ParseJob_def) (simp add: job_wire_ok_def)

section \<open>Topology\<close>

lemma run_decls_ok: "run_decls ch ds done = (None, out) \<Longrightarrow> out = done @ ds"
  by (induction ch ds "done" rule: run_decls.induct) (auto split: option.splits)

lemma Declare_ok: "Declare ch q = (None, ds) \<Longrightarrow> ds = declarations q"
  by (auto simp: Declare_def dest: run_decls_ok split: option.splits)

lemma work_queue_routes:
  "routed (declarations (DefaultWorkQueue env)) (qExchange (DefaultWorkQueue env)) (qRoutingKey (DefaultWorkQueue env)) = [qQueue (DefaultWorkQueue env)]"
  "dead_lettered (declarations (DefaultWorkQueue env)) (qQueue (DefaultWorkQueue env)) = [qDLQ (DefaultWorkQueue env)]"
  by (simp_all add: routed_def dead_lettered_def declarations_def DefaultWorkQueue_def Let_def)

lemma default_exchange: "qExchange (DefaultWorkQueue env) \<noteq> []"
  by (simp add: DefaultWorkQueue_def Env_def Let_def)

section \<open>The consumer and the queue\<close>

definition deliveries :: "run_event list \<Rightarrow> msg list" where
  "deliveries evs = concat (map (\<lambda>e. case e of Delivered now m \<Rightarrow> [m] | _ \<Rightarrow> []) evs)"

lemma deliveries_simps [simp]:
  "deliveries [] = []" "deliveries (Delivered now m # evs) = m # deliveries evs"
  "deliveries (CtxDone err # evs) = deliveries evs" "deliveries (ChanClosed # evs) = deliveries evs"
  by (simp_all add: deliveries_def)

lemma reach_trans:
  assumes "mq_reach J c H st1 ms' st2" "mq_reach J c H st0 ms st1"
  shows "mq_reach J c H st0 (ms' @ ms) st2"
  using assms(1)
proof induction
  case (step ms' st l st')
  from mq_reach.step [OF step.IH step.hyps(2)] show ?case by (cases l) simp_all
qed (use assms(2) in simp)

lemma settle_keeps:
  assumes "mset (m # ms) \<subseteq># mset (mqQueue st)"
  shows "mset ms \<subseteq># mset (mqQueue (settle m v s' st))"
proof -
  have "mset ms \<subseteq># mset (mqQueue st) - {#m#}"
    using assms by (simp add: insert_subset_eq_iff)
  moreover have "mset ms \<subseteq># mset (mqQueue st)"
    using calculation by (meson diff_subset_eq_self subset_mset.order_trans)
  ultimately show ?thesis by (cases v) (auto simp: settle_def)
qed

text \<open>The messages with a given verdict, in the order they were settled.\<close>

definition settled :: "verdict \<Rightarrow> (msg \<times> verdict) list \<Rightarrow> msg list" where
  "settled v out = map fst (filter (\<lambda>x. snd x = v) out)"

lemma settled_simps [simp]: "settled v [] = []" "settled v ((m, v') # out) = (if v' = v then m # settled v out else settled v out)"
  by (simp_all add: settled_def)

lemma settle_lists:
  "mqAcked (settle m v s' st) = mqAcked st @ settled Ack [(m, v)]"
  "mqDlq (settle m v s' st) = mqDlq st @ settled (Nack False) [(m, v)]"
  "mqWork (settle m v s' st) = s'"
  by (cases v; simp add: settle_def)+

lemma Run_loop_simulated:
  "mset (deliveries evs) \<subseteq># mset (mqQueue st) \<Longrightarrow> Run_loop J c H evs (mqWork st) = (e, out, s') \<Longrightarrow>
    \<exists>st'. mq_reach J c H st [] st' \<and> mqWork st' = s' \<and> mqAcked st' = mqAcked st @ settled Ack out \<and>
      mqDlq st' = mqDlq st @ settled (Nack False) out"
proof (induction evs arbitrary: st e out s')
  case Nil
  then show ?case by (auto intro!: exI [of _ st] mq_reach.start)
next
  case (Cons ev evs)
  show ?case
  proof (cases ev)
    case (Delivered now m)
    obtain v s1 where h: "handleDelivery J now c H m (mqWork st) = (v, s1)" by fastforce
    let ?st = "settle m v s1 st"
    have m: "m \<in> set (mqQueue st)" using Cons.prems(1) Delivered by (auto dest: mset_subset_eqD)
    have reach: "mq_reach J c H st [] ?st"
      using mq_reach.step [OF mq_reach.start mq_step.deliver [OF m h]] by simp
    show ?thesis
    proof (cases "v = Crash")
      case True
      then show ?thesis using Cons.prems(2) Delivered h reach by (auto simp: settle_lists intro!: exI [of _ ?st])
    next
      case False
      obtain e1 out1 s2 where r: "Run_loop J c H evs s1 = (e1, out1, s2)" by (metis prod_cases3)
      have now: "e = e1" "out = (m, v) # out1" "s' = s2"
        using Cons.prems(2) Delivered h r False by (auto split: verdict.splits)
      have "mset (deliveries evs) \<subseteq># mset (mqQueue ?st)" using settle_keeps Cons.prems(1) Delivered by simp
      from Cons.IH [OF this, of e1 out1 s2] r obtain st' where
        st': "mq_reach J c H ?st [] st'" "mqWork st' = s2" "mqAcked st' = mqAcked ?st @ settled Ack out1"
          "mqDlq st' = mqDlq ?st @ settled (Nack False) out1"
        by (auto simp: settle_lists)
      from reach_trans [OF st'(1) reach] st'(2-) now show ?thesis by (auto simp: settle_lists intro!: exI [of _ st'])
    qed
  qed (use Cons.prems in \<open>auto intro!: exI [of _ st] mq_reach.start\<close>)
qed

lemma Run_loop_order:
  "Run_loop J c H evs s = (e, out, s') \<Longrightarrow> \<exists>rest. deliveries evs = map fst out @ rest"
  by (induction J c H evs s arbitrary: e out s' rule: Run_loop.induct) (auto split: prod.splits verdict.splits)

lemma Run_loop_stops:
  "fst (Run_loop J c H evs s) = Waiting \<Longrightarrow> CtxDone err \<notin> set evs \<and> ChanClosed \<notin> set evs \<and> map fst (fst (snd (Run_loop J c H evs s))) = deliveries evs"
  by (induction J c H evs s rule: Run_loop.induct) (auto split: prod.splits verdict.splits)

section \<open>Properties\<close>

text \<open>
  C30 Publishing and consuming agree: a job a publisher accepted goes to the work queue and to no other, arrives at the handler
  exactly as it was sent, and when the consumer refuses it for good it ends in the dead-letter queue.
\<close>

theorem published_job_reaches_handler:
  assumes "NewPublisher env (Some conn) (DefaultWorkQueue env) = Inr p"
    and "Publish J now (Some p) job = (None, Some (ex, key, body))"
    and "job_wire_ok J job" "\<not> time_IsZero (jTime job)"
  shows "routed (declarations (puQueue p)) ex key = [qQueue (puQueue p)] \<and>
    dead_lettered (declarations (puQueue p)) (qQueue (puQueue p)) = [qDLQ (puQueue p)] \<and>
    handleDelivery J now' c H \<lparr>mBody = body, mHeaders = hs\<rparr> s = (case H job s of
      (JobOk, s') \<Rightarrow> (Ack, s')
    | (JobErr err, s') \<Rightarrow> (Nack (int64_add (deathCount hs) 1 < cMaxRetries c), s')
    | (JobPanic, s') \<Rightarrow> (Crash, s'))"
proof -
  have p: "puQueue p = DefaultWorkQueue env"
    using assms(1) default_exchange [of env] by (auto simp: NewPublisher_def Let_def split: sum.splits option.splits)
  have sent: "ex = qExchange (DefaultWorkQueue env)" "key = qRoutingKey (DefaultWorkQueue env)" "job_Marshal J now job = Inr body"
    using assms(2) p by (auto simp: Publish_def Let_def split: option.splits sum.splits)
  then have "jType job \<noteq> []" "jID job \<noteq> []" by (auto simp: job_Marshal_def split: if_splits)
  from job_roundtrip [OF assms(3) this assms(4), of now now'] sent(3) have "ParseJob J now' body = Inr job" by simp
  then show ?thesis
    by (simp add: p sent work_queue_routes handleDelivery_def split: prod.splits job_res.splits)
qed


text \<open>
  C29 The consumer ends: once the context is cancelled or the channel closed the call does not wait any more, whatever was
  delivered; and as long as it waits, every delivery so far is settled, in order.
\<close>

theorem consumer_run_ends:
  assumes "consumer_Run J conn co H evs s = (e, out, s')"
  shows "(CtxDone err \<in> set evs \<or> ChanClosed \<in> set evs \<longrightarrow> e \<noteq> Waiting) \<and> (e = Waiting \<longrightarrow> map fst out = deliveries evs)"
proof (cases "\<exists>c. co = Some c \<and> consumer_setup conn c = None")
  case True
  then obtain c where "Run_loop J c H evs s = (e, out, s')" using assms by (auto simp: consumer_Run_def)
  with Run_loop_stops [of J c H evs s err] show ?thesis by auto
next
  case False
  with assms have "e \<noteq> Waiting" by (auto simp: consumer_Run_def split: option.splits)
  then show ?thesis by simp
qed

end
