(* ===== verification/Tables.thy ===== *)
theory Tables
  imports Guards
begin

text \<open>
  The PostgreSQL tables behind the services, as lists of rows in insertion order. The SQL statements of the
  stores are translated in the store theories from the operations here: an insert that does nothing on a
  conflict (contract \<open>keyed_table\<close>), an upsert, a filtered newest-first listing with a limit, and the
  microsecond resolution of a timestamp column. A statement that fails is a fault given as an argument.
\<close>

section \<open>Stores held in interfaces\<close>

text \<open>
  A store pointer is known by whether its pool is set. Calling a method through an interface that holds a
  nil pointer dereferences it and panics.
\<close>

definition with_store :: "bool iface \<Rightarrow> (bool \<Rightarrow> 's hres) \<Rightarrow> writer \<Rightarrow> 's \<Rightarrow> 's hres" where
  "with_store i f w s = (case i of
     IPtr (Some pool) \<Rightarrow> f pool
   | _ \<Rightarrow> Panicked ''invalid memory address or nil pointer dereference'' w s)"

text \<open>How the services build the interface value: the pointer is set only when the database connected.\<close>

definition store_iface :: "bool \<Rightarrow> bool iface" where
  "store_iface connected = IPtr (if connected then Some True else None)"

lemma store_iface_not_nil: "\<not> iface_is_nil (store_iface c)"
  by (simp add: store_iface_def)

section \<open>Statements\<close>

text \<open>\<^verbatim>\<open>INSERT ... ON CONFLICT (key) DO NOTHING\<close>: whether a row was written, and the table.\<close>

definition insert_nothing :: "('row \<Rightarrow> 'k) \<Rightarrow> 'row \<Rightarrow> 'row list \<Rightarrow> bool \<times> 'row list" where
  "insert_nothing key r tbl = (if list_ex (\<lambda>x. key x = key r) tbl then (False, tbl) else (True, tbl @ [r]))"

text \<open>\<^verbatim>\<open>INSERT ... ON CONFLICT (key) DO UPDATE\<close>: the row returned, and the table.\<close>

fun upsert :: "('row \<Rightarrow> 'k) \<Rightarrow> ('row \<Rightarrow> 'row) \<Rightarrow> 'row \<Rightarrow> 'row list \<Rightarrow> 'row \<times> 'row list" where
  "upsert key upd r [] = (r, [r])"
| "upsert key upd r (x # xs) =
     (if key x = key r then (upd x, upd x # xs) else (case upsert key upd r xs of (y, ys) \<Rightarrow> (y, x # ys)))"

text \<open>\<^verbatim>\<open>WHERE P ORDER BY t DESC LIMIT n\<close>; rows with equal times keep their order.\<close>

definition newest :: "('row \<Rightarrow> bool) \<Rightarrow> ('row \<Rightarrow> int) \<Rightarrow> nat \<Rightarrow> 'row list \<Rightarrow> 'row list" where
  "newest P t n tbl = take n (sort_key (\<lambda>r. - t r) (filter P tbl))"

text \<open>The limit the listings apply: 50 when it is not positive, at most 100.\<close>

definition clamp_limit :: "int \<Rightarrow> int" where
  "clamp_limit n = (let n = (if n \<le> 0 then 50 else n) in if n > 100 then 100 else n)"

text \<open>The limit a handler reads from the query: 50 unless the parameter is an integer.\<close>

definition query_limit :: "request \<Rightarrow> int" where
  "query_limit r = (let raw = query_get r ''limit'' in
     if raw \<noteq> [] then (case Atoi raw of Some n \<Rightarrow> n | None \<Rightarrow> 50) else 50)"

definition pg_time :: "gotime \<Rightarrow> gotime" where
  "pg_time t = t div 1000 * 1000"

lemma clamp_limit_bounds: "1 \<le> clamp_limit n \<and> clamp_limit n \<le> 100"
  by (simp add: clamp_limit_def Let_def)

lemma newest_set: "set (newest P t n tbl) \<subseteq> {r \<in> set tbl. P r}"
  by (auto simp: newest_def dest: set_takeD)

lemma newest_length: "length (newest P t n tbl) \<le> n"
  by (simp add: newest_def)

lemma newest_clamped: "length (newest P t (nat (clamp_limit n)) tbl) \<le> 100"
proof -
  have "nat (clamp_limit n) \<le> 100" using clamp_limit_bounds [of n] by linarith
  with newest_length show ?thesis by (rule order.trans)
qed

lemma newest_all: "length (filter P tbl) \<le> n \<Longrightarrow> set (newest P t n tbl) = {r \<in> set tbl. P r}"
  by (simp add: newest_def)

lemma newest_sorted: "sorted_wrt (\<lambda>a b. t b \<le> t a) (newest P t n tbl)"
proof -
  have "sorted (map (\<lambda>r. - t r) (sort_key (\<lambda>r. - t r) (filter P tbl)))" by (rule sorted_sort_key)
  then have "sorted_wrt (\<lambda>a b. t b \<le> t a) (sort_key (\<lambda>r. - t r) (filter P tbl))"
    by (simp add: sorted_map)
  then show ?thesis unfolding newest_def by (rule sorted_wrt_take)
qed

text \<open>What a truncated listing leaves out is no newer than anything it shows.\<close>

lemma newest_cut:
  assumes "x \<in> set tbl" "P x" "x \<notin> set (newest P t n tbl)" "y \<in> set (newest P t n tbl)"
  shows "t x \<le> t y"
proof -
  let ?s = "sort_key (\<lambda>r. - t r) (filter P tbl)"
  have "x \<in> set (drop n ?s)"
    using assms(1-3) set_append [of "take n ?s" "drop n ?s"] by (auto simp: newest_def)
  moreover have "sorted_wrt (\<lambda>a b. t b \<le> t a) ?s"
    using sorted_sort_key [of "\<lambda>r. - t r" "filter P tbl"] by (simp add: sorted_map)
  then have "sorted_wrt (\<lambda>a b. t b \<le> t a) (take n ?s @ drop n ?s)" by (simp only: append_take_drop_id)
  then have "\<forall>a\<in>set (take n ?s). \<forall>b\<in>set (drop n ?s). t b \<le> t a" unfolding sorted_wrt_append by blast
  ultimately show ?thesis using assms(4) by (simp add: newest_def)
qed

section \<open>First writer wins\<close>

text \<open>A sequence of inserts, and the primary-key invariant.\<close>

fun run_inserts :: "('row \<Rightarrow> 'row list \<Rightarrow> bool \<times> 'row list) \<Rightarrow> 'row list \<Rightarrow> 'row list \<Rightarrow> 'row list" where
  "run_inserts ins [] tbl = tbl"
| "run_inserts ins (r # rs) tbl = run_inserts ins rs (snd (ins r tbl))"

definition keyed :: "('row \<Rightarrow> 'k) \<Rightarrow> 'row list \<Rightarrow> bool" where
  "keyed key tbl \<longleftrightarrow> distinct (map key tbl)"

lemma keyed_count:
  "keyed key tbl \<Longrightarrow> length (filter (\<lambda>x. key x = k) tbl) = (if k \<in> key ` set tbl then 1 else 0)"
  unfolding keyed_def by (induction tbl) (auto simp: filter_empty_conv)

text \<open>The contract of a table written only by an insert that does nothing on a conflict.\<close>

locale keyed_table =
  fixes key :: "'row \<Rightarrow> 'k" and ins :: "'row \<Rightarrow> 'row list \<Rightarrow> bool \<times> 'row list"
  assumes ins_new: "key r \<notin> key ` set tbl \<Longrightarrow> ins r tbl = (True, tbl @ [r])"
    and ins_dup: "key r \<in> key ` set tbl \<Longrightarrow> ins r tbl = (False, tbl)"
begin

lemma ins_keyed: "keyed key tbl \<Longrightarrow> keyed key (snd (ins r tbl))"
  by (cases "key r \<in> key ` set tbl") (auto simp: ins_new ins_dup keyed_def)

lemma ins_append_only: "\<exists>new. snd (ins r tbl) = tbl @ new"
  by (cases "key r \<in> key ` set tbl") (auto simp: ins_new ins_dup)

lemma ins_present: "key r \<in> key ` set (snd (ins r tbl))"
  by (cases "key r \<in> key ` set tbl") (auto simp: ins_new ins_dup)

lemma ins_again: "key r' = key r \<Longrightarrow> ins r' (snd (ins r tbl)) = (False, snd (ins r tbl))"
  using ins_present by (intro ins_dup) metis

lemma run_keyed: "keyed key tbl \<Longrightarrow> keyed key (run_inserts ins rs tbl)"
  by (induction rs arbitrary: tbl) (simp_all add: ins_keyed)

lemma run_append_only: "\<exists>new. run_inserts ins rs tbl = tbl @ new"
proof (induction rs arbitrary: tbl)
  case (Cons r rs)
  show ?case using Cons.IH [of "snd (ins r tbl)"] ins_append_only [of r tbl] by auto
qed simp

lemma run_keys: "key ` set (run_inserts ins rs tbl) = key ` set (tbl @ rs)"
proof (induction rs arbitrary: tbl)
  case (Cons r rs)
  show ?case
    using Cons.IH [of "snd (ins r tbl)"]
    by (cases "key r \<in> key ` set tbl") (auto simp: ins_new ins_dup)
qed simp

text \<open>Over any sequence of inserts the table holds one row per key, the first one given for it.\<close>

lemma run_count:
  "keyed key tbl \<Longrightarrow> length (filter (\<lambda>x. key x = k) (run_inserts ins rs tbl)) = (if k \<in> key ` set (tbl @ rs) then 1 else 0)"
  using keyed_count [OF run_keyed, of tbl k rs] run_keys [of rs tbl] by simp

lemma ins_find: "find (\<lambda>x. key x = k) (snd (ins r tbl)) = find (\<lambda>x. key x = k) (tbl @ [r])"
proof (cases "key r \<in> key ` set tbl")
  case True
  then show ?thesis by (cases "key r = k") (auto simp: ins_dup find_append find_None_iff_all split: option.splits)
next
  case False
  then show ?thesis by (simp add: ins_new)
qed

lemma run_find: "find (\<lambda>x. key x = k) (run_inserts ins rs tbl) = find (\<lambda>x. key x = k) (tbl @ rs)"
proof (induction rs arbitrary: tbl)
  case (Cons r rs)
  show ?case using Cons.IH [of "snd (ins r tbl)"] ins_find [of k r tbl] by (simp add: find_append split: option.splits)
qed simp

end

lemma insert_nothing_new: "key r \<notin> key ` set tbl \<Longrightarrow> insert_nothing key r tbl = (True, tbl @ [r])"
  by (simp add: insert_nothing_def list_ex_iff) (metis image_eqI)

lemma insert_nothing_dup: "key r \<in> key ` set tbl \<Longrightarrow> insert_nothing key r tbl = (False, tbl)"
  by (simp add: insert_nothing_def list_ex_iff) (metis imageE)

interpretation nothing: keyed_table key "insert_nothing key"
  by unfold_locales (simp_all add: insert_nothing_new insert_nothing_dup)

section \<open>Upsert\<close>

lemma upsert_keys: "(\<And>x. key (upd x) = key x) \<Longrightarrow>
    map key (snd (upsert key upd r tbl)) = (if key r \<in> key ` set tbl then map key tbl else map key tbl @ [key r])"
  by (induction tbl) (auto split: prod.splits)

lemma upsert_row: "(\<And>x. key (upd x) = key x) \<Longrightarrow> fst (upsert key upd r tbl) \<in> set (snd (upsert key upd r tbl))
    \<and> key (fst (upsert key upd r tbl)) = key r"
  by (induction tbl) (auto split: prod.splits)

lemma upsert_value: "fst (upsert key upd r tbl) =
    (case find (\<lambda>x. key x = key r) tbl of None \<Rightarrow> r | Some x \<Rightarrow> upd x)"
  by (induction tbl) (auto split: prod.splits)

lemma upsert_other: "(\<And>x. key (upd x) = key x) \<Longrightarrow>
    filter (\<lambda>x. key x \<noteq> key r) (snd (upsert key upd r tbl)) = filter (\<lambda>x. key x \<noteq> key r) tbl"
  by (induction tbl) (auto split: prod.splits)

lemma upsert_find: "(\<And>x. key (upd x) = key x) \<Longrightarrow>
    find (\<lambda>x. key x = key r) (snd (upsert key upd r tbl)) = Some (fst (upsert key upd r tbl))"
  by (induction tbl) (auto split: prod.splits)

end
