(* ===== verification/AuditService.thy ===== *)
theory AuditService
  imports Tables Mux
begin

text \<open>
  \<^verbatim>\<open>services/audit-service\<close>: the append-only event store, the ingest and query handlers, and the routes of
  \<^verbatim>\<open>main\<close>. The state is the table of rows. The store is an instance of the \<open>keyed_table\<close> contract.
\<close>

section \<open>Store\<close>

text \<open>A row; NULL columns are \<open>None\<close>.\<close>

record audit_row =
  arID :: string
  arSource :: string
  arType :: string
  arSubject :: "string option"
  arTime :: gotime
  arTenant :: "string option"
  arActor :: "string option"
  arData :: gomap
  arReceived :: gotime

definition nullString :: "string \<Rightarrow> string option" where
  "nullString s = (if s = [] then None else Some s)"

text \<open>The row of an event; \<open>now\<close> is the server's \<^verbatim>\<open>now()\<close>. An absent or null data map is stored as \<^verbatim>\<open>{}\<close>.\<close>

definition event_row :: "gotime \<Rightarrow> Event \<Rightarrow> audit_row" where
  "event_row now e =
     \<lparr>arID = EvID e, arSource = EvSource e, arType = EvType e, arSubject = nullString (EvSubject e),
      arTime = pg_time (EvTime e), arTenant = nullString (EvTenantID e), arActor = nullString (EvActorUserID e),
      arData = (case EvData e of None \<Rightarrow> [] | Some m \<Rightarrow> m), arReceived = now\<rparr>"

definition audit_insert :: "audit_row \<Rightarrow> audit_row list \<Rightarrow> bool \<times> audit_row list" where
  "audit_insert r tbl = insert_nothing arID r tbl"

interpretation events: keyed_table arID audit_insert
  by unfold_locales (simp_all add: audit_insert_def insert_nothing_new insert_nothing_dup)

definition Events_Insert :: "bool \<Rightarrow> goerr option \<Rightarrow> gotime \<Rightarrow> Event \<Rightarrow> audit_row list \<Rightarrow> goerr option \<times> audit_row list" where
  "Events_Insert pool fault now e tbl =
     (if \<not> pool then (Some (Errorf ''database not connected''), tbl)
      else (case fault of
        Some err \<Rightarrow> (Some (Wrapped ''insert audit event'' err), tbl)
      | None \<Rightarrow> (None, snd (audit_insert (event_row now e) tbl))))"

record audit_filter =
  lfTenantID :: string
  lfType :: string
  lfSource :: string
  lfLimit :: int

definition audit_where :: "audit_filter \<Rightarrow> audit_row \<Rightarrow> bool" where
  "audit_where f r \<longleftrightarrow>
     (lfTenantID f \<noteq> [] \<longrightarrow> arTenant r = Some (lfTenantID f) \<or> arTenant r = None \<or> arTenant r = Some []) \<and>
     (lfType f \<noteq> [] \<longrightarrow> arType r = lfType f) \<and>
     (lfSource f \<noteq> [] \<longrightarrow> arSource r = lfSource f)"

text \<open>
  \<^verbatim>\<open>List\<close>; rows with the same event time come in the order \<open>id_order\<close> gives, which stands for the
  column's collation.
\<close>

definition Events_List ::
  "(audit_row list \<Rightarrow> audit_row list) \<Rightarrow> bool \<Rightarrow> goerr option \<Rightarrow> audit_filter \<Rightarrow> audit_row list \<Rightarrow> audit_row list res" where
  "Events_List id_order pool fault f tbl =
     (if \<not> pool then Inl (Errorf ''database not connected'')
      else (case fault of
        Some err \<Rightarrow> Inl (Wrapped ''list audit events'' err)
      | None \<Rightarrow> Inr (newest (audit_where f) arTime (nat (clamp_limit (lfLimit f))) (id_order tbl))))"

definition opt_str :: "string option \<Rightarrow> string" where
  "opt_str s = (case s of None \<Rightarrow> [] | Some s \<Rightarrow> s)"

definition event_row_json :: "(gotime \<Rightarrow> string) \<Rightarrow> audit_row \<Rightarrow> json" where
  "event_row_json fmt r = JObj
     ([(''id'', JStr (arID r)), (''source'', JStr (arSource r)), (''type'', JStr (arType r))]
      @ omitempty ''subject'' (opt_str (arSubject r))
      @ [(''time'', JStr (fmt (arTime r)))]
      @ omitempty ''tenant_id'' (opt_str (arTenant r))
      @ omitempty ''actor_user_id'' (opt_str (arActor r))
      @ (if arData r = [] then [] else [(''data'', JObj (arData r))])
      @ [(''received_at'', JStr (fmt (arReceived r)))])"

section \<open>Handlers\<close>

record 'st audit_env =
  auJson :: json_env
  auStruct :: "gomap \<Rightarrow> 'st res"
  auNow :: gotime
  auFault :: "goerr option"
  auOrder :: "audit_row list \<Rightarrow> audit_row list"
  auHealth :: "audit_row list health"

definition ingest_handle :: "'st audit_env \<Rightarrow> bool iface \<Rightarrow> audit_row list handler" where
  "ingest_handle E events r w tbl =
     (let rid = req_header r HeaderRequestID in
      if iface_is_nil events then Served (fail rid (Internal ''database_unavailable'' ''audit database not connected'') w) tbl
      else (case Body r of
        Inl _ \<Rightarrow> Served (fail rid (BadRequest ''invalid_body'' ''could not read request body'') w) tbl
      | Inr full \<Rightarrow> (case Option.bind (jdec (auJson E) (take 1048576 full)) event_of_json of
          None \<Rightarrow> Served (fail rid (BadRequest ''invalid_event'' ''malformed audit event'') w) tbl
        | Some e \<Rightarrow>
            if EvID e = [] \<or> EvSource e = [] \<or> EvType e = [] \<or> time_IsZero (EvTime e)
            then Served (fail rid (BadRequest ''invalid_event'' ''id, source, type, and time are required'') w) tbl
            else if ValidateAuditEvent (auStruct E) (auNow E) e \<noteq> None
            then Served (fail rid (BadRequest ''invalid_event_data'' ''event data is not contract-compatible'') w) tbl
            else with_store events (\<lambda>pool. case Events_Insert pool (auFault E) (auNow E) e tbl of
                (Some _, tbl') \<Rightarrow> Served (fail rid (Internal ''persist_failed'' ''failed to persist audit event'') w) tbl'
              | (None, tbl') \<Rightarrow> Served (respond_JSON 202 (JObj [(''status'', JStr ''accepted''), (''id'', JStr (EvID e))]) w) tbl')
              w tbl)))"

definition query_filter :: "request \<Rightarrow> Identity \<Rightarrow> audit_filter" where
  "query_filter r idn = \<lparr>lfTenantID = TenantID idn, lfType = query_get r ''type'', lfSource = query_get r ''source'',
     lfLimit = query_limit r\<rparr>"

definition query_ServeHTTP :: "'st audit_env \<Rightarrow> bool iface \<Rightarrow> audit_row list handler" where
  "query_ServeHTTP E events r w tbl =
     (let idn = fst (FromContext r) in
      if Method r \<noteq> ''GET'' then Served (fail (RequestID idn) (BadRequest ''method_not_allowed'' ''use GET'') w) tbl
      else if iface_is_nil events
      then Served (fail (RequestID idn) (Internal ''database_unavailable'' ''audit database not connected'') w) tbl
      else with_store events (\<lambda>pool. case Events_List (auOrder E) pool (auFault E) (query_filter r idn) tbl of
          Inl _ \<Rightarrow> Served (fail (RequestID idn) (Internal ''query_failed'' ''failed to list audit events'') w) tbl
        | Inr rows \<Rightarrow> Served (respond_JSON 200
            (JObj [(''events'', JArr (map (event_row_json (fmtTime (auJson E))) rows))]) w) tbl) w tbl)"

section \<open>Service\<close>

text \<open>The routes and the middleware stack of \<^verbatim>\<open>main\<close>.\<close>

definition audit_routes :: "'st audit_env \<Rightarrow> string \<Rightarrow> bool iface \<Rightarrow> audit_row list route list" where
  "audit_routes E token events = health_routes (auHealth E) @
     [\<lparr>rtMethod = ''POST'', rtSegs = [Lit ''internal'', Lit ''audit'', Lit ''events''],
       rtHandler = InternalAuth token (ingest_handle E events)\<rparr>,
      \<lparr>rtMethod = ''GET'', rtSegs = [Lit ''v1'', Lit ''audit'', Lit ''events''],
       rtHandler = TrustedRole ''admin'' (query_ServeHTTP E events)\<rparr>]"

definition audit_mux :: "'st audit_env \<Rightarrow> string \<Rightarrow> bool iface \<Rightarrow> audit_row list handler" where
  "audit_mux E token events = serve_mux (auJson E) (audit_routes E token events)"

definition audit_service :: "'st audit_env \<Rightarrow> string \<Rightarrow> bool \<Rightarrow> (nat \<Rightarrow> bytes) \<Rightarrow> audit_row list handler" where
  "audit_service E token connected rnd =
     Chain (audit_mux E token (store_iface connected))
       [GatewayTrust token, RequestID_mw (rnd 0), Recover, AccessLog, TraceContext (rnd 1) (rnd 2)]"

section \<open>Facts\<close>

lemma audit_paths:
  "cleanPath ''/internal/audit/events'' = ''/internal/audit/events''"
  "path_parts ''/internal/audit/events'' = [''internal'', ''audit'', ''events'']"
  "cleanPath ''/v1/audit/events'' = ''/v1/audit/events''"
  "path_parts ''/v1/audit/events'' = [''v1'', ''audit'', ''events'']"
  by code_simp+

lemma audit_mux_post:
  assumes "Method r = ''POST''" "Path r = ''/internal/audit/events''"
  shows "audit_mux E token events r w tbl = InternalAuth token (ingest_handle E events) (r\<lparr>PathValues := []\<rparr>) w tbl"
  using assms by (simp add: audit_mux_def audit_routes_def mux_defs audit_paths Let_def)

lemma audit_mux_get:
  assumes "Method r = ''GET''" "Path r = ''/v1/audit/events''"
  shows "audit_mux E token events r w tbl = TrustedRole ''admin'' (query_ServeHTTP E events) (r\<lparr>PathValues := []\<rparr>) w tbl"
  using assms by (simp add: audit_mux_def audit_routes_def mux_defs audit_paths Let_def)

lemma Events_Insert_ok:
  "Events_Insert True None now e tbl = (None, snd (audit_insert (event_row now e) tbl))"
  by (simp add: Events_Insert_def)

lemma Events_Insert_keyed: "keyed arID tbl \<Longrightarrow> keyed arID (snd (Events_Insert pool fault now e tbl))"
  by (simp add: Events_Insert_def events.ins_keyed split: option.split)

lemma Events_Insert_append_only: "\<exists>new. snd (Events_Insert pool fault now e tbl) = tbl @ new"
  using events.ins_append_only by (auto simp: Events_Insert_def split: option.split)

lemma ingest_append:
  assumes "ingest_handle E events r w tbl = res"
  shows "hres_state res = tbl \<or>
     (\<exists>e body. Body r = Inr body \<and> Option.bind (jdec (auJson E) (take 1048576 body)) event_of_json = Some e \<and>
        EvID e \<notin> arID ` set tbl \<and> hres_state res = tbl @ [event_row (auNow E) e])"
proof -
  have step: "snd (Events_Insert pool fault now e tbl) = tbl \<or>
      EvID e \<notin> arID ` set tbl \<and> snd (Events_Insert pool fault now e tbl) = tbl @ [event_row now e]" for pool fault now e
    by (cases "EvID e \<in> arID ` set tbl")
      (auto simp: Events_Insert_def events.ins_dup events.ins_new event_row_def split: option.split)
  show ?thesis
  proof (cases "Body r")
    case (Inr body)
    show ?thesis
    proof (cases "Option.bind (jdec (auJson E) (take 1048576 body)) event_of_json")
      case (Some e)
      have "hres_state res = tbl \<or> (\<exists>pool. hres_state res = snd (Events_Insert pool (auFault E) (auNow E) e tbl))"
        using assms Inr Some
        by (auto simp: ingest_handle_def with_store_def Let_def split: if_splits iface.splits option.splits prod.splits) (metis snd_conv)+
      with step [of _ "auFault E" "auNow E" e] Inr Some show ?thesis by metis
    qed (use assms Inr in \<open>auto simp: ingest_handle_def Let_def\<close>)
  qed (use assms in \<open>auto simp: ingest_handle_def Let_def\<close>)
qed

text \<open>
  The ingest handler keeps the primary key and only ever appends rows; the only row it can add is that
  of the event in the request.
\<close>

theorem ingest_append_only:
  "hres_state (ingest_handle E events r w tbl) = tbl \<or>
     (\<exists>e body. Body r = Inr body \<and> Option.bind (jdec (auJson E) (take 1048576 body)) event_of_json = Some e \<and>
        EvID e \<notin> arID ` set tbl \<and> hres_state (ingest_handle E events r w tbl) = tbl @ [event_row (auNow E) e])"
  by (rule ingest_append [OF refl])

lemma Events_List_ok: "Events_List ord True None f tbl = Inr (newest (audit_where f) arTime (nat (clamp_limit (lfLimit f))) (ord tbl))"
  by (simp add: Events_List_def)

text \<open>
  A tenant administrator's listing shows only rows of that tenant and rows without a tenant, at most 100, newest
  first, and whatever it leaves out is no newer than what it shows.
\<close>

theorem audit_list_scoped:
  assumes "lfTenantID f \<noteq> []" "Events_List ord pool fault f tbl = Inr rows" "set (ord tbl) = set tbl"
  shows "length rows \<le> 100 \<and> sorted_wrt (\<lambda>a b. arTime b \<le> arTime a) rows \<and>
     (\<forall>r\<in>set rows. r \<in> set tbl \<and> opt_str (arTenant r) \<in> {[], lfTenantID f}) \<and>
     (\<forall>x\<in>set tbl. audit_where f x \<longrightarrow> x \<notin> set rows \<longrightarrow> (\<forall>y\<in>set rows. arTime x \<le> arTime y))"
proof -
  have rows: "rows = newest (audit_where f) arTime (nat (clamp_limit (lfLimit f))) (ord tbl)"
    using assms(2) by (auto simp: Events_List_def split: if_splits option.splits)
  have "length rows \<le> 100"
    unfolding rows by (rule newest_clamped)
  moreover have "\<forall>r\<in>set rows. r \<in> set tbl \<and> opt_str (arTenant r) \<in> {[], lfTenantID f}"
    using newest_set [of "audit_where f" arTime "nat (clamp_limit (lfLimit f))" "ord tbl"] assms(1,3)
    by (auto simp: rows audit_where_def opt_str_def split: option.splits)
  moreover have "arTime x \<le> arTime y"
    if "x \<in> set tbl" "audit_where f x" "x \<notin> set rows" "y \<in> set rows" for x y
    using newest_cut [of x "ord tbl" "audit_where f"] that assms(3) by (simp add: rows)
  ultimately show ?thesis using newest_sorted by (auto simp: rows)
qed

text \<open>Without a tenant and further filters a small table is listed whole, across tenants.\<close>

lemma unscoped_listing:
  assumes "lfTenantID f = []" "lfType f = []" "lfSource f = []" "set (ord tbl) = set tbl" "length (ord tbl) \<le> 50" "lfLimit f = 50"
  shows "\<exists>rows. Events_List ord True None f tbl = Inr rows \<and> set rows = set tbl"
proof -
  have "audit_where f = (\<lambda>_. True)" using assms(1-3) by (auto simp: audit_where_def)
  then show ?thesis
    using assms(4-6) newest_all [of "\<lambda>_. True" "ord tbl" 50 arTime] by (simp add: Events_List_ok clamp_limit_def)
qed

end
