(* ===== verification/Worker.thy ===== *)
theory Worker
  imports Mq AuditService
begin

text \<open>
  \<^verbatim>\<open>services/worker\<close>: the effect store, its listing endpoint with the routes of \<^verbatim>\<open>main\<close>, and the job router. The store is an
  instance of \<open>keyed_table\<close>; from its laws follows what one job does to the table (\<open>router_work\<close>), which
  \<open>ConsumerReplicas\<close> lifts to several workers. The outbox dispatcher is in \<open>Outbox\<close>.
\<close>

section \<open>Effect store\<close>

record effect_row =
  efJobID :: string
  efJobType :: string
  efTenantID :: string
  efActorUserID :: string
  efResourceID :: string
  efPayload :: "gomap option"
  efProcessedAt :: gotime

definition effect_insert :: "effect_row \<Rightarrow> effect_row list \<Rightarrow> bool \<times> effect_row list" where
  "effect_insert r tbl = insert_nothing efJobID r tbl"

interpretation effects: keyed_table efJobID effect_insert
  by unfold_locales (simp_all add: effect_insert_def insert_nothing_new insert_nothing_dup)

definition effect_row_of :: "gotime \<Rightarrow> Job \<Rightarrow> string \<Rightarrow> effect_row" where
  "effect_row_of now job resourceID =
     \<lparr>efJobID = jID job, efJobType = jType job, efTenantID = jTenant job, efActorUserID = jActor job,
      efResourceID = resourceID, efPayload = jPayload job, efProcessedAt = now\<rparr>"

text \<open>\<^verbatim>\<open>RETURNING\<close> yields no row on a conflict, which \<^verbatim>\<open>Scan\<close> reports as \<^verbatim>\<open>ErrNoRows\<close>.\<close>

definition Record ::
  "bool \<Rightarrow> goerr option \<Rightarrow> gotime \<Rightarrow> Job \<Rightarrow> string \<Rightarrow> effect_row list \<Rightarrow> bool res \<times> effect_row list" where
  "Record pool fault now job resourceID tbl =
     (if \<not> pool then (Inl (Errorf ''database not connected''), tbl)
      else if jID job = [] \<or> jType job = [] then (Inl (Errorf ''job id and type are required''), tbl)
      else (let (scan, tbl') = (case fault of
              Some err \<Rightarrow> (Some err, tbl)
            | None \<Rightarrow> (case effect_insert (effect_row_of now job resourceID) tbl of
                (True, t) \<Rightarrow> (None, t) | (False, t) \<Rightarrow> (Some ErrNoRows, t)))
        in case scan of
             Some err \<Rightarrow> if err_is_norows err then (Inr False, tbl') else (Inl (Wrapped ''record job effect'' err), tbl')
           | None \<Rightarrow> (Inr True, tbl')))"

record effect_filter =
  effTenantID :: string
  effJobType :: string
  effLimit :: int

definition effect_where :: "effect_filter \<Rightarrow> effect_row \<Rightarrow> bool" where
  "effect_where f r \<longleftrightarrow> (effTenantID f \<noteq> [] \<longrightarrow> efTenantID r = effTenantID f) \<and>
     (effJobType f \<noteq> [] \<longrightarrow> efJobType r = effJobType f)"

definition Effects_List :: "bool \<Rightarrow> goerr option \<Rightarrow> effect_filter \<Rightarrow> effect_row list \<Rightarrow> effect_row list res" where
  "Effects_List pool fault f tbl =
     (if \<not> pool then Inl (Errorf ''database not connected'')
      else (case fault of
        Some err \<Rightarrow> Inl (Wrapped ''list job effects'' err)
      | None \<Rightarrow> Inr (newest (effect_where f) efProcessedAt (nat (clamp_limit (effLimit f))) tbl)))"

definition effect_json :: "(gotime \<Rightarrow> string) \<Rightarrow> effect_row \<Rightarrow> json" where
  "effect_json fmt r = JObj
     ([(''job_id'', JStr (efJobID r)), (''job_type'', JStr (efJobType r)), (''tenant_id'', JStr (efTenantID r)),
       (''actor_user_id'', JStr (efActorUserID r)), (''resource_id'', JStr (efResourceID r))]
      @ (case efPayload r of None \<Rightarrow> [] | Some [] \<Rightarrow> [] | Some m \<Rightarrow> [(''payload'', JObj m)])
      @ [(''processed_at'', JStr (fmt (efProcessedAt r)))])"

definition effects_ServeHTTP :: "json_env \<Rightarrow> goerr option \<Rightarrow> bool iface \<Rightarrow> effect_row list handler" where
  "effects_ServeHTTP J fault effects r w tbl =
     (let rid = req_header r HeaderRequestID in
      if Method r \<noteq> ''GET'' then Served (fail rid (BadRequest ''method_not_allowed'' ''use GET'') w) tbl
      else if iface_is_nil effects then Served (fail rid (Internal ''database_unavailable'' ''database not connected'') w) tbl
      else with_store effects (\<lambda>pool. case Effects_List pool fault
            \<lparr>effTenantID = query_get r ''tenant_id'', effJobType = query_get r ''job_type'', effLimit = query_limit r\<rparr> tbl of
          Inl _ \<Rightarrow> Served (fail rid (Internal ''query_failed'' ''failed to list job effects'') w) tbl
        | Inr rows \<Rightarrow> Served (respond_JSON 200 (JObj [(''effects'', JArr (map (effect_json (fmtTime J)) rows))]) w) tbl) w tbl)"

text \<open>The routes and the middleware stack of \<^verbatim>\<open>main\<close>.\<close>

definition worker_routes ::
  "json_env \<Rightarrow> goerr option \<Rightarrow> string \<Rightarrow> bool iface \<Rightarrow> effect_row list health \<Rightarrow> effect_row list route list" where
  "worker_routes J fault token effects H = health_routes H @
     [\<lparr>rtMethod = ''GET'', rtSegs = [Lit ''internal'', Lit ''job-effects''],
       rtHandler = InternalAuth token (effects_ServeHTTP J fault effects)\<rparr>]"

definition worker_service ::
  "json_env \<Rightarrow> goerr option \<Rightarrow> string \<Rightarrow> bool iface \<Rightarrow> effect_row list health \<Rightarrow> (nat \<Rightarrow> bytes) \<Rightarrow> effect_row list handler" where
  "worker_service J fault token effects H rnd =
     Chain (serve_mux J (worker_routes J fault token effects H)) [Recover, TraceContext (rnd 0) (rnd 1)]"

lemma worker_routes_registered:
  "mux_Handle_all [] (worker_routes J fault token effects H) = Some (worker_routes J fault token effects H)"
  by (simp add: worker_routes_def conflict_defs)

section \<open>Job router\<close>

definition requireString :: "gomap option \<Rightarrow> string \<Rightarrow> string res" where
  "requireString payload key = (case payload of
     None \<Rightarrow> Inl (Errorf ''job payload missing'')
   | Some m \<Rightarrow> (case map_get m key of
       None \<Rightarrow> Inl (Errorf ''job payload missing'')
     | Some (JStr s) \<Rightarrow> if s = [] then Inl (Errorf ''must be a non-empty string'') else Inr s
     | Some _ \<Rightarrow> Inl (Errorf ''must be a non-empty string'')))"

text \<open>
  The work state: the table, and the outcomes the database will give, one per statement (\<open>None\<close> is success).
\<close>

record work =
  wkTable :: "effect_row list"
  wkFaults :: "goerr option list"

definition next_fault :: "work \<Rightarrow> goerr option \<times> work" where
  "next_fault s = (case wkFaults s of [] \<Rightarrow> (None, s) | f # fs \<Rightarrow> (f, s\<lparr>wkFaults := fs\<rparr>))"

definition handleBusinessItem :: "gotime \<Rightarrow> bool iface \<Rightarrow> work job_handler" where
  "handleBusinessItem now effects job s = (case requireString (jPayload job) ''item_id'' of
     Inl err \<Rightarrow> (JobErr err, s)
   | Inr itemID \<Rightarrow>
       if iface_is_nil effects then (JobOk, s)
       else (case effects of
         IPtr (Some pool) \<Rightarrow>
           (case next_fault s of (fault, s') \<Rightarrow>
              (case Record pool fault now job itemID (wkTable s') of
                 (Inl err, tbl) \<Rightarrow> (JobErr (Wrapped ''record business item effect'' err), s'\<lparr>wkTable := tbl\<rparr>)
               | (Inr inserted, tbl) \<Rightarrow> (JobOk, s'\<lparr>wkTable := tbl\<rparr>)))
       | _ \<Rightarrow> (JobPanic, s)))"

definition item_type :: "string \<Rightarrow> bool" where
  "item_type ty \<longleftrightarrow> ty = ''business.item.created'' \<or> ty = ''business.item.updated'' \<or> ty = ''business.item.deleted''"

definition router_Handle :: "gotime \<Rightarrow> bool iface \<Rightarrow> work job_handler" where
  "router_Handle now effects job s =
     (if jType job = ''ping'' then (JobOk, s)
      else if item_type (jType job) then handleBusinessItem now effects job s
      else (JobOk, s))"

definition outboxPollInterval :: "osenv \<Rightarrow> duration" where
  "outboxPollInterval env =
     (let s = Env env ''OUTBOX_POLL_INTERVAL'' [] in
      if s \<noteq> [] then (case Atoi s of Some sec \<Rightarrow> if sec > 0 then int64_mul sec time_Second else 2 * time_Second | None \<Rightarrow> 2 * time_Second)
      else 2 * time_Second)"

section \<open>One effect per job\<close>

lemma Record_keyed: "keyed efJobID tbl \<Longrightarrow> keyed efJobID (snd (Record pool fault now job rid tbl))"
  using effects.ins_keyed [of tbl "effect_row_of now job rid"]
  by (auto simp: Record_def Let_def split: option.splits prod.splits bool.splits)

lemma Record_append_only: "\<exists>new. snd (Record pool fault now job rid tbl) = tbl @ new"
  using effects.ins_append_only [of "effect_row_of now job rid" tbl]
  by (auto simp: Record_def Let_def split: option.splits prod.splits bool.splits)

lemma Record_Inr:
  assumes "Record True fault now job rid tbl = (Inr b, tbl')" "fault = None \<or> (\<exists>e. fault = Some e \<and> \<not> err_is_norows e)"
  shows "jID job \<in> efJobID ` set tbl' \<and> (b \<longleftrightarrow> jID job \<notin> efJobID ` set tbl)"
proof -
  have f: "fault = None" and ne: "jID job \<noteq> []" "jType job \<noteq> []"
    using assms by (auto simp: Record_def split: if_splits)
  let ?r = "effect_row_of now job rid"
  have id: "efJobID ?r = jID job" by (simp add: effect_row_of_def)
  show ?thesis
  proof (cases "jID job \<in> efJobID ` set tbl")
    case True
    with assms(1) f ne id show ?thesis by (auto simp: Record_def effects.ins_dup)
  next
    case False
    with assms(1) f ne id show ?thesis by (auto simp: Record_def effects.ins_new)
  qed
qed

text \<open>Faults the driver may report for the insert: anything but the no-rows sentinel.\<close>

definition genuine :: "work \<Rightarrow> bool" where
  "genuine s \<longleftrightarrow> (\<forall>f\<in>set (wkFaults s). \<forall>e. f = Some e \<longrightarrow> \<not> err_is_norows e)"

definition effect_due :: "json_env \<Rightarrow> gotime \<Rightarrow> msg \<Rightarrow> string \<Rightarrow> bool" where
  "effect_due J now m jid \<longleftrightarrow> (\<exists>job. ParseJob J now (mBody m) = Inr job \<and> item_type (jType job) \<and> jID job = jid)"

lemma router_work:
  assumes "router_Handle now (IPtr (Some True)) job s = (res, s')" "genuine s" "keyed efJobID (wkTable s)"
  shows "genuine s' \<and> keyed efJobID (wkTable s') \<and> (\<exists>new. wkTable s' = wkTable s @ new) \<and>
     (res = JobOk \<longrightarrow> item_type (jType job) \<longrightarrow> jID job \<in> efJobID ` set (wkTable s')) \<and> res \<noteq> JobPanic"
proof (cases "item_type (jType job) \<and> jType job \<noteq> ''ping'' \<and> (\<exists>i. requireString (jPayload job) ''item_id'' = Inr i)")
  case True
  then obtain i where i: "requireString (jPayload job) ''item_id'' = Inr i" by blast
  obtain f s1 where nf: "next_fault s = (f, s1)" by fastforce
  have s1: "wkTable s1 = wkTable s" "genuine s1" "f = None \<or> (\<exists>e. f = Some e \<and> \<not> err_is_norows e)"
    using nf assms(2) by (auto simp: next_fault_def genuine_def split: list.splits)
  obtain d tbl where rec: "Record True f now job i (wkTable s1) = (d, tbl)" by fastforce
  have h: "res = (case d of Inl err \<Rightarrow> JobErr (Wrapped ''record business item effect'' err) | Inr b \<Rightarrow> JobOk)"
    "s' = s1\<lparr>wkTable := tbl\<rparr>"
    using assms(1) True i nf rec by (auto simp: router_Handle_def handleBusinessItem_def split: sum.splits)
  have "keyed efJobID tbl" "\<exists>new. tbl = wkTable s @ new"
    using Record_keyed [of "wkTable s1" True f now job i] Record_append_only [of True f now job i "wkTable s1"] rec s1 assms(3)
    by simp_all
  moreover have "d = Inr b \<Longrightarrow> jID job \<in> efJobID ` set tbl" for b
    using Record_Inr [of f now job i "wkTable s1" b tbl] rec s1(3) by simp
  ultimately show ?thesis using h s1(2) by (auto simp: genuine_def split: sum.splits)
next
  case False
  have "item_type ''ping'' \<longleftrightarrow> False" by (simp add: item_type_def)
  with False assms show ?thesis
    by (auto simp: router_Handle_def handleBusinessItem_def split: if_splits sum.splits)
qed

lemma ParseJob_id: "ParseJob J now raw = Inr j \<Longrightarrow> ParseJob J now' raw = Inr j' \<Longrightarrow> jID j = jID j' \<and> jType j = jType j'"
  by (auto simp: ParseJob_def split: option.splits if_splits)

text \<open>
  When the worker starts without a database, an item job makes the consumer panic: the nil store sits in a non-nil interface,
  so the check for a missing store does not see it.
\<close>

lemma missing_effect_store_crashes:
  assumes "ParseJob J now (mBody m) = Inr job" "item_type (jType job)" "requireString (jPayload job) ''item_id'' = Inr i"
  shows "handleDelivery J now c (router_Handle hnow (store_iface False)) m s = (Crash, s)"
proof -
  have "jType job \<noteq> ''ping''" using assms(2) by (auto simp: item_type_def)
  with assms show ?thesis
    by (simp add: handleDelivery_def router_Handle_def handleBusinessItem_def store_iface_def)
qed

end
