(* ===== verification/Outbox.thy ===== *)
theory Outbox
  imports Worker
begin

text \<open>
  \<^verbatim>\<open>services/worker/internal/outbox/dispatch.go\<close>: rows of \<^verbatim>\<open>business_outbox\<close> become audit events, posted to
  audit-service and then marked as published. What the dispatcher posts to is the contract \<open>audit_sink\<close>, which holds of the
  audit store and of the whole path through HTTP; theory OutboxReplicas rests on it.
\<close>

section \<open>Dispatcher\<close>

record outbox_row =
  obID :: string
  obType :: string
  obPayload :: json
  obCreated :: gotime
  obPublished :: "gotime option"

definition businessSource :: string where "businessSource = ''business-service''"

definition rowToEvent :: "outbox_row \<Rightarrow> Event res" where
  "rowToEvent row =
     (let build = (\<lambda>data d. Inr \<lparr>EvID = obID row, EvSource = businessSource, EvType = obType row,
            EvSubject = (if map_str data ''item_id'' \<noteq> [] then ''item:'' @ map_str data ''item_id'' else []),
            EvTime = obCreated row, EvTenantID = map_str data ''tenant_id'', EvActorUserID = map_str data ''actor_user_id'',
            EvData = Some d\<rparr>)
      in case obPayload row of
        JObj m \<Rightarrow> build m m
      | JNull \<Rightarrow> build [] []
      | _ \<Rightarrow> Inl (Errorf ''payload json''))"

record 'n ob_state =
  obRows :: "outbox_row list"
  obNet :: 'n

definition mark_published :: "gotime \<Rightarrow> string \<Rightarrow> outbox_row list \<Rightarrow> outbox_row list" where
  "mark_published now rid rows = map (\<lambda>r. if obID r = rid \<and> obPublished r = None then r\<lparr>obPublished := Some now\<rparr> else r) rows"

text \<open>\<^verbatim>\<open>publishRow\<close> in its two halves: the event is posted, then the row is marked.\<close>

definition publish_post ::
  "(Event \<Rightarrow> 'n \<Rightarrow> goerr option \<times> 'n) \<Rightarrow> outbox_row \<Rightarrow> 'n ob_state \<Rightarrow> goerr option \<times> 'n ob_state" where
  "publish_post emit row s = (case rowToEvent row of
     Inl err \<Rightarrow> (Some err, s)
   | Inr ev \<Rightarrow> (case emit ev (obNet s) of (res, n) \<Rightarrow> (res, s\<lparr>obNet := n\<rparr>)))"

definition publish_mark :: "goerr option \<Rightarrow> gotime \<Rightarrow> string \<Rightarrow> 'n ob_state \<Rightarrow> goerr option \<times> 'n ob_state" where
  "publish_mark fault now rid s = (case fault of
     Some err \<Rightarrow> (Some err, s)
   | None \<Rightarrow> (None, s\<lparr>obRows := mark_published now rid (obRows s)\<rparr>))"

definition publishRow ::
  "(Event \<Rightarrow> 'n \<Rightarrow> goerr option \<times> 'n) \<Rightarrow> goerr option \<Rightarrow> gotime \<Rightarrow> outbox_row \<Rightarrow> 'n ob_state \<Rightarrow> goerr option \<times> 'n ob_state" where
  "publishRow emit fault now row s = (case publish_post emit row s of
     (Some err, s') \<Rightarrow> (Some err, s')
   | (None, s') \<Rightarrow> publish_mark fault now (obID row) s')"

lemmas publishRow_defs = publishRow_def publish_post_def publish_mark_def

text \<open>The rows of one round: unpublished, oldest first, at most 50.\<close>

definition pending_rows :: "outbox_row list \<Rightarrow> outbox_row list" where
  "pending_rows rows = take 50 (sort_key obCreated (filter (\<lambda>r. obPublished r = None) rows))"

text \<open>The loop keeps the first error and goes on; \<open>i\<close> numbers the rows, whose emitter and fault may differ.\<close>

fun publish_loop ::
  "(nat \<Rightarrow> Event \<Rightarrow> 'n \<Rightarrow> goerr option \<times> 'n) \<Rightarrow> (nat \<Rightarrow> goerr option) \<Rightarrow> gotime \<Rightarrow> nat \<Rightarrow> outbox_row list \<Rightarrow> goerr option
    \<Rightarrow> 'n ob_state \<Rightarrow> goerr option \<times> 'n ob_state" where
  "publish_loop emit fault now i [] firstErr s = (firstErr, s)"
| "publish_loop emit fault now i (row # rows) firstErr s =
     (case publishRow (emit i) (fault i) now row s of
        (Some err, s') \<Rightarrow> publish_loop emit fault now (Suc i) rows (if firstErr = None then Some err else firstErr) s'
      | (None, s') \<Rightarrow> publish_loop emit fault now (Suc i) rows firstErr s')"

text \<open>\<open>queryErr\<close> fails the query; \<open>brk\<close> is the row after which reading the result fails, with the error.\<close>

definition dispatchOnce ::
  "(nat \<Rightarrow> Event \<Rightarrow> 'n \<Rightarrow> goerr option \<times> 'n) \<Rightarrow> (nat \<Rightarrow> goerr option) \<Rightarrow> gotime \<Rightarrow> goerr option \<Rightarrow> (nat \<times> goerr) option
    \<Rightarrow> 'n ob_state \<Rightarrow> goerr option \<times> 'n ob_state" where
  "dispatchOnce emit fault now queryErr brk s = (case queryErr of
     Some err \<Rightarrow> (Some err, s)
   | None \<Rightarrow> (case brk of
       None \<Rightarrow> publish_loop emit fault now 0 (pending_rows (obRows s)) None s
     | Some (n, err) \<Rightarrow> (Some err, snd (publish_loop emit fault now 0 (take n (pending_rows (obRows s))) None s))))"

text \<open>\<^verbatim>\<open>NewDispatcher\<close>: the polling period, or nothing when the pool or the emitter is missing.\<close>

definition NewDispatcher :: "bool \<Rightarrow> http_emitter iface \<Rightarrow> duration \<Rightarrow> duration option" where
  "NewDispatcher pool em period =
     (if \<not> pool then None
      else (case em of INil \<Rightarrow> None | IPtr e \<Rightarrow>
        if \<not> emitter_Enabled e then None else Some (if period \<le> 0 then 2 * time_Second else period)))"

section \<open>What the dispatcher relies on\<close>

text \<open>
  Emitting, in any environment \<open>p\<close>: a success means the event is in the store; nothing leaves the store, no id is stored
  twice, and only the event emitted is added.
\<close>

locale audit_sink =
  fixes emit :: "'p \<Rightarrow> Event \<Rightarrow> 'n \<Rightarrow> goerr option \<times> 'n" and ids :: "'n \<Rightarrow> string list"
  assumes emit_ok: "emit p ev n = (None, n') \<Longrightarrow> EvID ev \<in> set (ids n')"
    and emit_mono: "set (ids n) \<subseteq> set (ids (snd (emit p ev n)))"
    and emit_once: "distinct (ids n) \<Longrightarrow> distinct (ids (snd (emit p ev n)))"
    and emit_only: "set (ids (snd (emit p ev n))) \<subseteq> insert (EvID ev) (set (ids n))"

section \<open>The dispatcher over time\<close>

text \<open>
  Rounds of the dispatcher, with arbitrary environments and faults, interleaved with the business service adding rows.
\<close>

inductive ob_reach :: "('p \<Rightarrow> Event \<Rightarrow> 'n \<Rightarrow> goerr option \<times> 'n) \<Rightarrow> 'n ob_state \<Rightarrow> 'n ob_state \<Rightarrow> bool"
  for emit :: "'p \<Rightarrow> Event \<Rightarrow> 'n \<Rightarrow> goerr option \<times> 'n" and s0 :: "'n ob_state" where
  ob_start: "ob_reach emit s0 s0"
| ob_round: "ob_reach emit s0 s \<Longrightarrow> ob_reach emit s0 (snd (dispatchOnce (\<lambda>i. emit (env i)) fault now queryErr brk s))"
| ob_add: "ob_reach emit s0 s \<Longrightarrow> obPublished row = None \<Longrightarrow> obID row \<notin> obID ` set (obRows s) \<Longrightarrow>
    ob_reach emit s0 (s\<lparr>obRows := obRows s @ [row]\<rparr>)"

lemma map_obID_mark [simp]: "map obID (mark_published now i rows) = map obID rows"
  by (simp add: mark_published_def)

lemma mark_published_row:
  "r \<in> set (mark_published now i rows) \<Longrightarrow> obPublished r \<noteq> None \<Longrightarrow> obID r = i \<or> (\<exists>r'\<in>set rows. r' = r \<and> obPublished r' \<noteq> None)"
  by (auto simp: mark_published_def split: if_splits)

lemma rowToEvent_ID: "rowToEvent row = Inr ev \<Longrightarrow> EvID ev = obID row"
  by (auto simp: rowToEvent_def Let_def split: json.splits)

section \<open>The audit store is such a sink\<close>

lemma Events_Insert_sink: "audit_sink (\<lambda>(pool, fault, now) ev tbl. Events_Insert pool fault now ev tbl) (map arID)"
proof
  fix p :: "bool \<times> goerr option \<times> gotime" and ev and n n' :: "audit_row list"
  obtain pool fault now where p: "p = (pool, fault, now)" by (cases p)
  have cases: "snd (Events_Insert pool fault now ev n) = n \<or>
      snd (Events_Insert pool fault now ev n) = n @ [event_row now ev] \<and> EvID ev \<notin> arID ` set n"
    by (cases "EvID ev \<in> arID ` set n")
      (auto simp: Events_Insert_def events.ins_dup events.ins_new event_row_def split: option.split)
  have id: "arID (event_row now ev) = EvID ev" by (simp add: event_row_def)
  show "(case p of (pool, fault, now) \<Rightarrow> Events_Insert pool fault now) ev n = (None, n') \<Longrightarrow> EvID ev \<in> set (map arID n')"
    using events.ins_present [of "event_row now ev" n] id p
    by (auto simp: Events_Insert_def split: if_splits option.splits)
  show "set (map arID n) \<subseteq> set (map arID (snd ((case p of (pool, fault, now) \<Rightarrow> Events_Insert pool fault now) ev n)))"
    using cases p by auto
  show "distinct (map arID n) \<Longrightarrow> distinct (map arID (snd ((case p of (pool, fault, now) \<Rightarrow> Events_Insert pool fault now) ev n)))"
    using cases id p by auto
  show "set (map arID (snd ((case p of (pool, fault, now) \<Rightarrow> Events_Insert pool fault now) ev n))) \<subseteq> insert (EvID ev) (set (map arID n))"
    using cases id p by auto
qed

interpretation store_sink: audit_sink "\<lambda>(pool, fault, now) ev tbl. Events_Insert pool fault now ev tbl" "map arID"
  by (rule Events_Insert_sink)

section \<open>The path through HTTP\<close>

text \<open>
  The request audit-service receives for an outgoing one, and the client that delivers it: with \<open>lost\<close> the reply never
  arrives although the request was served.
\<close>

definition audit_request :: "http_out \<Rightarrow> request" where
  "audit_request out = \<lparr>Method = OMethod out, Path = ''/internal/audit/events'', Query = [], Header = OHeader out, Cookies = [],
     Body = Inr (OBody out), RemoteAddr = [], PathValues = [], Ctx = None\<rparr>"

definition audit_client :: "'st audit_env \<Rightarrow> string \<Rightarrow> bool \<Rightarrow> (nat \<Rightarrow> bytes) \<Rightarrow> bool \<Rightarrow> audit_row list http_client" where
  "audit_client E token connected rnd lost out tbl =
     (case audit_service E token connected rnd (audit_request out) new_writer tbl of
        Served w tbl' \<Rightarrow> (if lost then Inl (Errorf ''timeout'') else Inr (final_status w, Inr []), tbl')
      | Panicked m w tbl' \<Rightarrow> (Inl (Errorf ''EOF''), tbl'))"

text \<open>What the reader of JSON text promises: it yields the printed value, or (for a truncated text) nothing.\<close>

definition json_faithful :: "json_env \<Rightarrow> bool" where
  "json_faithful J \<longleftrightarrow> (\<forall>ev v. jdec J (take 1048576 (jenc J (event_json (fmtTime J) ev))) = Some v \<longrightarrow> v = event_json (fmtTime J) ev)"

type_synonym 'st post_env = "'st audit_env \<times> bool \<times> (nat \<Rightarrow> bytes) \<times> bool"

definition http_emit :: "json_env \<Rightarrow> http_emitter \<Rightarrow> 'st post_env \<Rightarrow> Event \<Rightarrow> audit_row list \<Rightarrow> goerr option \<times> audit_row list" where
  "http_emit J em p ev tbl = (case p of (E, connected, rnd, lost) \<Rightarrow>
     HTTPEmitter_Emit J (audit_client (E\<lparr>auJson := J\<rparr>) (em_token em) connected rnd lost) (Some em) ev tbl)"

lemma event_of_json_ID: "event_of_json (event_json fmt ev) = Some e \<Longrightarrow> EvID e = EvID ev"
proof -
  let ?m = "case event_json fmt ev of JObj m \<Rightarrow> m"
  have "dec_object (event_json fmt ev) = Some ?m" by (simp add: event_json_def dec_object_def)
  moreover have "dec_string ''id'' ?m = Some (EvID ev)"
    by (auto simp: event_json_def omitempty_def dec_string_def field_vals_def
        simp del: foldName.simps split: option.splits list.splits)
  ultimately show "event_of_json (event_json fmt ev) = Some e \<Longrightarrow> EvID e = EvID ev"
    by (auto simp: event_of_json_def bind_eq_Some_conv)
qed

text \<open>What the stack around the ingest handler can do to the table and to the status.\<close>

lemma audit_service_post:
  assumes "Method r = ''POST''" "Path r = ''/internal/audit/events''" "audit_service E token c rnd r new_writer tbl = res"
  shows "(hres_state res = tbl \<and> (\<forall>w t. res = Served w t \<longrightarrow> 300 \<le> final_status w)) \<or>
     (\<exists>r' w'. Body r' = Body r \<and> WSent w' = None \<and> (case ingest_handle E (store_iface c) r' w' tbl of
        Served w t \<Rightarrow> res = Served w t
      | Panicked m w t \<Rightarrow> hres_state res = t \<and> (\<forall>w2 t2. res = Served w2 t2 \<longrightarrow> 300 \<le> final_status w2)))"
proof -
  let ?mux = "audit_mux E token (store_iface c)"
  have chain: "audit_service E token c rnd = GatewayTrust token (RequestID_mw (rnd 0) (Recover (TraceContext (rnd 1) (rnd 2) ?mux)))"
    by (simp add: audit_service_def Chain_def)
  have skip: "GatewayTrust token h r w s = h r w s" for h :: "audit_row list handler" and w s
    using assms(2) by (simp add: GatewayTrust_def gatewayTrustSkipped_def HasPrefix_def)
  have rid: "\<exists>h' w'. WSent w' = None \<and> RequestID_mw b h r new_writer s = h (r\<lparr>Header := h'\<rparr>) w' s" for b s and h :: "audit_row list handler"
  proof -
    define rid where "rid = (if req_header r HeaderRequestID = [] then NewRequestID b else req_header r HeaderRequestID)"
    define h' where "h' = (if req_header r HeaderRequestID = [] then hdr_set HeaderRequestID rid (Header r) else Header r)"
    have "RequestID_mw b h r new_writer s = h (r\<lparr>Header := h'\<rparr>) (SetRespHeader HeaderRequestID rid new_writer) s"
      by (simp add: RequestID_mw_def Let_def h'_def rid_def)
    moreover have "WSent (SetRespHeader HeaderRequestID rid new_writer) = None" by simp
    ultimately show ?thesis by blast
  qed
  obtain h1 w1 where r1: "WSent w1 = None"
    "res = Recover (TraceContext (rnd 1) (rnd 2) ?mux) (r\<lparr>Header := h1\<rparr>) w1 tbl"
    using rid [of "rnd 0" "Recover (TraceContext (rnd 1) (rnd 2) ?mux)" tbl] assms(3) chain skip by auto
  obtain h2 w2 where r2: "WSent w2 = None"
    "TraceContext (rnd 1) (rnd 2) ?mux (r\<lparr>Header := h1\<rparr>) w1 tbl = ?mux (r\<lparr>Header := h2\<rparr>) w2 tbl"
  proof -
    obtain h2 w2 where e: "EnsureRequest (rnd 1) (rnd 2) h1 w1 = (h2, w2)" by fastforce
    then have "WSent w2 = None" using r1(1) by (auto simp: EnsureRequest_def Let_def split: if_splits)
    with e that show thesis by (simp add: TraceContext_def)
  qed
  have mux: "?mux (r\<lparr>Header := h2\<rparr>) w2 tbl =
      InternalAuth token (ingest_handle E (store_iface c)) (r\<lparr>Header := h2, PathValues := []\<rparr>) w2 tbl"
    using assms(1,2) by (simp add: audit_mux_post)
  show ?thesis
  proof (cases "internal_pass token (r\<lparr>Header := h2, PathValues := []\<rparr>)")
    case False
    then have "res = Served (fst (internal_reject token (r\<lparr>Header := h2, PathValues := []\<rparr>) w2 tbl)) tbl"
      using r1 r2 mux by (simp add: Recover_def internal.guard_law pass_if_def internal_reject_def)
    then show ?thesis using r2(1) by (simp add: internal_reject_def)
  next
    case True
    then have "?mux (r\<lparr>Header := h2\<rparr>) w2 tbl = ingest_handle E (store_iface c) (r\<lparr>Header := h2, PathValues := []\<rparr>) w2 tbl"
      using mux by (simp add: internal.guard_law pass_if_def)
    then have "res = (case ingest_handle E (store_iface c) (r\<lparr>Header := h2, PathValues := []\<rparr>) w2 tbl of Served w t \<Rightarrow> Served w t
       | Panicked m w t \<Rightarrow> Served (fail (req_header (r\<lparr>Header := h1\<rparr>) HeaderRequestID) (Internal ''internal'' ''internal server error'') w) t)"
      using r1 r2 by (simp add: Recover_def)
    moreover have "WSent w = None" if "ingest_handle E (store_iface c) (r\<lparr>Header := h2, PathValues := []\<rparr>) w2 tbl = Panicked m w t" for m w t
      using that r2(1) by (auto simp: ingest_handle_def with_store_def Let_def split: if_splits iface.splits sum.splits option.splits prod.splits)
    ultimately show ?thesis
      using r2(1) by (intro disjI2 exI [of _ "r\<lparr>Header := h2, PathValues := []\<rparr>"] exI [of _ w2]) (auto split: hres.splits)
  qed
qed

lemma ingest_status:
  assumes "ingest_handle E ev_if r w tbl = Served w' tbl'" "WSent w = None" "final_status w' < 300"
  shows "\<exists>body e. Body r = Inr body \<and> Option.bind (jdec (auJson E) (take 1048576 body)) event_of_json = Some e \<and>
     EvID e \<in> arID ` set tbl'"
proof -
  have present: "EvID e \<in> arID ` set t" if "Events_Insert pool f now e tb = (None, t)" for pool f now e tb t
    using that events.ins_present [of "event_row now e" tb]
    by (auto simp: Events_Insert_def event_row_def split: if_splits option.splits)
  show ?thesis
    using assms present
    by (auto simp: ingest_handle_def with_store_def Let_def
        split: if_splits iface.splits sum.splits option.splits prod.splits)
qed

text \<open>One post, seen from the table: unchanged, or extended by one row with the event's id; success only when the id is there.\<close>

lemma http_emit_effect:
  assumes jf: "json_faithful J" and em: "em_baseURL em \<noteq> []" and run: "http_emit J em p ev tbl = (res, tbl')"
  shows "(tbl' = tbl \<or> (\<exists>row. tbl' = tbl @ [row] \<and> arID row = EvID ev \<and> EvID ev \<notin> arID ` set tbl)) \<and>
     (res = None \<longrightarrow> EvID ev \<in> arID ` set tbl')"
proof -
  obtain E0 c rnd lost where p: "p = (E0, c, rnd, lost)" by (cases p)
  let ?E = "E0\<lparr>auJson := J\<rparr>" and ?r = "audit_request (emit_request J em ev)"
  let ?srv = "audit_service ?E (em_token em) c rnd ?r new_writer tbl"
  have body: "Body ?r = Inr (jenc J (event_json (fmtTime J) ev))" "Method ?r = ''POST''" "Path ?r = ''/internal/audit/events''"
    by (simp_all add: audit_request_def emit_request_def Let_def)
  have id: "EvID e = EvID ev" if "Body r' = Body ?r" "Body r' = Inr b" "Option.bind (jdec J (take 1048576 b)) event_of_json = Some e" for r' b e
  proof -
    from that body(1) have b: "b = jenc J (event_json (fmtTime J) ev)" by simp
    from that(3) obtain v where v: "jdec J (take 1048576 b) = Some v" "event_of_json v = Some e"
      by (auto simp: bind_eq_Some_conv)
    from v(1) b jf have "v = event_json (fmtTime J) ev" unfolding json_faithful_def by blast
    with v(2) event_of_json_ID show ?thesis by blast
  qed
  consider "res \<noteq> None" "tbl' = tbl" | "tbl' = hres_state ?srv" "res = None \<longrightarrow> (\<exists>w. ?srv = Served w tbl' \<and> final_status w < 300)"
  proof (cases "badURL J (em_baseURL em @ ''/internal/audit/events'')")
    case (Some err)
    then have "http_emit J em p ev tbl \<in> {(Some err, tbl), (Some (Errorf ''audit event: id, source, and type are required''), tbl)}"
      using em p by (simp add: http_emit_def HTTPEmitter_Emit_def)
    with run have "res \<noteq> None \<and> tbl' = tbl" by auto
    with that show thesis by blast
  next
    case None
    with run em p that show thesis
      by (auto simp: http_emit_def HTTPEmitter_Emit_def audit_client_def split: if_splits hres.splits prod.splits sum.splits)
  qed
  then show ?thesis
  proof cases
    case 2
    from audit_service_post [OF body(2,3) refl, of ?E "em_token em" c rnd tbl]
    consider "hres_state ?srv = tbl" "\<forall>w t. ?srv = Served w t \<longrightarrow> 300 \<le> final_status w"
      | r' w' where "Body r' = Body ?r" "WSent w' = None" "case ingest_handle ?E (store_iface c) r' w' tbl of
          Served w t \<Rightarrow> ?srv = Served w t
        | Panicked m w t \<Rightarrow> hres_state ?srv = t \<and> (\<forall>w2 t2. ?srv = Served w2 t2 \<longrightarrow> 300 \<le> final_status w2)" by blast
    then show ?thesis
    proof cases
      case 1
      with 2 show ?thesis by force
    next
      case (2 r' w')
      let ?h = "ingest_handle ?E (store_iface c) r' w' tbl"
      have st: "hres_state ?srv = hres_state ?h" using 2(3) by (cases ?h) simp_all
      have rows: "hres_state ?h = tbl \<or> (\<exists>row. hres_state ?h = tbl @ [row] \<and> arID row = EvID ev \<and> EvID ev \<notin> arID ` set tbl)"
      proof -
        consider "hres_state ?h = tbl" | e b where "Body r' = Inr b" "Option.bind (jdec J (take 1048576 b)) event_of_json = Some e"
          "EvID e \<notin> arID ` set tbl" "hres_state ?h = tbl @ [event_row (auNow ?E) e]"
          using ingest_append [of ?E "store_iface c" r' w' tbl, OF refl] by fastforce
        then show ?thesis
        proof cases
          case (2 e b)
          with id [OF \<open>Body r' = Body ?r\<close>] have "EvID e = EvID ev" by blast
          with 2(3,4) show ?thesis by (auto simp: event_row_def)
        qed simp
      qed
      have "EvID ev \<in> arID ` set tbl'" if none: "res = None"
      proof -
        obtain w where w: "?srv = Served w tbl'" "final_status w < 300"
          using \<open>res = None \<longrightarrow> (\<exists>w. ?srv = Served w tbl' \<and> final_status w < 300)\<close> none by blast
        then have "?h = Served w tbl'" using 2(3) by (cases ?h) auto
        from ingest_status [OF this 2(2) w(2)] obtain b e where e: "Body r' = Inr b"
          "Option.bind (jdec J (take 1048576 b)) event_of_json = Some e" "EvID e \<in> arID ` set tbl'" by fastforce
        with id [OF \<open>Body r' = Body ?r\<close> e(1,2)] show ?thesis by simp
      qed
      with rows st \<open>tbl' = hres_state ?srv\<close> show ?thesis by simp
    qed
  qed auto
qed

lemma http_sink:
  assumes "json_faithful J" "em_baseURL em \<noteq> []"
  shows "audit_sink (http_emit J em) (map arID)"
proof
  fix p :: "'st post_env" and ev and n n' :: "audit_row list"
  obtain res t where run: "http_emit J em p ev n = (res, t)" by fastforce
  note eff = http_emit_effect [OF assms run]
  show "http_emit J em p ev n = (None, n') \<Longrightarrow> EvID ev \<in> set (map arID n')" using eff run by simp
  show "set (map arID n) \<subseteq> set (map arID (snd (http_emit J em p ev n)))" using eff run by auto
  show "distinct (map arID n) \<Longrightarrow> distinct (map arID (snd (http_emit J em p ev n)))" using eff run by auto
  show "set (map arID (snd (http_emit J em p ev n))) \<subseteq> insert (EvID ev) (set (map arID n))" using eff run by auto
qed

text \<open>
  A round whose 50 oldest unpublished rows cannot be turned into events changes nothing, so every newer row waits for
  ever behind them.
\<close>

theorem bad_rows_starve_outbox:
  assumes "\<forall>r\<in>set (pending_rows (obRows s)). \<exists>err. rowToEvent r = Inl err"
  shows "snd (dispatchOnce emit fault now queryErr brk s) = s"
proof -
  have loop: "snd (publish_loop emit fault now i rows e s) = s" if "\<forall>r\<in>set rows. \<exists>err. rowToEvent r = Inl err" for i rows e
    using that by (induction rows arbitrary: i e) (auto simp: publishRow_defs)
  have "\<forall>r\<in>set (take n (pending_rows (obRows s))). \<exists>err. rowToEvent r = Inl err" for n
    using assms by (auto dest: set_takeD)
  with loop assms show ?thesis by (auto simp: dispatchOnce_def split: option.splits)
qed

section \<open>Draining\<close>

text \<open>Rounds of the dispatcher in which nothing fails.\<close>

fun healthy_rounds :: "(Event \<Rightarrow> 'n \<Rightarrow> goerr option \<times> 'n) \<Rightarrow> (nat \<Rightarrow> gotime) \<Rightarrow> nat \<Rightarrow> 'n ob_state \<Rightarrow> 'n ob_state" where
  "healthy_rounds emit now 0 s = s"
| "healthy_rounds emit now (Suc k) s =
     healthy_rounds emit now k (snd (dispatchOnce (\<lambda>i. emit) (\<lambda>i. None) (now k) None None s))"

definition unpublished :: "outbox_row list \<Rightarrow> outbox_row list" where
  "unpublished rows = filter (\<lambda>r. obPublished r = None) rows"

lemma publishRow_healthy:
  assumes "\<And>ev n. fst (emit ev n) = None" "rowToEvent row = Inr ev"
  shows "fst (publishRow emit None now row s) = None \<and>
    obRows (snd (publishRow emit None now row s)) = mark_published now (obID row) (obRows s)"
proof -
  obtain n where "emit ev (obNet s) = (None, n)" using assms(1) [of ev "obNet s"] by (cases "emit ev (obNet s)") simp
  with assms(2) show ?thesis by (simp add: publishRow_defs)
qed

lemma publish_loop_healthy:
  assumes "\<And>ev n. fst (emit ev n) = None" "\<forall>row\<in>set rows. \<exists>ev. rowToEvent row = Inr ev"
  shows "obRows (snd (publish_loop (\<lambda>i. emit) (\<lambda>i. None) now i rows firstErr s)) = foldl (\<lambda>rs row. mark_published now (obID row) rs) (obRows s) rows"
  using assms(2)
proof (induction rows arbitrary: i firstErr s)
  case (Cons row rows)
  obtain ev where ev: "rowToEvent row = Inr ev" using Cons.prems by auto
  obtain e s' where p: "publishRow emit None now row s = (e, s')" by fastforce
  have "e = None" "obRows s' = mark_published now (obID row) (obRows s)"
    using publishRow_healthy [of emit row ev now s, OF assms(1) ev] p by simp_all
  with Cons p show ?case by simp
qed simp

lemma unpublished_mark: "unpublished (mark_published now i rows) = filter (\<lambda>r. obID r \<noteq> i) (unpublished rows)"
  by (induction rows) (auto simp: unpublished_def mark_published_def)

lemma unpublished_marks:
  "unpublished (foldl (\<lambda>rs row. mark_published now (obID row) rs) rows ps) = filter (\<lambda>r. obID r \<notin> obID ` set ps) (unpublished rows)"
  by (induction ps arbitrary: rows) (auto simp: unpublished_mark intro!: filter_cong)

lemma rowToEvent_mark: "rowToEvent (r\<lparr>obPublished := p\<rparr>) = rowToEvent r"
  by (simp add: rowToEvent_def Let_def)

lemma marks_events:
  "(\<forall>r\<in>set rows. \<exists>ev. rowToEvent r = Inr ev) \<Longrightarrow> \<forall>r\<in>set (foldl (\<lambda>rs row. mark_published now (obID row) rs) rows ps). \<exists>ev. rowToEvent r = Inr ev"
proof (induction ps arbitrary: rows)
  case (Cons p ps)
  have "\<forall>r\<in>set (mark_published now (obID p) rows). \<exists>ev. rowToEvent r = Inr ev"
    using Cons.prems rowToEvent_mark by (auto simp: mark_published_def)
  with Cons.IH show ?case by simp
qed simp

lemma marks_ids: "map obID (foldl (\<lambda>rs row. mark_published now (obID row) rs) rows ps) = map obID rows"
  by (induction ps arbitrary: rows) simp_all

lemma pending_set: "set (pending_rows rows) \<subseteq> set (unpublished rows)"
  using set_take_subset [of 50 "sort_key obCreated (unpublished rows)"] by (simp add: pending_rows_def unpublished_def)

text \<open>One healthy round publishes the rows it reads.\<close>

lemma healthy_round:
  assumes "\<And>ev n. fst (emit ev n) = None" "\<forall>row\<in>set (obRows s). \<exists>ev. rowToEvent row = Inr ev" "distinct (map obID (obRows s))"
    and "s' = snd (dispatchOnce (\<lambda>i. emit) (\<lambda>i. None) now None None s)"
  shows "length (unpublished (obRows s')) = length (unpublished (obRows s)) - 50"
    and "\<forall>row\<in>set (obRows s'). \<exists>ev. rowToEvent row = Inr ev" "map obID (obRows s') = map obID (obRows s)"
proof -
  let ?U = "unpublished (obRows s)" and ?P = "pending_rows (obRows s)"
  have P: "set ?P \<subseteq> set ?U" "set ?U \<subseteq> set (obRows s)" using pending_set by (auto simp: unpublished_def)
  have rows: "obRows s' = foldl (\<lambda>rs row. mark_published now (obID row) rs) (obRows s) ?P"
    using publish_loop_healthy [where emit = emit and rows = ?P and now = now and i = 0 and firstErr = None and s = s, OF assms(1)] P assms(2,4) by (auto simp: dispatchOnce_def)
  show "map obID (obRows s') = map obID (obRows s)" "\<forall>row\<in>set (obRows s'). \<exists>ev. rowToEvent row = Inr ev"
    using rows marks_ids marks_events [OF assms(2)] by simp_all
  have dist: "distinct ?U" "inj_on obID (set ?U)" "distinct ?P"
    using assms(3) P(2) by (auto simp: distinct_map unpublished_def pending_rows_def intro: inj_on_subset)
  have "r \<in> set ?U \<Longrightarrow> obID r \<in> obID ` set ?P \<longleftrightarrow> r \<in> set ?P" for r
    using dist(2) P(1) by (auto simp: inj_on_def)
  then have "unpublished (obRows s') = filter (\<lambda>r. r \<notin> set ?P) ?U"
    unfolding rows unpublished_marks by (intro filter_cong) auto
  then have "length (unpublished (obRows s')) = card (set ?U - set ?P)"
    using dist(1) by (simp add: distinct_card [symmetric] set_diff_eq)
  also have "\<dots> = length ?U - length ?P" using P(1) dist by (simp add: card_Diff_subset distinct_card)
  also have "length ?P = min 50 (length ?U)" by (simp add: pending_rows_def unpublished_def)
  finally show "length (unpublished (obRows s')) = length ?U - 50" by simp
qed


end
