(* ===== verification/Users.thy ===== *)
theory Users
  imports Tables Mux
begin

text \<open>
  \<^verbatim>\<open>services/user-service\<close>: the profile store, the handlers of \<^verbatim>\<open>/v1/users/me\<close> and of the tenant
  directory, and the routes of \<^verbatim>\<open>main\<close>. The state is the \<^verbatim>\<open>users\<close> table.
\<close>

section \<open>Store\<close>

record user =
  uID :: string
  uTenant :: string
  uDisplayName :: string
  uCreatedAt :: gotime
  uUpdatedAt :: gotime

text \<open>The upsert of \<^verbatim>\<open>GetOrCreate\<close>: an existing row takes the tenant of the identity and a new update time.\<close>

definition user_upsert :: "gotime \<Rightarrow> Identity \<Rightarrow> user list \<Rightarrow> user \<times> user list" where
  "user_upsert now idn tbl = upsert uID (\<lambda>u. u\<lparr>uTenant := TenantID idn, uUpdatedAt := now\<rparr>)
     \<lparr>uID = UserID idn, uTenant = TenantID idn, uDisplayName = UserID idn, uCreatedAt = now, uUpdatedAt = now\<rparr> tbl"

definition GetOrCreate :: "bool \<Rightarrow> goerr option \<Rightarrow> gotime \<Rightarrow> Identity \<Rightarrow> user list \<Rightarrow> user res \<times> user list" where
  "GetOrCreate pool fault now idn tbl =
     (if \<not> pool then (Inl (Errorf ''database not connected''), tbl)
      else if UserID idn = [] then (Inl (Errorf ''user id required''), tbl)
      else (case fault of
        Some err \<Rightarrow> (Inl (Wrapped ''get or create user'' err), tbl)
      | None \<Rightarrow> (case user_upsert now idn tbl of (u, tbl') \<Rightarrow> (Inr u, tbl'))))"

text \<open>\<^verbatim>\<open>UPDATE ... WHERE id = $1 RETURNING\<close>: no row is \<^verbatim>\<open>ErrNoRows\<close>.\<close>

definition update_name :: "gotime \<Rightarrow> Identity \<Rightarrow> string \<Rightarrow> user list \<Rightarrow> user res \<times> user list" where
  "update_name now idn name tbl =
     (let upd = (\<lambda>u. if uID u = UserID idn then u\<lparr>uDisplayName := name, uTenant := TenantID idn, uUpdatedAt := now\<rparr> else u)
      in case find (\<lambda>u. uID u = UserID idn) tbl of
           None \<Rightarrow> (Inl ErrNoRows, tbl)
         | Some u \<Rightarrow> (Inr (upd u), map upd tbl))"

definition UpdateDisplayName ::
  "bool \<Rightarrow> (nat \<Rightarrow> goerr option) \<Rightarrow> gotime \<Rightarrow> Identity \<Rightarrow> string \<Rightarrow> user list \<Rightarrow> user res \<times> user list" where
  "UpdateDisplayName pool fault now idn name tbl =
     (if \<not> pool then (Inl (Errorf ''database not connected''), tbl)
      else if UserID idn = [] then (Inl (Errorf ''user id required''), tbl)
      else (case GetOrCreate pool (fault 0) now idn tbl of
        (Inl err, tbl') \<Rightarrow> (Inl err, tbl')
      | (Inr _, tbl') \<Rightarrow> (case fault 1 of
          Some err \<Rightarrow> (Inl (Wrapped ''update user'' err), tbl')
        | None \<Rightarrow> (case update_name now idn name tbl' of
            (Inl err, tbl'') \<Rightarrow> (Inl (Wrapped ''update user'' err), tbl'')
          | (Inr u, tbl'') \<Rightarrow> (Inr u, tbl'')))))"

definition ListByTenant :: "bool \<Rightarrow> goerr option \<Rightarrow> string \<Rightarrow> int \<Rightarrow> user list \<Rightarrow> user list res" where
  "ListByTenant pool fault tenantID limit tbl =
     (if \<not> pool then Inl (Errorf ''database not connected'')
      else (case fault of
        Some err \<Rightarrow> Inl (Wrapped ''list users'' err)
      | None \<Rightarrow> Inr (newest (\<lambda>u. uTenant u = tenantID) uCreatedAt (nat (clamp_limit limit)) tbl)))"

section \<open>Handlers\<close>

definition maxDisplayNameLen :: nat where "maxDisplayNameLen = 200"

record user_env =
  usJson :: json_env
  usNow :: gotime
  usFault :: "nat \<Rightarrow> goerr option"
  usHealth :: "user list health"

definition user_json :: "(gotime \<Rightarrow> string) \<Rightarrow> user \<Rightarrow> gomap" where
  "user_json fmt u = [(''user_id'', JStr (uID u)), (''tenant_id'', JStr (uTenant u)), (''display_name'', JStr (uDisplayName u)),
     (''created_at'', JStr (fmt (uCreatedAt u))), (''updated_at'', JStr (fmt (uUpdatedAt u)))]"

definition writeProfile :: "user_env \<Rightarrow> user \<Rightarrow> Identity \<Rightarrow> writer \<Rightarrow> writer" where
  "writeProfile E u idn w =
     respond_JSON 200 (JObj ((''roles'', JArr (map JStr (Roles idn))) # user_json (fmtTime (usJson E)) u)) w"

definition me_get :: "user_env \<Rightarrow> bool iface \<Rightarrow> user list handler" where
  "me_get E users r w tbl =
     (let idn = fst (FromContext r) in
      if iface_is_nil users then Served (fail (RequestID idn) (Internal ''database_unavailable'' ''database not connected'') w) tbl
      else with_store users (\<lambda>pool. case GetOrCreate pool (usFault E 0) (usNow E) idn tbl of
          (Inl _, tbl') \<Rightarrow> Served (fail (RequestID idn) (Internal ''user_lookup_failed'' ''failed to load user profile'') w) tbl'
        | (Inr u, tbl') \<Rightarrow> Served (writeProfile E u idn w) tbl') w tbl)"

text \<open>The name a PATCH body asks for, or the error it is answered with.\<close>

definition patch_name :: "(string \<Rightarrow> json option) \<Rightarrow> string res \<Rightarrow> app_error + string" where
  "patch_name dec bdy = (case bdy of
     Inl _ \<Rightarrow> Inl (BadRequest ''invalid_body'' ''could not read request body'')
   | Inr full \<Rightarrow> (case Option.bind (Option.bind (dec (take 4096 full)) dec_object) (dec_strptr ''display_name'') of
       None \<Rightarrow> Inl (BadRequest ''invalid_json'' ''malformed JSON body'')
     | Some None \<Rightarrow> Inl (BadRequest ''display_name_required'' ''display_name is required'')
     | Some (Some raw) \<Rightarrow>
         (let name = TrimSpace raw in
          if name = [] then Inl (BadRequest ''display_name_empty'' ''display_name cannot be empty'')
          else if length name > maxDisplayNameLen then Inl (BadRequest ''display_name_too_long'' ''display_name exceeds limit'')
          else Inr name)))"

definition me_patch :: "user_env \<Rightarrow> bool iface \<Rightarrow> user list handler" where
  "me_patch E users r w tbl =
     (let idn = fst (FromContext r) in
      if iface_is_nil users then Served (fail (RequestID idn) (Internal ''database_unavailable'' ''database not connected'') w) tbl
      else (case patch_name (jdec (usJson E)) (Body r) of
        Inl e \<Rightarrow> Served (fail (RequestID idn) e w) tbl
      | Inr name \<Rightarrow> with_store users (\<lambda>pool. case UpdateDisplayName pool (usFault E) (usNow E) idn name tbl of
          (Inl _, tbl') \<Rightarrow> Served (fail (RequestID idn) (Internal ''user_update_failed'' ''failed to update profile'') w) tbl'
        | (Inr u, tbl') \<Rightarrow> Served (writeProfile E u idn w) tbl') w tbl))"

definition me_ServeHTTP :: "user_env \<Rightarrow> bool iface \<Rightarrow> user list handler" where
  "me_ServeHTTP E users r w tbl =
     (if Method r = ''GET'' then me_get E users r w tbl
      else if Method r = ''PATCH'' then me_patch E users r w tbl
      else Served (fail (RequestID (fst (FromContext r))) (BadRequest ''method_not_allowed'' ''use GET or PATCH'') w) tbl)"

definition userlist_ServeHTTP :: "user_env \<Rightarrow> bool iface \<Rightarrow> user list handler" where
  "userlist_ServeHTTP E users r w tbl =
     (let idn = fst (FromContext r) in
      if Method r \<noteq> ''GET'' then Served (fail (RequestID idn) (BadRequest ''method_not_allowed'' ''use GET'') w) tbl
      else if iface_is_nil users
      then Served (fail (RequestID idn) (Internal ''database_unavailable'' ''database not connected'') w) tbl
      else with_store users (\<lambda>pool. case ListByTenant pool (usFault E 0) (TenantID idn) (query_limit r) tbl of
          Inl _ \<Rightarrow> Served (fail (RequestID idn) (Internal ''user_list_failed'' ''failed to list users'') w) tbl
        | Inr rows \<Rightarrow> Served (respond_JSON 200
            (JObj [(''users'', JArr (map (\<lambda>u. JObj (user_json (fmtTime (usJson E)) u)) rows))]) w) tbl) w tbl)"

section \<open>Service\<close>

definition user_routes :: "user_env \<Rightarrow> bool iface \<Rightarrow> user list route list" where
  "user_routes E users = health_routes (usHealth E) @
     [\<lparr>rtMethod = [], rtSegs = [Lit ''v1'', Lit ''users'', Lit ''me''], rtHandler = TrustedAuth (me_ServeHTTP E users)\<rparr>,
      \<lparr>rtMethod = ''GET'', rtSegs = [Lit ''v1'', Lit ''users'', Multi],
       rtHandler = TrustedRole ''admin'' (userlist_ServeHTTP E users)\<rparr>]"

text \<open>The handler \<^verbatim>\<open>main\<close> serves with; \<open>None\<close> when building the mux panics.\<close>

definition user_service :: "user_env \<Rightarrow> string \<Rightarrow> bool \<Rightarrow> (nat \<Rightarrow> bytes) \<Rightarrow> user list handler option" where
  "user_service E token connected rnd =
     map_option (\<lambda>rts. Chain (serve_mux (usJson E) rts)
       [GatewayTrust token, RequestID_mw (rnd 0), Recover, AccessLog, TraceContext (rnd 1) (rnd 2)])
       (mux_Handle_all [] (user_routes E (store_iface connected)))"

section \<open>Facts\<close>

lemma upd_keeps_id: "uID (u\<lparr>uTenant := t, uUpdatedAt := n\<rparr>) = uID u"
  by simp

lemma GetOrCreate_row:
  assumes "GetOrCreate pool fault now idn tbl = (Inr u, tbl')"
  shows "tbl' = snd (user_upsert now idn tbl) \<and> u = fst (user_upsert now idn tbl) \<and> UserID idn \<noteq> []"
  using assms by (auto simp: GetOrCreate_def split: if_splits option.splits prod.splits)

lemma user_upsert_facts:
  "uID (fst (user_upsert now idn tbl)) = UserID idn"
  "uTenant (fst (user_upsert now idn tbl)) = TenantID idn"
  "uDisplayName (fst (user_upsert now idn tbl)) =
     (case find (\<lambda>u. uID u = UserID idn) tbl of None \<Rightarrow> UserID idn | Some u \<Rightarrow> uDisplayName u)"
  "filter (\<lambda>u. uID u \<noteq> UserID idn) (snd (user_upsert now idn tbl)) = filter (\<lambda>u. uID u \<noteq> UserID idn) tbl"
  "find (\<lambda>u. uID u = UserID idn) (snd (user_upsert now idn tbl)) = Some (fst (user_upsert now idn tbl))"
  "keyed uID tbl \<Longrightarrow> keyed uID (snd (user_upsert now idn tbl))"
proof -
  let ?upd = "\<lambda>u. u\<lparr>uTenant := TenantID idn, uUpdatedAt := now\<rparr>"
  let ?r = "\<lparr>uID = UserID idn, uTenant = TenantID idn, uDisplayName = UserID idn, uCreatedAt = now, uUpdatedAt = now\<rparr>"
  note facts = upsert_row [of uID ?upd ?r tbl] upsert_value [of uID ?upd ?r tbl] upsert_other [of uID ?upd ?r tbl]
    upsert_find [of uID ?upd ?r tbl] upsert_keys [of uID ?upd ?r tbl]
  show "uID (fst (user_upsert now idn tbl)) = UserID idn"
    using facts(1) by (simp add: user_upsert_def)
  show "uTenant (fst (user_upsert now idn tbl)) = TenantID idn"
    using facts(2) by (simp add: user_upsert_def split: option.splits)
  show "uDisplayName (fst (user_upsert now idn tbl)) =
     (case find (\<lambda>u. uID u = UserID idn) tbl of None \<Rightarrow> UserID idn | Some u \<Rightarrow> uDisplayName u)"
    using facts(2) by (simp add: user_upsert_def split: option.splits)
  show "filter (\<lambda>u. uID u \<noteq> UserID idn) (snd (user_upsert now idn tbl)) = filter (\<lambda>u. uID u \<noteq> UserID idn) tbl"
    using facts(3) by (simp add: user_upsert_def)
  show "find (\<lambda>u. uID u = UserID idn) (snd (user_upsert now idn tbl)) = Some (fst (user_upsert now idn tbl))"
    using facts(4) by (simp add: user_upsert_def)
  show "keyed uID tbl \<Longrightarrow> keyed uID (snd (user_upsert now idn tbl))"
    using facts(5) by (auto simp: user_upsert_def keyed_def)
qed

lemma patch_name_Inr: "patch_name dec b = Inr name \<Longrightarrow> name \<noteq> [] \<and> length name \<le> 200 \<and> TrimSpace name = name"
  by (auto simp: patch_name_def maxDisplayNameLen_def Let_def split: sum.splits option.splits if_splits)

lemma update_name_others:
  "filter (\<lambda>u. uID u \<noteq> UserID idn) (snd (update_name now idn name tbl)) = filter (\<lambda>u. uID u \<noteq> UserID idn) tbl"
proof -
  have "filter (\<lambda>u. uID u \<noteq> UserID idn) (map (\<lambda>u. if uID u = UserID idn
      then u\<lparr>uDisplayName := name, uTenant := TenantID idn, uUpdatedAt := now\<rparr> else u) tbl) = filter (\<lambda>u. uID u \<noteq> UserID idn) tbl"
    by (induction tbl) auto
  then show ?thesis by (auto simp: update_name_def Let_def split: option.splits)
qed

lemma me_own_row:
  assumes ctx: "fst (FromContext r) = idn" and res: "me_ServeHTTP E users r w tbl = res"
  shows "filter (\<lambda>u. uID u \<noteq> UserID idn) (hres_state res) = filter (\<lambda>u. uID u \<noteq> UserID idn) tbl"
proof -
  have goc: "filter (\<lambda>u. uID u \<noteq> UserID idn) (snd (GetOrCreate pool fault now idn t)) = filter (\<lambda>u. uID u \<noteq> UserID idn) t"
    for pool fault now t
    by (auto simp: GetOrCreate_def split: option.splits prod.splits) (metis snd_conv user_upsert_facts(4))
  have udn: "filter (\<lambda>u. uID u \<noteq> UserID idn) (snd (UpdateDisplayName pool fault now idn name t)) = filter (\<lambda>u. uID u \<noteq> UserID idn) t"
    for pool fault now name t
    using goc [of pool "fault 0" now t] update_name_others [of idn now name]
    by (auto simp: UpdateDisplayName_def split: option.splits prod.splits sum.splits) (metis snd_conv)+
  consider "hres_state res = tbl" | pool where "hres_state res = snd (GetOrCreate pool (usFault E 0) (usNow E) idn tbl)"
    | pool name where "hres_state res = snd (UpdateDisplayName pool (usFault E) (usNow E) idn name tbl)"
    using res
    by (auto simp: me_ServeHTTP_def me_get_def me_patch_def ctx Let_def with_store_def
        split: if_splits iface.splits option.splits prod.splits sum.splits) (metis snd_conv)+
  then show ?thesis by cases (simp_all add: goc udn)
qed

text \<open>
  C37 A request to \<^verbatim>\<open>/v1/users/me\<close> changes at most the row of the calling user: every other profile stays as it is,
  whatever the method, the body and the database faults.
\<close>

theorem me_changes_own_row_only:
  "filter (\<lambda>u. uID u \<noteq> UserID (fst (FromContext r))) (hres_state (me_ServeHTTP E users r w tbl)) =
   filter (\<lambda>u. uID u \<noteq> UserID (fst (FromContext r))) tbl"
  by (rule me_own_row [OF refl refl])

text \<open>
  A profile update that succeeds stores the trimmed name, which is never empty and at most 200 bytes long, and a
  later read of the profile returns it.
\<close>

theorem display_name_roundtrip:
  assumes ok: "patch_name dec b = Inr name"
    and upd: "UpdateDisplayName pool fault now idn name tbl = (Inr u, tbl')"
    and get: "GetOrCreate pool None now' idn tbl' = (Inr u', tbl'')"
  shows "name \<noteq> [] \<and> length name \<le> 200 \<and> uDisplayName u = name \<and> uDisplayName u' = name \<and> uID u' = UserID idn"
proof -
  obtain u0 t0 where t0: "GetOrCreate pool (fault 0) now idn tbl = (Inr u0, t0)"
    and un: "update_name now idn name t0 = (Inr u, tbl')"
    using upd by (auto simp: UpdateDisplayName_def split: if_splits option.splits prod.splits sum.splits)
  have u: "uDisplayName u = name" and row: "uID u = UserID idn"
    using un by (auto simp: update_name_def Let_def find_Some_iff split: option.splits)
  have "find (\<lambda>x. uID x = UserID idn) tbl' = Some u"
  proof -
    have "find (\<lambda>x. uID x = UserID idn) (map upd t0) = map_option upd (find (\<lambda>x. uID x = UserID idn) t0)"
      if "\<And>x. uID (upd x) = uID x" for upd :: "user \<Rightarrow> user"
      using that by (induction t0) auto
    then show ?thesis using un by (auto simp: update_name_def Let_def split: option.splits)
  qed
  with GetOrCreate_row [OF get] user_upsert_facts(1,3) [of now' idn tbl'] u patch_name_Inr [OF ok]
  show ?thesis by simp
qed

text \<open>
  The tenant directory shows only users of the administrator's tenant, at most 100, newest first.
\<close>

theorem user_list_scoped:
  assumes "ListByTenant pool fault tenant limit tbl = Inr rows"
  shows "length rows \<le> 100 \<and> sorted_wrt (\<lambda>a b. uCreatedAt b \<le> uCreatedAt a) rows \<and>
     set rows \<subseteq> {u \<in> set tbl. uTenant u = tenant} \<and>
     (\<forall>x\<in>set tbl. uTenant x = tenant \<longrightarrow> x \<notin> set rows \<longrightarrow> (\<forall>y\<in>set rows. uCreatedAt x \<le> uCreatedAt y))"
proof -
  have rows: "rows = newest (\<lambda>u. uTenant u = tenant) uCreatedAt (nat (clamp_limit limit)) tbl"
    using assms by (auto simp: ListByTenant_def split: if_splits option.splits)
  show ?thesis
    unfolding rows by (intro conjI ballI impI newest_clamped newest_sorted newest_set) (rule newest_cut)
qed

text \<open>
  Without a database the profile handler does not answer \<^verbatim>\<open>database_unavailable\<close>: the store is a nil pointer in a non-nil
  interface, the call panics, and the service answers a generic internal error.
\<close>

theorem missing_database_panics:
  assumes "Ctx r = Some idn" "Method r = ''GET''" "WSent w = None" "WBody w = []"
  shows "\<exists>w'. Recover (me_ServeHTTP E (store_iface False)) r w tbl = Served w' tbl \<and>
     final_status w' = 500 \<and> error_code w' = Some ''internal''"
  using assms by (simp add: Recover_def me_ServeHTTP_def me_get_def store_iface_def with_store_def Let_def)

text \<open>
  The pattern for every method of \<^verbatim>\<open>/v1/users/me\<close> and the GET pattern of \<^verbatim>\<open>/v1/users/\<close> each match requests the other does
  not, which the mux refuses with a panic when the second is registered.
\<close>

lemma user_routes_conflict: "mux_Handle_all [] (user_routes E users) = None"
proof -
  have "conflictsWith (''GET'', [Lit ''v1'', Lit ''users'', Multi]) ([], [Lit ''v1'', Lit ''users'', Lit ''me''])"
    by code_simp
  then show ?thesis by (simp add: user_routes_def health_routes_def pattern_of_def)
qed

end
