(* ===== verification/IdentityStore.thy ===== *)
theory IdentityStore
  imports Users
begin

text \<open>
  \<^verbatim>\<open>services/auth-service/internal/store\<close>: the mapping from external subjects to platform users, and the record of
  processed webhook deliveries. Several processes share the tables, so every statement is preceded by what other
  processes did in between (\<open>deOther\<close>) and may fail (\<open>deFault\<close>). The contract \<open>directory\<close> says that a subject
  keeps the user it was first resolved to; it is established for both resolvers.
\<close>

section \<open>Tables and statements\<close>

record identity_row =
  irProvider :: string
  irUid :: string
  irUser :: string
  irTenant :: string

definition link_key :: "identity_row \<Rightarrow> string \<times> string" where
  "link_key r = (irProvider r, irUid r)"

record auth_db =
  adUsers :: "user list"
  adLinks :: "identity_row list"
  adDeliveries :: "string list"

text \<open>
  The circumstances of a call: the fault of each statement, the work of other processes before it, the random bytes
  of a new id and the server time. Statements are numbered by their place in the source.
\<close>

record db_env =
  deFault :: "nat \<Rightarrow> goerr option"
  deOther :: "nat \<Rightarrow> auth_db \<Rightarrow> auth_db"
  deRand :: "bytes res"
  deNow :: gotime

definition stmt :: "db_env \<Rightarrow> nat \<Rightarrow> (auth_db \<Rightarrow> 'a res \<times> auth_db) \<Rightarrow> auth_db \<Rightarrow> 'a res \<times> auth_db" where
  "stmt D n run db = (let db = deOther D n db in case deFault D n of Some err \<Rightarrow> (Inl err, db) | None \<Rightarrow> run db)"

definition UniqueViolation :: string where "UniqueViolation = ''23505''"

definition isUniqueViolation :: "goerr \<Rightarrow> bool" where
  "isUniqueViolation err \<longleftrightarrow> pg_code err = Some UniqueViolation"

text \<open>\<^verbatim>\<open>INSERT\<close> without a conflict clause: a row with the same key is a unique violation.\<close>

definition insert_strict :: "('row \<Rightarrow> 'k) \<Rightarrow> 'row \<Rightarrow> 'row list \<Rightarrow> 'row list res" where
  "insert_strict key r tbl = (case insert_nothing key r tbl of
     (True, tbl') \<Rightarrow> Inr tbl' | (False, _) \<Rightarrow> Inl (PgError UniqueViolation))"

section \<open>Deliveries\<close>

definition TryRecord :: "db_env \<Rightarrow> nat \<Rightarrow> bool option \<Rightarrow> string \<Rightarrow> auth_db \<Rightarrow> bool res \<times> auth_db" where
  "TryRecord D n d deliveryKey db =
     (if d \<noteq> Some True then (Inl (Errorf ''deliveries store not configured''), db)
      else stmt D n (\<lambda>db. case insert_nothing (\<lambda>k. k) deliveryKey (adDeliveries db) of
             (first, ks) \<Rightarrow> (Inr first, db\<lparr>adDeliveries := ks\<rparr>)) db)"

section \<open>Identity store\<close>

definition providerWeChatMP :: string where "providerWeChatMP = ''wechat_mp''"
definition providerWeChatUnion :: string where "providerWeChatUnion = ''wechat_union''"
definition ProviderLogto :: string where "ProviderLogto = ''logto''"

lemmas provider_defs = providerWeChatMP_def providerWeChatUnion_def ProviderLogto_def

text \<open>The user a subject belongs to, in a given state of the table.\<close>

definition owner :: "auth_db \<Rightarrow> string \<times> string \<Rightarrow> string option" where
  "owner db k = map_option irUser (find (\<lambda>r. link_key r = k) (adLinks db))"

definition lookupUserID :: "db_env \<Rightarrow> nat \<Rightarrow> string \<Rightarrow> string \<Rightarrow> auth_db \<Rightarrow> string res \<times> auth_db" where
  "lookupUserID D n provider uid db =
     stmt D n (\<lambda>db. (case owner db (provider, uid) of None \<Rightarrow> Inl ErrNoRows | Some u \<Rightarrow> Inr u, db)) db"

definition linkIdentity :: "db_env \<Rightarrow> nat \<Rightarrow> string \<Rightarrow> string \<Rightarrow> string \<Rightarrow> auth_db \<Rightarrow> unit res \<times> auth_db" where
  "linkIdentity D n provider uid userID db =
     stmt D n (\<lambda>db. (Inr (), db\<lparr>adLinks := snd (insert_nothing link_key
        \<lparr>irProvider = provider, irUid = uid, irUser = userID, irTenant = []\<rparr> (adLinks db))\<rparr>)) db"

definition newUserID :: "bytes res \<Rightarrow> string res" where
  "newUserID rnd = (case rnd of Inl err \<Rightarrow> Inl err | Inr b \<Rightarrow> Inr (hex_encode b))"

text \<open>
  The transaction takes effect as a whole or not at all: an error before the commit, or of the commit (statements \<open>n\<close>
  to \<open>n + 3\<close>), rolls it back. Its inserts lock their keys until then, so other processes come in only before it.
\<close>

definition create_tx :: "db_env \<Rightarrow> nat \<Rightarrow> string \<Rightarrow> string \<Rightarrow> string \<Rightarrow> auth_db \<Rightarrow> string res \<times> auth_db" where
  "create_tx D n userID provider providerUID db =
     (case deFault D (n + 1) of Some err \<Rightarrow> (Inl err, db) | None \<Rightarrow>
      (case insert_strict uID \<lparr>uID = userID, uTenant = [], uDisplayName = [], uCreatedAt = deNow D, uUpdatedAt = deNow D\<rparr> (adUsers db) of
         Inl err \<Rightarrow> (Inl err, db)
       | Inr users \<Rightarrow>
      (case deFault D (n + 2) of Some err \<Rightarrow> (Inl err, db) | None \<Rightarrow>
      (case insert_strict link_key \<lparr>irProvider = provider, irUid = providerUID, irUser = userID, irTenant = []\<rparr> (adLinks db) of
         Inl err \<Rightarrow> (Inl err, db)
       | Inr links \<Rightarrow>
      (case deFault D (n + 3) of Some err \<Rightarrow> (Inl err, db) | None \<Rightarrow>
         (Inr userID, db\<lparr>adUsers := users, adLinks := links\<rparr>))))))"

definition createUserWithProvider :: "db_env \<Rightarrow> nat \<Rightarrow> string \<Rightarrow> string \<Rightarrow> auth_db \<Rightarrow> string res \<times> auth_db" where
  "createUserWithProvider D n provider providerUID db = (case newUserID (deRand D) of
     Inl err \<Rightarrow> (Inl err, db)
   | Inr userID \<Rightarrow> stmt D n (create_tx D n userID provider providerUID) db)"

definition ResolveProviderUser :: "db_env \<Rightarrow> bool option \<Rightarrow> string \<Rightarrow> string \<Rightarrow> auth_db \<Rightarrow> string res \<times> auth_db" where
  "ResolveProviderUser D s provider providerUID db =
     (if s \<noteq> Some True then (Inl (Errorf ''identity store not configured''), db)
      else if provider = [] \<or> providerUID = [] then (Inl (Errorf ''provider and provider_uid required''), db)
      else (case lookupUserID D 0 provider providerUID db of
        (Inr userID, db) \<Rightarrow> (Inr userID, db)
      | (Inl err, db) \<Rightarrow>
          if \<not> err_is_norows err then (Inl err, db)
          else (case createUserWithProvider D 1 provider providerUID db of
            (Inr userID, db) \<Rightarrow> (Inr userID, db)
          | (Inl err, db) \<Rightarrow>
              if isUniqueViolation err
              then (case lookupUserID D 5 provider providerUID db of
                      (Inr userID, db) \<Rightarrow> (Inr userID, db)
                    | (Inl _, db) \<Rightarrow> (Inl err, db))
              else (Inl err, db))))"

definition ResolveLogtoUser :: "db_env \<Rightarrow> bool option \<Rightarrow> string \<Rightarrow> auth_db \<Rightarrow> string res \<times> auth_db" where
  "ResolveLogtoUser D s logtoSub db = ResolveProviderUser D s ProviderLogto logtoSub db"

definition createWeChatUser :: "db_env \<Rightarrow> string \<Rightarrow> string \<Rightarrow> auth_db \<Rightarrow> string res \<times> auth_db" where
  "createWeChatUser D openid unionid db = (case createUserWithProvider D 4 providerWeChatMP openid db of
     (Inl err, db) \<Rightarrow> (Inl err, db)
   | (Inr userID, db) \<Rightarrow>
       if unionid \<noteq> [] then (case linkIdentity D 8 providerWeChatUnion unionid userID db of
           (Inl err, db) \<Rightarrow> (Inl err, db) | (Inr _, db) \<Rightarrow> (Inr userID, db))
       else (Inr userID, db))"

text \<open>The middle part of \<^verbatim>\<open>ResolveWeChatUser\<close>: a known union id. \<open>Inr None\<close> means go on and create a user.\<close>

definition by_union :: "db_env \<Rightarrow> string \<Rightarrow> string \<Rightarrow> auth_db \<Rightarrow> string option res \<times> auth_db" where
  "by_union D openid unionid db =
     (if unionid = [] then (Inr None, db)
      else (case lookupUserID D 2 providerWeChatUnion unionid db of
        (Inr userID, db) \<Rightarrow> (case linkIdentity D 3 providerWeChatMP openid userID db of
            (Inl err, db) \<Rightarrow> (Inl err, db) | (Inr _, db) \<Rightarrow> (Inr (Some userID), db))
      | (Inl err, db) \<Rightarrow> if \<not> err_is_norows err then (Inl err, db) else (Inr None, db)))"

text \<open>Its last part: what a unique violation of the creation falls back to.\<close>

definition after_violation :: "db_env \<Rightarrow> string \<Rightarrow> string \<Rightarrow> goerr \<Rightarrow> auth_db \<Rightarrow> string res \<times> auth_db" where
  "after_violation D openid unionid err db = (case lookupUserID D 9 providerWeChatMP openid db of
     (Inr userID, db) \<Rightarrow> (Inr userID, db)
   | (Inl _, db) \<Rightarrow>
       if unionid \<noteq> [] then (case lookupUserID D 10 providerWeChatUnion unionid db of
           (Inr userID, db) \<Rightarrow> (Inr userID, snd (linkIdentity D 11 providerWeChatMP openid userID db))
         | (Inl _, db) \<Rightarrow> (Inl err, db))
       else (Inl err, db))"

definition ResolveWeChatUser :: "db_env \<Rightarrow> bool option \<Rightarrow> string \<Rightarrow> string \<Rightarrow> auth_db \<Rightarrow> string res \<times> auth_db" where
  "ResolveWeChatUser D s openid unionid db =
     (if s \<noteq> Some True then (Inl (Errorf ''identity store not configured''), db)
      else if openid = [] then (Inl (Errorf ''openid required''), db)
      else (case lookupUserID D 0 providerWeChatMP openid db of
        (Inr userID, db) \<Rightarrow>
          if unionid \<noteq> [] then (case linkIdentity D 1 providerWeChatUnion unionid userID db of
              (Inl err, db) \<Rightarrow> (Inl err, db) | (Inr _, db) \<Rightarrow> (Inr userID, db))
          else (Inr userID, db)
      | (Inl err, db) \<Rightarrow>
          if \<not> err_is_norows err then (Inl err, db)
          else (case by_union D openid unionid db of
            (Inl err, db) \<Rightarrow> (Inl err, db)
          | (Inr (Some userID), db) \<Rightarrow> (Inr userID, db)
          | (Inr None, db) \<Rightarrow> (case createWeChatUser D openid unionid db of
              (Inr userID, db) \<Rightarrow> (Inr userID, db)
            | (Inl err, db) \<Rightarrow> if isUniqueViolation err then after_violation D openid unionid err db else (Inl err, db)))))"

section \<open>The contract of a directory\<close>

text \<open>A sequence of calls, with their answers by subject.\<close>

fun resolve_all :: "('e \<Rightarrow> 'k \<Rightarrow> 'db \<Rightarrow> 'u res \<times> 'db) \<Rightarrow> ('e \<times> 'k) list \<Rightarrow> 'db \<Rightarrow> ('k \<times> 'u res) list \<times> 'db" where
  "resolve_all resolve [] db = ([], db)"
| "resolve_all resolve ((e, k) # es) db =
     (case resolve e k db of (r, db) \<Rightarrow> (case resolve_all resolve es db of (rs, db) \<Rightarrow> ((k, r) # rs, db)))"

text \<open>A resolver of external subjects: what it answers is the owner of the subject, and owners never change.\<close>

locale directory =
  fixes own :: "'db \<Rightarrow> 'k \<Rightarrow> 'u option"
    and resolve :: "'e \<Rightarrow> 'k \<Rightarrow> 'db \<Rightarrow> 'u res \<times> 'db"
    and calm :: "'e \<Rightarrow> bool"
  assumes resolve_own: "calm e \<Longrightarrow> resolve e k db = (Inr u, db') \<Longrightarrow> own db' k = Some u"
    and resolve_keeps: "calm e \<Longrightarrow> resolve e k db = (res, db') \<Longrightarrow> own db k' = Some u \<Longrightarrow> own db' k' = Some u"
begin

lemma run_keeps:
  "\<forall>(e, k)\<in>set es. calm e \<Longrightarrow> resolve_all resolve es db = (rs, db') \<Longrightarrow> own db k = Some u \<Longrightarrow> own db' k = Some u"
proof (induction es arbitrary: db rs)
  case (Cons ek es)
  obtain e k' where ek: "ek = (e, k')" by (cases ek)
  obtain r db1 where r: "resolve e k' db = (r, db1)" by (cases "resolve e k' db")
  obtain rs' where rs': "resolve_all resolve es db1 = (rs', db')" using Cons.prems ek r by (auto split: prod.splits)
  show ?case using Cons.IH [OF _ rs'] Cons.prems ek resolve_keeps [OF _ r] by auto
qed simp

text \<open>Whatever the order and the outcome of the other calls, every answer is the owner at the end.\<close>

lemma run_answers:
  "\<forall>(e, k)\<in>set es. calm e \<Longrightarrow> resolve_all resolve es db = (rs, db') \<Longrightarrow> (k, Inr u) \<in> set rs \<Longrightarrow> own db' k = Some u"
proof (induction es arbitrary: db rs)
  case (Cons ek es)
  obtain e k' where ek: "ek = (e, k')" by (cases ek)
  obtain r db1 where r: "resolve e k' db = (r, db1)" by (cases "resolve e k' db")
  obtain rs' where rs': "resolve_all resolve es db1 = (rs', db')" "rs = (k', r) # rs'"
    using Cons.prems ek r by (auto split: prod.splits)
  show ?case
  proof (cases "(k, Inr u) \<in> set rs'")
    case True
    with Cons.IH rs' Cons.prems show ?thesis by auto
  next
    case False
    with Cons.prems rs' ek r have "own db1 k = Some u" by (auto dest: resolve_own)
    with run_keeps [OF _ rs'(1)] Cons.prems show ?thesis by simp
  qed
qed simp

lemma run_agrees:
  assumes "\<forall>(e, k)\<in>set es. calm e" "resolve_all resolve es db = (rs, db')" "(k, Inr u) \<in> set rs" "(k, Inr u') \<in> set rs"
  shows "u = u'"
  using run_answers [OF assms(1,2,3)] run_answers [OF assms(1,2,4)] by simp

end

section \<open>Both resolvers are directories\<close>

text \<open>Other processes only add links; \<open>alone\<close> says that there are none.\<close>

definition only_adds :: "db_env \<Rightarrow> bool" where
  "only_adds D \<longleftrightarrow> (\<forall>n db k u. owner db k = Some u \<longrightarrow> owner (deOther D n db) k = Some u)"

definition alone :: "db_env \<Rightarrow> bool" where
  "alone D \<longleftrightarrow> deOther D = (\<lambda>n db. db)"

lemma alone_only_adds: "alone D \<Longrightarrow> only_adds D"
  by (simp add: alone_def only_adds_def)

lemma owner_keeps_other: "only_adds D \<Longrightarrow> owner db k = Some u \<Longrightarrow> owner (deOther D n db) k = Some u"
  by (cases k) (simp add: only_adds_def)

lemma owner_users [simp]: "owner (db\<lparr>adUsers := us\<rparr>) k = owner db k" "owner (db\<lparr>adDeliveries := ks\<rparr>) k = owner db k"
  by (simp_all add: owner_def)

lemma owner_insert: "owner (db\<lparr>adLinks := snd (insert_nothing link_key r (adLinks db))\<rparr>) k =
    (case owner db k of Some u \<Rightarrow> Some u | None \<Rightarrow> if link_key r = k then Some (irUser r) else None)"
  by (auto simp: owner_def nothing.ins_find find_append split: option.splits)

lemma insert_strict_Inr: "insert_strict key r tbl = Inr t \<Longrightarrow> t = snd (insert_nothing key r tbl) \<and> key r \<notin> key ` set tbl"
  by (cases "key r \<in> key ` set tbl") (auto simp: insert_strict_def insert_nothing_new insert_nothing_dup)

lemma insert_strict_Inl: "insert_strict key r tbl = Inl e \<Longrightarrow> e = PgError UniqueViolation"
  by (auto simp: insert_strict_def split: prod.splits bool.splits)

lemma lookup_result:
  assumes "lookupUserID D n p u db = (res, db')"
  shows "db' = deOther D n db \<and> (\<forall>x. res = Inr x \<longrightarrow> owner db' (p, u) = Some x) \<and>
    (\<forall>e. res = Inl e \<longrightarrow> deFault D n = None \<longrightarrow> owner db' (p, u) = None \<and> e = ErrNoRows)"
  using assms by (auto simp: lookupUserID_def stmt_def Let_def split: option.splits)

lemma link_result:
  assumes "linkIdentity D n p u x db = (res, db')"
  shows "owner db' k = (if res = Inr () \<and> owner (deOther D n db) k = None \<and> k = (p, u) then Some x else owner (deOther D n db) k)"
  using assms by (auto simp: linkIdentity_def stmt_def Let_def owner_insert link_key_def split: option.splits)

lemma create_result:
  assumes "createUserWithProvider D n p u db = (res, db')"
  shows "(\<forall>x. res = Inr x \<longrightarrow> owner db' = (owner (deOther D n db))((p, u) \<mapsto> x) \<and> owner (deOther D n db) (p, u) = None) \<and>
    (\<forall>e. res = Inl e \<longrightarrow> db' = db \<or> db' = deOther D n db)"
proof -
  have new: "owner (db\<lparr>adUsers := us, adLinks := ls\<rparr>) = (owner db)((p, u) \<mapsto> x) \<and> owner db (p, u) = None"
    if "insert_strict link_key \<lparr>irProvider = p, irUid = u, irUser = x, irTenant = []\<rparr> (adLinks db) = Inr ls" for db us ls x
  proof -
    let ?r = "\<lparr>irProvider = p, irUid = u, irUser = x, irTenant = []\<rparr>"
    have ls: "ls = snd (insert_nothing link_key ?r (adLinks db))" and fresh: "(p, u) \<notin> link_key ` set (adLinks db)"
      using insert_strict_Inr [OF that] by (auto simp: link_key_def)
    have none: "owner db (p, u) = None"
      using fresh by (auto simp: owner_def find_None_iff_all) (metis image_eqI)
    have "owner (db\<lparr>adUsers := us, adLinks := ls\<rparr>) k = ((owner db)((p, u) \<mapsto> x)) k" for k
      using owner_insert [where db = "db\<lparr>adUsers := us\<rparr>" and r = ?r and k = k] none
      by (auto simp: ls link_key_def split: option.splits)
    with none show ?thesis by blast
  qed
  show ?thesis
    using assms
    by (auto simp: createUserWithProvider_def newUserID_def stmt_def create_tx_def Let_def dest: new
        split: option.splits sum.splits)
qed

lemma provider_directory:
  assumes "only_adds D" "ResolveProviderUser D (Some True) p x db = (res, db')"
  shows "(\<forall>u. res = Inr u \<longrightarrow> owner db' (p, x) = Some u) \<and> (\<forall>k u. owner db k = Some u \<longrightarrow> owner db' k = Some u)"
proof (cases "p = [] \<or> x = []")
  case True
  with assms show ?thesis by (auto simp: ResolveProviderUser_def)
next
  case False
  obtain r1 db1 where l1: "lookupUserID D 0 p x db = (r1, db1)" by fastforce
  obtain r2 db2 where c: "createUserWithProvider D 1 p x db1 = (r2, db2)" by fastforce
  obtain r3 db3 where l3: "lookupUserID D 5 p x db2 = (r3, db3)" by fastforce
  note keep = owner_keeps_other [OF assms(1)]
  have k1: "owner db1 k = Some u" if "owner db k = Some u" for k u
    using lookup_result [OF l1] keep that by simp
  have k2: "owner db2 k = Some u" if "owner db1 k = Some u" for k u
    using create_result [OF c] keep [OF that, of 1] that by (cases r2) (auto split: if_splits)
  have k3: "owner db3 k = Some u" if "owner db2 k = Some u" for k u
    using lookup_result [OF l3] keep that by simp
  consider (found) u where "r1 = Inr u" "res = Inr u" "db' = db1"
    | (err) e where "res = Inl e" "db' = db1 \<or> db' = db2 \<or> db' = db3"
    | (new) u where "r2 = Inr u" "res = Inr u" "db' = db2"
    | (raced) u where "r3 = Inr u" "res = Inr u" "db' = db3"
    using assms(2) False l1 c l3
    by (auto simp: ResolveProviderUser_def split: sum.splits if_splits)
  then show ?thesis
  proof cases
    case found
    with lookup_result [OF l1] k1 show ?thesis by auto
  next
    case err
    with k1 k2 k3 show ?thesis by blast
  next
    case new
    with create_result [OF c] k1 k2 show ?thesis by auto
  next
    case raced
    with lookup_result [OF l3] k1 k2 k3 show ?thesis by auto
  qed
qed

text \<open>The resolver with its two arguments as one key.\<close>

definition resolve_provider :: "db_env \<Rightarrow> string \<times> string \<Rightarrow> auth_db \<Rightarrow> string res \<times> auth_db" where
  "resolve_provider D k db = ResolveProviderUser D (Some True) (fst k) (snd k) db"

interpretation provider: directory owner resolve_provider only_adds
proof
  fix e k db u db' res k'
  assume calm: "only_adds e"
  { assume "resolve_provider e k db = (Inr u, db')"
    then show "owner db' k = Some u"
      using provider_directory [OF calm, of "fst k" "snd k" db "Inr u" db'] by (simp add: resolve_provider_def) }
  { assume "resolve_provider e k db = (res, db')" "owner db k' = Some u"
    then show "owner db' k' = Some u"
      using provider_directory [OF calm, of "fst k" "snd k" db res db'] by (cases k') (simp add: resolve_provider_def) }
qed

text \<open>
  A process on its own whose statements fail with genuine errors: the absence of a row and a conflict are answers of
  the tables, not faults.
\<close>

definition undisturbed :: "db_env \<Rightarrow> bool" where
  "undisturbed D \<longleftrightarrow> alone D \<and> (\<forall>n err. deFault D n = Some err \<longrightarrow> \<not> err_is_norows err \<and> \<not> isUniqueViolation err)"

lemma undisturbed_other: "undisturbed D \<Longrightarrow> deOther D n db = db"
  by (simp add: undisturbed_def alone_def)

lemma lookup_undisturbed:
  assumes "undisturbed D" "lookupUserID D n p u db = (res, db')"
  shows "db' = db \<and> (\<forall>x. res = Inr x \<longrightarrow> owner db (p, u) = Some x) \<and>
    (\<forall>e. res = Inl e \<longrightarrow> err_is_norows e \<longrightarrow> owner db (p, u) = None)"
  using assms by (auto simp: lookupUserID_def stmt_def Let_def undisturbed_other undisturbed_def split: option.splits)

lemma link_undisturbed:
  assumes "undisturbed D" "linkIdentity D n p u x db = (res, db')"
  shows "owner db' k = (if res = Inr () \<and> owner db k = None \<and> k = (p, u) then Some x else owner db k)"
  using link_result [OF assms(2), of k] unfolding undisturbed_other [OF assms(1)] .

lemma link_error_undisturbed:
  assumes "undisturbed D" "linkIdentity D n p u x db = (Inl e, db')"
  shows "\<not> isUniqueViolation e"
  using assms by (auto simp: linkIdentity_def stmt_def Let_def undisturbed_def split: option.splits)

lemma create_undisturbed:
  assumes "undisturbed D" "createUserWithProvider D n p u db = (res, db')"
  shows "(\<forall>x. res = Inr x \<longrightarrow> owner db' = (owner db)((p, u) \<mapsto> x) \<and> owner db (p, u) = None) \<and>
    (\<forall>e. res = Inl e \<longrightarrow> db' = db)"
  using create_result [OF assms(2)] by (simp add: undisturbed_other [OF assms(1)])

lemma by_union_result:
  assumes "undisturbed D" "by_union D openid unionid db = (res, db')" "owner db (providerWeChatMP, openid) = None"
  shows "(\<forall>u. res = Inr (Some u) \<longrightarrow> owner db' (providerWeChatMP, openid) = Some u \<and> owner db (providerWeChatUnion, unionid) = Some u) \<and>
    (res = Inr None \<longrightarrow> db' = db \<and> (unionid = [] \<or> owner db (providerWeChatUnion, unionid) = None)) \<and>
    (\<forall>k u. owner db k = Some u \<longrightarrow> owner db' k = Some u)"
proof (cases "unionid = []")
  case False
  obtain r1 db1 where l: "lookupUserID D 2 providerWeChatUnion unionid db = (r1, db1)" by fastforce
  note l' = lookup_undisturbed [OF assms(1) l]
  show ?thesis
  proof (cases r1)
    case (Inr x)
    obtain r2 db2 where k: "linkIdentity D 3 providerWeChatMP openid x db1 = (r2, db2)" by fastforce
    show ?thesis
      using assms(2,3) False l l' k link_undisturbed [OF assms(1) k] Inr
      by (auto simp: by_union_def provider_defs split: sum.splits if_splits)
  qed (use assms(2) False l l' in \<open>auto simp: by_union_def split: if_splits\<close>)
qed (use assms(2) in \<open>auto simp: by_union_def\<close>)

lemma createWeChat_result:
  assumes "undisturbed D" "createWeChatUser D openid unionid db = (res, db')"
  shows "(\<forall>u. res = Inr u \<longrightarrow> owner db' (providerWeChatMP, openid) = Some u \<and>
        (unionid \<noteq> [] \<longrightarrow> owner db (providerWeChatUnion, unionid) = None \<longrightarrow> owner db' (providerWeChatUnion, unionid) = Some u)) \<and>
    (\<forall>e. res = Inl e \<longrightarrow> isUniqueViolation e \<longrightarrow> db' = db) \<and>
    (\<forall>k u. owner db k = Some u \<longrightarrow> owner db' k = Some u)"
proof -
  obtain r1 db1 where c: "createUserWithProvider D 4 providerWeChatMP openid db = (r1, db1)" by fastforce
  note c' = create_undisturbed [OF assms(1) c]
  show ?thesis
  proof (cases r1)
    case (Inr x)
    obtain r2 db2 where k: "linkIdentity D 8 providerWeChatUnion unionid x db1 = (r2, db2)" by fastforce
    show ?thesis
      using assms(2) c c' k link_undisturbed [OF assms(1) k] link_error_undisturbed [OF assms(1)] Inr
      by (auto simp: createWeChatUser_def provider_defs split: sum.splits if_splits)
  qed (use assms(2) c c' in \<open>auto simp: createWeChatUser_def\<close>)
qed

lemma after_violation_result:
  assumes "undisturbed D" "after_violation D openid unionid err db = (res, db')"
    and "unionid = [] \<or> owner db (providerWeChatUnion, unionid) = None"
  shows "db' = db \<and> (\<forall>u. res = Inr u \<longrightarrow> owner db (providerWeChatMP, openid) = Some u)"
proof -
  obtain r1 db1 where l1: "lookupUserID D 9 providerWeChatMP openid db = (r1, db1)" by fastforce
  obtain r2 db2 where l2: "lookupUserID D 10 providerWeChatUnion unionid db1 = (r2, db2)" by fastforce
  show ?thesis
    using assms(2,3) l1 l2 lookup_undisturbed [OF assms(1) l1] lookup_undisturbed [OF assms(1) l2]
    by (auto simp: after_violation_def split: sum.splits if_splits)
qed

text \<open>
  What a login of the mini-program gives, for a process on its own: the open id belongs to the user afterwards, no
  owner changes, and a new union id goes to that user. A known union id decides the user of a new open id.
\<close>

lemma wechat_directory:
  assumes "undisturbed D" "ResolveWeChatUser D (Some True) openid unionid db = (res, db')"
  shows "(\<forall>u. res = Inr u \<longrightarrow> owner db' (providerWeChatMP, openid) = Some u) \<and> (\<forall>k u. owner db k = Some u \<longrightarrow> owner db' k = Some u)"
    and "res = Inr u \<Longrightarrow> owner db (providerWeChatMP, openid) = None \<Longrightarrow> unionid \<noteq> [] \<Longrightarrow> owner db (providerWeChatUnion, unionid) = Some v \<Longrightarrow> u = v"
    and "res = Inr u \<Longrightarrow> unionid \<noteq> [] \<Longrightarrow> owner db (providerWeChatUnion, unionid) \<in> {None, Some u} \<Longrightarrow> owner db' (providerWeChatUnion, unionid) = Some u"
proof -
  obtain r0 db0 where l: "lookupUserID D 0 providerWeChatMP openid db = (r0, db0)" by fastforce
  obtain r1 db1 where b: "by_union D openid unionid db = (r1, db1)" by fastforce
  obtain r2 db2 where c: "createWeChatUser D openid unionid db1 = (r2, db2)" by fastforce
  note l' = lookup_undisturbed [OF assms(1) l]
  note b' = by_union_result [OF assms(1) b]
  note c' = createWeChat_result [OF assms(1) c]
  have link: "owner d k = Some v" if "linkIdentity D 1 providerWeChatUnion unionid x db = (r, d)" "owner db k = Some v" for x r d k v
    using link_undisturbed [OF assms(1) that(1), of k] that(2) by simp
  consider "openid = []" | x where "openid \<noteq> []" "r0 = Inr x" | e where "openid \<noteq> []" "r0 = Inl e" by (cases r0) auto
  then have both: "((\<forall>u. res = Inr u \<longrightarrow> owner db' (providerWeChatMP, openid) = Some u) \<and> (\<forall>k u. owner db k = Some u \<longrightarrow> owner db' k = Some u)) \<and>
    (\<forall>u v. res = Inr u \<longrightarrow> owner db (providerWeChatMP, openid) = None \<longrightarrow> unionid \<noteq> [] \<longrightarrow> owner db (providerWeChatUnion, unionid) = Some v \<longrightarrow> u = v) \<and>
    (\<forall>u. res = Inr u \<longrightarrow> unionid \<noteq> [] \<longrightarrow> owner db (providerWeChatUnion, unionid) \<in> {None, Some u} \<longrightarrow> owner db' (providerWeChatUnion, unionid) = Some u)"
  proof cases
    case 1
    with assms(2) show ?thesis by (auto simp: ResolveWeChatUser_def)
  next
    case (2 x)
    have new: "owner d (providerWeChatUnion, unionid) = Some x"
      if "linkIdentity D 1 providerWeChatUnion unionid x db = (Inr (), d)" "owner db (providerWeChatUnion, unionid) \<in> {None, Some x}" for d
      using link_undisturbed [OF assms(1) that(1), of "(providerWeChatUnion, unionid)"] that(2) by (auto split: if_splits)
    from 2 assms(2) l l' new show ?thesis by (auto simp: ResolveWeChatUser_def intro: link split: if_splits prod.splits sum.splits)
  next
    case (3 e)
    show ?thesis
    proof (cases "err_is_norows e")
      case True
      with 3 l' have none: "owner db (providerWeChatMP, openid) = None" by auto
      note b'' = b' [OF none]
      consider e1 where "r1 = Inl e1" | x where "r1 = Inr (Some x)" | "r1 = Inr None" by (cases r1) auto
      then show ?thesis
      proof cases
        case 3
        with b'' have db1: "db1 = db" "unionid = [] \<or> owner db (providerWeChatUnion, unionid) = None" by auto
        obtain r3 db3 e2 where v: "after_violation D openid unionid e2 db2 = (r3, db3)" "r2 = Inl e2 \<or> (\<exists>u. r2 = Inr u)"
          by (cases r2) (metis surj_pair)+
        show ?thesis
          using assms(2) \<open>openid \<noteq> []\<close> \<open>r0 = Inl e\<close> True l l' b 3 c c' v after_violation_result [OF assms(1) v(1)] db1
          by (auto simp: ResolveWeChatUser_def split: if_splits)
      qed (use assms(2) 3 True l l' b b'' in \<open>auto simp: ResolveWeChatUser_def\<close>)
    qed (use assms(2) 3 l l' in \<open>auto simp: ResolveWeChatUser_def\<close>)
  qed
  then show "(\<forall>u. res = Inr u \<longrightarrow> owner db' (providerWeChatMP, openid) = Some u) \<and> (\<forall>k u. owner db k = Some u \<longrightarrow> owner db' k = Some u)"
    by blast
  show "res = Inr u \<Longrightarrow> owner db (providerWeChatMP, openid) = None \<Longrightarrow> unionid \<noteq> [] \<Longrightarrow> owner db (providerWeChatUnion, unionid) = Some v \<Longrightarrow> u = v"
    using both by blast
  show "res = Inr u \<Longrightarrow> unionid \<noteq> [] \<Longrightarrow> owner db (providerWeChatUnion, unionid) \<in> {None, Some u} \<Longrightarrow> owner db' (providerWeChatUnion, unionid) = Some u"
    using both by blast
qed

definition resolve_wechat :: "db_env \<times> string \<Rightarrow> string \<Rightarrow> auth_db \<Rightarrow> string res \<times> auth_db" where
  "resolve_wechat e openid db = ResolveWeChatUser (fst e) (Some True) openid (snd e) db"

definition owner_mp :: "auth_db \<Rightarrow> string \<Rightarrow> string option" where
  "owner_mp db openid = owner db (providerWeChatMP, openid)"

interpretation wechat: directory owner_mp resolve_wechat "\<lambda>e. undisturbed (fst e)"
proof
  fix e openid db u db' res k'
  assume calm: "undisturbed (fst (e :: db_env \<times> string))"
  { assume "resolve_wechat e openid db = (Inr u, db')"
    then show "owner_mp db' openid = Some u"
      using wechat_directory(1) [OF calm, of openid "snd e" db "Inr u" db'] by (simp add: resolve_wechat_def owner_mp_def) }
  { assume "resolve_wechat e openid db = (res, db')" "owner_mp db k' = Some u"
    then show "owner_mp db' k' = Some u"
      using wechat_directory(1) [OF calm, of openid "snd e" db res db'] by (simp add: resolve_wechat_def owner_mp_def) }
qed

section \<open>Specification\<close>

text \<open>What a directory of subjects is: a map from subjects to users, where looking up an unknown subject adds a new user.\<close>

definition get_or_create :: "('k \<rightharpoonup> 'u) \<Rightarrow> 'k \<Rightarrow> 'u \<Rightarrow> 'u \<times> ('k \<rightharpoonup> 'u)" where
  "get_or_create m k new = (case m k of Some u \<Rightarrow> (u, m) | None \<Rightarrow> (new, m(k \<mapsto> new)))"

definition users :: "auth_db \<Rightarrow> string set" where
  "users db = uID ` set (adUsers db)"

lemma insert_strict_new: "key r \<notin> key ` set tbl \<Longrightarrow> insert_strict key r tbl = Inr (tbl @ [r])"
  by (simp add: insert_strict_def insert_nothing_new)

lemma owner_None: "owner db k = None \<longleftrightarrow> k \<notin> link_key ` set (adLinks db)"
  by (auto simp: owner_def find_None_iff)

lemma create_fresh:
  assumes "\<forall>n. deFault D n = None" "x \<notin> users db" "owner db (p, u) = None"
  shows "\<exists>db'. create_tx D n x p u db = (Inr x, db') \<and> owner db' = (owner db)((p, u) \<mapsto> x) \<and> users db' = insert x (users db)"
proof -
  let ?us = "adUsers db @ [\<lparr>uID = x, uTenant = [], uDisplayName = [], uCreatedAt = deNow D, uUpdatedAt = deNow D\<rparr>]"
    and ?link = "\<lparr>irProvider = p, irUid = u, irUser = x, irTenant = []\<rparr>"
  let ?db = "db\<lparr>adUsers := ?us, adLinks := adLinks db @ [?link]\<rparr>"
  have key: "link_key ?link = (p, u)" by (simp add: link_key_def)
  have "create_tx D n x p u db = (Inr x, ?db)"
    using assms by (simp add: create_tx_def insert_strict_new users_def owner_None key)
  moreover have "owner ?db = (owner db)((p, u) \<mapsto> x)"
    using assms(3) by (auto simp: owner_def find_append key fun_eq_iff split: option.splits)
  moreover have "users ?db = insert x (users db)" by (simp add: users_def)
  ultimately show ?thesis by blast
qed

section \<open>Properties\<close>

text \<open>
  C13 A subject of an identity provider has one platform user. Over any sequence of calls, with faults at any statement
  and other processes adding links between any two statements, all successful answers for a subject are the same user.
\<close>

theorem resolve_agrees:
  assumes "\<forall>(D, k)\<in>set calls. only_adds D"
    and "resolve_all (\<lambda>D k. ResolveProviderUser D (Some True) (fst k) (snd k)) calls db = (answers, db')"
    and "(k, Inr u) \<in> set answers" "(k, Inr u') \<in> set answers"
  shows "u = u'"
proof -
  have "resolve_provider = (\<lambda>D k. ResolveProviderUser D (Some True) (fst k) (snd k))"
    by (intro ext) (simp add: resolve_provider_def)
  then show ?thesis using provider.run_agrees [OF assms(1) _ assms(3,4)] assms(2) by simp
qed

text \<open>
  When another process created the same subject after the first lookup, the resolver does not fail: the unique
  violation sends it to a second lookup, which answers the user of the other process, and nothing is written.
\<close>

theorem resolve_survives_race:
  assumes "\<forall>n. deFault D n = None" "deRand D = Inr b" "only_adds D"
    and "p \<noteq> []" "x \<noteq> []" "owner (deOther D 0 db) (p, x) = None"
    and "owner (deOther D 1 (deOther D 0 db)) (p, x) = Some v"
  shows "ResolveProviderUser D (Some True) p x db = (Inr v, deOther D 5 (deOther D 1 (deOther D 0 db)))"
proof -
  let ?db1 = "deOther D 1 (deOther D 0 db)"
  have "(p, x) \<in> link_key ` set (adLinks ?db1)"
    using assms(7) by (auto simp: owner_def find_Some_iff) (metis image_eqI nth_mem)
  then have dup: "insert_strict link_key \<lparr>irProvider = p, irUid = x, irUser = u, irTenant = []\<rparr> (adLinks ?db1) = Inl (PgError UniqueViolation)" for u
    by (simp add: insert_strict_def insert_nothing_dup link_key_def)
  have viol: "\<exists>e. create_tx D 1 u p x ?db1 = (Inl e, ?db1) \<and> isUniqueViolation e" for u
    using assms(1) dup by (auto simp: create_tx_def isUniqueViolation_def dest: insert_strict_Inl split: sum.splits)
  have "owner (deOther D 5 ?db1) (p, x) = Some v"
    using assms(3,7) by (rule owner_keeps_other)
  with viol [of "hex_encode b"] assms show ?thesis
    by (auto simp: ResolveProviderUser_def lookupUserID_def createUserWithProvider_def newUserID_def stmt_def Let_def)
qed

text \<open>
  Two mini-programs of one person share the user: a login that brings a union id, followed by the first login of
  another open id with the same union id, both successful, give the same user, unless the union id belonged to a
  different user before.
\<close>

theorem wechat_union_shared:
  assumes "undisturbed D1" "undisturbed D2" "unionid \<noteq> []"
    and "ResolveWeChatUser D1 (Some True) o1 unionid db = (Inr u1, db1)"
    and "ResolveWeChatUser D2 (Some True) o2 unionid db1 = (Inr u2, db2)"
    and "owner db1 (providerWeChatMP, o2) = None"
    and "owner db (providerWeChatUnion, unionid) \<in> {None, Some u1}"
  shows "u2 = u1"
  using wechat_directory(2) [OF assms(2,5) _ assms(6,3)] wechat_directory(3) [OF assms(1,4) _ assms(3,7)] by simp

text \<open>
  Users that exist already are never merged: when two open ids belong to different users, logins of both with one
  union id keep answering the two users, against the comment of \<^verbatim>\<open>ResolveWeChatUser\<close>.
\<close>

theorem wechat_union_not_merged:
  assumes "undisturbed D1" "undisturbed D2" "u1 \<noteq> u2"
    and "owner db (providerWeChatMP, o1) = Some u1" "owner db (providerWeChatMP, o2) = Some u2"
    and "ResolveWeChatUser D1 (Some True) o1 unionid db = (Inr a, db1)"
    and "ResolveWeChatUser D2 (Some True) o2 unionid db1 = (Inr b, db2)"
  shows "a = u1 \<and> b = u2 \<and> a \<noteq> b"
proof -
  have a: "owner db1 (providerWeChatMP, o1) = Some a" and k1: "\<And>k u. owner db k = Some u \<Longrightarrow> owner db1 k = Some u"
    using wechat_directory(1) [OF assms(1,6)] by blast+
  have b: "owner db2 (providerWeChatMP, o2) = Some b" and k2: "\<And>k u. owner db1 k = Some u \<Longrightarrow> owner db2 k = Some u"
    using wechat_directory(1) [OF assms(2,7)] by blast+
  show ?thesis using a b k1 [OF assms(4)] k2 [OF k1 [OF assms(5)]] assms(3) by simp
qed

text \<open>
  The resolver implements a directory: on its own and without faults, with random bytes that name no existing user, it
  answers and updates the links as looking up or adding the subject in a map does, and adds a user exactly when the subject is
  new.
\<close>

lemma resolve_implements_directory:
  assumes "alone D" "\<forall>n. deFault D n = None" "deRand D = Inr b" "hex_encode b \<notin> users db" "p \<noteq> []" "u \<noteq> []"
  shows "\<exists>x db'. ResolveProviderUser D (Some True) p u db = (Inr x, db') \<and>
    (x, owner db') = get_or_create (owner db) (p, u) (hex_encode b) \<and>
    users db' = (if owner db (p, u) = None then insert (hex_encode b) (users db) else users db)"
proof (cases "owner db (p, u)")
  case None
  from create_fresh [OF assms(2,4) None, of 1] obtain db' where
    "create_tx D 1 (hex_encode b) p u db = (Inr (hex_encode b), db')"
    "owner db' = (owner db)((p, u) \<mapsto> hex_encode b)" "users db' = insert (hex_encode b) (users db)"
    by blast
  with None assms show ?thesis
    by (simp add: ResolveProviderUser_def lookupUserID_def createUserWithProvider_def newUserID_def stmt_def alone_def get_or_create_def)
next
  case (Some x)
  with assms show ?thesis
    by (simp add: ResolveProviderUser_def lookupUserID_def stmt_def alone_def get_or_create_def)
qed

end
