(* ===== verification/AuthService.thy ===== *)
theory AuthService
  imports IdentityStore Bff
begin

text \<open>
  \<^verbatim>\<open>services/auth-service\<close>: Logto webhooks (\<^verbatim>\<open>internal/logto\<close>), the identity resolver endpoint (\<^verbatim>\<open>internal/identityapi\<close>),
  mini-program login (\<^verbatim>\<open>internal/miniprogram\<close>, \<^verbatim>\<open>internal/wechat\<close>), the key document (\<^verbatim>\<open>internal/jwks\<close>) and the routes of
  \<^verbatim>\<open>main\<close>. HMAC and SHA-256, the key encoding and the services called are parameters.
\<close>

section \<open>Environment and state\<close>

record ('r, 'n) auth_state =
  asDb :: auth_db
  asRedis :: 'r
  asNet :: 'n

record ('r, 'n) auth_env =
  aeJson :: json_env
  aeUrl :: url_env
  aeHttp :: "'n http_client"
  aeRedis :: "'r redis"
  aeJwt :: jwt_lib
  aeHmac :: "string \<Rightarrow> string \<Rightarrow> bytes"
  aeSha :: "string \<Rightarrow> bytes"
  aeDb :: db_env
  aeEventID :: bytes
  aeNow :: gotime
  aeHealth :: "('r, 'n) auth_state health"

section \<open>Webhook payloads\<close>

definition signatureHeader :: string where "signatureHeader = ''Logto-Signature-Sha-256''"

definition VerifySignature :: "(string \<Rightarrow> string \<Rightarrow> bytes) \<Rightarrow> string \<Rightarrow> string \<Rightarrow> string \<Rightarrow> goerr option" where
  "VerifySignature hmac signingKey rawBody headerValue =
     (if signingKey = [] then Some (Errorf ''signing key not configured'')
      else if headerValue = [] then Some (Errorf ''missing Logto-Signature-Sha-256 header'')
      else (case hex_decode headerValue of
        None \<Rightarrow> Some (Errorf ''invalid signature encoding'')
      | Some got \<Rightarrow> if hmac signingKey rawBody \<noteq> got then Some (Errorf ''signature mismatch'') else None))"

record Payload =
  pHookID :: string
  pEvent :: string
  pCreatedAt :: string
  pUserID :: string
  pUserIP :: string
  pIP :: string
  pUser :: "json option"
  pData :: "json option"

definition payload_of_json :: "json \<Rightarrow> Payload option" where
  "payload_of_json v =
     Option.bind (dec_object v) (\<lambda>m.
     Option.bind (dec_string ''hookId'' m) (\<lambda>h.
     Option.bind (dec_string ''event'' m) (\<lambda>e.
     Option.bind (dec_string ''createdAt'' m) (\<lambda>c.
     Option.bind (dec_string ''userId'' m) (\<lambda>u.
     Option.bind (dec_string ''userIp'' m) (\<lambda>uip.
     Option.bind (dec_string ''ip'' m) (\<lambda>ip.
       Some \<lparr>pHookID = h, pEvent = e, pCreatedAt = c, pUserID = u, pUserIP = uip, pIP = ip,
             pUser = dec_raw ''user'' m, pData = dec_raw ''data'' m\<rparr>)))))))"

definition ParsePayload :: "(string \<Rightarrow> json option) \<Rightarrow> string \<Rightarrow> Payload res" where
  "ParsePayload dec raw = (case Option.bind (dec raw) payload_of_json of
     None \<Rightarrow> Inl (Errorf ''invalid json'')
   | Some p \<Rightarrow> if pHookID p = [] \<or> pEvent p = [] \<or> pCreatedAt p = []
       then Inl (Errorf ''hookId, event, and createdAt are required'') else Inr p)"

definition DeliveryKey :: "Payload \<Rightarrow> string" where
  "DeliveryKey p = pHookID p @ '':'' @ pCreatedAt p @ '':'' @ pEvent p"

definition auditTypeForEvent :: "string \<Rightarrow> string option" where
  "auditTypeForEvent event =
     (if event = ''PostSignIn'' then Some ''user.login.success''
      else if event = ''PostRegister'' then Some ''user.register.success''
      else if event = ''PostResetPassword'' then Some ''user.password.reset''
      else if event = ''Identifier.Lockout'' then Some ''user.login.failed''
      else if event = ''User.Created'' then Some ''user.created''
      else if event = ''User.Deleted'' then Some ''user.deleted''
      else None)"

text \<open>
  Decoding a value into the struct with the one field \<^verbatim>\<open>id\<close>, which may already hold a value: a member of another type is
  an error, but the members around it are still stored.
\<close>

fun user_ids :: "string \<Rightarrow> bool \<Rightarrow> json list \<Rightarrow> string \<times> bool" where
  "user_ids cur ok [] = (cur, ok)"
| "user_ids cur ok (JStr s # vs) = user_ids s ok vs"
| "user_ids cur ok (JNull # vs) = user_ids cur ok vs"
| "user_ids cur ok (v # vs) = user_ids cur False vs"

definition unmarshal_user :: "string \<Rightarrow> json \<Rightarrow> string \<times> bool" where
  "unmarshal_user cur v = (case dec_object v of None \<Rightarrow> (cur, False) | Some m \<Rightarrow> user_ids cur True (field_vals ''id'' m))"

definition logtoUserID :: "Payload \<Rightarrow> string" where
  "logtoUserID p =
     (if pUserID p \<noteq> [] then pUserID p
      else (let (u, ok) = (case pUser p of None \<Rightarrow> ([], False) | Some v \<Rightarrow> unmarshal_user [] v) in
        if ok \<and> u \<noteq> [] then u
        else (case pData p of
          None \<Rightarrow> []
        | Some v \<Rightarrow> (case unmarshal_user u v of (u', ok') \<Rightarrow> if ok' then u' else []))))"

definition logtoSubject :: "Payload \<Rightarrow> string" where
  "logtoSubject p = (let uid = logtoUserID p in if uid \<noteq> [] then ''user:'' @ uid else ''logto:'' @ pEvent p)"

definition clientIP :: "Payload \<Rightarrow> string" where
  "clientIP p = (if pUserIP p \<noteq> [] then pUserIP p else pIP p)"

definition sha256Hex :: "(string \<Rightarrow> bytes) \<Rightarrow> string \<Rightarrow> string" where
  "sha256Hex sha s = hex_encode (sha s)"

definition ToAuditEvent :: "(string \<Rightarrow> bytes) \<Rightarrow> bytes \<Rightarrow> gotime \<Rightarrow> Payload \<Rightarrow> string \<Rightarrow> Event option" where
  "ToAuditEvent sha b now p platformUserID = (case auditTypeForEvent (pEvent p) of
     None \<Rightarrow> None
   | Some eventType \<Rightarrow>
       (let ev = NewEvent b now SourceIdP eventType;
            data = [(''logto_hook_id'', JStr (pHookID p)), (''logto_event'', JStr (pEvent p)),
                    (''logto_created_at'', JStr (pCreatedAt p)), (''logto_user_id'', JStr (logtoUserID p))];
            ip = clientIP p;
            data = (if ip \<noteq> [] then map_put ''client_ip'' (JStr ip) data else data);
            data = (case pUser p of None \<Rightarrow> data | Some v \<Rightarrow> map_put ''logto_user'' v data)
        in Some (ev\<lparr>EvSubject := logtoSubject p, EvActorUserID := platformUserID, EvData := Some data,
             EvID := ''logto-'' @ sha256Hex sha (DeliveryKey p),
             EvTime := (case time_Parse (pCreatedAt p) of Some t \<Rightarrow> t | None \<Rightarrow> now)\<rparr>)))"

section \<open>Webhook handler\<close>

record logto_handler =
  lhSigningKey :: string
  lhSkipVerify :: bool
  lhIdentities :: "bool option"
  lhDeliveries :: "bool option"
  lhAudit :: "http_emitter iface"
  lhRevocations :: "rev_store option"

record logto_config =
  lcSigningKey :: string
  lcSkipVerify :: bool
  lcIdentities :: "bool option"
  lcDeliveries :: "bool option"
  lcAudit :: "http_emitter iface"
  lcRevocations :: "rev_store option"

definition logto_NewHandler :: "logto_config \<Rightarrow> logto_handler" where
  "logto_NewHandler cfg = \<lparr>lhSigningKey = lcSigningKey cfg, lhSkipVerify = lcSkipVerify cfg, lhIdentities = lcIdentities cfg,
     lhDeliveries = lcDeliveries cfg, lhAudit = lcAudit cfg, lhRevocations = lcRevocations cfg\<rparr>"

definition applyRevocation ::
  "'r redis \<Rightarrow> gotime \<Rightarrow> logto_handler \<Rightarrow> Payload \<Rightarrow> string \<Rightarrow> 'r \<Rightarrow> goerr option \<times> 'r" where
  "applyRevocation R now h p platformUserID rd =
     (if \<not> rev_Enabled (lhRevocations h) then (None, rd)
      else if pEvent p = ''User.Deleted'' then
        (case (if logtoUserID p \<noteq> [] then RevokeSubject R now (lhRevocations h) (logtoUserID p) rd else (None, rd)) of
           (Some err, rd) \<Rightarrow> (Some err, rd)
         | (None, rd) \<Rightarrow>
             if platformUserID \<noteq> [] then RevokeSubject R now (lhRevocations h) platformUserID rd else (None, rd))
      else (None, rd))"

text \<open>The first part of \<^verbatim>\<open>ServeHTTP\<close>: read, authenticate, parse; the error answered otherwise.\<close>

definition webhook_payload :: "('r, 'n) auth_env \<Rightarrow> logto_handler \<Rightarrow> request \<Rightarrow> app_error + Payload" where
  "webhook_payload E h r = (case Body r of
     Inl _ \<Rightarrow> Inl (BadRequest ''invalid_body'' ''could not read request body'')
   | Inr full \<Rightarrow>
       (let raw = take 1048576 full in
        if lhSigningKey h \<noteq> [] \<and> VerifySignature (aeHmac E) (lhSigningKey h) raw (req_header r signatureHeader) \<noteq> None
        then Inl (Unauthorized ''webhook.invalid_signature'' ''invalid webhook signature'')
        else if lhSigningKey h = [] \<and> \<not> lhSkipVerify h
        then Inl (Internal ''webhook.not_configured'' ''LOGTO_WEBHOOK_SIGNING_KEY not configured'')
        else (case ParsePayload (jdec (aeJson E)) raw of
          Inl _ \<Rightarrow> Inl (BadRequest ''invalid_payload'' ''malformed webhook payload'')
        | Inr p \<Rightarrow> Inr p)))"

text \<open>The delivery check; \<open>Inr True\<close> when the delivery is to be processed. It is statement 20 of the handler.\<close>

definition webhook_first :: "('r, 'n) auth_env \<Rightarrow> logto_handler \<Rightarrow> Payload \<Rightarrow> auth_db \<Rightarrow> bool res \<times> auth_db" where
  "webhook_first E h p db = (case lhDeliveries h of
     None \<Rightarrow> (Inr True, db) | Some d \<Rightarrow> TryRecord (aeDb E) 20 (Some d) (DeliveryKey p) db)"

definition webhook_user :: "('r, 'n) auth_env \<Rightarrow> logto_handler \<Rightarrow> Payload \<Rightarrow> auth_db \<Rightarrow> string \<times> auth_db" where
  "webhook_user E h p db =
     (if logtoUserID p \<noteq> [] \<and> lhIdentities h \<noteq> None
      then (case ResolveLogtoUser (aeDb E) (lhIdentities h) (logtoUserID p) db of
              (Inl _, db) \<Rightarrow> ([], db) | (Inr uid, db) \<Rightarrow> (uid, db))
      else ([], db))"

definition webhook_emit :: "('r, 'n) auth_env \<Rightarrow> logto_handler \<Rightarrow> Payload \<Rightarrow> string \<Rightarrow> 'n \<Rightarrow> goerr option \<times> 'n" where
  "webhook_emit E h p uid n =
     (case (ToAuditEvent (aeSha E) (aeEventID E) (aeNow E) p uid, lhAudit h) of
        (Some ev, IPtr e) \<Rightarrow> HTTPEmitter_Emit (aeJson E) (aeHttp E) e ev n
      | _ \<Rightarrow> (None, n))"

text \<open>The second part, from the delivery check on.\<close>

definition webhook_process :: "('r, 'n) auth_env \<Rightarrow> logto_handler \<Rightarrow> Payload \<Rightarrow> string \<Rightarrow> writer \<Rightarrow> ('r, 'n) auth_state \<Rightarrow> ('r, 'n) auth_state hres" where
  "webhook_process E h p rid w s = (case webhook_first E h p (asDb s) of
     (Inl _, db) \<Rightarrow> Served (fail rid (Internal ''webhook.idempotency_failed'' ''could not record delivery'') w) (s\<lparr>asDb := db\<rparr>)
   | (Inr False, db) \<Rightarrow> Served (respond_JSON 202 (JObj [(''status'', JStr ''duplicate'')]) w) (s\<lparr>asDb := db\<rparr>)
   | (Inr True, db) \<Rightarrow> (case webhook_user E h p db of (uid, db) \<Rightarrow>
       (case webhook_emit E h p uid (asNet s) of
          (Some _, n) \<Rightarrow> Served (fail rid (Internal ''audit.emit_failed'' ''could not emit audit event'') w) (s\<lparr>asDb := db, asNet := n\<rparr>)
        | (None, n) \<Rightarrow> (case applyRevocation (aeRedis E) (aeNow E) h p uid (asRedis s) of
            (Some _, rd) \<Rightarrow> Served (fail rid (Internal ''revocation.failed'' ''could not apply revocation'') w)
               (s\<lparr>asDb := db, asNet := n, asRedis := rd\<rparr>)
          | (None, rd) \<Rightarrow> Served (respond_JSON 202 (JObj [(''status'', JStr ''accepted'')]) w)
               (s\<lparr>asDb := db, asNet := n, asRedis := rd\<rparr>)))))"

definition logto_ServeHTTP :: "('r, 'n) auth_env \<Rightarrow> logto_handler \<Rightarrow> ('r, 'n) auth_state handler" where
  "logto_ServeHTTP E h r w s =
     (let rid = req_header r HeaderRequestID in
      case webhook_payload E h r of
        Inl e \<Rightarrow> Served (fail rid e w) s
      | Inr p \<Rightarrow> webhook_process E h p rid w s)"

section \<open>Identity resolver endpoint\<close>

text \<open>
  The body is decoded as the first JSON value of the stream, which \<open>jdec\<close> gives here. The store is an interface; a nil
  pointer in it is not nil, and its method answers an error.
\<close>

definition resolve_ServeHTTP :: "('r, 'n) auth_env \<Rightarrow> bool iface \<Rightarrow> ('r, 'n) auth_state handler" where
  "resolve_ServeHTTP E store r w s =
     (let rid = req_header r HeaderRequestID;
          bad = BadRequest ''invalid_request'' ''provider and provider_uid are required'' in
      case store of
        INil \<Rightarrow> Served (fail rid (Internal ''identity_unavailable'' ''identity store not configured'') w) s
      | IPtr st \<Rightarrow> (case Body r of
          Inl _ \<Rightarrow> Served (fail rid bad w) s
        | Inr full \<Rightarrow> (case Option.bind (Option.bind (jdec (aeJson E) full) dec_object)
              (\<lambda>m. Option.bind (dec_string ''provider'' m) (\<lambda>p. Option.bind (dec_string ''provider_uid'' m) (\<lambda>u. Some (p, u)))) of
            None \<Rightarrow> Served (fail rid bad w) s
          | Some (provider, uid) \<Rightarrow>
              if provider = [] \<or> uid = [] then Served (fail rid bad w) s
              else (case ResolveProviderUser (aeDb E) st provider uid (asDb s) of
                (Inl _, db) \<Rightarrow> Served (fail rid (Internal ''identity_resolve_failed'' ''could not resolve identity'') w) (s\<lparr>asDb := db\<rparr>)
              | (Inr userID, db) \<Rightarrow> Served (respond_JSON 200 (JObj [(''user_id'', JStr userID)]) w) (s\<lparr>asDb := db\<rparr>)))))"

section \<open>WeChat\<close>

definition code2SessionURL :: string where "code2SessionURL = ''https://api.weixin.qq.com/sns/jscode2session''"

record wx_session =
  wxOpenID :: string
  wxSessionKey :: string
  wxUnionID :: string

record wx_client =
  wxAppID :: string
  wxAppSecret :: string
  wxMock :: bool

record wx_config =
  wcAppID :: string
  wcAppSecret :: string
  wcMockMode :: bool

definition wechat_NewClient :: "wx_config \<Rightarrow> wx_client" where
  "wechat_NewClient cfg = \<lparr>wxAppID = wcAppID cfg, wxAppSecret = wcAppSecret cfg, wxMock = wcMockMode cfg\<rparr>"

definition mock_session :: "string \<Rightarrow> wx_session" where
  "mock_session code =
     (let a = before_byte (CHR ''|'') code; b = after_byte (CHR ''|'') code in
      if CHR ''|'' \<in> set code \<and> a \<noteq> [] \<and> b \<noteq> []
      then \<lparr>wxOpenID = ''mock_'' @ a, wxSessionKey = ''mock-session'', wxUnionID = ''union_'' @ b\<rparr>
      else \<lparr>wxOpenID = ''mock_'' @ code, wxSessionKey = ''mock-session'', wxUnionID = []\<rparr>)"

definition session_of_json :: "json \<Rightarrow> (wx_session \<times> int) option" where
  "session_of_json v =
     Option.bind (dec_object v) (\<lambda>m.
     Option.bind (dec_string ''openid'' m) (\<lambda>oid.
     Option.bind (dec_string ''session_key'' m) (\<lambda>key.
     Option.bind (dec_string ''unionid'' m) (\<lambda>uid.
     Option.bind (dec_int ''errcode'' m) (\<lambda>code.
     Option.bind (dec_string ''errmsg'' m) (\<lambda>_.
       Some (\<lparr>wxOpenID = oid, wxSessionKey = key, wxUnionID = uid\<rparr>, code)))))))"

definition Code2Session ::
  "json_env \<Rightarrow> url_env \<Rightarrow> 'n http_client \<Rightarrow> wx_client \<Rightarrow> string \<Rightarrow> 'n \<Rightarrow> wx_session res \<times> 'n" where
  "Code2Session J U cl c code n =
     (if code = [] then (Inl (Errorf ''code required''), n)
      else if wxMock c then (Inr (mock_session code), n)
      else if wxAppID c = [] \<or> wxAppSecret c = [] then (Inl (Errorf ''wechat credentials not configured''), n)
      else (let url = code2SessionURL @ ''?'' @ formEncode U [(''appid'', wxAppID c), (''secret'', wxAppSecret c), (''js_code'', code),
                (''grant_type'', ''authorization_code'')]
        in case badURL J url of
          Some err \<Rightarrow> (Inl err, n)
        | None \<Rightarrow> (case cl \<lparr>OMethod = ''GET'', OURL = url, OHeader = Map.empty, OBody = []\<rparr> n of
            (Inl err, n') \<Rightarrow> (Inl err, n')
          | (Inr (status, rd), n') \<Rightarrow> (case rd of
              Inl err \<Rightarrow> (Inl (Wrapped ''wechat response'' err), n')
            | Inr full \<Rightarrow> (case Option.bind (jdec J full) session_of_json of
                None \<Rightarrow> (Inl (Errorf ''wechat response''), n')
              | Some (sess, errcode) \<Rightarrow>
                  if errcode \<noteq> 0 then (Inl (Errorf ''wechat errcode''), n')
                  else if wxOpenID sess = [] then (Inl (Errorf ''wechat: empty openid''), n')
                  else (Inr sess, n'))))))"

section \<open>Mini-program login\<close>

record mp_handler =
  mpWeChat :: "wx_client option"
  mpIdent :: "bool iface"
  mpIssuer :: "issuer iface"
  mpAudit :: "http_emitter iface"
  mpTTL :: duration

record mp_config =
  mcWeChat :: "wx_client option"
  mcIdentity :: "bool iface"
  mcIssuer :: "issuer iface"
  mcAudit :: "http_emitter iface"
  mcTTL :: duration

definition mp_NewHandler :: "mp_config \<Rightarrow> mp_handler" where
  "mp_NewHandler cfg = \<lparr>mpWeChat = mcWeChat cfg, mpIdent = mcIdentity cfg, mpIssuer = mcIssuer cfg, mpAudit = mcAudit cfg,
     mpTTL = (if mcTTL cfg \<le> 0 then time_Hour else mcTTL cfg)\<rparr>"

definition login_event :: "('r, 'n) auth_env \<Rightarrow> string \<Rightarrow> wx_session \<Rightarrow> Event" where
  "login_event E userID sess =
     (let data = [(''channel'', JStr ''wechat_miniprogram''), (''openid'', JStr (wxOpenID sess))];
          data = (if wxUnionID sess \<noteq> [] then map_put ''unionid'' (JStr (wxUnionID sess)) data else data)
      in (NewEvent (aeEventID E) (aeNow E) SourceIdP ''user.login.success'')
           \<lparr>EvActorUserID := userID, EvSubject := ''user:'' @ userID, EvData := Some data\<rparr>)"

text \<open>\<^verbatim>\<open>int64(h.ttl.Seconds())\<close>: whole seconds of a positive duration.\<close>

definition login_response :: "string \<Rightarrow> duration \<Rightarrow> string \<Rightarrow> json" where
  "login_response tok ttl userID = JObj [(''access_token'', JStr tok), (''token_type'', JStr ''Bearer''),
     (''expires_in'', JNum (Itoa (ttl div time_Second))), (''user_id'', JStr userID)]"

text \<open>What follows the exchange of the code.\<close>

definition login_user ::
  "('r, 'n) auth_env \<Rightarrow> mp_handler \<Rightarrow> bool option \<Rightarrow> issuer option \<Rightarrow> wx_session \<Rightarrow> string \<Rightarrow> writer
    \<Rightarrow> ('r, 'n) auth_state \<Rightarrow> ('r, 'n) auth_state hres" where
  "login_user E h st iss sess rid w s =
     (case ResolveWeChatUser (aeDb E) st (wxOpenID sess) (wxUnionID sess) (asDb s) of
        (Inl _, db) \<Rightarrow> Served (fail rid (Internal ''auth.identity_failed'' ''could not resolve user'') w) (s\<lparr>asDb := db\<rparr>)
      | (Inr userID, db) \<Rightarrow> (case AuthVerifier.AccessToken (aeJwt E) iss userID [] [''user''] (aeNow E) (mpTTL h) of
          Inl _ \<Rightarrow> Served (fail rid (Internal ''auth.token_failed'' ''could not issue token'') w) (s\<lparr>asDb := db\<rparr>)
        | Inr tok \<Rightarrow>
            (let n = (case mpAudit h of
               INil \<Rightarrow> asNet s
             | IPtr e \<Rightarrow> snd (HTTPEmitter_Emit (aeJson E) (aeHttp E) e (login_event E userID sess) (asNet s)))
             in Served (respond_JSON 200 (login_response tok (mpTTL h) userID) w) (s\<lparr>asDb := db, asNet := n\<rparr>))))"

definition Login :: "('r, 'n) auth_env \<Rightarrow> mp_handler option \<Rightarrow> ('r, 'n) auth_state handler" where
  "Login E ho r w s =
     (let rid = req_header r ''X-Request-Id'';
          bad = fail rid (BadRequest ''auth.invalid_request'' ''code is required'') w in
      case ho of
        None \<Rightarrow> Served (fail rid (Internal ''auth.unavailable'' ''auth service not configured'') w) s
      | Some h \<Rightarrow> (case (mpWeChat h, mpIssuer h) of
          (Some wx, IPtr iss) \<Rightarrow> (case mpIdent h of
              INil \<Rightarrow> Served (fail rid (Internal ''auth.unavailable'' ''user database not configured'') w) s
            | IPtr st \<Rightarrow> (case Body r of
                Inl _ \<Rightarrow> Served bad s
              | Inr full \<Rightarrow> (case Option.bind (Option.bind (jdec (aeJson E) full) dec_object) (dec_string ''code'') of
                  None \<Rightarrow> Served bad s
                | Some code \<Rightarrow>
                    if code = [] then Served bad s
                    else (case Code2Session (aeJson E) (aeUrl E) (aeHttp E) wx code (asNet s) of
                      (Inl _, n) \<Rightarrow> Served (fail rid (Unauthorized ''auth.wechat_failed'' ''wechat login failed'') w) (s\<lparr>asNet := n\<rparr>)
                    | (Inr sess, n) \<Rightarrow> login_user E h st iss sess rid w (s\<lparr>asNet := n\<rparr>)))))
        | _ \<Rightarrow> Served (fail rid (Internal ''auth.unavailable'' ''auth service not configured'') w) s))"

section \<open>Key document and routes\<close>

text \<open>\<open>jwksJSON\<close> is \<^verbatim>\<open>Issuer.JWKSJSON\<close>, which the theory Jwks defines.\<close>

definition jwks_ServeHTTP :: "(issuer \<Rightarrow> string res) \<Rightarrow> issuer option \<Rightarrow> 's handler" where
  "jwks_ServeHTTP jwksJSON iss r w s =
     (let rid = req_header r ''X-Request-Id'' in
      case iss of
        None \<Rightarrow> Served (fail rid (Internal ''auth.unavailable'' ''jwks not configured'') w) s
      | Some i \<Rightarrow> (case jwksJSON i of
          Inl _ \<Rightarrow> Served (fail rid (Internal ''auth.jwks_failed'' ''could not build jwks'') w) s
        | Inr body \<Rightarrow> Served (WriteBody (BBytes body) (WriteHeader 200 (SetRespHeader ''Cache-Control'' ''public, max-age=300''
            (SetRespHeader ''Content-Type'' ''application/json'' w)))) s))"

text \<open>The life time of access tokens \<^verbatim>\<open>main\<close> reads; the product of seconds wraps around.\<close>

definition access_ttl :: "osenv \<Rightarrow> duration" where
  "access_ttl env =
     (let s = Env env ''AUTH_JWT_ACCESS_TTL_SECONDS'' [] in
      if s \<noteq> [] then (case Atoi s of Some sec \<Rightarrow> if sec > 0 then int64_mul sec time_Second else time_Hour | None \<Rightarrow> time_Hour)
      else time_Hour)"

definition auth_routes ::
  "('r, 'n) auth_env \<Rightarrow> string \<Rightarrow> (issuer \<Rightarrow> string res) \<Rightarrow> logto_handler \<Rightarrow> mp_handler \<Rightarrow> bool option \<Rightarrow> issuer
    \<Rightarrow> ('r, 'n) auth_state route list" where
  "auth_routes E token jwksJSON lh mp identities iss = health_routes (aeHealth E) @
     [\<lparr>rtMethod = ''POST'', rtSegs = [Lit ''internal'', Lit ''webhooks'', Lit ''logto''], rtHandler = InternalAuth token (logto_ServeHTTP E lh)\<rparr>,
      \<lparr>rtMethod = ''POST'', rtSegs = [Lit ''internal'', Lit ''identity'', Lit ''resolve''],
       rtHandler = InternalAuth token (resolve_ServeHTTP E (IPtr identities))\<rparr>,
      \<lparr>rtMethod = ''POST'', rtSegs = [Lit ''v1'', Lit ''auth'', Lit ''miniprogram'', Lit ''login''], rtHandler = Login E (Some mp)\<rparr>,
      \<lparr>rtMethod = ''GET'', rtSegs = [Lit ''v1'', Lit ''auth'', Lit ''jwks''], rtHandler = jwks_ServeHTTP jwksJSON (Some iss)\<rparr>]"

definition auth_service ::
  "('r, 'n) auth_env \<Rightarrow> string \<Rightarrow> (issuer \<Rightarrow> string res) \<Rightarrow> logto_handler \<Rightarrow> mp_handler \<Rightarrow> bool option \<Rightarrow> issuer \<Rightarrow> (nat \<Rightarrow> bytes)
    \<Rightarrow> ('r, 'n) auth_state handler" where
  "auth_service E token jwksJSON lh mp identities iss rnd =
     Chain (serve_mux (aeJson E) (auth_routes E token jwksJSON lh mp identities iss))
       [GatewayTrust token, RequestID_mw (rnd 0), Recover, AccessLog, TraceContext (rnd 1) (rnd 2)]"

section \<open>Facts\<close>

lemma auth_routes_registered:
  "mux_Handle_all [] (auth_routes E token jwksJSON lh mp identities iss) = Some (auth_routes E token jwksJSON lh mp identities iss)"
  by (simp add: auth_routes_def conflict_defs)

text \<open>Other processes never remove a delivery.\<close>

definition keeps_deliveries :: "db_env \<Rightarrow> bool" where
  "keeps_deliveries D \<longleftrightarrow> (\<forall>n db. set (adDeliveries db) \<subseteq> set (adDeliveries (deOther D n db)))"

lemma stmt_deliveries:
  assumes "keeps_deliveries D" "k \<in> set (adDeliveries db)"
    and "\<And>d. k \<in> set (adDeliveries d) \<Longrightarrow> k \<in> set (adDeliveries (snd (run d)))"
  shows "k \<in> set (adDeliveries (snd (stmt D n run db)))"
  using assms by (auto simp: stmt_def Let_def keeps_deliveries_def split: option.splits)

lemma statements_keep_deliveries:
  assumes "keeps_deliveries D" "k \<in> set (adDeliveries db)"
  shows "k \<in> set (adDeliveries (snd (lookupUserID D n p u db)))"
    and "k \<in> set (adDeliveries (snd (createUserWithProvider D n p u db)))"
proof -
  show "k \<in> set (adDeliveries (snd (lookupUserID D n p u db)))"
    unfolding lookupUserID_def by (rule stmt_deliveries [OF assms]) simp
  have tx: "adDeliveries (snd (create_tx D n x p u d)) = adDeliveries d" for x d
    by (simp add: create_tx_def split: option.splits sum.splits)
  show "k \<in> set (adDeliveries (snd (createUserWithProvider D n p u db)))"
    using stmt_deliveries [OF assms, of "create_tx D n x p u" n for x] assms(2)
    by (auto simp: createUserWithProvider_def tx split: sum.splits)
qed

lemma ResolveProviderUser_deliveries:
  assumes "keeps_deliveries D" "k \<in> set (adDeliveries db)"
  shows "k \<in> set (adDeliveries (snd (ResolveProviderUser D st p u db)))"
proof -
  obtain r1 db1 where 1: "lookupUserID D 0 p u db = (r1, db1)" by fastforce
  obtain r2 db2 where 2: "createUserWithProvider D 1 p u db1 = (r2, db2)" by fastforce
  obtain r3 db3 where 3: "lookupUserID D 5 p u db2 = (r3, db3)" by fastforce
  have k1: "k \<in> set (adDeliveries db1)" using statements_keep_deliveries(1) [OF assms, of 0 p u] 1 by simp
  have k2: "k \<in> set (adDeliveries db2)" using statements_keep_deliveries(2) [OF assms(1) k1, of 1 p u] 2 by simp
  have k3: "k \<in> set (adDeliveries db3)" using statements_keep_deliveries(1) [OF assms(1) k2, of 5 p u] 3 by simp
  show ?thesis using assms(2) k1 k2 k3 1 2 3 by (auto simp: ResolveProviderUser_def split: sum.splits)
qed

lemma TryRecord_result:
  assumes "deFault D n = None" "TryRecord D n (Some True) key db = (res, db')"
  shows "res = Inr (key \<notin> set (adDeliveries (deOther D n db)))" "key \<in> set (adDeliveries db')"
    "key \<in> set (adDeliveries (deOther D n db)) \<Longrightarrow> db' = deOther D n db"
  using assms by (auto simp: TryRecord_def stmt_def Let_def insert_nothing_def list_ex_iff split: if_splits)

lemma webhook_records:
  assumes "lhDeliveries h = Some True" "deFault (aeDb E) 20 = None" "keeps_deliveries (aeDb E)"
  shows "DeliveryKey p \<in> set (adDeliveries (asDb (hres_state (webhook_process E h p rid w s))))"
proof -
  obtain res db where t: "TryRecord (aeDb E) 20 (Some True) (DeliveryKey p) (asDb s) = (res, db)" by fastforce
  note t' = TryRecord_result [OF assms(2) t]
  obtain uid db' where u: "webhook_user E h p db = (uid, db')" by fastforce
  have "DeliveryKey p \<in> set (adDeliveries db')"
    using u ResolveProviderUser_deliveries [OF assms(3) t'(2), of "lhIdentities h" ProviderLogto "logtoUserID p"] t'(2)
    by (auto simp: webhook_user_def ResolveLogtoUser_def split: if_splits sum.splits prod.splits)
  then show ?thesis
    using t t' u by (auto simp: webhook_process_def webhook_first_def assms(1) split: sum.splits option.splits prod.splits bool.splits)
qed

lemma webhook_duplicate:
  assumes "lhDeliveries h = Some True" "webhook_payload E h r = Inr p" "deFault (aeDb E) 20 = None" "keeps_deliveries (aeDb E)"
    and "DeliveryKey p \<in> set (adDeliveries (asDb s))"
  shows "logto_ServeHTTP E h r w s = Served (respond_JSON 202 (JObj [(''status'', JStr ''duplicate'')]) w)
      (s\<lparr>asDb := deOther (aeDb E) 20 (asDb s)\<rparr>)"
proof -
  have old: "DeliveryKey p \<in> set (adDeliveries (deOther (aeDb E) 20 (asDb s)))"
    using assms(4,5) by (auto simp: keeps_deliveries_def)
  obtain first db where t: "TryRecord (aeDb E) 20 (Some True) (DeliveryKey p) (asDb s) = (first, db)" by fastforce
  show ?thesis
    using TryRecord_result [OF assms(3) t] old t assms(1,2)
    by (simp add: logto_ServeHTTP_def webhook_process_def webhook_first_def)
qed

lemma webhook_on_record:
  assumes "lhDeliveries h = Some True" "webhook_payload E h r = Inr p" "deFault (aeDb E) 20 = None" "keeps_deliveries (aeDb E)"
  shows "DeliveryKey p \<in> set (adDeliveries (asDb (hres_state (logto_ServeHTTP E h r w s))))"
  using webhook_records [OF assms(1,3,4), of p] assms(2) by (simp add: logto_ServeHTTP_def Let_def)

section \<open>Properties\<close>

text \<open>
  C32 A delivery whose audit event could not be emitted is lost: the user is not revoked in that attempt, and the
  provider's retry is answered as a duplicate, so the revocation list stays as it was before the first attempt.
\<close>

theorem failed_webhook_lost:
  assumes "lhDeliveries h = Some True"
    and "webhook_payload E h r = Inr p" "deFault (aeDb E) 20 = None" "keeps_deliveries (aeDb E)"
    and "webhook_payload E' h r = Inr p" "deFault (aeDb E') 20 = None" "keeps_deliveries (aeDb E')"
    and "logto_ServeHTTP E h r new_writer s = Served w1 s1" "error_code w1 = Some ''audit.emit_failed''"
  shows "\<exists>w2 s2. logto_ServeHTTP E' h r new_writer s1 = Served w2 s2 \<and> final_status w2 = 202 \<and>
    asRedis s2 = asRedis s \<and> asNet s2 = asNet s1"
proof -
  have bodies: "WBody (respond_JSON st v new_writer) = [BJson v]" for st v by simp
  have "asRedis s1 = asRedis s"
    using assms(2,8,9)
    by (auto simp: logto_ServeHTTP_def webhook_process_def Let_def error_code_def body_error_code_def bodies
        split: prod.splits sum.splits bool.splits option.splits)
  with webhook_duplicate [OF assms(1,5-7), of s1 new_writer] webhook_on_record [OF assms(1-4), of new_writer s] assms(8)
  show ?thesis by simp
qed

text \<open>
  With a signing key configured, a webhook whose signature header is not the hexadecimal HMAC of the body is refused
  with 401 and changes nothing.
\<close>

theorem webhook_needs_signature:
  assumes "lhSigningKey h \<noteq> []" "Body r = Inr body" "WSent w = None" "WBody w = []"
    and "hex_decode (req_header r signatureHeader) \<noteq> Some (aeHmac E (lhSigningKey h) (take 1048576 body))"
  shows "\<exists>w'. logto_ServeHTTP E h r w s = Served w' s \<and> final_status w' = 401 \<and>
    error_code w' = Some ''webhook.invalid_signature''"
proof -
  have "VerifySignature (aeHmac E) (lhSigningKey h) (take 1048576 body) (req_header r signatureHeader) \<noteq> None"
    using assms(1,5) by (auto simp: VerifySignature_def split: option.splits)
  with assms show ?thesis by (simp add: logto_ServeHTTP_def webhook_payload_def Let_def)
qed

text \<open>A deletion that Logto reports and the service accepts leaves a revocation entry for the subject, until the entry expires.\<close>

lemma deletion_visible:
  assumes "redis_laws (aeRedis E) view" "lhRevocations h = Some rs" "rev_Enabled (Some rs)"
    and "webhook_payload E h r = Inr p" "pEvent p = ''User.Deleted''" "logtoUserID p \<noteq> []"
    and "logto_ServeHTTP E h r new_writer s = Served w' s'" "WBody w' = [BJson (JObj [(''status'', JStr ''accepted'')])]"
    and "aeNow E \<le> t" "rev_ttl rs > 0 \<longrightarrow> t < aeNow E + px (rev_ttl rs)"
  shows "view (asRedis s') t (rev_prefix rs @ ''sub:'' @ logtoUserID p) \<noteq> None"
proof -
  let ?R = "aeRedis E" and ?now = "aeNow E" and ?k = "''sub:'' @ logtoUserID p"
  obtain uid where app: "applyRevocation ?R ?now h p uid (asRedis s) = (None, asRedis s')"
    using assms(4,7,8)
    by (auto simp: logto_ServeHTTP_def webhook_process_def Let_def split: prod.splits sum.splits bool.splits option.splits)
  then obtain rd where rd: "RevokeSubject ?R ?now (Some rs) (logtoUserID p) (asRedis s) = (None, rd)"
    and rest: "uid = [] \<and> asRedis s' = rd \<or> RevokeSubject ?R ?now (Some rs) uid rd = (None, asRedis s')"
    using assms(2,3,5,6) by (auto simp: applyRevocation_def split: prod.splits option.splits if_splits)
  have v: "view rd t (rev_prefix rs @ ?k) \<noteq> None"
    using rev_set_visible [OF assms(1,3) rd [unfolded RevokeSubject_def] _ assms(9,10)] by simp
  show ?thesis
    using rest v rev_set_keeps [OF assms(1,3) _ _ assms(9,10)] by (auto simp: RevokeSubject_def)
qed

lemma login_mints:
  assumes "Login E (Some h) r new_writer s = Served w' s'" "final_status w' = 200" "mpIssuer h = IPtr (Some i)"
  obtains tok u where "AuthVerifier.AccessToken (aeJwt E) (Some i) u [] [''user''] (aeNow E) (mpTTL h) = Inr tok"
    "WBody w' = [BJson (login_response tok (mpTTL h) u)]"
  using assms by (auto simp: Login_def login_user_def Let_def split: option.splits iface.splits sum.splits if_splits prod.splits)

text \<open>
  C34 A mini-program login that succeeds hands out a token the gateway accepts: any verifier that trusts the issuer and
  its key maps it, until the last whole second before it expires, to the user the response names, with the role
  \<^verbatim>\<open>user\<close> and no tenant.
\<close>

theorem login_token_verifies:
  assumes "Login E (Some h) r new_writer s = Served w' s'" "final_status w' = 200"
    and "mpIssuer h = IPtr (Some i)" "iss_key i = Some key"
    and "jwt_complete (aeJwt E) pub" "jwt_exp_law (aeJwt E)"
    and "vjwks v = Some kf" "kf ''RS256'' (iss_kid i) = Inr (pub key)"
    and "Issuers (vcfg v) = [] \<or> iss_issuer i \<noteq> [] \<and> iss_issuer i \<in> set (Issuers (vcfg v))"
    and "Audience (vcfg v) = [] \<or> Audience (vcfg v) = iss_audience i"
    and "t < (aeNow E + mpTTL h) div time_Second * time_Second" "0 \<le> aeNow E + mpTTL h" "(aeNow E + mpTTL h) div time_Second < 2 ^ 53"
  shows "\<exists>tok u. WBody w' = [BJson (login_response tok (mpTTL h) u)] \<and>
    Verify (aeJwt E) t v tok = Inr \<lparr>RequestID = [], UserID = u, TenantID = [], Roles = [''user''], Scopes = [], Subject = u\<rparr>"
proof -
  obtain u tok where tok: "AuthVerifier.AccessToken (aeJwt E) (Some i) u [] [''user''] (aeNow E) (mpTTL h) = Inr tok"
    and body: "WBody w' = [BJson (login_response tok (mpTTL h) u)]"
    using login_mints [OF assms(1-3)] .
  from minted_token_verifies [OF assms(5,6) tok assms(4,7-13)]
  have "Verify (aeJwt E) t v tok =
      Inr \<lparr>RequestID = [], UserID = u, TenantID = [], Roles = [''user''], Scopes = [], Subject = u\<rparr>"
    by (simp add: mapClaims_base)
  with body show ?thesis by blast
qed

end
