(* ===== verification/Storage.thy ===== *)
theory Storage
  imports Mux Tables
begin

text \<open>
  \<^verbatim>\<open>pkg/storage\<close>: the S3 client with Signature Version 4, pre-signed URLs, and its configuration. HMAC-SHA-256 and
  SHA-256, URL parsing and the object storage itself (reached through an \<open>http_client\<close>) are parameters. The lemmas show
  that the percent encoding can be undone and keeps paths and queries apart, and that a pre-signed URL never lives
  longer than a week.
\<close>

section \<open>Dates\<close>

text \<open>The civil date of a day number (days since 1970-01-01), and the two date formats of the signature.\<close>

definition civil_of_days :: "int \<Rightarrow> int \<times> int \<times> int" where
  "civil_of_days z =
     (let z' = z + 719468; era = z' div 146097; doe = z' mod 146097;
          yoe = (doe - doe div 1460 + doe div 36524 - doe div 146096) div 365;
          doy = doe - (365 * yoe + yoe div 4 - yoe div 100);
          mp = (5 * doy + 2) div 153;
          d = doy - (153 * mp + 2) div 5 + 1;
          m = (if mp < 10 then mp + 3 else mp - 9)
      in (yoe + era * 400 + (if m \<le> 2 then 1 else 0), m, d))"

definition pad :: "nat \<Rightarrow> int \<Rightarrow> string" where
  "pad n k = replicate (n - length (Itoa k)) (CHR ''0'') @ Itoa k"

definition dateStamp :: "gotime \<Rightarrow> string" where
  "dateStamp t = (case civil_of_days (t div time_Second div 86400) of (y, m, d) \<Rightarrow> pad 4 y @ pad 2 m @ pad 2 d)"

definition amzDate :: "gotime \<Rightarrow> string" where
  "amzDate t = (let s = t div time_Second mod 86400 in
     dateStamp t @ ''T'' @ pad 2 (s div 3600) @ pad 2 (s div 60 mod 60) @ pad 2 (s mod 60) @ ''Z'')"

section \<open>Client\<close>

record s3_config =
  scEndpoint :: string
  scAccessKey :: string
  scSecretKey :: string
  scBucket :: string
  scRegion :: string
  scUseSSL :: bool

record s3_client =
  s3Host :: string
  s3Secure :: bool
  s3AccessKey :: string
  s3SecretKey :: string
  s3Bucket :: string
  s3Region :: string

text \<open>
  What the client takes from outside: keyed hash and hash on bytes, \<^verbatim>\<open>url.Parse\<close> to scheme and host, and the parts of a
  request URL (host, escaped path, raw query).
\<close>

record crypto =
  hmacSHA256 :: "bytes \<Rightarrow> bytes \<Rightarrow> bytes"
  sha256 :: "bytes \<Rightarrow> bytes"

record url_lib =
  urlParse :: "string \<Rightarrow> (string \<times> string) res"
  urlParts :: "string \<Rightarrow> string \<times> string \<times> string"

definition str_bytes :: "string \<Rightarrow> bytes" where
  "str_bytes s = map of_char s"

definition EndpointFromEnv :: "osenv \<Rightarrow> string" where
  "EndpointFromEnv env = Env env ''S3_ENDPOINT'' ''http://localhost:9000''"

definition s3_ConfigFromEnv :: "osenv \<Rightarrow> s3_config" where
  "s3_ConfigFromEnv env =
     (let endpoint = EndpointFromEnv env; region = Env env ''S3_REGION'' [] in
      \<lparr>scEndpoint = endpoint, scAccessKey = Env env ''S3_ACCESS_KEY'' [], scSecretKey = Env env ''S3_SECRET_KEY'' [],
       scBucket = Env env ''S3_BUCKET'' [], scRegion = (if region = [] then ''us-east-1'' else region),
       scUseSSL = (Env env ''S3_USE_SSL'' [] = ''true'' \<or> HasPrefix (ToLower endpoint) ''https://'')\<rparr>)"

definition parseEndpoint :: "url_lib \<Rightarrow> string \<Rightarrow> bool \<Rightarrow> (string \<times> bool) res" where
  "parseEndpoint U raw useSSL =
     (let raw = (if \<not> Contains raw ''://'' then ''http://'' @ raw else raw) in
      case urlParse U raw of
        Inl err \<Rightarrow> Inl (Wrapped ''s3 endpoint'' err)
      | Inr (scheme, host) \<Rightarrow>
          if host = [] then Inl (Errorf ''s3 endpoint: missing host'') else Inr (host, useSSL \<or> scheme = ''https''))"

text \<open>\<^verbatim>\<open>NewClient\<close>; \<open>ping\<close> is the result of the TCP probe. \<open>Inr None\<close> is the nil client.\<close>

definition s3_NewClient :: "url_lib \<Rightarrow> goerr option \<Rightarrow> s3_config \<Rightarrow> s3_client option res" where
  "s3_NewClient U ping cfg =
     (if IsPlaceholder (scEndpoint cfg) \<or> scBucket cfg = [] \<or> IsPlaceholder (scAccessKey cfg) \<or> IsPlaceholder (scSecretKey cfg)
         \<or> scAccessKey cfg = [] \<or> scSecretKey cfg = [] then Inr None
      else (case ping of
        Some err \<Rightarrow> Inl err
      | None \<Rightarrow> (case parseEndpoint U (scEndpoint cfg) (scUseSSL cfg) of
          Inl err \<Rightarrow> Inl err
        | Inr (host, secure) \<Rightarrow> Inr (Some \<lparr>s3Host = host, s3Secure = secure, s3AccessKey = scAccessKey cfg,
            s3SecretKey = scSecretKey cfg, s3Bucket = scBucket cfg, s3Region = scRegion cfg\<rparr>))))"

definition s3_Enabled :: "s3_client option \<Rightarrow> bool" where
  "s3_Enabled c \<longleftrightarrow> (case c of None \<Rightarrow> False | Some c \<Rightarrow> s3Bucket c \<noteq> [] \<and> s3AccessKey c \<noteq> [])"

definition Bucket :: "s3_client option \<Rightarrow> string" where
  "Bucket c = (case c of None \<Rightarrow> [] | Some c \<Rightarrow> s3Bucket c)"

definition objectURL :: "s3_client \<Rightarrow> string \<Rightarrow> string" where
  "objectURL c key = (if s3Secure c then ''https'' else ''http'') @ ''://'' @ s3Host c @
     ''/'' @ s3Bucket c @ ''/'' @ TrimPrefix key ''/''"

section \<open>Signature\<close>

definition deriveSigningKey :: "crypto \<Rightarrow> string \<Rightarrow> string \<Rightarrow> string \<Rightarrow> string \<Rightarrow> bytes" where
  "deriveSigningKey K secret date region service =
     (let kDate = hmacSHA256 K (str_bytes (''AWS4'' @ secret)) (str_bytes date);
          kRegion = hmacSHA256 K kDate (str_bytes region);
          kService = hmacSHA256 K kRegion (str_bytes service)
      in hmacSHA256 K kService (str_bytes ''aws4_request''))"

definition s3_sha256Hex :: "crypto \<Rightarrow> string \<Rightarrow> string" where
  "s3_sha256Hex K s = hex_encode (sha256 K (str_bytes s))"

abbreviation nl :: char where "nl \<equiv> CHR 0x0A"

text \<open>The tail both signers share: from the canonical request to the hexadecimal signature.\<close>

definition sign_canonical :: "crypto \<Rightarrow> string \<Rightarrow> string \<Rightarrow> gotime \<Rightarrow> string \<Rightarrow> string" where
  "sign_canonical K secretKey region now canonicalRequest =
     (let scope = dateStamp now @ ''/'' @ region @ ''/s3/aws4_request'';
          stringToSign = Join nl [''AWS4-HMAC-SHA256'', amzDate now, scope, s3_sha256Hex K canonicalRequest]
      in hex_encode (hmacSHA256 K (deriveSigningKey K secretKey (dateStamp now) region ''s3'') (str_bytes stringToSign)))"

text \<open>Request headers as a list with canonical keys; \<^verbatim>\<open>req.Header.Get\<close> reads the first value.\<close>

type_synonym hdrs = "(string \<times> string) list"

definition hdrs_get :: "hdrs \<Rightarrow> string \<Rightarrow> string" where
  "hdrs_get hs k = (case map_of hs (CanonicalHeaderKey k) of None \<Rightarrow> [] | Some v \<Rightarrow> v)"

definition hdrs_set :: "string \<Rightarrow> string \<Rightarrow> hdrs \<Rightarrow> hdrs" where
  "hdrs_set k v hs = AList.update (CanonicalHeaderKey k) v hs"

definition signedHeaderNames :: "hdrs \<Rightarrow> string list" where
  "signedHeaderNames hs =
     (let names = filter (\<lambda>l. l = ''host'' \<or> l = ''content-type'' \<or> HasPrefix l ''x-amz-'') (map (\<lambda>(k, v). ToLower k) hs);
          names = (if names = [] then [''host''] else names)
      in if ''host'' \<in> set names then names else names @ [''host''])"

definition canonical_headers :: "hdrs \<Rightarrow> string list \<Rightarrow> string" where
  "canonical_headers hs names = concat (map (\<lambda>h. h @ '':'' @ TrimSpace (hdrs_get hs h) @ [nl]) names)"

definition signS3Request ::
  "crypto \<Rightarrow> url_lib \<Rightarrow> string \<Rightarrow> string \<Rightarrow> string \<Rightarrow> string \<Rightarrow> gotime \<Rightarrow> string \<Rightarrow> string \<Rightarrow> hdrs \<Rightarrow> hdrs" where
  "signS3Request K U accessKey secretKey region payloadHash now method url hs =
     (case urlParts U url of (host, escPath, rawQuery) \<Rightarrow>
      let hs = hdrs_set ''X-Amz-Date'' (amzDate now) hs;
          hs = (if hdrs_get hs ''Host'' = [] then hdrs_set ''Host'' host hs else hs);
          canonicalURI = (if escPath = [] then ''/'' else escPath);
          names = sort (signedHeaderNames hs);
          signedHeadersStr = Join (CHR '';'') names;
          canonicalRequest = Join nl [method, canonicalURI, rawQuery, canonical_headers hs names, signedHeadersStr, payloadHash];
          signature = sign_canonical K secretKey region now canonicalRequest
      in hdrs_set ''Authorization'' (''AWS4-HMAC-SHA256 Credential='' @ accessKey @ ''/'' @ dateStamp now @ ''/'' @ region
           @ ''/s3/aws4_request, SignedHeaders='' @ signedHeadersStr @ '', Signature='' @ signature) hs)"

definition to_header :: "hdrs \<Rightarrow> header" where
  "to_header hs k = map_option (\<lambda>v. [v]) (map_of hs k)"

definition emptyPayloadHash :: string where
  "emptyPayloadHash = ''e3b0c44298fc1c149afbf4c8996fb92427ae41e4649b934ca495991b7852b855''"

definition signed_out ::
  "crypto \<Rightarrow> url_lib \<Rightarrow> gotime \<Rightarrow> s3_client \<Rightarrow> string \<Rightarrow> string \<Rightarrow> hdrs \<Rightarrow> string \<Rightarrow> string \<Rightarrow> http_out" where
  "signed_out K U now c method url hs hash bdy =
     \<lparr>OMethod = method, OURL = url,
      OHeader = to_header (signS3Request K U (s3AccessKey c) (s3SecretKey c) (s3Region c) hash now method url hs), OBody = bdy\<rparr>"

section \<open>Object operations\<close>

record s3_env =
  seCrypto :: crypto
  seUrl :: url_lib
  seJson :: json_env
  seNow :: gotime

text \<open>
  \<^verbatim>\<open>PutObject\<close>; the transport sends \<open>size\<close> bytes of the content and fails when there are not that many, so the body is the
  content.
\<close>

definition PutObject ::
  "s3_env \<Rightarrow> 'n http_client \<Rightarrow> s3_client option \<Rightarrow> string \<Rightarrow> string \<Rightarrow> string \<Rightarrow> 'n \<Rightarrow> goerr option \<times> 'n" where
  "PutObject S cl co key content contentType n = (case co of
     None \<Rightarrow> (Some (Errorf ''s3 client not configured''), n)
   | Some c \<Rightarrow>
       if \<not> s3_Enabled co then (Some (Errorf ''s3 client not configured''), n)
       else (let contentType = (if contentType = [] then ''application/octet-stream'' else contentType);
                 u = objectURL c key
         in case badURL (seJson S) u of
           Some err \<Rightarrow> (Some err, n)
         | None \<Rightarrow>
             (let hs = hdrs_set ''x-amz-content-sha256'' ''UNSIGNED-PAYLOAD'' (hdrs_set ''Content-Type'' contentType [])
              in case cl (signed_out (seCrypto S) (seUrl S) (seNow S) c ''PUT'' u hs ''UNSIGNED-PAYLOAD'' content) n of
                (Inl err, n') \<Rightarrow> (Some (Wrapped ''s3 put'' err), n')
              | (Inr (status, _), n') \<Rightarrow> if status \<ge> 300 then (Some (Errorf ''s3 put: status''), n') else (None, n'))))"

definition get_request :: "s3_env \<Rightarrow> s3_client \<Rightarrow> string \<Rightarrow> http_out" where
  "get_request S c key = signed_out (seCrypto S) (seUrl S) (seNow S) c ''GET'' (objectURL c key) [] emptyPayloadHash []"

definition GetObject ::
  "s3_env \<Rightarrow> 'n http_client \<Rightarrow> s3_client option \<Rightarrow> string \<Rightarrow> 'n \<Rightarrow> (string res) res \<times> 'n" where
  "GetObject S cl co key n = (case co of
     None \<Rightarrow> (Inl (Errorf ''s3 client not configured''), n)
   | Some c \<Rightarrow>
       if \<not> s3_Enabled co then (Inl (Errorf ''s3 client not configured''), n)
       else (case badURL (seJson S) (objectURL c key) of
         Some err \<Rightarrow> (Inl err, n)
       | None \<Rightarrow> (case cl (get_request S c key) n of
           (Inl err, n') \<Rightarrow> (Inl (Wrapped ''s3 get'' err), n')
         | (Inr (status, rd), n') \<Rightarrow> if status \<ge> 300 then (Inl (Errorf ''s3 get: status''), n') else (Inr rd, n'))))"

definition DeleteObject :: "s3_env \<Rightarrow> 'n http_client \<Rightarrow> s3_client option \<Rightarrow> string \<Rightarrow> 'n \<Rightarrow> goerr option \<times> 'n" where
  "DeleteObject S cl co key n = (case co of
     None \<Rightarrow> (Some (Errorf ''s3 client not configured''), n)
   | Some c \<Rightarrow>
       if \<not> s3_Enabled co then (Some (Errorf ''s3 client not configured''), n)
       else (case badURL (seJson S) (objectURL c key) of
         Some err \<Rightarrow> (Some err, n)
       | None \<Rightarrow> (case cl (signed_out (seCrypto S) (seUrl S) (seNow S) c ''DELETE'' (objectURL c key) [] emptyPayloadHash []) n of
           (Inl err, n') \<Rightarrow> (Some (Wrapped ''s3 delete'' err), n')
         | (Inr (status, _), n') \<Rightarrow> if status \<ge> 300 then (Some (Errorf ''s3 delete: status''), n') else (None, n'))))"

section \<open>Pre-signed URLs\<close>

definition presignPayloadHash :: string where "presignPayloadHash = ''UNSIGNED-PAYLOAD''"

definition maxPresignExpiry :: duration where "maxPresignExpiry = 7 * 24 * time_Hour"

definition aws_unreserved :: "char \<Rightarrow> bool" where
  "aws_unreserved c \<longleftrightarrow> (65 \<le> (of_char c :: int) \<and> (of_char c :: int) \<le> 90) \<or> (97 \<le> (of_char c :: int) \<and> (of_char c :: int) \<le> 122)
     \<or> is_digit c \<or> c \<in> set ''_-.~''"

fun awsURIEncode :: "string \<Rightarrow> string" where
  "awsURIEncode [] = []"
| "awsURIEncode (c # s) =
     (if aws_unreserved c then [c]
      else [CHR ''%'', HEX_digit ((of_char c :: int) div 16), HEX_digit ((of_char c :: int) mod 16)]) @ awsURIEncode s"

definition awsCanonicalURI :: "string \<Rightarrow> string" where
  "awsCanonicalURI path =
     (if path = [] then ''/''
      else (let path = (if \<not> HasPrefix path ''/'' then ''/'' @ path else path);
                out = Join (CHR ''/'') (map awsURIEncode (Split (CHR ''/'') path))
        in if \<not> HasPrefix out ''/'' then ''/'' @ out else out))"

definition buildCanonicalQuery :: "(string \<times> string) list \<Rightarrow> string" where
  "buildCanonicalQuery pairs = Join (CHR ''&'') (map (\<lambda>p. awsURIEncode (fst p) @ ''='' @ awsURIEncode (snd p)) pairs)"

definition presign_query :: "s3_client \<Rightarrow> duration \<Rightarrow> gotime \<Rightarrow> (string \<times> string) list" where
  "presign_query c expires now = sort_key fst
     [(''X-Amz-Algorithm'', ''AWS4-HMAC-SHA256''),
      (''X-Amz-Credential'', s3AccessKey c @ ''/'' @ dateStamp now @ ''/'' @ s3Region c @ ''/s3/aws4_request''),
      (''X-Amz-Date'', amzDate now),
      (''X-Amz-Expires'', Itoa (expires div time_Second)),
      (''X-Amz-SignedHeaders'', ''host'')]"

definition presignGetURLAt :: "crypto \<Rightarrow> s3_client \<Rightarrow> string \<Rightarrow> duration \<Rightarrow> gotime \<Rightarrow> string \<times> gotime" where
  "presignGetURLAt K c key expires now =
     (let objectPath = ''/'' @ s3Bucket c @ ''/'' @ TrimPrefix key ''/'';
          canonicalURI = awsCanonicalURI objectPath;
          canonicalQuery = buildCanonicalQuery (presign_query c expires now);
          canonicalRequest = Join nl [''GET'', canonicalURI, canonicalQuery, ''host:'' @ s3Host c @ [nl], ''host'', presignPayloadHash];
          signature = sign_canonical K (s3SecretKey c) (s3Region c) now canonicalRequest;
          rawQuery = canonicalQuery @ ''&X-Amz-Signature='' @ awsURIEncode signature
      in ((if s3Secure c then ''https'' else ''http'') @ ''://'' @ s3Host c @ canonicalURI @ ''?'' @ rawQuery, now + expires))"

definition presign_expiry :: "duration \<Rightarrow> duration" where
  "presign_expiry expires =
     (let e = (if expires \<le> 0 then time_Hour else expires) in if e > maxPresignExpiry then maxPresignExpiry else e)"

definition PresignGetURL :: "crypto \<Rightarrow> gotime \<Rightarrow> s3_client option \<Rightarrow> string \<Rightarrow> duration \<Rightarrow> (string \<times> gotime) res" where
  "PresignGetURL K now co key expires = (case co of
     None \<Rightarrow> Inl (Errorf ''s3 client not configured'')
   | Some c \<Rightarrow>
       if \<not> s3_Enabled co then Inl (Errorf ''s3 client not configured'')
       else Inr (presignGetURLAt K c key (presign_expiry expires) now))"

section \<open>Facts about the encoding\<close>

fun aws_decode :: "string \<Rightarrow> string option" where
  "aws_decode [] = Some []"
| "aws_decode (c # s) =
     (if c = CHR ''%'' then (case s of
          a # b # r \<Rightarrow> (case (hex_val a, hex_val b, aws_decode r) of
             (Some x, Some y, Some t) \<Rightarrow> Some (char_of (16 * x + y) # t) | _ \<Rightarrow> None)
        | _ \<Rightarrow> None)
      else map_option (\<lambda>t. c # t) (aws_decode s))"

lemma of_char_bounds: "0 \<le> (of_char c :: int)" "(of_char c :: int) < 256"
  by (cases c; simp add: horner_sum_simps)+

lemma hex_val_HEX_digit: "0 \<le> n \<Longrightarrow> n < 16 \<Longrightarrow> hex_val (HEX_digit n) = Some n"
  by (auto simp: hex_val_def HEX_digit_def Let_def of_char_of take_bit_int_def)

lemma HEX_digit_unreserved: "0 \<le> n \<Longrightarrow> n < 16 \<Longrightarrow> aws_unreserved (HEX_digit n)"
  by (auto simp: aws_unreserved_def HEX_digit_def is_digit_def of_char_of take_bit_int_def)

lemma percent_reserved: "\<not> aws_unreserved (CHR ''%'')"
  by code_simp

text \<open>The encoding can be undone, so distinct keys have distinct encodings.\<close>

lemma aws_decode_encode: "aws_decode (awsURIEncode s) = Some s"
proof (induction s)
  case (Cons c s)
  let ?n = "of_char c :: int"
  have "0 \<le> ?n div 16" "?n div 16 < 16" "0 \<le> ?n mod 16" "?n mod 16 < 16"
    using of_char_bounds [of c] by auto
  then have hex: "hex_val (HEX_digit (?n div 16)) = Some (?n div 16)" "hex_val (HEX_digit (?n mod 16)) = Some (?n mod 16)"
    by (simp_all add: hex_val_HEX_digit)
  have "char_of (16 * (?n div 16) + ?n mod 16) = c" by simp
  with Cons hex percent_reserved show ?case by auto
qed simp

lemma set_awsURIEncode: "x \<in> set (awsURIEncode s) \<Longrightarrow> aws_unreserved x \<or> x = CHR ''%''"
proof (induction s)
  case (Cons c s)
  let ?n = "of_char c :: int"
  have "0 \<le> ?n div 16" "?n div 16 < 16" "0 \<le> ?n mod 16" "?n mod 16 < 16"
    using of_char_bounds [of c] by auto
  with Cons show ?case by (auto simp: HEX_digit_unreserved split: if_splits)
qed simp

lemma awsCanonicalURI_rooted:
  assumes "HasPrefix path ''/''"
  shows "awsCanonicalURI path = Join (CHR ''/'') (map awsURIEncode (Split (CHR ''/'') path))"
proof -
  obtain p where p: "path = CHR ''/'' # p" using assms by (auto simp: HasPrefix_def prefix_def)
  have "Join (CHR ''/'') (map awsURIEncode (Split (CHR ''/'') path)) = CHR ''/'' # Join (CHR ''/'') (map awsURIEncode (Split (CHR ''/'') p))"
    by (simp add: p Join_Cons)
  then show ?thesis using assms by (simp add: awsCanonicalURI_def p HasPrefix_def)
qed

lemma set_Join: "x \<in> set (Join c xs) \<Longrightarrow> x = c \<or> (\<exists>y\<in>set xs. x \<in> set y)"
  by (induction xs rule: Join.induct [of _ c]) auto

text \<open>The path of a canonical URI splits into the encoded elements and holds no byte that ends a path.\<close>

lemma awsCanonicalURI_elements:
  assumes "HasPrefix path ''/''"
  shows "map aws_decode (Split (CHR ''/'') (awsCanonicalURI path)) = map Some (Split (CHR ''/'') path)"
    and "x \<in> set (awsCanonicalURI path) \<Longrightarrow> aws_unreserved x \<or> x = CHR ''%'' \<or> x = CHR ''/''"
proof -
  have slash: "\<not> aws_unreserved (CHR ''/'')" by code_simp
  have "CHR ''/'' \<notin> set (awsURIEncode y)" for y using set_awsURIEncode [of "CHR ''/''" y] slash by auto
  then have "Split (CHR ''/'') (awsCanonicalURI path) = map awsURIEncode (Split (CHR ''/'') path)"
    unfolding awsCanonicalURI_rooted [OF assms] by (intro Split_Join) auto
  then show "map aws_decode (Split (CHR ''/'') (awsCanonicalURI path)) = map Some (Split (CHR ''/'') path)"
    by (simp add: aws_decode_encode)
  show "x \<in> set (awsCanonicalURI path) \<Longrightarrow> aws_unreserved x \<or> x = CHR ''%'' \<or> x = CHR ''/''"
    using set_Join [of x "CHR ''/''"] set_awsURIEncode unfolding awsCanonicalURI_rooted [OF assms] by fastforce
qed

lemma question_reserved: "\<not> aws_unreserved (CHR ''?'')"
  by code_simp

section \<open>Properties\<close>

text \<open>
  A pre-signed URL lives for more than no time and at most seven days, whatever expiry was asked for.
\<close>

theorem presign_bounded:
  assumes "PresignGetURL K now co key expires = Inr (url, expiresAt)"
  shows "now < expiresAt \<and> expiresAt \<le> now + 7 * 24 * time_Hour"
proof -
  have "expiresAt = now + presign_expiry expires"
    using assms by (auto simp: PresignGetURL_def presignGetURLAt_def Let_def split: option.splits if_splits)
  moreover have "0 < presign_expiry expires \<and> presign_expiry expires \<le> 7 * 24 * time_Hour"
    by (simp add: presign_expiry_def maxPresignExpiry_def time_unit_defs Let_def)
  ultimately show ?thesis by simp
qed

text \<open>
  A pre-signed URL names exactly the object it was asked for: its path ends at the first question mark, and the
  elements of the path decode to the bucket and the elements of the key, whatever bytes the key holds.
\<close>

theorem presign_names_object:
  assumes "PresignGetURL K now (Some c) key expires = Inr (url, expiresAt)"
  shows "\<exists>path query. url = (if s3Secure c then ''https'' else ''http'') @ ''://'' @ s3Host c @ path @ ''?'' @ query \<and>
    CHR ''?'' \<notin> set path \<and>
    map aws_decode (Split (CHR ''/'') path) = map Some (Split (CHR ''/'') (''/'' @ s3Bucket c @ ''/'' @ TrimPrefix key ''/''))"
proof -
  let ?o = "''/'' @ s3Bucket c @ ''/'' @ TrimPrefix key ''/''"
  have root: "HasPrefix ?o ''/''" by (simp add: HasPrefix_def)
  have "CHR ''?'' \<notin> set (awsCanonicalURI ?o)"
    using awsCanonicalURI_elements(2) [OF root, of "CHR ''?''"] question_reserved by auto
  moreover have "\<exists>query. url = (if s3Secure c then ''https'' else ''http'') @ ''://'' @ s3Host c @ awsCanonicalURI ?o @ ''?'' @ query"
    using assms by (auto simp: PresignGetURL_def presignGetURLAt_def Let_def split: if_splits)
  ultimately show ?thesis using awsCanonicalURI_elements(1) [OF root] by blast
qed

text \<open>
  The other operations do not encode the key: a key with a question mark is stored under its part before the mark,
  since the URL's path ends there, so the object a pre-signed URL names is not the one that was uploaded.
\<close>

theorem unescaped_key_truncated:
  assumes "CHR ''?'' \<notin> set (s3Host c)" "CHR ''?'' \<notin> set (s3Bucket c)" "CHR ''?'' \<notin> set a" "\<not> HasPrefix a ''/''" "a \<noteq> []"
  shows "before_byte (CHR ''?'') (objectURL c (a @ ''?'' @ b)) = objectURL c a \<and>
    awsCanonicalURI (''/'' @ s3Bucket c @ ''/'' @ a @ ''?'' @ b) \<noteq> awsCanonicalURI (''/'' @ s3Bucket c @ ''/'' @ a)"
proof -
  have trim: "TrimPrefix (a @ CHR ''?'' # b) ''/'' = a @ CHR ''?'' # b" "TrimPrefix a ''/'' = a"
    using assms(4,5) by (cases a; auto simp: TrimPrefix_def HasPrefix_def)+
  have cut: "takeWhile (\<lambda>x. x \<noteq> CHR ''?'') (xs @ CHR ''?'' # ys) = xs" if "CHR ''?'' \<notin> set xs" for xs ys :: string
    using that by (induction xs) auto
  have noq: "CHR ''?'' \<notin> set (objectURL c a)"
    using assms(1-3) trim by (auto simp: objectURL_def)
  have "before_byte (CHR ''?'') (objectURL c (a @ ''?'' @ b)) = objectURL c a"
  proof -
    have "objectURL c (a @ ''?'' @ b) = objectURL c a @ CHR ''?'' # b" by (simp add: objectURL_def trim)
    with noq show ?thesis by (simp add: before_byte_def cut)
  qed
  moreover have "awsCanonicalURI (''/'' @ s3Bucket c @ ''/'' @ a @ ''?'' @ b) \<noteq> awsCanonicalURI (''/'' @ s3Bucket c @ ''/'' @ a)"
  proof
    assume eq: "awsCanonicalURI (''/'' @ s3Bucket c @ ''/'' @ a @ ''?'' @ b) = awsCanonicalURI (''/'' @ s3Bucket c @ ''/'' @ a)"
    have "HasPrefix (''/'' @ x) ''/''" for x by (simp add: HasPrefix_def)
    then have "map Some (Split (CHR ''/'') (''/'' @ s3Bucket c @ ''/'' @ a @ ''?'' @ b)) = map Some (Split (CHR ''/'') (''/'' @ s3Bucket c @ ''/'' @ a))"
      using awsCanonicalURI_elements(1) eq by metis
    then have "Split (CHR ''/'') (''/'' @ s3Bucket c @ ''/'' @ a @ ''?'' @ b) = Split (CHR ''/'') (''/'' @ s3Bucket c @ ''/'' @ a)"
      by (metis inj_map_eq_map inj_Some)
    then have "''/'' @ s3Bucket c @ ''/'' @ a @ ''?'' @ b = ''/'' @ s3Bucket c @ ''/'' @ a"
      by (metis Join_Split)
    then show False by simp
  qed
  ultimately show ?thesis by blast
qed

end
