(* ===== verification/Files.thy ===== *)
theory Files
  imports Storage
begin

text \<open>
  \<^verbatim>\<open>services/file-service\<close>: the metadata store, the upload handler, the handlers for metadata, download, pre-signed URL,
  deletion and listing, and the routes of \<^verbatim>\<open>main\<close>. The state is the \<^verbatim>\<open>files\<close> table and the world behind the storage
  client. Reading a multipart form is a parameter.
\<close>

section \<open>Store\<close>

record file_row =
  fID :: string
  fTenant :: string
  fOwner :: string
  fBucket :: string
  fObjectKey :: string
  fContentType :: string
  fSize :: int
  fCreatedAt :: gotime

text \<open>The primary key and the unique index on bucket and object key.\<close>

definition file_conflict :: "file_row \<Rightarrow> file_row \<Rightarrow> bool" where
  "file_conflict a b \<longleftrightarrow> fID a = fID b \<or> (fBucket a = fBucket b \<and> fObjectKey a = fObjectKey b)"

definition Files_Insert :: "bool \<Rightarrow> goerr option \<Rightarrow> gotime \<Rightarrow> file_row \<Rightarrow> file_row list \<Rightarrow> file_row res \<times> file_row list" where
  "Files_Insert pool fault now f tbl =
     (if \<not> pool then (Inl (Errorf ''database not connected''), tbl)
      else (case fault of
        Some err \<Rightarrow> (Inl (Wrapped ''insert file'' err), tbl)
      | None \<Rightarrow>
          if list_ex (file_conflict f) tbl then (Inl (Wrapped ''insert file'' (PgError ''23505'')), tbl)
          else if fSize f < 0 then (Inl (Wrapped ''insert file'' (PgError ''23514'')), tbl)
          else (let row = f\<lparr>fCreatedAt := now\<rparr> in (Inr row, tbl @ [row]))))"

definition GetByID :: "bool \<Rightarrow> goerr option \<Rightarrow> string \<Rightarrow> file_row list \<Rightarrow> file_row res" where
  "GetByID pool fault i tbl =
     (if \<not> pool then Inl (Errorf ''database not connected'')
      else (case fault of
        Some err \<Rightarrow> if err_is_norows err then Inl ErrNoRows else Inl (Wrapped ''get file'' err)
      | None \<Rightarrow> (case find (\<lambda>f. fID f = i) tbl of None \<Rightarrow> Inl ErrNoRows | Some f \<Rightarrow> Inr f)))"

text \<open>The condition on owner and tenant both statements use.\<close>

definition owned_where :: "string \<Rightarrow> string \<Rightarrow> file_row \<Rightarrow> bool" where
  "owned_where ownerID tenantID f \<longleftrightarrow> fOwner f = ownerID \<and> (tenantID = [] \<or> fTenant f = [] \<or> fTenant f = tenantID)"

definition file_limit :: "int \<Rightarrow> int" where
  "file_limit limit = (if limit \<le> 0 \<or> limit > 200 then 50 else limit)"

definition ListByOwner :: "bool \<Rightarrow> goerr option \<Rightarrow> string \<Rightarrow> string \<Rightarrow> int \<Rightarrow> file_row list \<Rightarrow> file_row list res" where
  "ListByOwner pool fault ownerID tenantID limit tbl =
     (if \<not> pool then Inl (Errorf ''database not connected'')
      else (case fault of
        Some err \<Rightarrow> Inl (Wrapped ''list files'' err)
      | None \<Rightarrow> Inr (newest (owned_where ownerID tenantID) fCreatedAt (nat (file_limit limit)) tbl)))"

definition DeleteByID ::
  "bool \<Rightarrow> goerr option \<Rightarrow> string \<Rightarrow> string \<Rightarrow> string \<Rightarrow> file_row list \<Rightarrow> goerr option \<times> file_row list" where
  "DeleteByID pool fault i ownerID tenantID tbl =
     (if \<not> pool then (Some (Errorf ''database not connected''), tbl)
      else (case fault of
        Some err \<Rightarrow> (Some (Wrapped ''delete file'' err), tbl)
      | None \<Rightarrow>
          (let hit = (\<lambda>f. fID f = i \<and> owned_where ownerID tenantID f) in
           if \<not> list_ex hit tbl then (Some ErrNoRows, tbl) else (None, filter (\<lambda>f. \<not> hit f) tbl))))"

section \<open>Environment and state\<close>

record 'n file_state =
  fsTable :: "file_row list"
  fsNet :: 'n

record form_file =
  ffName :: string
  ffSize :: int
  ffType :: string
  ffContent :: string

text \<open>
  \<open>feForm\<close> is \<^verbatim>\<open>ParseMultipartForm\<close> followed by \<^verbatim>\<open>FormFile\<close>: an error, no such field, or the file. \<open>feReplyType\<close> is the
  content type header of a storage reply.
\<close>

record 'n file_env =
  feS3 :: s3_env
  feHttp :: "'n http_client"
  feReplyType :: "http_out \<Rightarrow> 'n \<Rightarrow> string"
  feForm :: "int \<Rightarrow> request \<Rightarrow> form_file option res"
  feRand :: "bytes res"
  feFault :: "nat \<Rightarrow> goerr option"
  feNow :: gotime
  feHealth :: "'n file_state health"

definition fileJSON :: "(gotime \<Rightarrow> string) \<Rightarrow> file_row \<Rightarrow> json" where
  "fileJSON fmt f = JObj [(''file_id'', JStr (fID f)), (''tenant_id'', JStr (fTenant f)), (''owner_id'', JStr (fOwner f)),
     (''bucket'', JStr (fBucket f)), (''object_key'', JStr (fObjectKey f)), (''content_type'', JStr (fContentType f)),
     (''size_bytes'', JNum (Itoa (fSize f))), (''created_at'', JStr (fmt (fCreatedAt f)))]"

definition canAccess :: "Identity \<Rightarrow> file_row \<Rightarrow> bool" where
  "canAccess idn f =
     (if UserID idn \<noteq> fOwner f then False
      else if TenantID idn \<noteq> [] \<and> fTenant f \<noteq> [] \<and> TenantID idn \<noteq> fTenant f then False
      else True)"

text \<open>What the four handlers of one file share: find the row and check the caller.\<close>

definition load_row :: "bool \<Rightarrow> goerr option \<Rightarrow> Identity \<Rightarrow> request \<Rightarrow> file_row list \<Rightarrow> app_error + file_row" where
  "load_row pool fault idn r tbl =
     (case GetByID pool fault (path_value r ''id'') tbl of
        Inl err \<Rightarrow> if err_is_norows err then Inl (NotFound ''file_not_found'' ''file not found'')
                   else Inl (Internal ''lookup_failed'' ''could not load file metadata'')
      | Inr row \<Rightarrow> if \<not> canAccess idn row then Inl (Forbidden ''file_forbidden'' ''not allowed to access this file'') else Inr row)"

section \<open>Handlers\<close>

definition Meta_ServeHTTP :: "'n file_env \<Rightarrow> bool iface \<Rightarrow> 'n file_state handler" where
  "Meta_ServeHTTP E files r w s =
     (let idn = fst (FromContext r) in
      if iface_is_nil files then Served (fail (RequestID idn) (Internal ''database_unavailable'' ''database not connected'') w) s
      else if path_value r ''id'' = [] then Served (fail (RequestID idn) (BadRequest ''file_id_required'' ''file id is required'') w) s
      else with_store files (\<lambda>pool. case load_row pool (feFault E 0) idn r (fsTable s) of
          Inl e \<Rightarrow> Served (fail (RequestID idn) e w) s
        | Inr row \<Rightarrow> Served (respond_JSON 200 (fileJSON (fmtTime (seJson (feS3 E))) row) w) s) w s)"

definition quote :: char where "quote = char_of (34 :: int)"
definition apos :: char where "apos = char_of (39 :: int)"

definition download_headers :: "file_row \<Rightarrow> string \<Rightarrow> writer \<Rightarrow> writer" where
  "download_headers row replyType w =
     (let ct = (if fContentType row \<noteq> [] then fContentType row else replyType);
          w = (if ct \<noteq> [] then SetRespHeader ''Content-Type'' ct w else w);
          w = (if fSize row > 0 then SetRespHeader ''Content-Length'' (Itoa (fSize row)) w else w);
          name = path_Base (fObjectKey row)
      in if name \<noteq> [] \<and> name \<noteq> ''.''
         then SetRespHeader ''Content-Disposition'' (''attachment; filename='' @ [quote] @ name @ [quote]) w else w)"

definition Download_ServeHTTP :: "'n file_env \<Rightarrow> bool iface \<Rightarrow> s3_client option \<Rightarrow> 'n file_state handler" where
  "Download_ServeHTTP E files s3 r w s =
     (let idn = fst (FromContext r) in
      if iface_is_nil files then Served (fail (RequestID idn) (Internal ''database_unavailable'' ''database not connected'') w) s
      else if \<not> s3_Enabled s3 then Served (fail (RequestID idn) (Internal ''storage_unavailable'' ''object storage not configured'') w) s
      else if path_value r ''id'' = [] then Served (fail (RequestID idn) (BadRequest ''file_id_required'' ''file id is required'') w) s
      else with_store files (\<lambda>pool. case load_row pool (feFault E 0) idn r (fsTable s) of
          Inl e \<Rightarrow> Served (fail (RequestID idn) e w) s
        | Inr row \<Rightarrow> (case GetObject (feS3 E) (feHttp E) s3 (fObjectKey row) (fsNet s) of
            (Inl _, n) \<Rightarrow> Served (fail (RequestID idn) (Internal ''download_failed'' ''failed to fetch object'') w) (s\<lparr>fsNet := n\<rparr>)
          | (Inr rd, n) \<Rightarrow>
              (let replyType = (case s3 of Some c \<Rightarrow> feReplyType E (get_request (feS3 E) c (fObjectKey row)) (fsNet s) | None \<Rightarrow> []);
                   w = WriteHeader 200 (download_headers row replyType w)
               in Served (case rd of Inr bdy \<Rightarrow> WriteBody (BBytes bdy) w | Inl _ \<Rightarrow> w) (s\<lparr>fsNet := n\<rparr>)))) w s)"

definition url_maxExpiry :: duration where "url_maxExpiry = 7 * 24 * time_Hour"

definition NewURL_expiry :: "duration \<Rightarrow> duration" where
  "NewURL_expiry exp = (if exp \<le> 0 then time_Hour else exp)"

text \<open>The expiry a request asks for; the product with a second wraps around.\<close>

definition url_expiry :: "duration \<Rightarrow> request \<Rightarrow> duration option" where
  "url_expiry defaultExpiry r =
     (let raw = query_get r ''expires'';
          e = (if raw \<noteq> [] then (case Atoi raw of
                 None \<Rightarrow> None | Some sec \<Rightarrow> if sec \<le> 0 then None else Some (int64_mul sec time_Second))
               else Some defaultExpiry)
      in map_option (\<lambda>expiry. if expiry > url_maxExpiry then url_maxExpiry else expiry) e)"

definition URL_ServeHTTP :: "'n file_env \<Rightarrow> bool iface \<Rightarrow> s3_client option \<Rightarrow> duration \<Rightarrow> 'n file_state handler" where
  "URL_ServeHTTP E files s3 defaultExpiry r w s =
     (let idn = fst (FromContext r) in
      if iface_is_nil files then Served (fail (RequestID idn) (Internal ''database_unavailable'' ''database not connected'') w) s
      else if \<not> s3_Enabled s3 then Served (fail (RequestID idn) (Internal ''storage_unavailable'' ''object storage not configured'') w) s
      else if path_value r ''id'' = [] then Served (fail (RequestID idn) (BadRequest ''file_id_required'' ''file id is required'') w) s
      else with_store files (\<lambda>pool. case load_row pool (feFault E 0) idn r (fsTable s) of
          Inl e \<Rightarrow> Served (fail (RequestID idn) e w) s
        | Inr row \<Rightarrow> (case url_expiry defaultExpiry r of
            None \<Rightarrow> Served (fail (RequestID idn) (BadRequest ''invalid_expires'' ''expires must be a positive number of seconds'') w) s
          | Some expiry \<Rightarrow> (case PresignGetURL (seCrypto (feS3 E)) (feNow E) s3 (fObjectKey row) expiry of
              Inl _ \<Rightarrow> Served (fail (RequestID idn) (Internal ''presign_failed'' ''could not create download URL'') w) s
            | Inr (url, expiresAt) \<Rightarrow> Served (respond_JSON 200 (JObj [(''file_id'', JStr (fID row)), (''url'', JStr url),
                (''expires_at'', JStr (fmtTime (seJson (feS3 E)) expiresAt)), (''method'', JStr ''GET'')]) w) s))) w s)"

definition Delete_ServeHTTP :: "'n file_env \<Rightarrow> bool iface \<Rightarrow> s3_client option \<Rightarrow> 'n file_state handler" where
  "Delete_ServeHTTP E files s3 r w s =
     (let idn = fst (FromContext r) in
      if iface_is_nil files then Served (fail (RequestID idn) (Internal ''database_unavailable'' ''database not connected'') w) s
      else if \<not> s3_Enabled s3 then Served (fail (RequestID idn) (Internal ''storage_unavailable'' ''object storage not configured'') w) s
      else if path_value r ''id'' = [] then Served (fail (RequestID idn) (BadRequest ''file_id_required'' ''file id is required'') w) s
      else with_store files (\<lambda>pool. case load_row pool (feFault E 0) idn r (fsTable s) of
          Inl e \<Rightarrow> Served (fail (RequestID idn) e w) s
        | Inr row \<Rightarrow> (case DeleteObject (feS3 E) (feHttp E) s3 (fObjectKey row) (fsNet s) of
            (Some _, n) \<Rightarrow> Served (fail (RequestID idn) (Internal ''delete_failed'' ''failed to remove object'') w) (s\<lparr>fsNet := n\<rparr>)
          | (None, n) \<Rightarrow> (case DeleteByID pool (feFault E 1) (path_value r ''id'') (UserID idn) (TenantID idn) (fsTable s) of
              (Some err, tbl) \<Rightarrow> Served (fail (RequestID idn)
                 (if err_is_norows err then NotFound ''file_not_found'' ''file not found''
                  else Internal ''delete_failed'' ''failed to remove file metadata'') w) (s\<lparr>fsTable := tbl, fsNet := n\<rparr>)
            | (None, tbl) \<Rightarrow> Served (WriteHeader 204 w) (s\<lparr>fsTable := tbl, fsNet := n\<rparr>)))) w s)"

definition List_ServeHTTP :: "'n file_env \<Rightarrow> bool iface \<Rightarrow> 'n file_state handler" where
  "List_ServeHTTP E files r w s =
     (let idn = fst (FromContext r) in
      if iface_is_nil files then Served (fail (RequestID idn) (Internal ''database_unavailable'' ''database not connected'') w) s
      else (let raw = query_get r ''limit'';
                limit = (if raw \<noteq> [] then (case Atoi raw of Some n \<Rightarrow> if n > 0 then n else 50 | None \<Rightarrow> 50) else 50)
        in with_store files (\<lambda>pool. case ListByOwner pool (feFault E 0) (UserID idn) (TenantID idn) limit (fsTable s) of
            Inl _ \<Rightarrow> Served (fail (RequestID idn) (Internal ''list_failed'' ''could not list files'') w) s
          | Inr rows \<Rightarrow> Served (respond_JSON 200 (JObj [(''files'', JArr (map (fileJSON (fmtTime (seJson (feS3 E)))) rows))]) w) s) w s))"

section \<open>Upload\<close>

definition newFileID :: "bytes res \<Rightarrow> string res" where
  "newFileID rnd = (case rnd of Inl err \<Rightarrow> Inl err | Inr b \<Rightarrow> Inr (hex_encode b))"

definition sanitizeFilename :: "string \<Rightarrow> string" where
  "sanitizeFilename name =
     (let base = path_Base (TrimSpace name) in if base = [] \<or> base = ''.'' \<or> base = ''..'' then ''upload'' else base)"

definition objectKey :: "string \<Rightarrow> string \<Rightarrow> string \<Rightarrow> string \<Rightarrow> string" where
  "objectKey tenantID ownerID fileID filename =
     path_Join [if tenantID = [] then ''_'' else tenantID, ownerID, fileID, sanitizeFilename filename]"

definition MaxBytesFromEnv :: "osenv \<Rightarrow> int" where
  "MaxBytesFromEnv env =
     (let s = Env env ''FILE_MAX_BYTES'' [] in
      if s \<noteq> [] then (case Atoi s of Some n \<Rightarrow> if n > 0 then n else 20971520 | None \<Rightarrow> 20971520) else 20971520)"

definition PresignSecondsFromEnv :: "osenv \<Rightarrow> duration" where
  "PresignSecondsFromEnv env =
     (let s = Env env ''FILE_PRESIGN_SECONDS'' [] in
      if s \<noteq> [] then (case Atoi s of Some sec \<Rightarrow> if sec > 0 then int64_mul sec time_Second else time_Hour | None \<Rightarrow> time_Hour)
      else time_Hour)"

text \<open>The object first, then its record; the last part of the handler.\<close>

definition upload_store ::
  "'n file_env \<Rightarrow> bool iface \<Rightarrow> s3_client option \<Rightarrow> Identity \<Rightarrow> string \<Rightarrow> form_file \<Rightarrow> writer \<Rightarrow> 'n file_state \<Rightarrow> 'n file_state hres" where
  "upload_store E files s3 idn fileID f w s =
     (let contentType = (if ffType f = [] then ''application/octet-stream'' else ffType f);
          key = objectKey (TenantID idn) (UserID idn) fileID (ffName f)
      in case PutObject (feS3 E) (feHttp E) s3 key (ffContent f) contentType (fsNet s) of
        (Some _, n) \<Rightarrow> Served (fail (RequestID idn) (Internal ''upload_failed'' ''failed to store object'') w) (s\<lparr>fsNet := n\<rparr>)
      | (None, n) \<Rightarrow> with_store files (\<lambda>pool. case Files_Insert pool (feFault E 0) (feNow E)
            \<lparr>fID = fileID, fTenant = TenantID idn, fOwner = UserID idn, fBucket = Bucket s3, fObjectKey = key,
             fContentType = contentType, fSize = ffSize f, fCreatedAt = zero_time\<rparr> (fsTable s) of
          (Inl _, tbl) \<Rightarrow> Served (fail (RequestID idn) (Internal ''metadata_failed'' ''upload stored but metadata failed'') w)
            (s\<lparr>fsTable := tbl, fsNet := n\<rparr>)
        | (Inr row, tbl) \<Rightarrow> Served (respond_JSON 201 (fileJSON (fmtTime (seJson (feS3 E))) row) w)
            (s\<lparr>fsTable := tbl, fsNet := n\<rparr>)) w (s\<lparr>fsNet := n\<rparr>))"

definition Upload_ServeHTTP :: "'n file_env \<Rightarrow> bool iface \<Rightarrow> s3_client option \<Rightarrow> int \<Rightarrow> 'n file_state handler" where
  "Upload_ServeHTTP E files s3 maxBytes r w s =
     (let idn = fst (FromContext r) in
      if iface_is_nil files then Served (fail (RequestID idn) (Internal ''database_unavailable'' ''database not connected'') w) s
      else if \<not> s3_Enabled s3 then Served (fail (RequestID idn) (Internal ''storage_unavailable'' ''object storage not configured'') w) s
      else (case feForm E maxBytes r of
        Inl _ \<Rightarrow> Served (fail (RequestID idn) (BadRequest ''invalid_multipart'' ''could not parse multipart form'') w) s
      | Inr None \<Rightarrow> Served (fail (RequestID idn) (BadRequest ''file_required'' (''multipart field '' @ [apos] @ ''file'' @ [apos] @ '' is required'')) w) s
      | Inr (Some f) \<Rightarrow>
          if ffSize f > maxBytes then Served (fail (RequestID idn) (BadRequest ''file_too_large'' ''file exceeds size limit'') w) s
          else (case newFileID (feRand E) of
            Inl _ \<Rightarrow> Served (fail (RequestID idn) (Internal ''id_error'' ''could not allocate file id'') w) s
          | Inr fileID \<Rightarrow> upload_store E files s3 idn fileID f w s)))"

section \<open>Constructors\<close>

record access_config =
  acFiles :: "bool iface"
  acS3 :: "s3_client option"
  acDefaultExpiry :: duration

record upload_config =
  ucFiles :: "bool iface"
  ucS3 :: "s3_client option"
  ucMaxBytes :: int

definition NewMeta :: "'n file_env \<Rightarrow> access_config \<Rightarrow> 'n file_state handler" where
  [simp]: "NewMeta E cfg = Meta_ServeHTTP E (acFiles cfg)"

definition NewDownload :: "'n file_env \<Rightarrow> access_config \<Rightarrow> 'n file_state handler" where
  [simp]: "NewDownload E cfg = Download_ServeHTTP E (acFiles cfg) (acS3 cfg)"

definition NewURL :: "'n file_env \<Rightarrow> access_config \<Rightarrow> 'n file_state handler" where
  [simp]: "NewURL E cfg = URL_ServeHTTP E (acFiles cfg) (acS3 cfg) (NewURL_expiry (acDefaultExpiry cfg))"

definition NewDelete :: "'n file_env \<Rightarrow> access_config \<Rightarrow> 'n file_state handler" where
  [simp]: "NewDelete E cfg = Delete_ServeHTTP E (acFiles cfg) (acS3 cfg)"

definition NewList :: "'n file_env \<Rightarrow> access_config \<Rightarrow> 'n file_state handler" where
  [simp]: "NewList E cfg = List_ServeHTTP E (acFiles cfg)"

definition upload_New :: "'n file_env \<Rightarrow> upload_config \<Rightarrow> 'n file_state handler" where
  [simp]: "upload_New E cfg = Upload_ServeHTTP E (ucFiles cfg) (ucS3 cfg) (if ucMaxBytes cfg \<le> 0 then 20971520 else ucMaxBytes cfg)"

section \<open>Service\<close>

definition file_routes :: "'n file_env \<Rightarrow> upload_config \<Rightarrow> access_config \<Rightarrow> 'n file_state route list" where
  "file_routes E up cfg = health_routes (feHealth E) @
     [\<lparr>rtMethod = ''POST'', rtSegs = [Lit ''v1'', Lit ''files'', Multi],
       rtHandler = TrustedAuth (upload_New E up)\<rparr>,
      \<lparr>rtMethod = ''GET'', rtSegs = [Lit ''v1'', Lit ''files'', Multi], rtHandler = TrustedAuth (NewList E cfg)\<rparr>,
      \<lparr>rtMethod = ''GET'', rtSegs = [Lit ''v1'', Lit ''files'', Wild ''id''], rtHandler = TrustedAuth (NewMeta E cfg)\<rparr>,
      \<lparr>rtMethod = ''GET'', rtSegs = [Lit ''v1'', Lit ''files'', Wild ''id'', Lit ''download''],
       rtHandler = TrustedAuth (NewDownload E cfg)\<rparr>,
      \<lparr>rtMethod = ''GET'', rtSegs = [Lit ''v1'', Lit ''files'', Wild ''id'', Lit ''url''],
       rtHandler = TrustedAuth (NewURL E cfg)\<rparr>,
      \<lparr>rtMethod = ''DELETE'', rtSegs = [Lit ''v1'', Lit ''files'', Wild ''id''],
       rtHandler = TrustedAuth (NewDelete E cfg)\<rparr>]"

definition file_service ::
  "'n file_env \<Rightarrow> string \<Rightarrow> bool \<Rightarrow> s3_client option \<Rightarrow> osenv \<Rightarrow> (nat \<Rightarrow> bytes) \<Rightarrow> 'n file_state handler" where
  "file_service E token connected s3 env rnd =
     Chain (serve_mux (seJson (feS3 E)) (file_routes E
         \<lparr>ucFiles = store_iface connected, ucS3 = s3, ucMaxBytes = MaxBytesFromEnv env\<rparr>
         \<lparr>acFiles = store_iface connected, acS3 = s3, acDefaultExpiry = PresignSecondsFromEnv env\<rparr>))
       [GatewayTrust token, RequestID_mw (rnd 0), Recover, AccessLog, TraceContext (rnd 1) (rnd 2)]"

lemma file_routes_registered: "mux_Handle_all [] (file_routes E up cfg) = Some (file_routes E up cfg)"
  by (simp add: file_routes_def conflict_defs)

section \<open>Facts\<close>

lemma canAccess_where: "canAccess idn f \<longleftrightarrow> owned_where (UserID idn) (TenantID idn) f"
  by (auto simp: canAccess_def owned_where_def)

lemma load_row_forbidden:
  assumes "find (\<lambda>f. fID f = path_value r ''id'') tbl = Some row" "\<not> owned_where (UserID idn) (TenantID idn) row"
  shows "load_row True None idn r tbl = Inl (Forbidden ''file_forbidden'' ''not allowed to access this file'')"
  using assms by (simp add: load_row_def GetByID_def canAccess_where)

lemma load_row_Inr:
  assumes "load_row pool fault idn r tbl = Inr row"
  shows "find (\<lambda>f. fID f = path_value r ''id'') tbl = Some row \<and> owned_where (UserID idn) (TenantID idn) row"
  using assms by (auto simp: load_row_def GetByID_def canAccess_where split: sum.splits if_splits option.splits)

lemma load_row_Inl: "load_row pool fault idn r tbl = Inl e \<Longrightarrow> Status e \<noteq> 204"
  by (auto simp: load_row_def split: sum.splits if_splits)

lemma Files_Insert_Inr:
  assumes "Files_Insert pool fault now f tbl = (Inr row, tbl')"
  shows "row = f\<lparr>fCreatedAt := now\<rparr> \<and> tbl' = tbl @ [row] \<and> fID row \<notin> fID ` set tbl"
  using assms
  by (auto simp: Files_Insert_def Let_def list_ex_iff file_conflict_def split: if_splits option.splits)

lemma foldl_clean_plain: "list_all plain_elem cs \<Longrightarrow> foldl (clean_step b) st cs = rev cs @ st"
  by (induction cs arbitrary: st) (auto simp: plain_elem_def)

text \<open>Joining plain elements keeps them; a last element that is a slash disappears.\<close>

lemma path_Join_plain:
  assumes "list_all plain_elem es" "es \<noteq> []"
  shows "path_Join es = Join (CHR ''/'') es" "path_Join (es @ [''/'']) = Join (CHR ''/'') es"
proof -
  have ne: "filter (\<lambda>e. e \<noteq> []) es = es"
    using assms(1) by (induction es) (auto simp: plain_elem_def)
  have noslash: "\<forall>x\<in>set es. CHR ''/'' \<notin> set x" using assms(1) by (auto simp: list_all_iff plain_elem_def)
  obtain e es' where es: "es = e # es'" using assms(2) by (cases es) auto
  have hd: "e \<noteq> []" "hd e \<noteq> CHR ''/''" using assms(1) by (auto simp: es plain_elem_def) (metis list.set_sel(1))
  have unrooted: "\<not> HasPrefix (Join (CHR ''/'') (e # ys)) ''/''" for ys
    using Join_hd [of "e # ys" "CHR ''/''"] hd by (cases "Join (CHR ''/'') (e # ys)") (auto simp: HasPrefix_def)
  have clean: "path_Clean (Join (CHR ''/'') (e # ys)) = Join (CHR ''/'') es"
    if "foldl (clean_step False) [] (Split (CHR ''/'') (Join (CHR ''/'') (e # ys))) = rev es" for ys
    using that unrooted [of ys] assms(2) by (simp add: path_Clean_def clean_parts_def del: clean_step.simps)
  show "path_Join es = Join (CHR ''/'') es"
    using clean [of es'] foldl_clean_plain [OF assms(1), of False "[]"] Split_Join [OF assms(2) noslash] ne assms(2)
    by (simp add: path_Join_def es del: clean_step.simps)
  have snoc: "Join (CHR ''/'') (es @ [''/'']) = Join (CHR ''/'') (es @ [[], []])"
    using assms(2) by (induction es rule: Join.induct [of _ "CHR ''/''"]) auto
  have "Split (CHR ''/'') (Join (CHR ''/'') (es @ [[], []])) = es @ [[], []]"
    using noslash by (intro Split_Join) auto
  then have "foldl (clean_step False) [] (Split (CHR ''/'') (Join (CHR ''/'') (es @ [[], []]))) = rev es"
    using foldl_clean_plain [OF assms(1), of False "[]"] by simp
  moreover have "filter (\<lambda>e. e \<noteq> []) es' = es'" using ne hd(1) by (simp add: es)
  ultimately show "path_Join (es @ [''/'']) = Join (CHR ''/'') es"
    using clean [of "es' @ [[], []]"] snoc hd(1) by (simp add: path_Join_def es del: clean_step.simps)
qed

lemma sanitize_cases: "sanitizeFilename name = ''/'' \<or> plain_elem (sanitizeFilename name)"
proof -
  have "plain_elem b" if "b = last (Split (CHR ''/'') q)" "b \<noteq> []" "b \<noteq> ''.''" "b \<noteq> ''..''" for b q
    using that Split_elem_no_sep [of b "CHR ''/''" q] by (auto simp: plain_elem_def)
  moreover have "plain_elem ''upload''" by code_simp
  ultimately show ?thesis by (auto simp: sanitizeFilename_def path_Base_def Let_def)
qed

text \<open>An object key: tenant, owner, file id and the last element of the name, unless that is a slash.\<close>

lemma objectKey_join:
  assumes "tenant = [] \<or> plain_elem tenant" "plain_elem owner" "plain_elem fid"
  shows "objectKey tenant owner fid name = Join (CHR ''/'') ([if tenant = [] then ''_'' else tenant, owner, fid] @
    (if sanitizeFilename name = ''/'' then [] else [sanitizeFilename name]))"
proof -
  let ?t = "if tenant = [] then ''_'' else tenant"
  have "plain_elem ''_''" by code_simp
  then have t: "plain_elem ?t" using assms(1) by auto
  show ?thesis
    using path_Join_plain(2) [of "[?t, owner, fid]"] path_Join_plain(1) [of "[?t, owner, fid, sanitizeFilename name]"]
      sanitize_cases [of name] t assms(2,3)
    by (auto simp: objectKey_def)
qed

section \<open>Properties\<close>

text \<open>
  C4 No one reaches a file of another user or another tenant: for a stored file the caller does not own, metadata,
  download, pre-signed URL and deletion all answer 403, send nothing to the object storage and change nothing.
\<close>

theorem foreign_file_forbidden:
  assumes "Ctx r = Some idn" "path_value r ''id'' \<noteq> []" "s3_Enabled s3" "feFault E 0 = None"
    and "find (\<lambda>f. fID f = path_value r ''id'') (fsTable s) = Some row"
    and "fOwner row \<noteq> UserID idn \<or> (TenantID idn \<noteq> [] \<and> fTenant row \<noteq> [] \<and> fTenant row \<noteq> TenantID idn)"
    and "WSent w = None" "WBody w = []"
    and "h \<in> {Meta_ServeHTTP E (store_iface True), Download_ServeHTTP E (store_iface True) s3,
              URL_ServeHTTP E (store_iface True) s3 d, Delete_ServeHTTP E (store_iface True) s3}"
  shows "\<exists>w'. h r w s = Served w' s \<and> final_status w' = 403 \<and> error_code w' = Some ''file_forbidden''"
proof -
  have "\<not> owned_where (UserID idn) (TenantID idn) row" using assms(6) by (auto simp: owned_where_def)
  note no = load_row_forbidden [OF assms(5) this]
  have ctx: "fst (FromContext r) = idn" using assms(1) by (simp add: FromContext_def)
  have "h r w s = Served (fail (RequestID idn) (Forbidden ''file_forbidden'' ''not allowed to access this file'') w) s"
    using assms(2,3,4,9) no ctx
    by (auto simp: Meta_ServeHTTP_def Download_ServeHTTP_def URL_ServeHTTP_def Delete_ServeHTTP_def Let_def
        store_iface_def with_store_def)
  with assms(7,8) show ?thesis by simp
qed

text \<open>
  An upload that answers 201 adds exactly one row, owned by the caller in the caller's tenant, describes it in the
  response, and the caller can read it back under its new id.
\<close>

theorem upload_then_read:
  assumes "Ctx r = Some idn" "Upload_ServeHTTP E files s3 mb r new_writer s = Served w' s'" "final_status w' = 201"
    and "Ctx r2 = Some idn" "feRand E = Inr b" "path_value r2 ''id'' = hex_encode b" "b \<noteq> []" "feFault E2 0 = None"
  shows "\<exists>row. fsTable s' = fsTable s @ [row] \<and> fOwner row = UserID idn \<and> fTenant row = TenantID idn \<and>
    WBody w' = [BJson (fileJSON (fmtTime (seJson (feS3 E))) row)] \<and>
    Meta_ServeHTTP E2 (store_iface True) r2 w2 s' = Served (respond_JSON 200 (fileJSON (fmtTime (seJson (feS3 E2))) row) w2) s'"
proof -
  have ctx: "fst (FromContext r) = idn" "fst (FromContext r2) = idn" using assms(1,4) by (simp_all add: FromContext_def)
  obtain pool f row where ins: "Files_Insert pool (feFault E 0) (feNow E) f (fsTable s) = (Inr row, fsTable s')"
    and f: "fID f = hex_encode b" "fTenant f = TenantID idn" "fOwner f = UserID idn"
    and body: "WBody w' = [BJson (fileJSON (fmtTime (seJson (feS3 E))) row)]"
    using assms(2,3,5) ctx
    by (auto simp: Upload_ServeHTTP_def upload_store_def newFileID_def Let_def with_store_def
        split: if_splits sum.splits option.splits prod.splits iface.splits)
  note ins' = Files_Insert_Inr [OF ins]
  have "find (\<lambda>x. fID x = hex_encode b) (fsTable s) = None"
    using ins' f(1) by (auto simp: find_None_iff_all) (metis image_eqI)
  then have "find (\<lambda>x. fID x = hex_encode b) (fsTable s') = Some row"
    using ins' f(1) by (simp add: find_append)
  then have "load_row True None idn r2 (fsTable s') = Inr row"
    using ins' f assms(6) by (simp add: load_row_def GetByID_def canAccess_def)
  then show ?thesis
    using ins' f body ctx assms(6,7,8)
    by (auto simp: Meta_ServeHTTP_def Let_def store_iface_def with_store_def)
qed

text \<open>
  A deletion that answers 204 removes the caller's file and no other row: the condition of the SQL statement agrees
  with the access check made before it.
\<close>

theorem delete_removes_own_file:
  assumes "Ctx r = Some idn" "keyed fID (fsTable s)"
    and "Delete_ServeHTTP E files s3 r new_writer s = Served w' s'" "final_status w' = 204"
  shows "fsTable s' = filter (\<lambda>f. fID f \<noteq> path_value r ''id'') (fsTable s) \<and>
    (\<exists>row\<in>set (fsTable s). fID row = path_value r ''id'' \<and> fOwner row = UserID idn)"
proof -
  have ctx: "fst (FromContext r) = idn" using assms(1) by (simp add: FromContext_def)
  obtain pool row where l: "load_row pool (feFault E 0) idn r (fsTable s) = Inr row"
    and d: "DeleteByID pool (feFault E 1) (path_value r ''id'') (UserID idn) (TenantID idn) (fsTable s) = (None, fsTable s')"
    using assms(3,4) ctx
    by (auto simp: Delete_ServeHTTP_def Let_def with_store_def dest: load_row_Inl
        split: if_splits sum.splits option.splits prod.splits iface.splits)
  have row: "row \<in> set (fsTable s)" "fID row = path_value r ''id''" "owned_where (UserID idn) (TenantID idn) row"
    using load_row_Inr [OF l] by (auto simp: find_Some_iff)
  have same: "f = row" if "f \<in> set (fsTable s)" "fID f = path_value r ''id''" for f
    using that row(1,2) assms(2) unfolding keyed_def distinct_map by (metis inj_onD)
  have "filter (\<lambda>f. \<not> (fID f = path_value r ''id'' \<and> owned_where (UserID idn) (TenantID idn) f)) (fsTable s) =
      filter (\<lambda>f. fID f \<noteq> path_value r ''id'') (fsTable s)"
    using same row(3) by (intro filter_cong) auto
  then have "fsTable s' = filter (\<lambda>f. fID f \<noteq> path_value r ''id'') (fsTable s)"
    using d by (auto simp: DeleteByID_def Let_def split: if_splits option.splits)
  moreover have "fOwner row = UserID idn" using row(3) by (simp add: owned_where_def)
  ultimately show ?thesis using row(1,2) by blast
qed

text \<open>
  The object goes before its metadata: when the database fails after the object was removed, the answer is 500 and
  the row stays, describing an object that no longer exists.
\<close>

theorem delete_orphans_metadata:
  assumes "Ctx r = Some idn" "path_value r ''id'' \<noteq> []" "s3_Enabled s3"
    and "load_row True (feFault E 0) idn r (fsTable s) = Inr row"
    and "DeleteObject (feS3 E) (feHttp E) s3 (fObjectKey row) (fsNet s) = (None, n)"
    and "feFault E 1 = Some err" "\<not> err_is_norows err" "WSent w = None"
  shows "\<exists>w'. Delete_ServeHTTP E (store_iface True) s3 r w s = Served w' (s\<lparr>fsNet := n\<rparr>) \<and> final_status w' = 500 \<and>
    row \<in> set (fsTable s)"
proof -
  have "row \<in> set (fsTable s)" using load_row_Inr [OF assms(4)] by (auto simp: find_Some_iff)
  with assms show ?thesis
    by (simp add: Delete_ServeHTTP_def Let_def store_iface_def with_store_def FromContext_def DeleteByID_def)
qed

text \<open>
  C36 Uploaded objects stay inside the caller's directory: when tenant, user and file id are plain path elements, the
  object key is that directory, followed by at most one plain element, whatever name the client sends.
\<close>

theorem object_key_contained:
  assumes "tenant = [] \<or> plain_elem tenant" "plain_elem owner" "plain_elem fid"
  shows "\<exists>rest. objectKey tenant owner fid name =
      (if tenant = [] then ''_'' else tenant) @ ''/'' @ owner @ ''/'' @ fid @ rest \<and>
    (rest = [] \<or> (\<exists>b. rest = CHR ''/'' # b \<and> plain_elem b))"
  using objectKey_join [OF assms, of name] sanitize_cases [of name]
  by (cases "sanitizeFilename name = ''/''") auto

text \<open>
  A very long expiry is not cut to the maximum of seven days: the product of seconds overflows to a negative
  duration, for which the URL gets the default of one hour.
\<close>

theorem expires_overflow:
  assumes "query_get r ''expires'' = ''9223372037''"
  shows "\<exists>e. url_expiry d r = Some e \<and> e < 0 \<and> presign_expiry e = time_Hour"
proof -
  have "Atoi ''9223372037'' = Some 9223372037" by code_simp
  moreover have "int64_mul 9223372037 time_Second = - 9223372036709551616" by code_simp
  ultimately show ?thesis using assms
    by (simp add: url_expiry_def url_maxExpiry_def presign_expiry_def maxPresignExpiry_def time_unit_defs Let_def)
qed

end
