(* ===== verification/Samples.thy ===== *)
theory Samples
  imports Proxy Outbox AuthService Files
begin

text \<open>
  Concrete instances of the parameters, at which the properties with hypotheses are applied: a JSON table for a few
  documents, a token library with one valid token, a one-value codec, requests and configurations. They satisfy the
  named laws of the parameters.
\<close>

section \<open>Requests\<close>

definition req0 :: request where
  "req0 = \<lparr>Method = ''GET'', Path = ''/'', Query = [], Header = Map.empty, Cookies = [], Body = Inr [], RemoteAddr = ''10.0.0.1:80'',
     PathValues = [], Ctx = None\<rparr>"

lemma req0_simps [simp]:
  "Method req0 = ''GET''" "Path req0 = ''/''" "Query req0 = []" "Header req0 = Map.empty" "Cookies req0 = []" "Body req0 = Inr []"
  "RemoteAddr req0 = ''10.0.0.1:80''" "PathValues req0 = []" "Ctx req0 = None"
  by (simp_all add: req0_def)

definition alice :: Identity where
  "alice = \<lparr>RequestID = [], UserID = ''alice'', TenantID = ''t1'', Roles = [''user''], Scopes = [], Subject = ''alice''\<rparr>"

lemma alice_simps [simp]:
  "RequestID alice = []" "UserID alice = ''alice''" "TenantID alice = ''t1''" "Roles alice = [''user'']" "Scopes alice = []"
  "Subject alice = ''alice''"
  by (simp_all add: alice_def)

section \<open>JSON\<close>

text \<open>The documents a sample needs, each under a short text.\<close>

definition table_json :: "(string \<times> json) list \<Rightarrow> json_env" where
  "table_json docs =
     \<lparr>jenc = (\<lambda>v. case find (\<lambda>d. snd d = v) docs of Some d \<Rightarrow> fst d | None \<Rightarrow> []), jdec = map_of docs,
      fmtTime = (\<lambda>_. ''2026-01-02T03:04:05Z''), badURL = (\<lambda>_. None), urlString = (\<lambda>p q. p)\<rparr>"

lemma table_json_simps [simp]:
  "jdec (table_json docs) = map_of docs" "badURL (table_json docs) u = None" "fmtTime (table_json docs) t = ''2026-01-02T03:04:05Z''"
  by (simp_all add: table_json_def)

section \<open>Tokens\<close>

text \<open>A library that signs and accepts one set of claims, as the token \<^verbatim>\<open>good\<close>.\<close>

definition one_exp :: "gomap \<Rightarrow> gotime res" where
  "one_exp claims = (case map_get claims ''exp'' of
     Some (JNum l) \<Rightarrow> (case Atoi l of Some n \<Rightarrow> Inr (n * time_Second) | None \<Rightarrow> Inl (Errorf ''exp''))
   | _ \<Rightarrow> Inl (Errorf ''exp''))"

definition one_jwt :: "string \<Rightarrow> string \<Rightarrow> string \<Rightarrow> gomap \<Rightarrow> jwt_lib" where
  "one_jwt alg key kid claims =
     \<lparr>jwtParse = (\<lambda>kf methods now s.
        if s = ''good'' \<and> kf alg kid = Inr key \<and> (case methods of None \<Rightarrow> True | Some ms \<Rightarrow> alg \<in> set ms) \<and>
           (case one_exp claims of Inr e \<Rightarrow> now < e | Inl _ \<Rightarrow> False)
        then Inr \<lparr>TokAlg = alg, TokKid = kid, TokClaims = Some claims, TokValid = True\<rparr> else Inl (Errorf ''invalid'')),
      jwtExp = one_exp,
      jwtSign = (\<lambda>a k i c. if (a, k, i, c) = (alg, key, kid, claims) then Inr ''good'' else Inl (Errorf ''sign'')),
      jwtSig = (\<lambda>a k s. a = alg \<and> k = key \<and> s = ''good'')\<rparr>"

lemma one_jwt_complete: "jwt_complete (one_jwt alg key kid claims) (\<lambda>k. k)"
  by (auto simp: jwt_complete_def one_jwt_def split: if_splits)

lemma one_jwt_exp_law: "jwt_exp_law (one_jwt alg key kid claims)"
  by (auto simp: jwt_exp_law_def one_jwt_def one_exp_def Atoi_Itoa in_int64_def split: option.splits)

definition alice_claims :: gomap where
  "alice_claims = [(''sub'', JStr ''alice''), (''tenant_id'', JStr ''t1''), (''roles'', JArr [JStr ''user'']), (''exp'', JNum ''1000'')]"

definition dev_verifier :: verifier where
  "dev_verifier = \<lparr>vcfg = \<lparr>Issuers = [], JWKSURLs = [], Audience = [], DevSecret = ''secret''\<rparr>, vjwks = None\<rparr>"

definition dev_jwt :: jwt_lib where "dev_jwt = one_jwt ''HS256'' ''secret'' [] alice_claims"

lemma alice_exp: "one_exp alice_claims = Inr (1000 * time_Second)"
  by code_simp

lemma alice_mapped: "mapClaims alice_claims = alice"
  by code_simp

lemma dev_verify: "t < 1000 * time_Second \<Longrightarrow> Verify dev_jwt t dev_verifier ''good'' = Inr alice"
  by (simp add: Verify_def verifier_Enabled_def dev_verifier_def parseWithHMAC_def check_token_def dev_jwt_def one_jwt_def
      hmac_keyfunc_def alice_exp validateStandardClaims_def alice_mapped)

lemma dev_verify_now: "Verify dev_jwt time_Second dev_verifier ''good'' = Inr alice"
  by (rule dev_verify) (simp add: time_Second_def)

lemma dev_verify_bad: "\<exists>e. Verify dev_jwt t dev_verifier ''bad'' = Inl e"
  by (simp add: Verify_def verifier_Enabled_def dev_verifier_def parseWithHMAC_def check_token_def dev_jwt_def one_jwt_def)

section \<open>Codecs and stores\<close>

definition one_codec :: "'a \<Rightarrow> 'a codec" where
  "one_codec x = \<lparr>marshal = (\<lambda>_. Inr ''doc''), unmarshal = (\<lambda>_. Inr x)\<rparr>"

lemma one_codec_ok: "codec_ok (one_codec x) x"
  by (simp add: codec_ok_def one_codec_def)

definition day_sessions :: sess_store where
  "day_sessions = \<lparr>sess_rdb = True, sess_ttl = 24 * time_Hour, sess_cookieName = ''tb_session'', sess_prefix = ''gw:session:''\<rparr>"

definition month_revocations :: rev_store where
  "month_revocations = \<lparr>rev_rdb = True, rev_prefix = ''auth:revoked:'', rev_ttl = rev_defaultTTL\<rparr>"

definition alice_session :: session_data where
  "alice_session = \<lparr>AccessToken = ''good'', RefreshToken = [], SIdentity = alice, ExpiresAt = 1000 * time_Second\<rparr>"

definition audit_emitter :: http_emitter where
  "audit_emitter = \<lparr>em_baseURL = ''http://audit'', em_token = ''tok''\<rparr>"

definition entry_emitter :: "async_emitter iface" where
  "entry_emitter = IPtr (Some \<lparr>as_inner = IPtr (Some audit_emitter)\<rparr>)"

end
