(* ===== verification/GatewayReplicas.thy ===== *)
theory GatewayReplicas
  imports RateLimit
begin

text \<open>
  Several gateways, or several requests in one, over one Redis server: an operation that sends more than one command is not
  atomic. Here the operations with two commands are taken apart: \<^verbatim>\<open>ConsumePending\<close> (GET, then DEL) and the window limiter
  (INCR, then EXPIRE), with the commands of all requests interleaved in any order and requests abandoned anywhere.
\<close>

section \<open>Pending logins\<close>

subsection \<open>Steps\<close>

text \<open>How far a callback got in \<^verbatim>\<open>ConsumePending\<close>: nothing sent, the answer of GET in hand, or returned.\<close>

datatype consume_pc = NotBegun | Holding string string | Consumed "PendingLogin res"

record 'r callbacks =
  cbRedis :: 'r
  cbPc :: "nat \<Rightarrow> consume_pc"

text \<open>Callback \<open>i\<close> sends its GET for a state, or its DEL; something else changes the server.\<close>

datatype 'r cb_action = GetPending nat gotime string | DelPending nat gotime | Elsewhere "'r \<Rightarrow> 'r"

fun cb_act :: "'r redis \<Rightarrow> PendingLogin codec \<Rightarrow> sess_store option \<Rightarrow> 'r cb_action \<Rightarrow> 'r callbacks \<Rightarrow> 'r callbacks" where
  "cb_act R C so (GetPending i t state) S =
     (if cbPc S i \<noteq> NotBegun then S
      else if \<not> sess_Enabled so then S\<lparr>cbPc := (cbPc S)(i := Consumed (Inl (Errorf ''session store unavailable'')))\<rparr>
      else (case rGet R t (pending_key state) (cbRedis S) of
        Inl err \<Rightarrow> S\<lparr>cbPc := (cbPc S)(i := Consumed (Inl err))\<rparr>
      | Inr raw \<Rightarrow> S\<lparr>cbPc := (cbPc S)(i := Holding state raw)\<rparr>))"
| "cb_act R C so (DelPending i t) S = (case cbPc S i of
     Holding state raw \<Rightarrow>
       S\<lparr>cbRedis := snd (rDel R t (pending_key state) (cbRedis S)), cbPc := (cbPc S)(i := Consumed (unmarshal C raw))\<rparr>
   | _ \<Rightarrow> S)"
| "cb_act R C so (Elsewhere f) S = S\<lparr>cbRedis := f (cbRedis S)\<rparr>"

fun cb_run :: "'r redis \<Rightarrow> PendingLogin codec \<Rightarrow> sess_store option \<Rightarrow> 'r cb_action list \<Rightarrow> 'r callbacks \<Rightarrow> 'r callbacks" where
  "cb_run R C so [] S = S"
| "cb_run R C so (a # as) S = cb_run R C so as (cb_act R C so a S)"

text \<open>A callback whose two commands are not interrupted does what the operation does.\<close>

lemma consume_is_run:
  assumes "cbPc S i = NotBegun" "cb_run R C so [GetPending i t state, DelPending i t] S = S'"
  shows "(cbPc S' i, cbRedis S') = (Consumed (fst (ConsumePending R C t so state (cbRedis S))), snd (ConsumePending R C t so state (cbRedis S)))"
  using assms by (auto simp: ConsumePending_def Let_def split: sum.splits)

subsection \<open>One consumption\<close>

text \<open>Actions up to an instant, among which nobody saves a login under the state.\<close>

fun cb_quiet :: "'r view \<Rightarrow> string \<Rightarrow> gotime \<Rightarrow> 'r cb_action \<Rightarrow> bool" where
  "cb_quiet view K t' (GetPending i t state) \<longleftrightarrow> t \<le> t'"
| "cb_quiet view K t' (DelPending i t) \<longleftrightarrow> t \<le> t'"
| "cb_quiet view K t' (Elsewhere f) \<longleftrightarrow> (\<forall>st. view st t' K = None \<longrightarrow> view (f st) t' K = None)"

lemma del_hides:
  assumes "redis_laws R view" "redis_up R view" "t \<le> t'" "rDel R t k st = (e, st')"
  shows "view st' t' k' = (if k' = k then None else view st t' k')"
proof -
  have "e = None" using assms(2,4) unfolding redis_up_def by (metis fst_conv)
  then show ?thesis using rDel_view [OF assms(1) _ assms(3)] assms(4) by simp
qed

lemma quiet_act:
  assumes laws: "redis_laws R view" "redis_up R view" and "cb_quiet view K t' a" "view (cbRedis S) t' K = None"
  shows "view (cbRedis (cb_act R C so a S)) t' K = None"
proof (cases a)
  case (DelPending i t)
  have "view (snd (rDel R t k st)) t' K = None" if "view st t' K = None" for k st
    using del_hides [OF laws, of t t' k st] assms(3) DelPending that by (cases "rDel R t k st") simp
  then show ?thesis using DelPending assms(4) by (simp split: consume_pc.split)
qed (use assms(3,4) in \<open>auto split: sum.split\<close>)

lemma quiet_run:
  assumes laws: "redis_laws R view" "redis_up R view"
  shows "\<forall>a\<in>set as. cb_quiet view K t' a \<Longrightarrow> view (cbRedis S) t' K = None \<Longrightarrow> view (cbRedis (cb_run R C so as S)) t' K = None"
  using quiet_act [OF laws] by (induction as arbitrary: S) simp_all

text \<open>
  C7 A pending login is consumed at most once by callbacks that do not overlap: once one of them has sent its DEL, no callback
  that begins later gets it, however many others are under way and whatever they do in between.
\<close>

theorem pending_consumed_once:
  assumes laws: "redis_laws R view" "redis_up R view" and en: "sess_Enabled so"
    and taken: "cbPc S1 i = Holding state raw" "t \<le> t'"
    and later: "S2 = cb_run R C so as (cb_act R C so (DelPending i t) S1)" "\<forall>a\<in>set as. cb_quiet view (pending_key state) t' a"
    and begins: "cbPc S2 j = NotBegun"
  shows "\<exists>e. cbPc (cb_act R C so (GetPending j t' state) S2) j = Consumed (Inl e)"
proof -
  let ?S = "cb_act R C so (DelPending i t) S1"
  have "view (cbRedis ?S) t' (pending_key state) = None"
    using del_hides [OF laws taken(2), of "pending_key state" "cbRedis S1"] taken(1)
    by (cases "rDel R t (pending_key state) (cbRedis S1)") simp
  from quiet_run [OF laws later(2) this] later(1) have "view (cbRedis S2) t' (pending_key state) = None" by simp
  from rGet_invisible [OF laws(1) this] begins en show ?thesis by auto
qed

text \<open>Two callbacks that overlap both get it: GET and DEL are two commands.\<close>

lemma overlapping_callbacks_both_consume:
  assumes laws: "redis_laws R view" "redis_up R view" and en: "sess_Enabled so"
    and there: "view (cbRedis S) t (pending_key state) = Some raw" "unmarshal C raw = Inr p"
    and two: "i \<noteq> j" "cbPc S i = NotBegun" "cbPc S j = NotBegun"
    and run: "S' = cb_run R C so [GetPending i t state, GetPending j t state, DelPending i t, DelPending j t] S"
  shows "cbPc S' i = Consumed (Inr p) \<and> cbPc S' j = Consumed (Inr p)"
proof -
  have "rGet R t (pending_key state) (cbRedis S) = Inr raw" using laws(2) there(1) by (simp add: redis_up_def)
  then show ?thesis using en there(2) two run by auto
qed

section \<open>The window limiter\<close>

subsection \<open>Steps\<close>

text \<open>
  \<^verbatim>\<open>allow\<close> up to its INCR: the decision, and whether an EXPIRE is to follow. A replica may send that late or never.
\<close>

definition allow_count :: "'r redis \<Rightarrow> gotime \<Rightarrow> redis_limiter \<Rightarrow> string \<Rightarrow> string \<Rightarrow> 'r \<Rightarrow> bool \<times> bool res \<times> 'r" where
  "allow_count R now l zone ip st =
     (if \<not> rlRdb l then (False, Inr True, st)
      else (let wl = zone_limit l zone in
        if wlMax wl \<le> 0 then (False, Inr True, st)
        else (case rIncr R now (rl_key wl now zone ip) st of
          (Inl err, st') \<Rightarrow> (False, Inl err, st')
        | (Inr n, st') \<Rightarrow> (n = 1, Inr (n \<le> wlMax wl), st'))))"

definition allow_expire :: "'r redis \<Rightarrow> redis_limiter \<Rightarrow> string \<Rightarrow> string \<Rightarrow> gotime \<Rightarrow> string \<Rightarrow> 'r \<Rightarrow> 'r" where
  "allow_expire R l zone ip t key st = snd (rExpire R t key (wlPeriod (zone_limit l zone) + time_Second) st)"

lemma redis_allow_steps:
  "redis_allow R now (Some l) zone ip st = (case allow_count R now l zone ip st of (first, d, st') \<Rightarrow>
     (d, if first then allow_expire R l zone ip now (rl_key (zone_limit l zone) now zone ip) st' else st'))"
  by (auto simp: redis_allow_def allow_count_def allow_expire_def Let_def split: prod.splits sum.splits)

text \<open>The commands of all replicas in the order the server gets them; the results are those of the INCRs.\<close>

datatype rl_command = Count gotime string string | Expire gotime string string string

fun cmd_time :: "rl_command \<Rightarrow> gotime" where
  "cmd_time (Count t zone ip) = t"
| "cmd_time (Expire t zone ip key) = t"

fun cmd_req :: "rl_command \<Rightarrow> rl_req list" where
  "cmd_req (Count t zone ip) = [(t, zone, ip)]"
| "cmd_req (Expire t zone ip key) = []"

fun cmd_run :: "'r redis \<Rightarrow> redis_limiter \<Rightarrow> rl_command list \<Rightarrow> 'r \<Rightarrow> (rl_req \<times> bool res) list" where
  "cmd_run R l [] st = []"
| "cmd_run R l (Count t zone ip # cs) st = (case allow_count R t l zone ip st of (first, d, st') \<Rightarrow> ((t, zone, ip), d) # cmd_run R l cs st')"
| "cmd_run R l (Expire t zone ip key # cs) st = cmd_run R l cs (allow_expire R l zone ip t key st)"

text \<open>Requests one after the other are the case where each sends its commands uninterrupted.\<close>

lemma requests_are_commands:
  "\<exists>cs. concat (map cmd_req cs) = qs \<and> map snd (cmd_run R l cs st) = rl_run R l qs st \<and> set (map cmd_time cs) \<subseteq> fst ` set qs"
proof (induction qs arbitrary: st)
  case Nil
  show ?case by (intro exI [of _ "[]"]) simp
next
  case (Cons q qs)
  obtain t zone ip where q: "q = (t, zone, ip)" by (cases q)
  obtain first d st' where c: "allow_count R t l zone ip st = (first, d, st')" by (metis prod_cases3)
  let ?key = "rl_key (zone_limit l zone) t zone ip"
  let ?st = "if first then allow_expire R l zone ip t ?key st' else st'"
  obtain cs where cs: "concat (map cmd_req cs) = qs" "map snd (cmd_run R l cs ?st) = rl_run R l qs ?st" "set (map cmd_time cs) \<subseteq> fst ` set qs"
    using Cons.IH by blast
  let ?cs = "Count t zone ip # (if first then [Expire t zone ip ?key] else []) @ cs"
  have "concat (map cmd_req ?cs) = q # qs" "map snd (cmd_run R l ?cs st) = rl_run R l (q # qs) st" "set (map cmd_time ?cs) \<subseteq> fst ` set (q # qs)"
    using cs c q by (auto simp: redis_allow_steps)
  then show ?case by blast
qed

subsection \<open>The counter of a window\<close>

lemma count_frame:
  assumes laws: "redis_laws R view" and up: "redis_up R view" and t: "t \<le> t'"
    and key: "key \<noteq> rl_key (zone_limit l zone) t zone ip" and run: "allow_count R t l zone ip st = (first, d, st')"
  shows "view st' t' key = view st t' key"
proof -
  let ?k = "rl_key (zone_limit l zone) t zone ip"
  have "view s1 t' key = view st t' key" if "rIncr R t ?k st = (x, s1)" for x s1
  proof (cases x)
    case (Inl err)
    then have "s1 = st" using up that unfolding redis_up_def by (metis fst_conv snd_conv)
    then show ?thesis by simp
  next
    case (Inr m)
    with that have "rIncr R t ?k st = (Inr m, s1)" by simp
    from rIncr_law(2) [OF laws this t key] show ?thesis .
  qed
  with run show ?thesis by (auto simp: allow_count_def Let_def split: if_splits prod.splits sum.splits)
qed

lemma expire_keeps_counted:
  assumes laws: "redis_laws R view" and up: "redis_up R view" and period: "wlPeriod (zone_limit l zone) = time_Second"
    and c: "counted view key e st t n" and t: "t \<le> t1" "t1 < e \<longrightarrow> e \<le> t1 + 2 * time_Second"
  shows "counted view key e (allow_expire R l zone ip t1 k st) t1 n"
proof -
  have d: "ex_secs (wlPeriod (zone_limit l zone) + time_Second) = 2 * time_Second"
    using period by (simp add: ex_secs_def time_Second_def)
  obtain s2 where ex: "rExpire R t1 k (wlPeriod (zone_limit l zone) + time_Second) st = (None, s2)"
    using up unfolding redis_up_def by (metis prod.collapse)
  have "view s2 t' key = view st t' key" if "t1 \<le> t'" "t' < e" for t'
  proof (cases "view st t1 k")
    case (Some v)
    have "view st t1 key = view st t' key" using c t(1) that by (simp add: counted_def)
    moreover have "t' < t1 + 2 * time_Second" using t(2) that by linarith
    ultimately show ?thesis using rExpire_law [OF laws ex that(1), of key] Some d by auto
  qed (use rExpire_law [OF laws ex that(1), of key] in simp)
  then show ?thesis using c t(1) by (simp add: counted_def allow_expire_def ex)
qed

lemma cmd_run_counted:
  assumes laws: "redis_laws R view" and up: "redis_up R view" and l: "l = newRedisLimiter oor True cfg"
    and max: "0 < wlMax (zone_limit l zone)" and zone: "known_zone zone"
    and K: "K = rl_key (zone_limit l zone) t0 zone ip"
    and c: "counted view K e st t n"
    and cs: "sorted (t # map cmd_time cs)" "\<forall>c\<in>set cs. cmd_time c < e \<longrightarrow> e \<le> cmd_time c + time_Second"
      "\<forall>(t', z, i)\<in>set (concat (map cmd_req cs)). t' < e \<and> known_zone z"
    and n: "int n + int (length cs) < 2 ^ 63"
  shows "map snd (filter (\<lambda>(q, d). req_key l q = K) (cmd_run R l cs st))
     = map (\<lambda>i. Inr (int i < wlMax (zone_limit l zone))) [n..<n + length (filter (\<lambda>q. req_key l q = K) (concat (map cmd_req cs)))]"
  using c cs n
proof (induction cs arbitrary: st t n)
  case (Cons cmd cs)
  have t1: "t \<le> cmd_time cmd" "sorted (cmd_time cmd # map cmd_time cs)" using Cons.prems(2) by auto
  have c1: "counted view K e st (cmd_time cmd) n" using counted_later [OF Cons.prems(1) t1(1)] .
  have rest: "\<forall>c\<in>set cs. cmd_time c < e \<longrightarrow> e \<le> cmd_time c + time_Second"
    "\<forall>(t', z, i)\<in>set (concat (map cmd_req cs)). t' < e \<and> known_zone z" "int n + int (length cs) < 2 ^ 63"
    using Cons.prems(3-5) by auto
  have period: "wlPeriod (zone_limit l z) = time_Second" "rlRdb l" for z
    using l by (simp_all add: newRedisLimiter_def zone_limit_def)
  show ?case
  proof (cases cmd)
    case (Expire t' z i k)
    have "t' < e \<longrightarrow> e \<le> t' + 2 * time_Second" using Cons.prems(3) Expire by (auto simp: time_Second_def)
    then have "counted view K e (allow_expire R l z i t' k st) t' n"
      using expire_keeps_counted [OF laws up period(1) c1, of t' z] Expire by simp
    from Cons.IH [OF this _ rest(1,2,3)] t1(2) Expire show ?thesis by simp
  next
    case (Count t' z i)
    have t': "t' < e" "known_zone z" using Cons.prems(4) Count by auto
    obtain first d st' where run: "allow_count R t' l z i st = (first, d, st')" by (metis prod_cases3)
    show ?thesis
    proof (cases "req_key l (t', z, i) = K")
      case True
      then have k: "K = rl_key (zone_limit l z) t' z i" by (simp add: req_key_def)
      with K rl_key_zone zone t'(2) have z: "z = zone" by metis
      have "counted view K e st t' n" "int n + 1 < 2 ^ 63" using c1 Count Cons.prems(5) by auto
      then obtain s1 where inc: "rIncr R t' K st = (Inr (int n + 1), s1)" "counted view K e s1 t' (Suc n)"
        using incr_counted [OF laws up _ t'(1)] by blast
      then have now: "d = Inr (int n < wlMax (zone_limit l zone))" "st' = s1"
        using run max period(2) k z by (auto simp: allow_count_def Let_def)
      have "int (Suc n) + int (length cs) < 2 ^ 63" using Cons.prems(5) by simp
      from Cons.IH [OF inc(2) _ rest(1,2) this] t1(2) Count True run now show ?thesis by (simp add: upt_conv_Cons del: upt_Suc)
    next
      case False
      then have k: "K \<noteq> rl_key (zone_limit l z) t' z i" by (simp add: req_key_def)
      have "counted view K e st' t' n" using c1 Count count_frame [OF laws up _ k run] by (simp add: counted_def)
      from Cons.IH [OF this _ rest] t1(2) Count False run show ?thesis by simp
    qed
  qed
qed simp

text \<open>
  C25 Within one second the shared Redis limiter lets exactly the first \<open>wlMax\<close> requests of a key through and refuses the
  rest, however many gateways count in it: the INCRs of all clients, zones and gateways may interleave, and the EXPIREs may
  come at any time, for any key, more than once or never.
\<close>

theorem redis_window_quota:
  assumes laws: "redis_laws R view" and up: "redis_up R view"
    and l: "l = newRedisLimiter oor True cfg" and max: "0 < wlMax (zone_limit l zone)" and z: "known_zone zone"
    and K: "K = rl_key (zone_limit l zone) (sec * time_Second) zone ip"
    and fresh: "\<forall>t. sec * time_Second \<le> t \<longrightarrow> t < (sec + 1) * time_Second \<longrightarrow> view st t K = None"
    and cs: "sorted (map cmd_time cs)" "\<forall>c\<in>set cs. sec * time_Second \<le> cmd_time c"
    and qs: "qs = concat (map cmd_req cs)" "\<forall>(t, z, i)\<in>set qs. t div time_Second = sec \<and> known_zone z"
    and n: "int (length cs) < 2 ^ 63"
  shows "map snd (filter (\<lambda>(q, d). req_key l q = K) (cmd_run R l cs st))
     = map (\<lambda>i. Inr (int i < wlMax (zone_limit l zone))) [0..<length (filter (\<lambda>q. req_key l q = K) qs)]"
proof -
  let ?e = "(sec + 1) * time_Second" and ?t = "sec * time_Second"
  have c: "counted view K ?e st ?t 0" using fresh by (simp add: counted_def)
  have w: "t' < ?e" if "t' div time_Second = sec" for t'
  proof -
    have "t' mod time_Second < time_Second" by (simp add: time_Second_def)
    with div_mult_mod_eq [of t' time_Second] that show ?thesis by (auto simp: distrib_right)
  qed
  have s: "sorted (?t # map cmd_time cs)" using cs by simp
  have e: "\<forall>c\<in>set cs. cmd_time c < ?e \<longrightarrow> ?e \<le> cmd_time c + time_Second" using cs(2) by (auto simp: distrib_right)
  have q: "\<forall>(t', z, i)\<in>set (concat (map cmd_req cs)). t' < ?e \<and> known_zone z" using qs w by fastforce
  from cmd_run_counted [OF laws up l max z K c s e q] n qs(1) show ?thesis by simp
qed

end
