(* ===== verification/Witnesses.thy ===== *)
theory Witnesses
  imports Samples GatewayReplicas
begin

text \<open>Each property with hypotheses, applied at concrete inputs where they hold.\<close>

section \<open>Gateway\<close>

definition env0 :: "(mem, unit) bff_env" where
  "env0 = \<lparr>eJwt = dev_jwt, eRedis = mem_redis, eData = one_codec alice_session, ePending = one_codec \<lparr>ReturnTo = ''/home'', Nonce = []\<rparr>,
     eJson = table_json [(''tokens'', JObj [(''access_token'', JStr ''good''), (''expires_in'', JNum ''60'')])],
     eUrl = \<lparr>setQuery = (\<lambda>u q. Inr u), formEncode = (\<lambda>q. [])\<rparr>,
     eHttp = (\<lambda>out n. (Inr (200, Inr ''tokens''), n)), eNow = time_Second, eRandom = (\<lambda>i. Inr [7]), eOs = (\<lambda>k. [])\<rparr>"

definition mw0 :: auth_mw where
  "mw0 = \<lparr>aVerifier = Some dev_verifier, aSessions = Some day_sessions, aAnon = \<lparr>exact = [''/healthz''], prefix_rules = []\<rparr>,
     aResolver = None, aEntryAudit = entry_emitter, aRevocations = Some month_revocations, aSensitive = [''/v1/files/'']\<rparr>"

definition gw0 :: "(mem, unit) gw" where
  "gw0 = \<lparr>bRedis = Map.empty, bNet = (), gAudit = []\<rparr>"

definition bearer_req :: "string \<Rightarrow> string \<Rightarrow> request" where
  "bearer_req path tok = req0\<lparr>Path := path, Header := [''Authorization'' \<mapsto> [''Bearer '' @ tok]]\<rparr>"

lemma bearer_good: "bearer_token (bearer_req path ''good'') = Some ''good''" "bearer_token (bearer_req path ''bad'') = Some ''bad''"
  by (simp_all add: bearer_token_def bearer_req_def req_header_def hdr_get_def) code_simp+

lemma mw0_not_anon: "\<not> anon_Allows (effective_anon mw0) ''/v1/files/x''"
  by code_simp

theorem unauthenticated_rejected_witness:
  "\<exists>w' ev. Authenticate env0 mw0 [1] [2] (\<lambda>r w s. Panicked [] w s) (req0\<lparr>Path := ''/v1/files/x''\<rparr>) new_writer gw0 =
      Served w' (gw0\<lparr>gAudit := gAudit gw0 @ [ev]\<rparr>) \<and>
     final_status w' = 401 \<and> error_code w' = Some ''auth.unauthenticated'' \<and> EvType ev = ''api.access.denied''"
  by (rule unauthenticated_rejected [where e = "Some audit_emitter"])
    (simp_all add: bearer_token_def req_header_def hdr_get_def HasPrefix_def req_cookie_def mw0_not_anon,
     simp_all add: mw0_def entry_emitter_def)

theorem invalid_token_rejected_witness:
  "\<exists>w' ev. Authenticate env0 mw0 [1] [2] (\<lambda>r w s. Panicked [] w s) (bearer_req ''/v1/files/x'' ''bad'') new_writer gw0 =
      Served w' (gw0\<lparr>gAudit := gAudit gw0 @ [ev]\<rparr>) \<and>
     final_status w' = 401 \<and> error_code w' = Some ''invalid_token'' \<and> EvType ev = ''api.token.invalid''"
proof -
  obtain err where err: "Verify dev_jwt time_Second dev_verifier ''bad'' = Inl err" using dev_verify_bad by blast
  show ?thesis
    by (rule invalid_token_rejected [where e = "Some audit_emitter" and tok = "''bad''" and v = dev_verifier and err = err])
      (simp_all add: bearer_good env0_def err, simp_all add: mw0_def entry_emitter_def dev_verifier_def verifier_Enabled_def)
qed

theorem revoked_subject_rejected_witness:
  "\<exists>w' s'. Authenticate env0 mw0 [1] [2] (\<lambda>r w s. Panicked [] w s) (bearer_req ''/v1/files/x'' ''good'') new_writer
      (gw0\<lparr>bRedis := [''auth:revoked:sub:alice'' \<mapsto> (''1'', Some (px rev_defaultTTL))]\<rparr>) = Served w' s' \<and>
     final_status w' = 401 \<and> error_code w' = Some ''auth.revoked''"
proof -
  have ttl: "0 < rev_defaultTTL" "1000000000 < px rev_defaultTTL" by code_simp+
  have revoke: "RevokeSubject mem_redis 0 (Some month_revocations) ''alice'' Map.empty =
      (None, [''auth:revoked:sub:alice'' \<mapsto> (''1'', Some (px rev_defaultTTL))])"
    using ttl by (simp add: RevokeSubject_def rev_set_def month_revocations_def mem_redis_def rev_Enabled_def)
  have sensitive: "RequiresRevocationCheck [''/v1/files/''] ''/v1/files/x''" by code_simp
  show ?thesis
    by (rule revoked_subject_rejected [where view = mem_view and rs = month_revocations and t = 0 and sub = "''alice''" and
          ?rd0.0 = Map.empty and tok = "''good''" and v = dev_verifier and verified = alice])
      (simp_all add: env0_def mem_redis_laws mem_redis_up revoke bearer_good dev_verify_now,
       simp_all add: mw0_def month_revocations_def ttl sensitive bearer_req_def time_Second_def)
qed

section \<open>Sessions and login\<close>

theorem session_life_cycle_witness:
  "\<exists>st'. sess_Create mem_redis (one_codec alice_session) 0 (Inr [7]) (Some day_sessions) alice_session Map.empty = (Inr ''07'', st') \<and>
     sess_Get mem_redis (one_codec alice_session) time_Second (Some day_sessions) ''07'' st' = (Inr alice_session, st')"
proof -
  have hex: "hex_encode [7] = ''07''" by code_simp
  have t: "0 \<le> time_Second" "time_Second < 0 + px (save_ttl 0 day_sessions alice_session)" "time_Second \<le> ExpiresAt alice_session"
    by code_simp+
  have ss: "sess_rdb day_sessions" "0 < sess_ttl day_sessions" by code_simp+
  show ?thesis
    using session_life_cycle [OF mem_redis_laws mem_redis_up ss one_codec_ok, of "[7]" alice_session 0 Map.empty] t
    unfolding hex by blast
qed

definition pending_state :: mem where
  "pending_state = [pending_key ''st'' \<mapsto> (''doc'', None)]"

text \<open>Callbacks 1 and 2 overlap and both get the login; callback 3, which begins after the DEL of the first, does not.\<close>

definition home_codec :: "PendingLogin codec" where "home_codec = one_codec \<lparr>ReturnTo = ''/home'', Nonce = []\<rparr>"

definition callbacks0 :: "mem callbacks" where
  "callbacks0 = \<lparr>cbRedis = pending_state, cbPc = (\<lambda>i. NotBegun)\<rparr>"

lemma callbacks_overlap:
  "cb_run mem_redis home_codec (Some day_sessions) [GetPending 1 0 ''st'', GetPending 2 0 ''st''] callbacks0 =
    \<lparr>cbRedis = pending_state, cbPc = (\<lambda>i. NotBegun)(1 := Holding ''st'' ''doc'', 2 := Holding ''st'' ''doc'')\<rparr>"
  by (simp add: callbacks0_def sess_Enabled_def day_sessions_def mem_redis_def mem_view_def pending_state_def)

theorem pending_consumed_once_witness:
  "\<exists>e. cbPc (cb_run mem_redis home_codec (Some day_sessions) [GetPending 1 0 ''st'', GetPending 2 0 ''st'', DelPending 1 1, DelPending 2 3,
      GetPending 3 5 ''st''] callbacks0) 3 = Consumed (Inl e)"
proof -
  let ?run = "cb_run mem_redis home_codec (Some day_sessions)" and ?act = "cb_act mem_redis home_codec (Some day_sessions)"
  let ?S1 = "?run [GetPending 1 0 ''st'', GetPending 2 0 ''st''] callbacks0"
  let ?S2 = "?run [DelPending 2 3] (?act (DelPending 1 1) ?S1)"
  have en: "sess_Enabled (Some day_sessions)" by code_simp
  have holds: "cbPc ?S1 1 = Holding ''st'' ''doc''" unfolding callbacks_overlap by simp
  have quiet: "\<forall>a\<in>set [DelPending 2 3]. cb_quiet mem_view (pending_key ''st'') 5 a" by simp
  have begins: "cbPc ?S2 3 = NotBegun" unfolding callbacks_overlap by simp
  have "\<exists>e. cbPc (?act (GetPending 3 5 ''st'') ?S2) 3 = Consumed (Inl e)"
    by (rule pending_consumed_once [OF mem_redis_laws mem_redis_up en holds _ refl quiet begins]) simp
  moreover have "?run [GetPending 1 0 ''st'', GetPending 2 0 ''st'', DelPending 1 1, DelPending 2 3, GetPending 3 5 ''st''] callbacks0 =
      ?act (GetPending 3 5 ''st'') ?S2"
    by (simp only: cb_run.simps)
  ultimately show ?thesis by (simp only:)
qed

definition bff0 :: bff_handler where
  "bff0 = \<lparr>hOidc = \<lparr>oIssuer = [], oClientID = ''c'', oClientSecret = ''s'', oRedirectURI = ''http://gw/callback'', oScopes = ''openid'',
       oResource = [], oAuthURL = ''http://idp/auth'', oTokenURL = ''http://idp/token''\<rparr>,
     hSessions = Some day_sessions, hVerifier = dev_verifier, hAuthCfg = vcfg dev_verifier, hRevocations = Some month_revocations,
     hDevLogin = False\<rparr>"

definition callback_req :: request where
  "callback_req = req0\<lparr>Path := ''/callback'', Query := [(''code'', ''abc''), (''state'', ''st'')]\<rparr>"

definition tokens0 :: TokenResponse where
  "tokens0 = \<lparr>trAccessToken = ''good'', trRefreshToken = [], trIDToken = [], trTokenType = [], trExpiresIn = 60\<rparr>"

lemma exchange0: "ExchangeCode (eJson env0) (eUrl env0) (eHttp env0) (hOidc bff0) ''abc'' () = (Inr tokens0, ())"
proof -
  have "token_of_json (JObj [(''access_token'', JStr ''good''), (''expires_in'', JNum ''60'')]) = Some tokens0" by code_simp
  then show ?thesis
    by (simp add: env0_def bff0_def ExchangeCode_def oidc_Ready_def Let_def) (simp add: tokens0_def)
qed

lemma pending0: "ConsumePending (eRedis env0) (ePending env0) (eNow env0) (Some day_sessions) ''st'' pending_state =
    (Inr \<lparr>ReturnTo = ''/home'', Nonce = []\<rparr>, Map.empty)"
  by (simp add: env0_def ConsumePending_def sess_Enabled_def day_sessions_def mem_redis_def mem_view_def pending_state_def one_codec_def)

definition login_env :: "(mem, unit) bff_env" where
  "login_env = env0\<lparr>eData := one_codec (login_data time_Second tokens0 alice)\<rparr>"

definition login_state :: "(mem, unit) gw" where
  "login_state = gw0\<lparr>bRedis := pending_state\<rparr>"

lemma login_env_facts:
  "eRedis login_env = mem_redis" "eNow login_env = time_Second" "eJwt login_env = dev_jwt" "eOs login_env = (\<lambda>k. [])"
  "eRandom login_env 0 = Inr [7]" "eData login_env = one_codec (login_data time_Second tokens0 alice)"
  "ePending login_env = ePending env0" "eJson login_env = eJson env0" "eUrl login_env = eUrl env0" "eHttp login_env = eHttp env0"
  "eRedis env0 = mem_redis" "eNow env0 = time_Second"
  by (simp_all add: login_env_def env0_def)

lemma callback_facts:
  "query_get callback_req ''error'' = []" "query_get callback_req ''code'' = ''abc''" "query_get callback_req ''state'' = ''st''"
  "hSessions bff0 = Some day_sessions" "hVerifier bff0 = dev_verifier" "hRevocations bff0 = Some month_revocations"
  "bRedis login_state = pending_state" "bNet login_state = ()" "sess_rdb day_sessions" "0 < sess_ttl day_sessions"
  "trAccessToken tokens0 = ''good''" "rev_rdb month_revocations"
  by (simp_all add: callback_req_def query_get_def bff0_def login_state_def gw0_def day_sessions_def tokens0_def month_revocations_def time_unit_defs)

lemmas login_facts = login_env_facts callback_facts mem_redis_laws mem_redis_up dev_verify_now one_codec_ok
  exchange0 pending0 [unfolded login_env_facts]

theorem login_establishes_session_witness:
  "\<exists>s'. Callback login_env bff0 callback_req new_writer login_state =
     Served (http_Redirect callback_req ''/home''
       (setSessionCookie (\<lambda>k. []) bff0 ''07'' (callback_expiry time_Second tokens0) new_writer)) s'"
proof -
  have hex: "hex_encode [7] = ''07''" by code_simp
  have "\<exists>s'. Callback login_env bff0 callback_req new_writer login_state =
     Served (http_Redirect callback_req (ReturnTo \<lparr>ReturnTo = ''/home'', Nonce = []\<rparr>)
       (setSessionCookie (eOs login_env) bff0 (hex_encode [7]) (callback_expiry (eNow login_env) tokens0) new_writer)) s' \<and>
     (\<forall>t' r' idn'. eNow login_env \<le> t' \<longrightarrow>
        t' < eNow login_env + px (save_ttl (eNow login_env) day_sessions (login_data (eNow login_env) tokens0 alice)) \<longrightarrow>
        t' \<le> callback_expiry (eNow login_env) tokens0 \<longrightarrow> req_cookie r' (sess_cookieName day_sessions) = Some (hex_encode [7]) \<longrightarrow>
        Verify (eJwt login_env) t' (hVerifier bff0) (trAccessToken tokens0) = Inr idn' \<longrightarrow>
        IdentityFromRequest (eJwt login_env) (eRedis login_env) (eData login_env) t' r' (Some day_sessions) (Some (hVerifier bff0)) (bRedis s')
          = (Inr (idn', hex_encode [7]), bRedis s'))"
    by (rule login_establishes_session [where view = mem_view and code = "''abc''" and state = "''st''" and rd = Map.empty and n = "()" and idn = alice])
      (simp_all add: login_facts)
  then show ?thesis unfolding hex login_env_facts by auto
qed

lemma login_callback:
  "\<exists>s'. Callback login_env bff0 callback_req new_writer login_state =
     Served (http_Redirect callback_req ''/home''
       (setSessionCookie (\<lambda>k. []) bff0 (hex_encode [7]) (callback_expiry time_Second tokens0) new_writer)) s'"
  using login_session [of login_env mem_view bff0 day_sessions callback_req "''abc''" "''st''" login_state
      "\<lparr>ReturnTo = ''/home'', Nonce = []\<rparr>" Map.empty tokens0 "()" alice "[7]" new_writer]
  by (simp only: login_facts PendingLogin.simps list.distinct not_False_eq_True HOL.simp_thms HOL.disj_not1) auto

theorem callback_cookie_needs_verification_witness:
  "\<exists>idn. Verify dev_jwt time_Second dev_verifier ''good'' = Inr idn"
proof -
  let ?w = "http_Redirect callback_req ''/home''
       (setSessionCookie (\<lambda>k. []) bff0 (hex_encode [7]) (callback_expiry time_Second tokens0) new_writer)"
  obtain s' where cb: "Callback login_env bff0 callback_req new_writer login_state = Served ?w s'" using login_callback by blast
  have "WCookies ?w \<noteq> WCookies new_writer" by code_simp
  from callback_cookie_needs_verification [OF cb this] show ?thesis
    by (auto simp: login_facts)
qed

definition sign_out_req :: request where
  "sign_out_req = req0\<lparr>Path := ''/sign-out'', Cookies := [(''tb_session'', ''07'')]\<rparr>"


end
