(* ===== verification/Frames.thy ===== *)
theory Frames
  imports Mux Guards
begin

text \<open>
  What a whole service can do to its state. A frame is a relation between the state before and after a request, for the
  requests that satisfy a condition the middlewares do not disturb. The locale \<open>frame\<close> carries a frame from the handlers
  of the routes through the guards, the multiplexer and the middleware stack to any sequence of requests; the services
  interpret it in their theories.
\<close>

section \<open>Handlers and frames\<close>

definition keeps :: "(request \<Rightarrow> bool) \<Rightarrow> ('s \<Rightarrow> 's \<Rightarrow> bool) \<Rightarrow> 's handler \<Rightarrow> bool" where
  "keeps Q R h \<longleftrightarrow> (\<forall>r w s. Q r \<longrightarrow> R s (hres_state (h r w s)))"

text \<open>The changes the middlewares and the multiplexer make to a request.\<close>

definition stable :: "(request \<Rightarrow> bool) \<Rightarrow> bool" where
  "stable Q \<longleftrightarrow> (\<forall>r vs. Q (r\<lparr>PathValues := vs\<rparr>) = Q r) \<and> (\<forall>r c. Q (r\<lparr>Ctx := c\<rparr>) = Q r) \<and>
     (\<forall>r h. (\<forall>k. k \<notin> {''X-Request-Id'', ''Traceparent''} \<longrightarrow> h k = Header r k) \<longrightarrow> Q (r\<lparr>Header := h\<rparr>) = Q r)"

lemma stable_True [simp]: "stable (\<lambda>r. True)"
  by (simp add: stable_def)

text \<open>A sequence of requests, each with the circumstances it meets.\<close>

fun serve_all :: "('e \<Rightarrow> 's handler) \<Rightarrow> ('e \<times> request) list \<Rightarrow> 's \<Rightarrow> 's" where
  "serve_all service [] s = s"
| "serve_all service ((e, r) # qs) s = serve_all service qs (hres_state (service e r new_writer s))"

text \<open>The metrics handler is code of the Prometheus library; it only reads.\<close>

definition metrics_pure :: "'s health \<Rightarrow> bool" where
  "metrics_pure H \<longleftrightarrow> (\<forall>r w s. hres_state (hcMetrics H r w s) = s)"

section \<open>The contract\<close>

locale frame =
  fixes Q :: "request \<Rightarrow> bool" and R :: "'s \<Rightarrow> 's \<Rightarrow> bool"
  assumes frame_refl: "R s s"
    and frame_trans: "R a b \<Longrightarrow> R b c \<Longrightarrow> R a c"
    and frame_stable: "stable Q"
begin

lemma keepsI: "(\<And>r w s. Q r \<Longrightarrow> R s (hres_state (h r w s))) \<Longrightarrow> keeps Q R h"
  by (simp add: keeps_def)

text \<open>A guard whose decision keeps the frame and whose admission keeps the condition.\<close>

lemma keeps_guard:
  assumes "\<And>r w s. mw h r w s = (case admit r w s of Some (r', w', s') \<Rightarrow> h r' w' s'
      | None \<Rightarrow> (case reject r w s of (w', s') \<Rightarrow> Served w' s'))"
    and "\<And>r w s r' w' s'. admit r w s = Some (r', w', s') \<Longrightarrow> R s s' \<and> Q r' = Q r" "\<And>r w s. admit r w s = None \<Longrightarrow> R s (snd (reject r w s))"
    and "keeps Q R h"
  shows "keeps Q R (mw h)"
  unfolding keeps_def
proof (intro allI impI)
  fix r w s
  assume q: "Q r"
  show "R s (hres_state (mw h r w s))"
  proof (cases "admit r w s")
    case None
    then show ?thesis using assms(1,3) [of r w s] by (cases "reject r w s") simp
  next
    case (Some a)
    obtain r' w' s' where a: "a = (r', w', s')" by (cases a)
    with assms(2) Some have "R s s'" "Q r' = Q r" by blast+
    moreover have "R s' (hres_state (h r' w' s'))" using assms(4) q \<open>Q r' = Q r\<close> by (simp add: keeps_def)
    ultimately show ?thesis using assms(1) Some a by (auto intro: frame_trans)
  qed
qed

lemma keeps_trust: "keeps Q R h \<Longrightarrow> keeps Q R (GatewayTrust token h)"
  by (rule keeps_guard [OF trust.guard_law]) (auto simp: guard_defs frame_refl split: if_splits)

lemma keeps_internal: "keeps Q R h \<Longrightarrow> keeps Q R (InternalAuth token h)"
  by (rule keeps_guard [OF internal.guard_law]) (auto simp: guard_defs frame_refl split: if_splits)

lemma Q_context: "Q (NewContext idn r) = Q r"
  using frame_stable by (simp add: stable_def NewContext_def)

lemma keeps_user: "keeps Q R h \<Longrightarrow> keeps Q R (TrustedAuth h)"
  by (rule keeps_guard [OF user.guard_law]) (auto simp: guard_defs Q_context frame_refl split: if_splits)

lemma keeps_role: "keeps Q R h \<Longrightarrow> keeps Q R (TrustedRole role h)"
  by (rule keeps_guard [OF role.guard_law]) (auto simp: guard_defs Q_context frame_refl split: if_splits)

text \<open>Behind the identity check a handler may use that its caller is the one the headers name, and that they name one.\<close>

lemma keeps_user_as:
  assumes "\<And>r w s. Q r \<Longrightarrow> UserID (FromHeaders (Header r)) \<noteq> [] \<Longrightarrow> R s (hres_state (h (NewContext (FromHeaders (Header r)) r) w s))"
  shows "keeps Q R (TrustedAuth h)"
  using assms frame_refl
  by (auto simp: keeps_def user.guard_law guard_defs Authenticated_def)

lemma Q_header: "(\<And>k. k \<notin> {''X-Request-Id'', ''Traceparent''} \<Longrightarrow> h k = Header r k) \<Longrightarrow> Q (r\<lparr>Header := h\<rparr>) = Q r"
  using frame_stable by (simp add: stable_def)

lemma Q_updated: "k \<in> {''X-Request-Id'', ''Traceparent''} \<Longrightarrow> Q (r\<lparr>Header := (Header r)(k := v)\<rparr>) = Q r"
  by (rule Q_header) auto

lemma keeps_request_id: "keeps Q R h \<Longrightarrow> keeps Q R (RequestID_mw b h)"
  by (auto simp: keeps_def RequestID_mw_def Let_def Q_updated hdr_set_def header_names)

lemma keeps_trace: "keeps Q R h \<Longrightarrow> keeps Q R (TraceContext b1 b2 h)"
  by (auto simp: keeps_def TraceContext_def EnsureRequest_def Let_def Q_updated hdr_set_def HeaderTraceparent_def)

lemma keeps_recover: "keeps Q R h \<Longrightarrow> keeps Q R (Recover h)"
proof (rule keepsI)
  fix r w s
  assume "keeps Q R h" "Q r"
  then have "R s (hres_state (h r w s))" by (simp add: keeps_def)
  then show "R s (hres_state (Recover h r w s))" by (cases "h r w s") (simp_all add: Recover_def)
qed

lemma keeps_mux:
  assumes "\<And>rt. rt \<in> set rts \<Longrightarrow> keeps Q R (rtHandler rt)"
  shows "keeps Q R (serve_mux J rts)"
proof (rule keepsI)
  fix r w s
  assume q: "Q r"
  show "R s (hres_state (serve_mux J rts r w s))"
  proof (cases "findHandler rts r")
    case (Dispatch rt m)
    then have "rt \<in> set rts" by (rule findHandler_mem)
    moreover have "Q (r\<lparr>PathValues := m\<rparr>)" using q frame_stable by (simp add: stable_def)
    ultimately show ?thesis using assms Dispatch by (simp add: serve_mux_def keeps_def)
  qed (simp_all add: serve_mux_def frame_refl)
qed

lemma keeps_health: "metrics_pure H \<Longrightarrow> rt \<in> set (health_routes H) \<Longrightarrow> keeps Q R (rtHandler rt)"
  by (auto simp: health_routes_def metrics_pure_def keeps_def frame_refl)

lemma keeps_service:
  assumes "\<And>rt. rt \<in> set rts \<Longrightarrow> keeps Q R (rtHandler rt)"
  shows "keeps Q R (Chain (serve_mux J rts) [GatewayTrust token, RequestID_mw b0, Recover, AccessLog, TraceContext b1 b2])"
  using keeps_trust [OF keeps_request_id [OF keeps_recover [OF keeps_trace [OF keeps_mux [OF assms]]]]]
  by (simp add: Chain_def numeral_eq_Suc)

lemma serve_all_keeps:
  "(\<And>e. e \<in> fst ` set qs \<Longrightarrow> keeps Q R (service e)) \<Longrightarrow> (\<And>r. r \<in> snd ` set qs \<Longrightarrow> Q r) \<Longrightarrow> R s (serve_all service qs s)"
proof (induction service qs s rule: serve_all.induct)
  case (2 service e r qs s)
  have "R s (hres_state (service e r new_writer s))" using 2(2,3) by (simp add: keeps_def)
  moreover have "R (hres_state (service e r new_writer s)) (serve_all service qs (hres_state (service e r new_writer s)))"
    using 2 by simp
  ultimately show ?case by (metis frame_trans serve_all.simps(2))
qed (simp add: frame_refl)

end

end
