(* ===== verification/ServiceFrames.thy ===== *)
theory ServiceFrames
  imports Frames AuditService AuthService Files
begin

text \<open>
  The frames of the services: the audit log only grows and only behind the internal token, the
  files of a user change only on requests of that user, and the identity store never takes a subject from its user.
  Each holds of the complete service, with its routes and middleware stack, over any sequence of requests.
\<close>

section \<open>Audit log\<close>

definition log_grows :: "audit_row list \<Rightarrow> audit_row list \<Rightarrow> bool" where
  "log_grows t t' \<longleftrightarrow> (\<exists>new. t' = t @ new) \<and> (keyed arID t \<longrightarrow> keyed arID t')"

interpretation log: frame "\<lambda>r. True" log_grows
  by unfold_locales (auto simp: log_grows_def)

lemma ingest_grows: "log_grows t (hres_state (ingest_handle E events r w t))"
  using ingest_append [OF refl, of E events r w t] by (auto simp: log_grows_def keyed_def event_row_def)

lemma query_reads: "hres_state (query_ServeHTTP E events r w t) = t"
  by (auto simp: query_ServeHTTP_def Let_def with_store_def split: iface.splits option.splits sum.splits)

lemma audit_service_grows:
  assumes "metrics_pure (auHealth E)"
  shows "keeps (\<lambda>r. True) log_grows (audit_service E token connected rnd)"
  unfolding audit_service_def audit_mux_def
proof (rule log.keeps_service)
  fix rt
  assume "rt \<in> set (audit_routes E token (store_iface connected))"
  moreover have "keeps (\<lambda>r. True) log_grows (InternalAuth token (ingest_handle E (store_iface connected)))"
    by (rule log.keeps_internal) (simp add: keeps_def ingest_grows)
  moreover have "keeps (\<lambda>r. True) log_grows (TrustedRole ''admin'' (query_ServeHTTP E (store_iface connected)))"
    by (rule log.keeps_role) (simp add: keeps_def query_reads log.frame_refl)
  ultimately show "keeps (\<lambda>r. True) log_grows (rtHandler rt)"
    using log.keeps_health [OF assms] by (auto simp: audit_routes_def)
qed

text \<open>Without the internal token nothing is written at all.\<close>

definition lacks_token :: "string \<Rightarrow> request \<Rightarrow> bool" where
  "lacks_token token r \<longleftrightarrow> token = [] \<or> \<not> internalTokenOK r token"

lemma stable_token: "stable (lacks_token token)"
  by (auto simp: stable_def lacks_token_def internalTokenOK_iff req_header_def hdr_get_def)

interpretation closed_log: frame "lacks_token token" "(=)"
  by unfold_locales (simp_all add: stable_token)

lemma audit_service_closed:
  assumes "metrics_pure (auHealth E)"
  shows "keeps (lacks_token token) (=) (audit_service E token connected rnd)"
  unfolding audit_service_def audit_mux_def
proof (rule closed_log.keeps_service)
  fix rt
  assume "rt \<in> set (audit_routes E token (store_iface connected))"
  moreover have "keeps (lacks_token token) (=) (InternalAuth token (ingest_handle E (store_iface connected)))"
    by (auto simp: keeps_def lacks_token_def internal.guard_law guard_defs)
  moreover have "keeps (lacks_token token) (=) (TrustedRole ''admin'' (query_ServeHTTP E (store_iface connected)))"
    by (rule closed_log.keeps_role) (simp add: keeps_def query_reads)
  ultimately show "keeps (lacks_token token) (=) (rtHandler rt)"
    using closed_log.keeps_health [OF assms] by (auto simp: audit_routes_def)
qed

section \<open>Files\<close>

text \<open>The rows of one user, for requests in the name of somebody else.\<close>

definition not_named :: "string \<Rightarrow> request \<Rightarrow> bool" where
  "not_named u r \<longleftrightarrow> UserID (FromHeaders (Header r)) \<noteq> u"

definition same_files :: "string \<Rightarrow> 'n file_state \<Rightarrow> 'n file_state \<Rightarrow> bool" where
  "same_files u s s' \<longleftrightarrow> filter (\<lambda>f. fOwner f = u) (fsTable s') = filter (\<lambda>f. fOwner f = u) (fsTable s)"

lemma stable_named: "stable (not_named u)"
  by (auto simp: stable_def not_named_def FromHeaders_def header_names hdr_get_def)

interpretation mine: frame "not_named u" "same_files u"
  by unfold_locales (simp_all add: stable_named same_files_def)

text \<open>What the handlers do to the table.\<close>

lemma Meta_table: "fsTable (hres_state (Meta_ServeHTTP E files r w s)) = fsTable s"
  by (auto simp: Meta_ServeHTTP_def Let_def with_store_def split: iface.splits option.splits sum.splits)

lemma Download_table: "fsTable (hres_state (Download_ServeHTTP E files s3 r w s)) = fsTable s"
  by (auto simp: Download_ServeHTTP_def Let_def with_store_def split: iface.splits option.splits sum.splits prod.splits)

lemma URL_table: "fsTable (hres_state (URL_ServeHTTP E files s3 d r w s)) = fsTable s"
  by (auto simp: URL_ServeHTTP_def Let_def with_store_def split: iface.splits option.splits sum.splits prod.splits)

lemma List_table: "fsTable (hres_state (List_ServeHTTP E files r w s)) = fsTable s"
  by (auto simp: List_ServeHTTP_def Let_def with_store_def split: iface.splits option.splits sum.splits)

lemma Delete_table:
  "fsTable (hres_state (Delete_ServeHTTP E files s3 r w s)) = fsTable s \<or>
   fsTable (hres_state (Delete_ServeHTTP E files s3 r w s)) =
     filter (\<lambda>f. \<not> (fID f = path_value r ''id'' \<and> owned_where (UserID (fst (FromContext r))) (TenantID (fst (FromContext r))) f)) (fsTable s)"
  by (auto simp: Delete_ServeHTTP_def Let_def with_store_def DeleteByID_def split: iface.splits option.splits sum.splits prod.splits if_splits)

lemma Insert_table:
  "snd (Files_Insert pool fault now f tbl) = tbl \<or>
   snd (Files_Insert pool fault now f tbl) = tbl @ [f\<lparr>fCreatedAt := now\<rparr>] \<and> \<not> list_ex (file_conflict f) tbl"
  by (auto simp: Files_Insert_def Let_def split: option.splits)

lemma Upload_table:
  "fsTable (hres_state (Upload_ServeHTTP E files s3 mb r w s)) = fsTable s \<or>
   (\<exists>row. fsTable (hres_state (Upload_ServeHTTP E files s3 mb r w s)) = fsTable s @ [row] \<and>
      fOwner row = UserID (fst (FromContext r)) \<and> \<not> list_ex (file_conflict row) (fsTable s))"
proof -
  have ins: "tbl = fsTable s \<or> tbl = fsTable s @ [f\<lparr>fCreatedAt := now\<rparr>] \<and> \<not> list_ex (file_conflict (f\<lparr>fCreatedAt := now\<rparr>)) (fsTable s)"
    if "Files_Insert pool fault now f (fsTable s) = (res, tbl)" for pool fault now f res tbl
    using Insert_table [of pool fault now f "fsTable s"] that by (auto simp: file_conflict_def list_ex_iff)
  show ?thesis
    by (auto simp: Upload_ServeHTTP_def upload_store_def Let_def with_store_def dest: ins split: iface.splits option.splits sum.splits prod.splits if_splits)
qed

lemma others_files: "v \<noteq> u \<Longrightarrow> filter (\<lambda>f. fOwner f = u) (filter (\<lambda>f. \<not> (fID f = i \<and> owned_where v tid f)) fs) = filter (\<lambda>f. fOwner f = u) fs"
  by (induction fs) (auto simp: owned_where_def)

lemma file_reads:
  "hres_state (Meta_ServeHTTP E files r w s) = s" "hres_state (URL_ServeHTTP E files s3 d r w s) = s" "hres_state (List_ServeHTTP E files r w s) = s"
  by (auto simp: Meta_ServeHTTP_def URL_ServeHTTP_def List_ServeHTTP_def Let_def with_store_def
      split: iface.splits option.splits sum.splits prod.splits)

text \<open>A frame of the service: it is enough to look at the three handlers that do something, for callers with an identity.\<close>

lemma file_service_keeps:
  assumes fr: "frame Q R" and pure: "metrics_pure (feHealth E)"
    and up: "\<And>mb r w s. Q r \<Longrightarrow> UserID (FromHeaders (Header r)) \<noteq> [] \<Longrightarrow>
      R s (hres_state (Upload_ServeHTTP E (store_iface connected) s3 mb (NewContext (FromHeaders (Header r)) r) w s))"
    and del: "\<And>r w s. Q r \<Longrightarrow> UserID (FromHeaders (Header r)) \<noteq> [] \<Longrightarrow>
      R s (hres_state (Delete_ServeHTTP E (store_iface connected) s3 (NewContext (FromHeaders (Header r)) r) w s))"
    and down: "\<And>r w s. Q r \<Longrightarrow> UserID (FromHeaders (Header r)) \<noteq> [] \<Longrightarrow>
      R s (hres_state (Download_ServeHTTP E (store_iface connected) s3 (NewContext (FromHeaders (Header r)) r) w s))"
  shows "keeps Q R (file_service E token connected s3 env rnd)"
  unfolding file_service_def
proof (rule frame.keeps_service [OF fr])
  fix rt
  assume "rt \<in> set (file_routes E \<lparr>ucFiles = store_iface connected, ucS3 = s3, ucMaxBytes = MaxBytesFromEnv env\<rparr>
    \<lparr>acFiles = store_iface connected, acS3 = s3, acDefaultExpiry = PresignSecondsFromEnv env\<rparr>)"
  moreover have "R s s" for s using fr by (rule frame.frame_refl)
  ultimately show "keeps Q R (rtHandler rt)"
    using frame.keeps_health [OF fr pure] up del down
    by (auto simp: file_routes_def file_reads intro!: frame.keeps_user_as [OF fr])
qed

lemma file_handlers_same:
  assumes "UserID idn \<noteq> u" "Ctx r = Some idn"
  shows "same_files u s (hres_state (Upload_ServeHTTP E files s3 mb r w s))"
    and "same_files u s (hres_state (Delete_ServeHTTP E files s3 r w s))"
proof -
  have u: "UserID (fst (FromContext r)) \<noteq> u" using assms by (simp add: FromContext_def)
  show "same_files u s (hres_state (Upload_ServeHTTP E files s3 mb r w s))"
    using Upload_table [of E files s3 mb r w s] u by (auto simp: same_files_def)
  show "same_files u s (hres_state (Delete_ServeHTTP E files s3 r w s))"
    using Delete_table [of E files s3 r w s] unfolding same_files_def by (elim disjE) (simp_all only: others_files [OF u])
qed

lemma reads_same: "fsTable s' = fsTable s \<Longrightarrow> same_files u s s'"
  by (simp add: same_files_def)

lemma file_service_same:
  assumes "metrics_pure (feHealth E)"
  shows "keeps (not_named u) (same_files u) (file_service E token connected s3 env rnd)"
  by (rule file_service_keeps [OF mine.frame_axioms assms])
    (auto simp: not_named_def NewContext_def Download_table reads_same intro!: file_handlers_same)

text \<open>The keys of the table: no two rows share an id or a place in the object store.\<close>

definition files_keyed :: "file_row list \<Rightarrow> bool" where
  "files_keyed t \<longleftrightarrow> sorted_wrt (\<lambda>a b. \<not> file_conflict a b) t"

definition keys_kept :: "'n file_state \<Rightarrow> 'n file_state \<Rightarrow> bool" where
  "keys_kept s s' \<longleftrightarrow> (files_keyed (fsTable s) \<longrightarrow> files_keyed (fsTable s'))"

interpretation file_keys: frame "\<lambda>r. True" keys_kept
  by unfold_locales (simp_all add: keys_kept_def)

lemma files_keyed_filter: "files_keyed t \<Longrightarrow> files_keyed (filter P t)"
  by (induction t) (auto simp: files_keyed_def)

lemma files_keyed_snoc: "files_keyed t \<Longrightarrow> \<not> list_ex (file_conflict row) t \<Longrightarrow> files_keyed (t @ [row])"
  by (auto simp: files_keyed_def sorted_wrt_append list_ex_iff file_conflict_def)

lemma reads_keyed: "fsTable s' = fsTable s \<Longrightarrow> keys_kept s s'"
  by (simp add: keys_kept_def)

lemma Delete_keyed: "keys_kept s (hres_state (Delete_ServeHTTP E files s3 r w s))"
  using Delete_table [of E files s3 r w s] files_keyed_filter by (auto simp: keys_kept_def)

lemma Upload_keyed: "keys_kept s (hres_state (Upload_ServeHTTP E files s3 mb r w s))"
  using Upload_table [of E files s3 mb r w s] files_keyed_snoc by (auto simp: keys_kept_def)

lemma file_service_keyed:
  assumes "metrics_pure (feHealth E)"
  shows "keeps (\<lambda>r. True) keys_kept (file_service E token connected s3 env rnd)"
  by (rule file_service_keeps [OF file_keys.frame_axioms assms])
    (simp_all add: Upload_keyed Delete_keyed reads_keyed Download_table)

section \<open>Identity store\<close>

definition directory_grows :: "auth_db \<Rightarrow> auth_db \<Rightarrow> bool" where
  "directory_grows db db' \<longleftrightarrow> (\<forall>k u. owner db k = Some u \<longrightarrow> owner db' k = Some u) \<and> set (adDeliveries db) \<subseteq> set (adDeliveries db')"

definition peaceful :: "db_env \<Rightarrow> bool" where
  "peaceful D \<longleftrightarrow> only_adds D \<and> keeps_deliveries D"

lemma grows_trans: "directory_grows a b \<Longrightarrow> directory_grows b c \<Longrightarrow> directory_grows a c"
  by (force simp: directory_grows_def)

interpretation directory_log: frame "\<lambda>r. True" "\<lambda>s s'. directory_grows (asDb s) (asDb s')"
  by unfold_locales (simp_all add: directory_grows_def subset_iff)

lemma other_grows: "peaceful D \<Longrightarrow> directory_grows db (deOther D n db)"
  by (simp add: directory_grows_def peaceful_def owner_keeps_other keeps_deliveries_def)

text \<open>Each statement only adds, so a call adds, wherever it ends.\<close>

lemma stmt_grows:
  assumes "peaceful D" "\<And>d. directory_grows d (snd (run d))" "directory_grows a db"
  shows "directory_grows a (snd (stmt D n run db))"
proof -
  have "snd (stmt D n run db) = deOther D n db \<or> snd (stmt D n run db) = snd (run (deOther D n db))"
    by (simp add: stmt_def Let_def split: option.splits)
  then show ?thesis using assms other_grows grows_trans by metis
qed

lemma create_tx_grows: "directory_grows d (snd (create_tx D n x p u d))"
  using owner_insert [where db = "d\<lparr>adUsers := us\<rparr>" for us]
  by (auto simp: create_tx_def directory_grows_def dest!: insert_strict_Inr split: option.splits sum.splits)

lemma statements_grow:
  assumes "peaceful D" "directory_grows a db"
  shows "directory_grows a (snd (lookupUserID D n p u db))"
    and "directory_grows a (snd (linkIdentity D n p u x db))"
    and "directory_grows a (snd (createUserWithProvider D n p u db))"
    and "directory_grows a (snd (TryRecord D n d k db))"
proof -
  show "directory_grows a (snd (lookupUserID D n p u db))"
    unfolding lookupUserID_def by (rule stmt_grows [OF assms(1) _ assms(2)]) (simp add: directory_grows_def)
  show "directory_grows a (snd (linkIdentity D n p u x db))"
    unfolding linkIdentity_def by (rule stmt_grows [OF assms(1) _ assms(2)]) (simp add: directory_grows_def owner_insert)
  show "directory_grows a (snd (createUserWithProvider D n p u db))"
    using stmt_grows [OF assms(1) create_tx_grows assms(2)] assms(2) by (simp add: createUserWithProvider_def split: sum.splits)
  show "directory_grows a (snd (TryRecord D n d k db))"
    unfolding TryRecord_def
    by (auto intro!: stmt_grows [OF assms(1)] simp: assms(2)) (auto simp: insert_nothing_def directory_grows_def)
qed

lemma provider_grows:
  assumes "peaceful D" "directory_grows a db"
  shows "directory_grows a (snd (ResolveProviderUser D st p u db))"
  using statements_grow [OF assms(1)] assms(2)
  by (auto simp: ResolveProviderUser_def case_prod_beta split: sum.splits)

lemma wechat_parts_grow:
  assumes "peaceful D" "directory_grows a db"
  shows "directory_grows a (snd (by_union D p u db))"
    and "directory_grows a (snd (createWeChatUser D p u db))"
    and "directory_grows a (snd (after_violation D p u e db))"
  using statements_grow [OF assms(1)] assms(2)
  by (simp_all add: by_union_def createWeChatUser_def after_violation_def case_prod_beta split: sum.splits)

lemma wechat_grows:
  assumes "peaceful D" "directory_grows a db"
  shows "directory_grows a (snd (ResolveWeChatUser D st p u db))"
  using statements_grow [OF assms(1)] wechat_parts_grow [OF assms(1)] assms(2)
  by (simp add: ResolveWeChatUser_def case_prod_beta split: sum.splits option.splits)

lemma webhook_grows:
  assumes "peaceful (aeDb E)"
  shows "directory_grows (asDb s) (asDb (hres_state (logto_ServeHTTP E h r w s)))"
proof -
  note refl = directory_log.frame_refl [of s]
  have first: "directory_grows (asDb s) (snd (webhook_first E h p (asDb s)))" for p
    using statements_grow(4) [OF assms refl] refl by (simp add: webhook_first_def split: option.splits)
  have user: "directory_grows a db \<Longrightarrow> directory_grows a (snd (webhook_user E h p db))" for a db p
    using provider_grows [OF assms] by (auto simp: webhook_user_def ResolveLogtoUser_def case_prod_beta split: sum.splits)
  have "directory_grows (asDb s) (asDb (hres_state (webhook_process E h p rid w s)))" for p rid
    using first [of p] user [OF first [of p]] 
    by (auto simp: webhook_process_def case_prod_beta split: sum.splits option.splits bool.splits)
  then show ?thesis using refl by (simp add: logto_ServeHTTP_def Let_def split: sum.splits)
qed

lemma resolve_endpoint_grows:
  assumes "peaceful (aeDb E)"
  shows "directory_grows (asDb s) (asDb (hres_state (resolve_ServeHTTP E store r w s)))"
  using provider_grows [OF assms directory_log.frame_refl [of s]] directory_log.frame_refl [of s]
  by (auto simp: resolve_ServeHTTP_def Let_def case_prod_beta split: iface.splits sum.splits option.splits)

lemma Login_grows:
  assumes "peaceful (aeDb E)"
  shows "directory_grows (asDb s) (asDb (hres_state (Login E h r w s)))"
  using wechat_grows [OF assms directory_log.frame_refl [of s]] directory_log.frame_refl [of s]
  by (auto simp: Login_def login_user_def Let_def case_prod_beta split: iface.splits sum.splits option.splits)

lemma jwks_reads: "hres_state (jwks_ServeHTTP J i r w s) = s"
  by (auto simp: jwks_ServeHTTP_def Let_def split: sum.splits option.splits)

lemma auth_service_grows:
  assumes "metrics_pure (aeHealth E)" "peaceful (aeDb E)"
  shows "keeps (\<lambda>r. True) (\<lambda>s s'. directory_grows (asDb s) (asDb s')) (auth_service E token J lh mp idn iss rnd)"
  unfolding auth_service_def
proof (rule directory_log.keeps_service)
  fix rt
  let ?k = "keeps (\<lambda>r. True) (\<lambda>s s'. directory_grows (asDb s) (asDb s'))"
  assume "rt \<in> set (auth_routes E token J lh mp idn iss)"
  moreover have "?k (InternalAuth token (logto_ServeHTTP E lh))" "?k (InternalAuth token (resolve_ServeHTTP E (IPtr idn)))"
    by (rule directory_log.keeps_internal; simp add: keeps_def webhook_grows [OF assms(2)] resolve_endpoint_grows [OF assms(2)])+
  moreover have "?k (Login E (Some mp))" "?k (jwks_ServeHTTP J (Some iss))"
    by (simp_all add: keeps_def Login_grows [OF assms(2)] jwks_reads directory_log.frame_refl)
  ultimately show "?k (rtHandler rt)"
    using directory_log.keeps_health [OF assms(1)] by (auto simp: auth_routes_def)
qed

lemma auth_requests_grow:
  assumes "\<forall>(E, lh, mp, idn, rnd)\<in>fst ` set qs. metrics_pure (aeHealth E) \<and> only_adds (aeDb E) \<and> keeps_deliveries (aeDb E)"
    and "serve_all (\<lambda>(E, lh, mp, idn, rnd). auth_service E token jwks lh mp idn iss rnd) qs s = s'"
  shows "directory_grows (asDb s) (asDb s')"
proof -
  have "directory_grows (asDb s) (asDb (serve_all (\<lambda>(E, lh, mp, idn, rnd). auth_service E token jwks lh mp idn iss rnd) qs s))"
    by (rule directory_log.serve_all_keeps) (use assms(1) in \<open>fastforce intro!: auth_service_grows simp: peaceful_def\<close>)+
  with assms(2) show ?thesis by simp
qed

section \<open>Properties\<close>

text \<open>
  C8 The audit log is append-only. Whatever requests the audit service gets, with whatever faults, random bytes and states of
  the database connection, the table afterwards is the table before with rows added, and event ids stay unique.
\<close>

theorem audit_log_append_only:
  assumes "\<forall>(E, connected, rnd)\<in>fst ` set qs. metrics_pure (auHealth E)"
  shows "\<exists>new. serve_all (\<lambda>(E, connected, rnd). audit_service E token connected rnd) qs t = t @ new \<and>
    (keyed arID t \<longrightarrow> keyed arID (t @ new))"
proof -
  have "log_grows t (serve_all (\<lambda>(E, connected, rnd). audit_service E token connected rnd) qs t)"
    by (rule log.serve_all_keeps) (use assms in \<open>fastforce intro!: audit_service_grows\<close>)+
  then show ?thesis by (auto simp: log_grows_def)
qed

text \<open>
  C9 Only holders of the internal token write the audit log: no sequence of requests without it, or to a service configured
  without one, changes the table.
\<close>

theorem audit_writes_need_token:
  assumes "\<forall>(E, connected, rnd)\<in>fst ` set qs. metrics_pure (auHealth E)"
    and "token = [] \<or> (\<forall>r\<in>snd ` set qs. \<not> internalTokenOK r token)"
  shows "serve_all (\<lambda>(E, connected, rnd). audit_service E token connected rnd) qs t = t"
proof -
  have "t = serve_all (\<lambda>(E, connected, rnd). audit_service E token connected rnd) qs t"
    by (rule closed_log.serve_all_keeps [where token = token])
      (use assms in \<open>fastforce intro!: audit_service_closed simp: lacks_token_def\<close>)+
  then show ?thesis by simp
qed

text \<open>
  C10 Nobody else changes a user's files: over any sequence of requests to the file service in the name of other users, the
  records owned by the user stay as they are, in their order.
\<close>

theorem files_change_by_owner_only:
  assumes "\<forall>(E, connected, s3, env, rnd)\<in>fst ` set qs. metrics_pure (feHealth E)"
    and "\<forall>r\<in>snd ` set qs. UserID (FromHeaders (Header r)) \<noteq> u"
  shows "filter (\<lambda>f. fOwner f = u) (fsTable (serve_all (\<lambda>(E, connected, s3, env, rnd). file_service E token connected s3 env rnd) qs s)) =
    filter (\<lambda>f. fOwner f = u) (fsTable s)"
proof -
  have "same_files u s (serve_all (\<lambda>(E, connected, s3, env, rnd). file_service E token connected s3 env rnd) qs s)"
    by (rule mine.serve_all_keeps) (use assms in \<open>fastforce intro!: file_service_same simp: not_named_def\<close>)+
  then show ?thesis by (simp add: same_files_def)
qed


text \<open>
  C15 A subject never changes its user. Whatever requests the auth service gets (webhooks, resolutions, logins), with faults
  of any statement and other processes adding rows in between, every link stays and every processed delivery stays on record.
\<close>

theorem subjects_keep_their_user:
  assumes "\<forall>(E, lh, mp, idn, rnd)\<in>fst ` set qs. metrics_pure (aeHealth E) \<and> only_adds (aeDb E) \<and> keeps_deliveries (aeDb E)"
    and "serve_all (\<lambda>(E, lh, mp, idn, rnd). auth_service E token jwks lh mp idn iss rnd) qs s = s'"
  shows "(\<forall>k u. owner (asDb s) k = Some u \<longrightarrow> owner (asDb s') k = Some u) \<and> set (adDeliveries (asDb s)) \<subseteq> set (adDeliveries (asDb s'))"
  using auth_requests_grow [OF assms] by (simp add: directory_grows_def)


end
