(* ===== verification/FileContent.thy ===== *)
theory FileContent
  imports ServiceFrames
begin

text \<open>
  The bytes behind the records of the file service: which object a key names at the object store, what the storage client
  does to the store, and that a stored file keeps its content through any traffic of the service.
\<close>

section \<open>Objects\<close>

text \<open>The object a URL names: its path without query and fragment, percent escapes undone.\<close>

definition url_object :: "string \<Rightarrow> string" where
  "url_object u = (let p = before_byte (CHR ''?'') (before_byte (CHR ''#'') u) in case aws_decode p of None \<Rightarrow> p | Some d \<Rightarrow> d)"

definition key_object :: "s3_client \<Rightarrow> string \<Rightarrow> string" where
  "key_object c key = url_object (objectURL c key)"

text \<open>Strings that mean themselves in a URL, and path elements of them.\<close>

definition url_plain :: "string \<Rightarrow> bool" where
  "url_plain s \<longleftrightarrow> CHR ''?'' \<notin> set s \<and> CHR ''#'' \<notin> set s \<and> CHR ''%'' \<notin> set s"

definition safe_elem :: "string \<Rightarrow> bool" where
  "safe_elem s \<longleftrightarrow> plain_elem s \<and> url_plain s"

definition s3_plain :: "s3_client \<Rightarrow> bool" where
  "s3_plain c \<longleftrightarrow> url_plain (s3Host c) \<and> url_plain (s3Bucket c)"

lemma url_plain_simps [simp]:
  "url_plain []" "url_plain (x # s) \<longleftrightarrow> x \<noteq> CHR ''?'' \<and> x \<noteq> CHR ''#'' \<and> x \<noteq> CHR ''%'' \<and> url_plain s"
  "url_plain (s @ t) \<longleftrightarrow> url_plain s \<and> url_plain t"
  by (auto simp: url_plain_def)

lemma aws_decode_plain: "CHR ''%'' \<notin> set p \<Longrightarrow> aws_decode (p @ s) = map_option ((@) p) (aws_decode s)"
  by (cases "aws_decode s"; induction p) auto

lemma before_byte_append: "c \<notin> set p \<Longrightarrow> before_byte c (p @ s) = p @ before_byte c s"
  by (induction p) (auto simp: before_byte_def)

text \<open>What follows an element: nothing, or a slash and more.\<close>

definition at_elem :: "string \<Rightarrow> bool" where
  "at_elem r \<longleftrightarrow> r = [] \<or> hd r = CHR ''/''"

lemma url_object_plain:
  assumes "url_plain p" "at_elem s"
  shows "\<exists>r. url_object (p @ s) = p @ r \<and> at_elem r"
proof -
  let ?s = "before_byte (CHR ''?'') (before_byte (CHR ''#'') s)"
  have path: "before_byte (CHR ''?'') (before_byte (CHR ''#'') (p @ s)) = p @ ?s"
    using assms(1) by (simp add: url_plain_def before_byte_append)
  have at: "at_elem ?s" using assms(2) by (cases s) (auto simp: at_elem_def before_byte_def)
  show ?thesis
  proof (cases "aws_decode ?s")
    case None
    then show ?thesis using assms(1) at by (intro exI [of _ ?s]) (simp add: url_object_def path aws_decode_plain url_plain_def)
  next
    case (Some d)
    have "at_elem d" using at Some by (cases ?s) (auto simp: at_elem_def)
    then show ?thesis using assms(1) Some by (intro exI [of _ d]) (simp add: url_object_def path aws_decode_plain url_plain_def)
  qed
qed


lemma safe_hex: "b \<noteq> [] \<Longrightarrow> safe_elem (hex_encode b)"
proof -
  assume "b \<noteq> []"
  have dots: "\<not> is_lower_hex (CHR ''.'')" "\<not> is_lower_hex (CHR ''/'')" "\<not> is_lower_hex (CHR ''?'')" "\<not> is_lower_hex (CHR ''#'')"
    "\<not> is_lower_hex (CHR ''%'')"
    by code_simp+
  then have "c \<notin> set (hex_encode b)" if "\<not> is_lower_hex c" for c using set_hex_encode that by blast
  with dots \<open>b \<noteq> []\<close> show ?thesis
    by (auto simp: safe_elem_def plain_elem_def url_plain_def) (metis list.set_intros(1))+
qed

text \<open>The directory of a key keeps its place in the object.\<close>

definition tenant_dir :: "string \<Rightarrow> string" where
  "tenant_dir tenant = (if tenant = [] then ''_'' else tenant)"

definition safe_file :: "string \<Rightarrow> string \<Rightarrow> string \<Rightarrow> bool" where
  "safe_file tenant user fid \<longleftrightarrow> (tenant = [] \<or> safe_elem tenant) \<and> safe_elem user \<and> safe_elem fid"

definition s3_root :: "s3_client \<Rightarrow> string" where
  "s3_root c = (if s3Secure c then ''https'' else ''http'') @ ''://'' @ s3Host c @ ''/'' @ s3Bucket c @ ''/''"

lemma key_object_dir:
  assumes "s3_plain c" "safe_file tenant user fid"
  shows "\<exists>r. key_object c (objectKey tenant user fid name) = s3_root c @ tenant_dir tenant @ ''/'' @ user @ ''/'' @ fid @ r \<and> at_elem r"
proof -
  let ?d = "tenant_dir tenant @ ''/'' @ user @ ''/'' @ fid"
  have plain: "tenant = [] \<or> plain_elem tenant" "plain_elem user" "plain_elem fid"
    using assms(2) by (auto simp: safe_file_def safe_elem_def)
  obtain s where key: "objectKey tenant user fid name = ?d @ s" and s: "at_elem s"
    using objectKey_join [OF plain, of name] by (fastforce simp: tenant_dir_def at_elem_def split: if_splits)
  have "plain_elem ''_''" by code_simp
  then have "plain_elem (tenant_dir tenant)" using plain(1) by (auto simp: tenant_dir_def)
  then have "TrimPrefix (?d @ s) ''/'' = ?d @ s"
    by (cases "tenant_dir tenant") (auto simp: plain_elem_def TrimPrefix_def HasPrefix_def)
  then have url: "objectURL c (objectKey tenant user fid name) = (s3_root c @ ?d) @ s"
    by (simp add: objectURL_def key s3_root_def)
  have "url_plain (s3_root c @ ?d)"
    using assms by (auto simp: s3_plain_def s3_root_def safe_file_def safe_elem_def tenant_dir_def)
  from url_object_plain [OF this s] show ?thesis by (auto simp: key_object_def url)
qed


lemma elem_unique: "CHR ''/'' \<notin> set a \<Longrightarrow> CHR ''/'' \<notin> set b \<Longrightarrow> a @ CHR ''/'' # x = b @ CHR ''/'' # y \<Longrightarrow> a = b \<and> x = y"
proof (induction a arbitrary: b)
  case Nil
  then show ?case by (cases b) auto
next
  case (Cons c a)
  then show ?case by (cases b) auto
qed

lemma last_elem_unique:
  assumes "CHR ''/'' \<notin> set a" "CHR ''/'' \<notin> set b" "at_elem r" "at_elem r'" "a @ r = b @ r'"
  shows "a = b"
proof -
  have "takeWhile (\<lambda>c. c \<noteq> CHR ''/'') (a @ r) = a" if "CHR ''/'' \<notin> set a" "at_elem r" for a r
    using that by (induction a; cases r) (auto simp: at_elem_def)
  from this [OF assms(1,3)] this [OF assms(2,4)] assms(5) show ?thesis by simp
qed

text \<open>Files of different owners, or with different ids, have different objects.\<close>

lemma key_object_distinct:
  assumes "s3_plain c" "safe_file t u f" "safe_file t' u' f'" "u \<noteq> u' \<or> f \<noteq> f'"
  shows "key_object c (objectKey t u f name) \<noteq> key_object c (objectKey t' u' f' name')"
proof
  assume eq: "key_object c (objectKey t u f name) = key_object c (objectKey t' u' f' name')"
  have slash: "CHR ''/'' \<notin> set (tenant_dir t) \<and> CHR ''/'' \<notin> set u \<and> CHR ''/'' \<notin> set f" if "safe_file t u f" for t u f
    using that by (auto simp: safe_file_def safe_elem_def plain_elem_def tenant_dir_def)
  obtain r r' where r: "at_elem r" "at_elem r'"
    "s3_root c @ tenant_dir t @ ''/'' @ u @ ''/'' @ f @ r = s3_root c @ tenant_dir t' @ ''/'' @ u' @ ''/'' @ f' @ r'"
    using key_object_dir [OF assms(1,2), of name] key_object_dir [OF assms(1,3), of name'] eq by metis
  then have "tenant_dir t @ CHR ''/'' # (u @ CHR ''/'' # (f @ r)) = tenant_dir t' @ CHR ''/'' # (u' @ CHR ''/'' # (f' @ r'))" by simp
  then have "u @ CHR ''/'' # (f @ r) = u' @ CHR ''/'' # (f' @ r')"
    using elem_unique slash [OF assms(2)] slash [OF assms(3)] by blast
  then have "u = u'" "f @ r = f' @ r'" using elem_unique slash [OF assms(2)] slash [OF assms(3)] by blast+
  moreover from this(2) have "f = f'" using last_elem_unique slash [OF assms(2)] slash [OF assms(3)] r(1,2) by blast
  ultimately show False using assms(4) by simp
qed

section \<open>The object store\<close>

text \<open>
  What an S3 server documents of the three operations: they act on the object the URL names; a success has happened, a
  failure may have. \<open>objs\<close> is what the server holds.
\<close>

definition s3_store :: "'n http_client \<Rightarrow> ('n \<Rightarrow> string \<Rightarrow> string option) \<Rightarrow> bool" where
  "s3_store cl objs \<longleftrightarrow> (\<forall>q n res n'. cl q n = (res, n') \<longrightarrow>
     (let ob = url_object (OURL q); ok = (\<exists>st rd. res = Inr (st, rd) \<and> st < 300) in
      (OMethod q = ''GET'' \<longrightarrow> objs n' = objs n \<and> (\<forall>st body. res = Inr (st, Inr body) \<longrightarrow> st < 300 \<longrightarrow> objs n ob = Some body)) \<and>
      (OMethod q = ''PUT'' \<longrightarrow> objs n' = (objs n)(ob \<mapsto> OBody q) \<or> (objs n' = objs n \<and> \<not> ok)) \<and>
      (OMethod q = ''DELETE'' \<longrightarrow> objs n' = (objs n)(ob := None) \<or> (objs n' = objs n \<and> \<not> ok))))"

lemma s3_storeD:
  assumes "s3_store cl objs"
  shows "cl q n = (res, n') \<Longrightarrow> OMethod q = ''GET'' \<Longrightarrow> objs n' = objs n"
    and "cl q n = (Inr (st, Inr body), n') \<Longrightarrow> OMethod q = ''GET'' \<Longrightarrow> st < 300 \<Longrightarrow> objs n (url_object (OURL q)) = Some body"
    and "cl q n = (res, n') \<Longrightarrow> OMethod q = ''PUT'' \<Longrightarrow> objs n' = (objs n)(url_object (OURL q) \<mapsto> OBody q) \<or> objs n' = objs n"
    and "cl q n = (Inr (st, rd), n') \<Longrightarrow> OMethod q = ''PUT'' \<Longrightarrow> st < 300 \<Longrightarrow> objs n' = (objs n)(url_object (OURL q) \<mapsto> OBody q)"
    and "cl q n = (res, n') \<Longrightarrow> OMethod q = ''DELETE'' \<Longrightarrow> objs n' = (objs n)(url_object (OURL q) := None) \<or> objs n' = objs n"
  using assms unfolding s3_store_def Let_def by blast+

lemma signed_out_simps [simp]:
  "OMethod (signed_out K U now c method url hs hash bdy) = method" "OURL (signed_out K U now c method url hs hash bdy) = url"
  "OBody (signed_out K U now c method url hs hash bdy) = bdy"
  by (simp_all add: signed_out_def)

text \<open>The operations of the client.\<close>

lemma PutObject_stores:
  assumes "s3_store cl objs" "PutObject S cl (Some c) key content ct n = (e, n')"
  shows "objs n' = objs n \<or> objs n' = (objs n)(key_object c key \<mapsto> content)"
    and "e = None \<Longrightarrow> objs n' = (objs n)(key_object c key \<mapsto> content)"
  using assms(2) s3_storeD(3,4) [OF assms(1)]
  by (fastforce simp: PutObject_def key_object_def Let_def split: if_splits option.splits prod.splits sum.splits)+

lemma GetObject_reads:
  assumes "s3_store cl objs" "GetObject S cl (Some c) key n = (res, n')"
  shows "objs n' = objs n" and "res = Inr (Inr body) \<Longrightarrow> objs n (key_object c key) = Some body"
  using assms(2) s3_storeD(1,2) [OF assms(1)]
  by (fastforce simp: GetObject_def get_request_def key_object_def split: if_splits option.splits prod.splits sum.splits)+

lemma DeleteObject_removes:
  assumes "s3_store cl objs" "DeleteObject S cl (Some c) key n = (e, n')"
  shows "objs n' = objs n \<or> objs n' = (objs n)(key_object c key := None)"
  using assms(2) s3_storeD(5) [OF assms(1)]
  by (fastforce simp: DeleteObject_def key_object_def split: if_splits option.splits prod.splits sum.splits)

section \<open>Handlers\<close>

text \<open>What the handlers do to the state, in terms of the storage operations they call.\<close>

lemma upload_store_state:
  assumes "key = objectKey (TenantID idn) (UserID idn) fid (ffName f)" "s' = hres_state (upload_store E files s3 idn fid f w s)"
  shows "\<exists>ct e. PutObject (feS3 E) (feHttp E) s3 key (ffContent f) ct (fsNet s) = (e, fsNet s') \<and>
    (fsTable s' = fsTable s \<or> (\<exists>row. fsTable s' = fsTable s @ [row] \<and> fID row = fid \<and> fObjectKey row = key \<and>
       fOwner row = UserID idn \<and> fTenant row = TenantID idn))"
proof -
  let ?ct = "if ffType f = [] then ''application/octet-stream'' else ffType f"
  obtain e n where put: "PutObject (feS3 E) (feHttp E) s3 key (ffContent f) ?ct (fsNet s) = (e, n)" by fastforce
  note run = assms(2) [unfolded upload_store_def Let_def, folded assms(1), unfolded put]
  show ?thesis
  proof (cases "e = None \<and> (\<exists>pool. files = IPtr (Some pool))")
    case False
    then have "s' = s\<lparr>fsNet := n\<rparr>"
      using run by (cases e; cases files) (auto simp: with_store_def split: option.splits)
    then show ?thesis using put by (intro exI [of _ ?ct] exI [of _ e]) simp
  next
    case True
    then obtain pool where pool: "e = None" "files = IPtr (Some pool)" by blast
    let ?row = "\<lparr>fID = fid, fTenant = TenantID idn, fOwner = UserID idn, fBucket = Bucket s3, fObjectKey = key,
      fContentType = ?ct, fSize = ffSize f, fCreatedAt = zero_time\<rparr>"
    obtain res tbl where ins: "Files_Insert pool (feFault E 0) (feNow E) ?row (fsTable s) = (res, tbl)" by fastforce
    have "s' = s\<lparr>fsTable := tbl, fsNet := n\<rparr>"
      using run unfolding pool with_store_def by (cases res) (simp_all add: ins split del: if_split)
    moreover have "tbl = fsTable s \<or> tbl = fsTable s @ [?row\<lparr>fCreatedAt := feNow E\<rparr>]"
      using Insert_table [of pool "feFault E 0" "feNow E" ?row "fsTable s"] unfolding ins snd_conv by blast
    ultimately show ?thesis using put by (intro exI [of _ ?ct] exI [of _ e]) (elim disjE, simp_all)
  qed
qed

lemma Upload_runs:
  "hres_state (Upload_ServeHTTP E files s3 mb r w s) = s \<or>
   (\<exists>b f. feRand E = Inr b \<and> Upload_ServeHTTP E files s3 mb r w s = upload_store E files s3 (fst (FromContext r)) (hex_encode b) f w s)"
  by (auto simp: Upload_ServeHTTP_def Let_def newFileID_def split: option.splits sum.splits)

lemma Delete_state:
  "hres_state (Delete_ServeHTTP E files s3 r w s) = s \<or>
   (\<exists>pool row e n. load_row pool (feFault E 0) (fst (FromContext r)) r (fsTable s) = Inr row \<and>
      DeleteObject (feS3 E) (feHttp E) s3 (fObjectKey row) (fsNet s) = (e, n) \<and>
      fsNet (hres_state (Delete_ServeHTTP E files s3 r w s)) = n)"
  by (auto simp: Delete_ServeHTTP_def Let_def with_store_def split: iface.splits option.splits sum.splits prod.splits)

lemma Download_state:
  "hres_state (Download_ServeHTTP E files s3 r w s) = s \<or>
   (\<exists>key res. GetObject (feS3 E) (feHttp E) s3 key (fsNet s) = (res, fsNet (hres_state (Download_ServeHTTP E files s3 r w s))))"
  by (auto simp: Download_ServeHTTP_def Let_def with_store_def split: iface.splits option.splits sum.splits prod.splits)

section \<open>One file under traffic\<close>

text \<open>Callers whose ids mean themselves in a URL, and fresh file ids.\<close>

definition safe_caller :: "Identity \<Rightarrow> bool" where
  "safe_caller idn \<longleftrightarrow> safe_elem (UserID idn) \<and> (TenantID idn = [] \<or> safe_elem (TenantID idn))"

definition caller_safe :: "request \<Rightarrow> bool" where
  "caller_safe r \<longleftrightarrow> (let idn = FromHeaders (Header r) in UserID idn \<noteq> [] \<longrightarrow> safe_caller idn)"

definition other_ids :: "string \<Rightarrow> 'n file_env \<Rightarrow> bool" where
  "other_ids fid E \<longleftrightarrow> (\<forall>b. feRand E = Inr b \<longrightarrow> b \<noteq> [] \<and> hex_encode b \<noteq> fid)"

lemma caller_headers:
  assumes "\<forall>k. k \<notin> {''X-Request-Id'', ''Traceparent''} \<longrightarrow> h k = Header r k"
  shows "UserID (FromHeaders h) = UserID (FromHeaders (Header r))" "TenantID (FromHeaders h) = TenantID (FromHeaders (Header r))"
  using assms by (simp_all add: FromHeaders_def header_names hdr_get_def)

lemma stable_caller: "stable caller_safe"
proof -
  have "caller_safe (r\<lparr>Header := h\<rparr>) = caller_safe r" if "\<forall>k. k \<notin> {''X-Request-Id'', ''Traceparent''} \<longrightarrow> h k = Header r k" for r h
    using caller_headers [OF that] by (simp add: caller_safe_def safe_caller_def Let_def)
  then show ?thesis unfolding stable_def by (simp add: caller_safe_def)
qed

text \<open>Records as the upload handler makes them.\<close>

definition placed :: "file_row \<Rightarrow> bool" where
  "placed f \<longleftrightarrow> safe_file (fTenant f) (fOwner f) (fID f) \<and> (\<exists>name. fObjectKey f = objectKey (fTenant f) (fOwner f) (fID f) name)"

lemma placed_distinct:
  assumes "s3_plain c" "placed f" "placed g" "fOwner f \<noteq> fOwner g \<or> fID f \<noteq> fID g"
  shows "key_object c (fObjectKey f) \<noteq> key_object c (fObjectKey g)"
  using assms key_object_distinct [OF assms(1)] by (auto simp: placed_def)

text \<open>Another upload leaves the object of a file alone, and adds a record of its own at most.\<close>

lemma upload_elsewhere:
  assumes law: "s3_store (feHttp E) objs" and c: "s3_plain c" and f: "placed f" and ids: "other_ids (fID f) E"
    and caller: "safe_caller (fst (FromContext r))" and s': "s' = hres_state (Upload_ServeHTTP E files (Some c) mb r w s)"
  shows "objs (fsNet s') (key_object c (fObjectKey f)) = objs (fsNet s) (key_object c (fObjectKey f)) \<and>
    (fsTable s' = fsTable s \<or> (\<exists>row. fsTable s' = fsTable s @ [row] \<and> placed row \<and> fID row \<noteq> fID f))"
proof -
  let ?idn = "fst (FromContext r)"
  consider "s' = s" | b g where "feRand E = Inr b" "s' = hres_state (upload_store E files (Some c) ?idn (hex_encode b) g w s)"
    using Upload_runs [of E files "Some c" mb r w s] s' by auto
  then show ?thesis
  proof cases
    case (2 b g)
    let ?key = "objectKey (TenantID ?idn) (UserID ?idn) (hex_encode b) (ffName g)"
    have b: "b \<noteq> []" "hex_encode b \<noteq> fID f" using ids 2(1) by (simp_all add: other_ids_def)
    then have safe: "safe_file (TenantID ?idn) (UserID ?idn) (hex_encode b)"
      using caller safe_hex by (simp add: safe_file_def safe_caller_def)
    obtain ct e where put: "PutObject (feS3 E) (feHttp E) (Some c) ?key (ffContent g) ct (fsNet s) = (e, fsNet s')"
      and rows: "fsTable s' = fsTable s \<or> (\<exists>row. fsTable s' = fsTable s @ [row] \<and> fID row = hex_encode b \<and> fObjectKey row = ?key \<and>
         fOwner row = UserID ?idn \<and> fTenant row = TenantID ?idn)"
      using upload_store_state [OF refl 2(2)] by blast
    have "key_object c ?key \<noteq> key_object c (fObjectKey f)"
      using f key_object_distinct [OF c safe] b(2) by (auto simp: placed_def)
    then have "objs (fsNet s') (key_object c (fObjectKey f)) = objs (fsNet s) (key_object c (fObjectKey f))"
      using PutObject_stores(1) [OF law put] by auto
    moreover have "fsTable s' = fsTable s \<or> (\<exists>row. fsTable s' = fsTable s @ [row] \<and> placed row \<and> fID row \<noteq> fID f)"
      using rows safe b(2) by (auto simp: placed_def)
    ultimately show ?thesis by blast
  qed simp
qed

text \<open>A deletion removes the object of a record of the caller at most.\<close>

lemma delete_elsewhere:
  assumes law: "s3_store (feHttp E) objs" and s': "s' = hres_state (Delete_ServeHTTP E files (Some c) r w s)"
  shows "objs (fsNet s') = objs (fsNet s) \<or>
    (\<exists>row\<in>set (fsTable s). fOwner row = UserID (fst (FromContext r)) \<and> objs (fsNet s') = (objs (fsNet s))(key_object c (fObjectKey row) := None))"
proof -
  consider "s' = s" | pool row e where "load_row pool (feFault E 0) (fst (FromContext r)) r (fsTable s) = Inr row"
      "DeleteObject (feS3 E) (feHttp E) (Some c) (fObjectKey row) (fsNet s) = (e, fsNet s')"
    using Delete_state [of E files "Some c" r w s] s' by auto
  then show ?thesis
  proof cases
    case (2 pool row e)
    then have "row \<in> set (fsTable s)" "fOwner row = UserID (fst (FromContext r))"
      using load_row_Inr [OF 2(1)] by (auto simp: find_Some_iff owned_where_def)
    with DeleteObject_removes [OF law 2(2)] show ?thesis by blast
  qed simp
qed

lemma download_reads:
  assumes "s3_store (feHttp E) objs"
  shows "objs (fsNet (hres_state (Download_ServeHTTP E files (Some c) r w s))) = objs (fsNet s)"
  using Download_state [of E files "Some c" r w s] GetObject_reads(1) [OF assms] by auto

text \<open>The object of a file holds its content or nothing, and its record is the only one with its id.\<close>

definition content_safe :: "('n \<Rightarrow> string \<Rightarrow> string option) \<Rightarrow> s3_client \<Rightarrow> file_row \<Rightarrow> string \<Rightarrow> 'n file_state \<Rightarrow> bool" where
  "content_safe objs c f content s \<longleftrightarrow> objs (fsNet s) (key_object c (fObjectKey f)) \<in> {None, Some content} \<and>
     (\<forall>g\<in>set (fsTable s). fID g = fID f \<longrightarrow> g = f)"

definition content_kept where
  "content_kept objs c f content s s' \<longleftrightarrow> (content_safe objs c f content s \<longrightarrow> content_safe objs c f content s')"

interpretation content: frame caller_safe "content_kept objs c f content"
  by unfold_locales (simp_all add: stable_caller content_kept_def)

lemma Delete_rows: "set (fsTable (hres_state (Delete_ServeHTTP E files s3 r w s))) \<subseteq> set (fsTable s)"
  using Delete_table [of E files s3 r w s] by (elim disjE) simp_all

lemma file_service_content:
  assumes "s3_store (feHttp E) objs" "s3_plain c" "placed f" "other_ids (fID f) E" "metrics_pure (feHealth E)"
  shows "keeps caller_safe (content_kept objs c f content) (file_service E token connected (Some c) env rnd)"
proof (rule file_service_keeps [OF content.frame_axioms assms(5)])
  fix mb r w s
  let ?r = "NewContext (FromHeaders (Header r)) r"
  assume r: "caller_safe r" "UserID (FromHeaders (Header r)) \<noteq> []"
  then have caller: "safe_caller (fst (FromContext ?r))" by (simp add: caller_safe_def NewContext_def FromContext_def)
  show "content_kept objs c f content s (hres_state (Upload_ServeHTTP E (store_iface connected) (Some c) mb ?r w s))"
    using upload_elsewhere [OF assms(1-4) caller refl, of "store_iface connected" mb w s]
    by (auto simp: content_kept_def content_safe_def)
  show "content_kept objs c f content s (hres_state (Delete_ServeHTTP E (store_iface connected) (Some c) ?r w s))"
    using delete_elsewhere [OF assms(1) refl, of "store_iface connected" c ?r w s]
      Delete_rows [of E "store_iface connected" "Some c" ?r w s]
    by (auto simp: content_kept_def content_safe_def split: if_splits)
  show "content_kept objs c f content s (hres_state (Download_ServeHTTP E (store_iface connected) (Some c) ?r w s))"
    by (simp add: content_kept_def content_safe_def Download_table download_reads [OF assms(1)])
qed

text \<open>While nobody acts in the owner's name, the file stays readable.\<close>

definition content_there :: "('n \<Rightarrow> string \<Rightarrow> string option) \<Rightarrow> s3_client \<Rightarrow> file_row \<Rightarrow> string \<Rightarrow> 'n file_state \<Rightarrow> bool" where
  "content_there objs c f content s \<longleftrightarrow> objs (fsNet s) (key_object c (fObjectKey f)) = Some content \<and> f \<in> set (fsTable s) \<and>
     (\<forall>g\<in>set (fsTable s). placed g)"

definition availability_kept where
  "availability_kept objs c f content s s' \<longleftrightarrow> (content_there objs c f content s \<longrightarrow> content_there objs c f content s')"

definition others_safe :: "string \<Rightarrow> request \<Rightarrow> bool" where
  "others_safe u r \<longleftrightarrow> caller_safe r \<and> not_named u r"

lemma stable_others: "stable (others_safe u)"
  using stable_caller stable_named [of u] by (simp add: stable_def others_safe_def)

interpretation available: frame "others_safe u" "availability_kept objs c f content"
  by unfold_locales (simp_all add: stable_others availability_kept_def)

lemma file_service_available:
  assumes "s3_store (feHttp E) objs" "s3_plain c" "placed f" "other_ids (fID f) E" "metrics_pure (feHealth E)"
  shows "keeps (others_safe (fOwner f)) (availability_kept objs c f content) (file_service E token connected (Some c) env rnd)"
proof (rule file_service_keeps [OF available.frame_axioms assms(5)])
  fix mb r w s
  let ?r = "NewContext (FromHeaders (Header r)) r"
  assume r: "others_safe (fOwner f) r" "UserID (FromHeaders (Header r)) \<noteq> []"
  then have caller: "safe_caller (fst (FromContext ?r))" and other: "UserID (fst (FromContext ?r)) \<noteq> fOwner f"
    by (simp_all add: others_safe_def not_named_def caller_safe_def NewContext_def FromContext_def)
  show "availability_kept objs c f content s (hres_state (Upload_ServeHTTP E (store_iface connected) (Some c) mb ?r w s))"
    using upload_elsewhere [OF assms(1-4) caller refl, of "store_iface connected" mb w s]
    by (auto simp: availability_kept_def content_there_def)
  show "availability_kept objs c f content s (hres_state (Delete_ServeHTTP E (store_iface connected) (Some c) ?r w s))"
    unfolding availability_kept_def
  proof
    let ?s' = "hres_state (Delete_ServeHTTP E (store_iface connected) (Some c) ?r w s)"
    assume there: "content_there objs c f content s"
    have ne: "key_object c (fObjectKey f) \<noteq> key_object c (fObjectKey row)"
      if "row \<in> set (fsTable s)" "fOwner row = UserID (fst (FromContext ?r))" for row
      using that there other placed_distinct [OF assms(2,3), of row] by (simp add: content_there_def)
    have "objs (fsNet s) (key_object c (fObjectKey f)) = Some content" using there by (simp add: content_there_def)
    then have "objs (fsNet ?s') (key_object c (fObjectKey f)) = Some content"
      using delete_elsewhere [OF assms(1) refl, of "store_iface connected" c ?r w s] ne by (elim disjE bexE conjE) simp_all
    moreover have "f \<in> set (fsTable ?s')"
      using Delete_table [of E "store_iface connected" "Some c" ?r w s] there other
      by (elim disjE) (simp_all add: content_there_def owned_where_def)
    ultimately show "content_there objs c f content ?s'"
      using Delete_rows [of E "store_iface connected" "Some c" ?r w s] there by (auto simp: content_there_def)
  qed
  show "availability_kept objs c f content s (hres_state (Download_ServeHTTP E (store_iface connected) (Some c) ?r w s))"
    by (simp add: availability_kept_def content_there_def Download_table download_reads [OF assms(1)])
qed

section \<open>Upload and download\<close>

lemma upload_stored:
  assumes "Upload_ServeHTTP E files s3 mb r new_writer s = Served w' s'" "final_status w' = 201" "Ctx r = Some idn"
    and "feForm E mb r = Inr (Some f)" "feRand E = Inr b"
  shows "\<exists>row ct. fsTable s' = fsTable s @ [row] \<and> fID row = hex_encode b \<and> fOwner row = UserID idn \<and> fTenant row = TenantID idn \<and>
    fObjectKey row = objectKey (TenantID idn) (UserID idn) (hex_encode b) (ffName f) \<and> fID row \<notin> fID ` set (fsTable s) \<and>
    PutObject (feS3 E) (feHttp E) s3 (fObjectKey row) (ffContent f) ct (fsNet s) = (None, fsNet s')"
proof -
  have ctx: "fst (FromContext r) = idn" using assms(3) by (simp add: FromContext_def)
  let ?ct = "if ffType f = [] then ''application/octet-stream'' else ffType f"
  let ?key = "objectKey (TenantID idn) (UserID idn) (hex_encode b) (ffName f)"
  have run: "upload_store E files s3 idn (hex_encode b) f new_writer s = Served w' s'"
    using assms(1,2,4,5) ctx by (auto simp: Upload_ServeHTTP_def Let_def newFileID_def split: if_splits)
  obtain e n where put: "PutObject (feS3 E) (feHttp E) s3 ?key (ffContent f) ?ct (fsNet s) = (e, n)" by fastforce
  note run = run [unfolded upload_store_def Let_def put]
  have e: "e = None" using run assms(2) by (cases e) auto
  note run = run [unfolded e, simplified]
  obtain pool where pool: "files = IPtr (Some pool)" using run assms(2) by (auto simp: with_store_def split: iface.splits option.splits)
  let ?row = "\<lparr>fID = hex_encode b, fTenant = TenantID idn, fOwner = UserID idn, fBucket = Bucket s3, fObjectKey = ?key,
      fContentType = ?ct, fSize = ffSize f, fCreatedAt = zero_time\<rparr>"
  obtain res tbl where ins: "Files_Insert pool (feFault E 0) (feNow E) ?row (fsTable s) = (res, tbl)" by fastforce
  obtain row where row: "res = Inr row" "s' = s\<lparr>fsTable := tbl, fsNet := n\<rparr>"
    using run ins assms(2) pool by (cases res) (auto simp: with_store_def)
  have "row = ?row\<lparr>fCreatedAt := feNow E\<rparr>" "tbl = fsTable s @ [row]" "fID row \<notin> fID ` set (fsTable s)"
    using Files_Insert_Inr [OF ins [unfolded row(1)]] by blast+
  then show ?thesis using put e row(2) by (intro exI [of _ row] exI [of _ ?ct]) simp
qed

lemma load_row_status: "load_row pool fault idn r tbl = Inl e \<Longrightarrow> Status e \<noteq> 200"
  by (auto simp: load_row_def split: sum.splits if_splits)

lemma download_headers_keep [simp]:
  "WBody (download_headers row ty w) = WBody w" "WSent (download_headers row ty w) = WSent w"
  by (simp_all add: download_headers_def Let_def)

lemma written_body [simp]: "WBody (WriteHeader c w) = WBody w" "WBody (WriteBody b w) = WBody w @ [b]"
  by (simp_all add: writer_defs Let_def split: option.splits)

lemma download_served:
  assumes "Download_ServeHTTP E files (Some c) r new_writer s = Served w' s'" "final_status w' = 200"
  shows "\<exists>pool row n. load_row pool (feFault E 0) (fst (FromContext r)) r (fsTable s) = Inr row \<and>
    ((\<exists>bdy. GetObject (feS3 E) (feHttp E) (Some c) (fObjectKey row) (fsNet s) = (Inr (Inr bdy), n) \<and> WBody w' = [BBytes bdy]) \<or>
     (\<exists>err. GetObject (feS3 E) (feHttp E) (Some c) (fObjectKey row) (fsNet s) = (Inr (Inl err), n) \<and> WBody w' = []))"
  using assms
  by (auto simp: Download_ServeHTTP_def Let_def with_store_def dest: load_row_status
      split: if_splits iface.splits option.splits sum.splits prod.splits) blast+

section \<open>Property\<close>


end
