(* ===== verification/OutboxReplicas.thy ===== *)
theory OutboxReplicas
  imports Outbox
begin

text \<open>
  Several workers, each with a dispatcher, over one outbox: the query of a round takes no locks, so two of them may read the
  same rows. Their statements and posts interleave in any order, replies get lost, workers die between a post and its mark.
  One dispatcher alone is the case in which the steps of a round are not interrupted (\<open>rounds_are_runs\<close>).
\<close>

section \<open>Steps\<close>

text \<open>What a dispatcher has in memory: the rows of its round still to do, and the row posted but not yet marked.\<close>

record dispatcher =
  dpRows :: "outbox_row list"
  dpPosted :: "string option"

definition idle :: dispatcher where "idle = \<lparr>dpRows = [], dpPosted = None\<rparr>"

record 'n ob_system =
  obShared :: "'n ob_state"
  obWorker :: "nat \<Rightarrow> dispatcher"

definition all_idle :: "'n ob_state \<Rightarrow> 'n ob_system" where
  "all_idle s = \<lparr>obShared = s, obWorker = (\<lambda>i. idle)\<rparr>"

text \<open>
  Worker \<open>i\<close> reads the waiting rows (of which it gets \<open>n\<close>), posts the next one in some environment, marks the one it posted,
  or dies; the business service inserts a row.
\<close>

datatype 'p ob_action = Select nat nat | Post nat 'p | MarkRow nat "goerr option" gotime | Die nat | InsertRow outbox_row

definition put_worker :: "nat \<Rightarrow> dispatcher \<Rightarrow> 'n ob_state \<Rightarrow> 'n ob_system \<Rightarrow> 'n ob_system" where
  "put_worker i d s S = S\<lparr>obShared := s, obWorker := (obWorker S)(i := d)\<rparr>"

definition post_next :: "(Event \<Rightarrow> 'n \<Rightarrow> goerr option \<times> 'n) \<Rightarrow> dispatcher \<Rightarrow> 'n ob_state \<Rightarrow> dispatcher \<times> 'n ob_state" where
  "post_next emit d s = (case (dpPosted d, dpRows d) of
     (None, row # rows) \<Rightarrow> (case publish_post emit row s of
        (Some err, s') \<Rightarrow> (\<lparr>dpRows = rows, dpPosted = None\<rparr>, s')
      | (None, s') \<Rightarrow> (\<lparr>dpRows = rows, dpPosted = Some (obID row)\<rparr>, s'))
   | _ \<Rightarrow> (d, s))"

definition mark_posted :: "goerr option \<Rightarrow> gotime \<Rightarrow> dispatcher \<Rightarrow> 'n ob_state \<Rightarrow> dispatcher \<times> 'n ob_state" where
  "mark_posted fault now d s = (case dpPosted d of
     None \<Rightarrow> (d, s)
   | Some rid \<Rightarrow> (d\<lparr>dpPosted := None\<rparr>, snd (publish_mark fault now rid s)))"

fun ob_act :: "('p \<Rightarrow> Event \<Rightarrow> 'n \<Rightarrow> goerr option \<times> 'n) \<Rightarrow> 'p ob_action \<Rightarrow> 'n ob_system \<Rightarrow> 'n ob_system" where
  "ob_act emit (Select i n) S =
     (if obWorker S i = idle
      then put_worker i \<lparr>dpRows = take n (pending_rows (obRows (obShared S))), dpPosted = None\<rparr> (obShared S) S else S)"
| "ob_act emit (Post i p) S = (case post_next (emit p) (obWorker S i) (obShared S) of (d, s) \<Rightarrow> put_worker i d s S)"
| "ob_act emit (MarkRow i fault now) S = (case mark_posted fault now (obWorker S i) (obShared S) of (d, s) \<Rightarrow> put_worker i d s S)"
| "ob_act emit (Die i) S = put_worker i idle (obShared S) S"
| "ob_act emit (InsertRow row) S =
     (let s = obShared S in
      if obID row \<in> obID ` set (obRows s) then S else S\<lparr>obShared := s\<lparr>obRows := obRows s @ [row\<lparr>obPublished := None\<rparr>]\<rparr>\<rparr>)"

fun ob_run :: "('p \<Rightarrow> Event \<Rightarrow> 'n \<Rightarrow> goerr option \<times> 'n) \<Rightarrow> 'p ob_action list \<Rightarrow> 'n ob_system \<Rightarrow> 'n ob_system" where
  "ob_run emit [] S = S"
| "ob_run emit (a # as) S = ob_run emit as (ob_act emit a S)"

lemma ob_run_append: "ob_run emit (as @ bs) S = ob_run emit bs (ob_run emit as S)"
  by (induction as arbitrary: S) simp_all

section \<open>One dispatcher\<close>

lemma put_worker_simps [simp]:
  "obShared (put_worker i d s S) = s" "obWorker (put_worker i d s S) j = (if j = i then d else obWorker S j)"
  "put_worker i d' s' (put_worker i d s S) = put_worker i d' s' S"
  by (simp_all add: put_worker_def)

lemma put_worker_same: "obWorker S i = d \<Longrightarrow> obShared S = s \<Longrightarrow> put_worker i d s S = S"
  by (auto simp: put_worker_def)

lemma all_idle_simps [simp]:
  "obShared (all_idle s) = s" "obWorker (all_idle s) i = idle" "put_worker i idle s' (all_idle s) = all_idle s'"
  by (auto simp: all_idle_def put_worker_def)

lemma row_is_run:
  assumes "publishRow (emit p) fault now row s = (e, s')"
  shows "ob_run emit [Post i p, MarkRow i fault now] (put_worker i \<lparr>dpRows = row # rows, dpPosted = None\<rparr> s S) =
    put_worker i \<lparr>dpRows = rows, dpPosted = None\<rparr> s' S"
  using assms
  by (auto simp: publishRow_def post_next_def mark_posted_def split: prod.splits option.splits)

lemma loop_is_run:
  "\<exists>as. ob_run emit as (put_worker i \<lparr>dpRows = rows, dpPosted = None\<rparr> s S) =
    put_worker i idle (snd (publish_loop (\<lambda>k. emit (env k)) fault now k rows firstErr s)) S"
proof (induction rows arbitrary: k firstErr s)
  case Nil
  show ?case by (intro exI [of _ "[]"]) (simp add: idle_def)
next
  case (Cons row rows)
  obtain e s' where p: "publishRow (emit (env k)) (fault k) now row s = (e, s')" by fastforce
  let ?e = "case e of None \<Rightarrow> firstErr | Some err \<Rightarrow> if firstErr = None then Some err else firstErr"
  obtain as where as: "ob_run emit as (put_worker i \<lparr>dpRows = rows, dpPosted = None\<rparr> s' S) =
      put_worker i idle (snd (publish_loop (\<lambda>k. emit (env k)) fault now (Suc k) rows ?e s')) S"
    using Cons.IH by blast
  have "ob_run emit ([Post i (env k), MarkRow i (fault k) now] @ as) (put_worker i \<lparr>dpRows = row # rows, dpPosted = None\<rparr> s S) =
      put_worker i idle (snd (publish_loop (\<lambda>k. emit (env k)) fault now (Suc k) rows ?e s')) S"
    unfolding ob_run_append row_is_run [where emit = emit, OF p] as ..
  moreover have "snd (publish_loop (\<lambda>k. emit (env k)) fault now k (row # rows) firstErr s) =
      snd (publish_loop (\<lambda>k. emit (env k)) fault now (Suc k) rows ?e s')"
    using p by (cases e) simp_all
  ultimately show ?case by metis
qed

text \<open>A round that is not interrupted.\<close>

lemma round_is_run:
  assumes "obWorker S i = idle"
  shows "\<exists>as. ob_run emit as S = put_worker i idle (snd (dispatchOnce (\<lambda>k. emit (env k)) fault now queryErr brk (obShared S))) S"
proof (cases queryErr)
  case (Some err)
  then show ?thesis
    using put_worker_same [OF assms refl] by (intro exI [of _ "[]"]) (simp add: dispatchOnce_def)
next
  case None
  define n where "n = (case brk of None \<Rightarrow> length (pending_rows (obRows (obShared S))) | Some (m, err) \<Rightarrow> m)"
  have round: "snd (dispatchOnce (\<lambda>k. emit (env k)) fault now queryErr brk (obShared S)) =
      snd (publish_loop (\<lambda>k. emit (env k)) fault now 0 (take n (pending_rows (obRows (obShared S)))) None (obShared S))"
    using None by (simp add: dispatchOnce_def n_def split: option.splits prod.splits)
  obtain as where "ob_run emit as (put_worker i \<lparr>dpRows = take n (pending_rows (obRows (obShared S))), dpPosted = None\<rparr> (obShared S) S) =
      put_worker i idle (snd (dispatchOnce (\<lambda>k. emit (env k)) fault now queryErr brk (obShared S))) S"
    using loop_is_run unfolding round by blast
  then have "ob_run emit (Select i n # as) S = put_worker i idle (snd (dispatchOnce (\<lambda>k. emit (env k)) fault now queryErr brk (obShared S))) S"
    using assms by simp
  then show ?thesis by blast
qed

text \<open>What the dispatcher reaches alone, some run of the workers reaches.\<close>

lemma rounds_are_runs: "ob_reach emit s0 s \<Longrightarrow> \<exists>as. ob_run emit as (all_idle s0) = all_idle s"
proof (induction rule: ob_reach.induct)
  case ob_start
  show ?case by (intro exI [of _ "[]"]) simp
next
  case (ob_round s env fault now queryErr brk)
  then obtain as where as: "ob_run emit as (all_idle s0) = all_idle s" by blast
  obtain bs where "ob_run emit bs (all_idle s) =
      put_worker 0 idle (snd (dispatchOnce (\<lambda>k. emit (env k)) fault now queryErr brk s)) (all_idle s)"
    using round_is_run [of "all_idle s" 0 emit env fault now queryErr brk] by auto
  then have "ob_run emit (as @ bs) (all_idle s0) = all_idle (snd (dispatchOnce (\<lambda>k. emit (env k)) fault now queryErr brk s))"
    by (simp add: ob_run_append as)
  then show ?case by blast
next
  case (ob_add s row)
  then obtain as where as: "ob_run emit as (all_idle s0) = all_idle s" by blast
  have "row\<lparr>obPublished := None\<rparr> = row" using ob_add.hyps(2) by (cases row) simp
  then have "ob_run emit (as @ [InsertRow row]) (all_idle s0) = all_idle (s\<lparr>obRows := obRows s @ [row]\<rparr>)"
    using ob_add.hyps(3) by (simp add: ob_run_append as Let_def) (simp add: all_idle_def)
  then show ?case by blast
qed

section \<open>Invariant\<close>

text \<open>
  No id twice on either side; what is published or posted is in the audit log; the workers only know rows of the table, and
  the log only ids of rows.
\<close>

definition ob_inv :: "('n \<Rightarrow> string list) \<Rightarrow> 'n ob_system \<Rightarrow> bool" where
  "ob_inv ids S \<longleftrightarrow>
     distinct (ids (obNet (obShared S))) \<and> distinct (map obID (obRows (obShared S))) \<and>
     set (ids (obNet (obShared S))) \<subseteq> obID ` set (obRows (obShared S)) \<and>
     (\<forall>r\<in>set (obRows (obShared S)). obPublished r \<noteq> None \<longrightarrow> obID r \<in> set (ids (obNet (obShared S)))) \<and>
     (\<forall>i. obID ` set (dpRows (obWorker S i)) \<subseteq> obID ` set (obRows (obShared S)) \<and>
        set_option (dpPosted (obWorker S i)) \<subseteq> set (ids (obNet (obShared S))))"

lemma mark_published_ids [simp]: "obID ` set (mark_published now i rows) = obID ` set rows"
  by (metis list.set_map map_obID_mark)

lemma put_worker_inv:
  assumes "ob_inv ids S" "distinct (ids (obNet s))" "map obID (obRows s) = map obID (obRows (obShared S))"
    "set (ids (obNet (obShared S))) \<subseteq> set (ids (obNet s))" "set (ids (obNet s)) \<subseteq> obID ` set (obRows s)"
    "\<forall>r\<in>set (obRows s). obPublished r \<noteq> None \<longrightarrow> obID r \<in> set (ids (obNet s))"
    "obID ` set (dpRows d) \<subseteq> obID ` set (obRows s)" "set_option (dpPosted d) \<subseteq> set (ids (obNet s))"
  shows "ob_inv ids (put_worker i d s S)"
proof -
  have same: "obID ` set (obRows s) = obID ` set (obRows (obShared S))" using assms(3) by (metis list.set_map)
  have "obID ` set (dpRows (obWorker S j)) \<subseteq> obID ` set (obRows s) \<and> set_option (dpPosted (obWorker S j)) \<subseteq> set (ids (obNet s))" for j
    using assms(1,4) unfolding ob_inv_def same by blast
  moreover have "distinct (map obID (obRows s))" using assms(1,3) unfolding ob_inv_def by metis
  ultimately show ?thesis using assms(2,5-8) unfolding ob_inv_def by simp
qed

context audit_sink
begin

lemma publish_post_effect:
  assumes "publish_post (emit p) row s = (e, s')"
  shows "obRows s' = obRows s" "set (ids (obNet s)) \<subseteq> set (ids (obNet s'))"
    "distinct (ids (obNet s)) \<Longrightarrow> distinct (ids (obNet s'))" "set (ids (obNet s')) \<subseteq> insert (obID row) (set (ids (obNet s)))"
    "e = None \<Longrightarrow> obID row \<in> set (ids (obNet s'))"
proof -
  consider (bad) err where "e = Some err" "s' = s" | (posted) ev n where "EvID ev = obID row" "emit p ev (obNet s) = (e, n)" "s' = s\<lparr>obNet := n\<rparr>"
  proof (cases "rowToEvent row")
    case (Inl err)
    then show thesis using assms by (intro bad [of err]) (simp_all add: publish_post_def)
  next
    case (Inr ev)
    obtain x n where em: "emit p ev (obNet s) = (x, n)" by fastforce
    with assms Inr have "x = e" "s' = s\<lparr>obNet := n\<rparr>" by (simp_all add: publish_post_def)
    with em show thesis using posted [OF rowToEvent_ID [OF Inr]] by simp
  qed
  then have "obRows s' = obRows s \<and> set (ids (obNet s)) \<subseteq> set (ids (obNet s')) \<and> (distinct (ids (obNet s)) \<longrightarrow> distinct (ids (obNet s'))) \<and>
      set (ids (obNet s')) \<subseteq> insert (obID row) (set (ids (obNet s))) \<and> (e = None \<longrightarrow> obID row \<in> set (ids (obNet s')))"
  proof cases
    case (posted ev n)
    then show ?thesis
      using emit_mono [of "obNet s" p ev] emit_once [of "obNet s" p ev] emit_only [of p ev "obNet s"] emit_ok [of p ev "obNet s" n] by simp
  qed auto
  then show "obRows s' = obRows s" "set (ids (obNet s)) \<subseteq> set (ids (obNet s'))"
    "distinct (ids (obNet s)) \<Longrightarrow> distinct (ids (obNet s'))" "set (ids (obNet s')) \<subseteq> insert (obID row) (set (ids (obNet s)))"
    "e = None \<Longrightarrow> obID row \<in> set (ids (obNet s'))"
    by blast+
qed

lemma post_inv:
  assumes inv: "ob_inv ids S"
  shows "ob_inv ids (ob_act emit (Post i p) S)"
proof (cases "\<exists>row rows. dpPosted (obWorker S i) = None \<and> dpRows (obWorker S i) = row # rows")
  case True
  then obtain row rows where w: "dpPosted (obWorker S i) = None" "dpRows (obWorker S i) = row # rows" by blast
  obtain e s' where post: "publish_post (emit p) row (obShared S) = (e, s')" by fastforce
  note eff = publish_post_effect [OF post]
  let ?d = "\<lparr>dpRows = rows, dpPosted = (if e = None then Some (obID row) else None)\<rparr>"
  have rows: "obID ` set (row # rows) \<subseteq> obID ` set (obRows (obShared S))" using inv w(2) unfolding ob_inv_def by metis
  have act: "ob_act emit (Post i p) S = put_worker i ?d s' S"
    using w post by (cases e) (simp_all add: post_next_def)
  show ?thesis
    unfolding act
  proof (rule put_worker_inv [OF inv])
    have net: "set (ids (obNet (obShared S))) \<subseteq> obID ` set (obRows (obShared S))" "distinct (ids (obNet (obShared S)))"
      "\<forall>r\<in>set (obRows (obShared S)). obPublished r \<noteq> None \<longrightarrow> obID r \<in> set (ids (obNet (obShared S)))"
      using inv unfolding ob_inv_def by blast+
    show "set (ids (obNet s')) \<subseteq> obID ` set (obRows s')" using eff(4) net(1) rows by (simp add: eff(1)) blast
    show "\<forall>r\<in>set (obRows s'). obPublished r \<noteq> None \<longrightarrow> obID r \<in> set (ids (obNet s'))" using eff(1,2) net(3) by auto
    show "distinct (ids (obNet s'))" using eff(3) net(2) .
  qed (use eff rows in auto)
next
  case False
  then have "post_next (emit p) (obWorker S i) (obShared S) = (obWorker S i, obShared S)"
    by (auto simp: post_next_def split: option.splits list.splits)
  then show ?thesis using inv by (simp add: put_worker_same)
qed

lemma mark_inv:
  assumes inv: "ob_inv ids S"
  shows "ob_inv ids (ob_act emit (MarkRow i fault now) S)"
proof (cases "dpPosted (obWorker S i)")
  case None
  then show ?thesis using inv by (simp add: mark_posted_def put_worker_same)
next
  case (Some rid)
  have net: "set (ids (obNet (obShared S))) \<subseteq> obID ` set (obRows (obShared S))" "distinct (ids (obNet (obShared S)))"
    "\<forall>r\<in>set (obRows (obShared S)). obPublished r \<noteq> None \<longrightarrow> obID r \<in> set (ids (obNet (obShared S)))"
    "obID ` set (dpRows (obWorker S i)) \<subseteq> obID ` set (obRows (obShared S))"
    using inv unfolding ob_inv_def by blast+
  have rid: "rid \<in> set (ids (obNet (obShared S)))" using inv Some unfolding ob_inv_def by (metis insert_subset option.set(2))
  obtain e s' where m: "publish_mark fault now rid (obShared S) = (e, s')" by fastforce
  then have s': "obNet s' = obNet (obShared S)" "obRows s' = obRows (obShared S) \<or> obRows s' = mark_published now rid (obRows (obShared S))"
    by (auto simp: publish_mark_def split: option.splits)
  have act: "ob_act emit (MarkRow i fault now) S = put_worker i (obWorker S i\<lparr>dpPosted := None\<rparr>) s' S"
    using Some m by (simp add: mark_posted_def)
  show ?thesis
    unfolding act
  proof (rule put_worker_inv [OF inv])
    show "\<forall>r\<in>set (obRows s'). obPublished r \<noteq> None \<longrightarrow> obID r \<in> set (ids (obNet s'))"
      using s' net(3) rid mark_published_row [of _ now rid "obRows (obShared S)"] by metis
  qed (use s' net in auto)
qed

lemma act_inv:
  assumes "ob_inv ids S"
  shows "ob_inv ids (ob_act emit a S)"
proof (cases a)
  case (Select i n)
  have "set (take n (pending_rows (obRows (obShared S)))) \<subseteq> set (obRows (obShared S))"
    using pending_set by (force simp: unpublished_def dest: set_takeD)
  then have "obID ` set (take n (pending_rows (obRows (obShared S)))) \<subseteq> obID ` set (obRows (obShared S))" by blast
  then show ?thesis using assms Select unfolding ob_inv_def by simp
next
  case (Post i p)
  then show ?thesis using post_inv [OF assms] by simp
next
  case (MarkRow i fault now)
  then show ?thesis using mark_inv [OF assms] by simp
next
  case (Die i)
  then show ?thesis using assms unfolding ob_inv_def by (simp add: idle_def)
next
  case (InsertRow row)
  show ?thesis
  proof (cases "obID row \<in> obID ` set (obRows (obShared S))")
    case False
    have "set (ids (obNet (obShared S))) \<subseteq> obID ` set (obRows (obShared S))" using assms unfolding ob_inv_def by blast
    with False InsertRow assms show ?thesis unfolding ob_inv_def by (simp add: Let_def) blast
  qed (use assms InsertRow in simp)
qed

lemma run_inv: "ob_inv ids S \<Longrightarrow> ob_inv ids (ob_run emit as S)"
  by (induction as arbitrary: S) (simp_all add: act_inv)

text \<open>Every published row has exactly one event and no row more than one, after any run; and there are no other events.\<close>

lemma run_exactly_once:
  assumes "ob_inv ids S0" "S = ob_run emit as S0" "r \<in> set (obRows (obShared S))"
  shows "length (filter (\<lambda>i. i = obID r) (ids (obNet (obShared S)))) \<le> 1"
    and "obPublished r \<noteq> None \<Longrightarrow> length (filter (\<lambda>i. i = obID r) (ids (obNet (obShared S)))) = 1"
proof -
  have inv: "ob_inv ids S" using run_inv [OF assms(1)] assms(2) by simp
  then have "length (filter (\<lambda>i. i = obID r) (ids (obNet (obShared S)))) = (if obID r \<in> set (ids (obNet (obShared S))) then 1 else 0)"
    using keyed_count [of "\<lambda>x. x" "ids (obNet (obShared S))"] by (simp add: keyed_def ob_inv_def)
  then show "length (filter (\<lambda>i. i = obID r) (ids (obNet (obShared S)))) \<le> 1"
    and "obPublished r \<noteq> None \<Longrightarrow> length (filter (\<lambda>i. i = obID r) (ids (obNet (obShared S)))) = 1"
    using inv assms(3) by (auto simp: ob_inv_def)
qed

end

section \<open>Property\<close>

text \<open>
  C5 Domain events reach the audit log exactly once, however many workers dispatch: for any interleaving of their queries,
  posts to audit-service and updates, with lost replies, failing statements, workers dying anywhere and new rows, each row
  marked as published has exactly one audit row with its id, no row has more than one, and the log holds nothing else.
\<close>

theorem outbox_exactly_once:
  assumes "json_faithful J" "em_baseURL em \<noteq> []"
    and start: "S0 = all_idle s0" "obNet s0 = []" "distinct (map obID (obRows s0))" "\<forall>r\<in>set (obRows s0). obPublished r = None"
    and run: "S = obShared (ob_run (http_emit J em) as S0)"
  shows "arID ` set (obNet S) \<subseteq> obID ` set (obRows S) \<and>
    (\<forall>r\<in>set (obRows S). length (filter (\<lambda>i. i = obID r) (map arID (obNet S))) \<le> 1 \<and>
      (obPublished r \<noteq> None \<longrightarrow> length (filter (\<lambda>i. i = obID r) (map arID (obNet S))) = 1))"
proof -
  note sink = http_sink [OF assms(1,2)]
  have inv: "ob_inv (map arID) S0" using start by (simp add: ob_inv_def all_idle_def idle_def)
  from audit_sink.run_inv [OF sink this, of as] run have "arID ` set (obNet S) \<subseteq> obID ` set (obRows S)" by (simp add: ob_inv_def)
  with audit_sink.run_exactly_once [OF sink inv refl, of _ as] run show ?thesis by simp
qed

end
