(* ===== verification/ConsumerReplicas.thy ===== *)
theory ConsumerReplicas
  imports Worker
begin

text \<open>
  Several workers consume one queue. The broker pushes messages ahead of the acknowledgements, up to the prefetch count;
  a handler has run before its acknowledgement reaches the broker; a connection may be lost at any point between, and the
  broker then gives the messages to another worker while the first may still be handling them; workers die and start again.
  The queue of \<open>Mq\<close>, whose deliveries are single steps, is the case of one worker (\<open>queue_runs_are_cluster_runs\<close>).
\<close>

section \<open>Steps\<close>

text \<open>A worker: whether its channel is open, the deliveries it has buffered, and the one it handled but has not settled.\<close>

record wconn =
  wnOpen :: bool
  wnBuffer :: "msg list"
  wnDone :: "(msg \<times> verdict) option"

definition started :: wconn where "started = \<lparr>wnOpen = True, wnBuffer = [], wnDone = None\<rparr>"

definition stopped :: wconn where "stopped = \<lparr>wnOpen = False, wnBuffer = [], wnDone = None\<rparr>"

record 's cluster =
  clQueue :: "'s mq_state"
  clWorkers :: "wconn list"

text \<open>The messages a worker has in memory, and those of them the broker waits for.\<close>

definition in_hand :: "wconn \<Rightarrow> msg list" where
  "in_hand w = (case wnDone w of None \<Rightarrow> [] | Some (m, v) \<Rightarrow> [m]) @ wnBuffer w"

definition unacked :: "wconn \<Rightarrow> msg list" where
  "unacked w = (if wnOpen w then in_hand w else [])"

text \<open>
  A job is published; the broker pushes a queued message to worker \<open>i\<close>, which may have as many unsettled ones as its prefetch
  count; the worker runs its handler on the oldest of them; its settlement reaches the broker, or is dropped on a closed
  channel (its error is ignored); the channel closes; the worker is restarted.
\<close>

datatype cl_action = Enqueue msg | Push nat msg | HandleNext nat gotime | SettleDone nat | ChannelLost nat | Restart nat

definition requeue :: "msg list \<Rightarrow> 's mq_state \<Rightarrow> 's mq_state" where
  "requeue ms q = q\<lparr>mqQueue := mqQueue q @ ms\<rparr>"

definition put_conn :: "nat \<Rightarrow> wconn \<Rightarrow> 's mq_state \<Rightarrow> 's cluster \<Rightarrow> 's cluster" where
  "put_conn i w q C = C\<lparr>clQueue := q, clWorkers := (clWorkers C)[i := w]\<rparr>"

definition push_to :: "consumer \<Rightarrow> msg \<Rightarrow> wconn \<Rightarrow> 's mq_state \<Rightarrow> wconn \<times> 's mq_state" where
  "push_to c m w q =
     (if wnOpen w \<and> m \<in> set (mqQueue q) \<and> (cPrefetch c \<le> 0 \<or> int (length (in_hand w)) < cPrefetch c)
      then (w\<lparr>wnBuffer := wnBuffer w @ [m]\<rparr>, q\<lparr>mqQueue := remove1 m (mqQueue q)\<rparr>) else (w, q))"

text \<open>A panic of the handler takes the process down, and the broker requeues what it had.\<close>

definition handle_next ::
  "json_env \<Rightarrow> gotime \<Rightarrow> consumer \<Rightarrow> 's job_handler \<Rightarrow> wconn \<Rightarrow> 's mq_state \<Rightarrow> wconn \<times> 's mq_state" where
  "handle_next J now c H w q = (case (wnDone w, wnBuffer w) of
     (None, m # ms) \<Rightarrow> (case handleDelivery J now c H m (mqWork q) of
        (Crash, s') \<Rightarrow> (stopped, requeue (unacked w) (q\<lparr>mqWork := s'\<rparr>))
      | (v, s') \<Rightarrow> (w\<lparr>wnBuffer := ms, wnDone := Some (m, v)\<rparr>, q\<lparr>mqWork := s'\<rparr>))
   | _ \<Rightarrow> (w, q))"

definition settle_done :: "wconn \<Rightarrow> 's mq_state \<Rightarrow> wconn \<times> 's mq_state" where
  "settle_done w q = (case wnDone w of
     None \<Rightarrow> (w, q)
   | Some (m, v) \<Rightarrow> (w\<lparr>wnDone := None\<rparr>,
       if wnOpen w then
         (case v of Ack \<Rightarrow> q\<lparr>mqAcked := mqAcked q @ [m]\<rparr>
          | Nack again \<Rightarrow> if again then requeue [m] q else q\<lparr>mqDlq := mqDlq q @ [m]\<rparr>
          | Crash \<Rightarrow> requeue [m] q)
       else q))"

text \<open>Each worker has its handler (its store may be missing), which reads the clock.\<close>

fun cl_act :: "json_env \<Rightarrow> consumer \<Rightarrow> (nat \<Rightarrow> gotime \<Rightarrow> 's job_handler) \<Rightarrow> cl_action \<Rightarrow> 's cluster \<Rightarrow> 's cluster" where
  "cl_act J c H (Enqueue m) C = C\<lparr>clQueue := requeue [m] (clQueue C)\<rparr>"
| "cl_act J c H (Push i m) C =
     (if i < length (clWorkers C) then (case push_to c m (clWorkers C ! i) (clQueue C) of (w, q) \<Rightarrow> put_conn i w q C) else C)"
| "cl_act J c H (HandleNext i now) C =
     (if i < length (clWorkers C) then (case handle_next J now c (H i now) (clWorkers C ! i) (clQueue C) of (w, q) \<Rightarrow> put_conn i w q C) else C)"
| "cl_act J c H (SettleDone i) C =
     (if i < length (clWorkers C) then (case settle_done (clWorkers C ! i) (clQueue C) of (w, q) \<Rightarrow> put_conn i w q C) else C)"
| "cl_act J c H (ChannelLost i) C =
     (if i < length (clWorkers C)
      then put_conn i ((clWorkers C ! i)\<lparr>wnOpen := False\<rparr>) (requeue (unacked (clWorkers C ! i)) (clQueue C)) C else C)"
| "cl_act J c H (Restart i) C =
     (if i < length (clWorkers C) then put_conn i started (requeue (unacked (clWorkers C ! i)) (clQueue C)) C else C)"

fun cl_run :: "json_env \<Rightarrow> consumer \<Rightarrow> (nat \<Rightarrow> gotime \<Rightarrow> 's job_handler) \<Rightarrow> cl_action list \<Rightarrow> 's cluster \<Rightarrow> 's cluster" where
  "cl_run J c H [] C = C"
| "cl_run J c H (a # as) C = cl_run J c H as (cl_act J c H a C)"

fun enqueued :: "cl_action list \<Rightarrow> msg list" where
  "enqueued [] = []"
| "enqueued (Enqueue m # as) = m # enqueued as"
| "enqueued (a # as) = enqueued as"

lemma cl_run_append: "cl_run J c H (as @ bs) C = cl_run J c H bs (cl_run J c H as C)"
  by (induction as arbitrary: C) simp_all

lemma enqueued_append [simp]: "enqueued (as @ bs) = enqueued as @ enqueued bs"
  by (induction as rule: enqueued.induct) simp_all

lemmas conn_defs = started_def stopped_def in_hand_def unacked_def requeue_def

lemma requeue_simps [simp]:
  "mqQueue (requeue ms q) = mqQueue q @ ms" "mqDlq (requeue ms q) = mqDlq q" "mqAcked (requeue ms q) = mqAcked q"
  "mqWork (requeue ms q) = mqWork q"
  by (simp_all add: requeue_def)

lemma held_requeue [simp]: "held (requeue ms q) = held q + mset ms"
  by (simp add: held_def)

lemma conn_simps [simp]:
  "unacked started = []" "unacked stopped = []" "unacked (w\<lparr>wnOpen := False\<rparr>) = []" "wnDone started = None" "wnDone stopped = None"
  by (simp_all add: conn_defs)

section \<open>Conservation\<close>

text \<open>What a step of one worker does to the messages it shares with the broker.\<close>

lemma push_to_keeps: "push_to c m w q = (w', q') \<Longrightarrow> held q' + mset (unacked w') = held q + mset (unacked w)"
  by (auto simp: push_to_def held_def conn_defs split: if_splits)

lemma handle_next_keeps: "handle_next J now c H w q = (w', q') \<Longrightarrow> held q' + mset (unacked w') = held q + mset (unacked w)"
  by (auto simp: handle_next_def held_def conn_defs split: option.splits list.splits prod.splits verdict.splits)

lemma settle_done_keeps: "settle_done w q = (w', q') \<Longrightarrow> held q' + mset (unacked w') = held q + mset (unacked w)"
  by (auto simp: settle_done_def held_def conn_defs split: option.splits prod.splits verdict.splits if_splits)

definition cl_held :: "'s cluster \<Rightarrow> msg multiset" where
  "cl_held C = held (clQueue C) + mset (concat (map unacked (clWorkers C)))"

lemma mset_concat_update:
  "i < length ws \<Longrightarrow> mset (concat (map f (ws[i := w]))) + mset (f (ws ! i)) = mset (concat (map f ws)) + mset (f w)"
  by (induction ws arbitrary: i) (auto simp: nth_Cons' less_Suc_eq_0_disj ac_simps)

lemma put_conn_held:
  assumes "i < length (clWorkers C)" "held q + mset (unacked w) = held (clQueue C) + mset (unacked (clWorkers C ! i))"
  shows "cl_held (put_conn i w q C) = cl_held C"
proof -
  have "cl_held (put_conn i w q C) + mset (unacked (clWorkers C ! i)) = cl_held C + mset (unacked (clWorkers C ! i))"
    using mset_concat_update [OF assms(1), of unacked w] assms(2) by (simp add: cl_held_def put_conn_def ac_simps)
  then show ?thesis by simp
qed

lemma cl_act_held: "cl_held (cl_act J c H a C) = cl_held C + mset (enqueued [a])"
proof (cases a)
  case (Enqueue m)
  then show ?thesis by (simp add: cl_held_def)
next
  case (Push i m)
  then show ?thesis by (auto simp: put_conn_held push_to_keeps split: prod.splits)
next
  case (HandleNext i now)
  then show ?thesis by (auto simp: put_conn_held handle_next_keeps split: prod.splits)
next
  case (SettleDone i)
  then show ?thesis by (auto simp: put_conn_held settle_done_keeps split: prod.splits)
qed (simp_all add: put_conn_held)

lemma cl_run_held: "cl_held (cl_run J c H as C) = cl_held C + mset (enqueued as)"
proof (induction as arbitrary: C)
  case (Cons a as)
  have "enqueued (a # as) = enqueued [a] @ enqueued as" using enqueued_append [of "[a]" as] by simp
  then show ?case using Cons by (simp add: cl_act_held)
qed simp

lemma cl_run_workers: "length (clWorkers (cl_run J c H as C)) = length (clWorkers C)"
proof (induction as arbitrary: C)
  case (Cons a as)
  have "length (clWorkers (cl_act J c H a C)) = length (clWorkers C)"
    by (cases a) (auto simp: put_conn_def split: prod.splits)
  with Cons show ?case by simp
qed simp

section \<open>One worker\<close>

text \<open>A worker that has just started, next to others; and alone.\<close>

definition ready :: "wconn list \<Rightarrow> 's mq_state \<Rightarrow> 's cluster" where
  "ready ws q = \<lparr>clQueue = q, clWorkers = started # ws\<rparr>"

abbreviation one_worker :: "'s mq_state \<Rightarrow> 's cluster" where
  "one_worker \<equiv> ready []"

text \<open>Two queues with the same messages; their order is up to the broker.\<close>

definition same_messages :: "'s mq_state \<Rightarrow> 's mq_state \<Rightarrow> bool" where
  "same_messages q q' \<longleftrightarrow> mset (mqQueue q) = mset (mqQueue q') \<and> mqDlq q = mqDlq q' \<and> mqAcked q = mqAcked q' \<and> mqWork q = mqWork q'"

text \<open>A delivery that is not interrupted is a step of \<open>Mq\<close>.\<close>

lemma deliver_is_run:
  assumes "m \<in> set (mqQueue q)" "handleDelivery J now c (H 0 now) m (mqWork q) = (v, s')"
  shows "\<exists>q'. cl_run J c H [Push 0 m, HandleNext 0 now, if v = Crash then Restart 0 else SettleDone 0] (ready ws q) = ready ws q' \<and>
    same_messages q' (settle m v s' q)"
proof -
  have perm: "add_mset m (mset (mqQueue q) - {#m#}) = mset (mqQueue q)" using assms(1) by simp
  have push: "cl_act J c H (Push 0 m) (ready ws q) =
      \<lparr>clQueue = q\<lparr>mqQueue := remove1 m (mqQueue q)\<rparr>, clWorkers = started\<lparr>wnBuffer := [m]\<rparr> # ws\<rparr>"
    using assms(1) by (simp add: ready_def push_to_def put_conn_def) (auto simp: conn_defs)
  show ?thesis
    unfolding cl_run.simps push using assms perm
    by (cases v)
      (auto simp: handle_next_def settle_done_def put_conn_def ready_def conn_defs settle_def same_messages_def split: verdict.splits)
qed

lemma step_is_run:
  assumes "mq_step J c H st l st'" "same_messages q st"
  shows "\<exists>as q'. cl_run J c (\<lambda>i now. H) as (one_worker q) = one_worker q' \<and> same_messages q' st' \<and> enqueued as = (case l of Some m \<Rightarrow> [m] | None \<Rightarrow> [])"
  using assms(1)
proof cases
  case (publish m)
  with assms(2) show ?thesis
    by (intro exI [of _ "[Enqueue m]"] exI [of _ "requeue [m] q"]) (simp add: ready_def same_messages_def)
next
  case (deliver m now v s')
  have q: "m \<in> set (mqQueue q)" "handleDelivery J now c H m (mqWork q) = (v, s')"
    using assms(2) deliver(3,4) by (auto simp: same_messages_def dest: mset_eq_setD)
  from deliver_is_run [where H = "\<lambda>i now. H", OF q] obtain q' where
    run: "cl_run J c (\<lambda>i now. H) [Push 0 m, HandleNext 0 now, if v = Crash then Restart 0 else SettleDone 0] (one_worker q) = one_worker q'"
    and same: "same_messages q' (settle m v s' q)" by blast
  have "same_messages (settle m v s' q) st'"
    using assms(2) deliver(2) by (cases v) (simp_all add: settle_def same_messages_def)
  with same have "same_messages q' st'" by (simp add: same_messages_def)
  moreover have "enqueued [Push 0 m, HandleNext 0 now, if v = Crash then Restart 0 else SettleDone 0] = (case l of Some m \<Rightarrow> [m] | None \<Rightarrow> [])"
    using deliver(1) by simp
  ultimately show ?thesis using run by blast
qed

lemma queue_runs_are_cluster_runs:
  assumes "mq_reach J c H st0 ms st"
  shows "\<exists>as q. cl_run J c (\<lambda>i now. H) as (one_worker st0) = one_worker q \<and> same_messages q st \<and> enqueued as = rev ms"
  using assms
proof induction
  case start
  show ?case by (intro exI [of _ "[]"] exI [of _ st0]) (simp add: same_messages_def)
next
  case (step ms st l st')
  then obtain as q where as: "cl_run J c (\<lambda>i now. H) as (one_worker st0) = one_worker q" "same_messages q st" "enqueued as = rev ms" by blast
  from step_is_run [OF step.hyps(2) as(2)] obtain bs q' where
    "cl_run J c (\<lambda>i now. H) bs (one_worker q) = one_worker q'" "same_messages q' st'" "enqueued bs = (case l of Some m \<Rightarrow> [m] | None \<Rightarrow> [])" by blast
  with as show ?case
    by (intro exI [of _ "as @ bs"] exI [of _ q']) (auto simp: cl_run_append split: option.splits)
qed

section \<open>One effect per job\<close>

text \<open>The messages whose handler succeeded: acknowledged, or waiting for their acknowledgement to be sent.\<close>

definition acked_by :: "wconn \<Rightarrow> msg set" where
  "acked_by w = {m. wnDone w = Some (m, Ack)}"

definition succeeded :: "'s cluster \<Rightarrow> msg set" where
  "succeeded C = set (mqAcked (clQueue C)) \<union> (\<Union>w\<in>set (clWorkers C). acked_by w)"

lemma succeeded_put:
  "succeeded (put_conn i w q C) \<subseteq> set (mqAcked q) \<union> acked_by w \<union> (\<Union>w\<in>set (clWorkers C). acked_by w)"
  using set_update_subset_insert [of "clWorkers C" i w] by (auto simp: succeeded_def put_conn_def)

definition recorded :: "json_env \<Rightarrow> effect_row list \<Rightarrow> msg \<Rightarrow> bool" where
  "recorded J tbl m \<longleftrightarrow> (\<forall>now jid. effect_due J now m jid \<longrightarrow> jid \<in> efJobID ` set tbl)"

lemma recorded_append: "recorded J tbl m \<Longrightarrow> recorded J (tbl @ new) m"
  by (auto simp: recorded_def)

definition cl_inv :: "json_env \<Rightarrow> work cluster \<Rightarrow> bool" where
  "cl_inv J C \<longleftrightarrow> genuine (mqWork (clQueue C)) \<and> keyed efJobID (wkTable (mqWork (clQueue C))) \<and>
     (\<forall>m\<in>succeeded C. recorded J (wkTable (mqWork (clQueue C))) m)"

text \<open>The handler of a worker, with its database or without; it reads the clock after the job was parsed.\<close>

definition worker_handler :: "(nat \<Rightarrow> bool) \<Rightarrow> (gotime \<Rightarrow> gotime) \<Rightarrow> nat \<Rightarrow> gotime \<Rightarrow> work job_handler" where
  "worker_handler db clock i now = router_Handle (clock now) (store_iface (db i))"

lemma router_work_store:
  assumes "router_Handle now (store_iface db) job s = (res, s')" "genuine s" "keyed efJobID (wkTable s)"
  shows "genuine s' \<and> keyed efJobID (wkTable s') \<and> (\<exists>new. wkTable s' = wkTable s @ new) \<and>
     (res = JobOk \<longrightarrow> item_type (jType job) \<longrightarrow> jID job \<in> efJobID ` set (wkTable s'))"
proof (cases db)
  case True
  with assms show ?thesis using router_work [of now job s res s'] by (auto simp: store_iface_def)
next
  case False
  have "item_type ''ping'' \<longleftrightarrow> False" by (simp add: item_type_def)
  with False assms show ?thesis
    by (auto simp: router_Handle_def handleBusinessItem_def store_iface_def split: if_splits sum.splits)
qed

lemma delivery_work:
  assumes "handleDelivery J now c (worker_handler db clock i now) m s = (v, s')" "genuine s" "keyed efJobID (wkTable s)"
  shows "genuine s' \<and> keyed efJobID (wkTable s') \<and> (\<exists>new. wkTable s' = wkTable s @ new) \<and> (v = Ack \<longrightarrow> recorded J (wkTable s') m)"
proof (cases "ParseJob J now (mBody m)")
  case (Inl e)
  with assms show ?thesis by (auto simp: handleDelivery_def)
next
  case (Inr job)
  obtain res s1 where h: "router_Handle (clock now) (store_iface (db i)) job s = (res, s1)" by fastforce
  have s': "s' = s1" "v = Ack \<longrightarrow> res = JobOk"
    using assms(1) Inr h by (auto simp: handleDelivery_def worker_handler_def Let_def split: job_res.splits)
  have due: "jid = jID job \<and> item_type (jType job)" if "effect_due J now' m jid" for now' jid
    using that ParseJob_id [OF Inr] by (auto simp: effect_due_def)
  from router_work_store [OF h assms(2,3)] s' due show ?thesis unfolding recorded_def by blast
qed

lemma put_conn_inv:
  assumes "cl_inv J C" "genuine (mqWork q)" "keyed efJobID (wkTable (mqWork q))"
    and "\<exists>new. wkTable (mqWork q) = wkTable (mqWork (clQueue C)) @ new"
    and "\<forall>m\<in>set (mqAcked q) \<union> acked_by w. m \<in> succeeded C \<or> recorded J (wkTable (mqWork q)) m"
  shows "cl_inv J (put_conn i w q C)"
proof -
  obtain new where new: "wkTable (mqWork q) = wkTable (mqWork (clQueue C)) @ new" using assms(4) by blast
  have old: "recorded J (wkTable (mqWork q)) m" if "m \<in> succeeded C" for m
    using assms(1) that recorded_append new by (simp add: cl_inv_def)
  have "(\<Union>w\<in>set (clWorkers C). acked_by w) \<subseteq> succeeded C" by (auto simp: succeeded_def)
  with succeeded_put [of i w q C] assms(5) old have "\<forall>m\<in>succeeded (put_conn i w q C). recorded J (wkTable (mqWork q)) m" by blast
  moreover have "clQueue (put_conn i w q C) = q" by (simp add: put_conn_def)
  ultimately show ?thesis using assms(2,3) by (simp add: cl_inv_def)
qed

lemma worker_succeeded: "i < length (clWorkers C) \<Longrightarrow> acked_by (clWorkers C ! i) \<subseteq> succeeded C"
  by (auto simp: succeeded_def)

lemma acked_by_simps [simp]:
  "acked_by started = {}" "acked_by stopped = {}" "acked_by (w\<lparr>wnOpen := b\<rparr>) = acked_by w" "acked_by (w\<lparr>wnBuffer := ms\<rparr>) = acked_by w"
  "acked_by (w\<lparr>wnDone := None\<rparr>) = {}" "acked_by (w\<lparr>wnBuffer := ms, wnDone := Some (m, v)\<rparr>) = (if v = Ack then {m} else {})"
  by (auto simp: acked_by_def conn_defs)

text \<open>Steps that leave the table alone and acknowledge nothing new.\<close>

lemma put_conn_quiet:
  assumes "cl_inv J C" "i < length (clWorkers C)" "mqWork q = mqWork (clQueue C)"
    and "set (mqAcked q) \<union> acked_by w \<subseteq> set (mqAcked (clQueue C)) \<union> acked_by (clWorkers C ! i)"
  shows "cl_inv J (put_conn i w q C)"
proof (rule put_conn_inv [OF assms(1)])
  have "set (mqAcked (clQueue C)) \<subseteq> succeeded C" by (simp add: succeeded_def)
  with assms(4) worker_succeeded [OF assms(2)]
  show "\<forall>m\<in>set (mqAcked q) \<union> acked_by w. m \<in> succeeded C \<or> recorded J (wkTable (mqWork q)) m" by blast
qed (use assms(1,3) in \<open>simp_all add: cl_inv_def\<close>)

lemma handle_next_inv:
  assumes inv: "cl_inv J C" and i: "i < length (clWorkers C)"
    and h: "handle_next J now c (worker_handler db clock i now) (clWorkers C ! i) (clQueue C) = (w, q)"
  shows "cl_inv J (put_conn i w q C)"
proof (cases "wnDone (clWorkers C ! i) = None \<and> wnBuffer (clWorkers C ! i) \<noteq> []")
  case True
  then obtain m ms where w0: "wnDone (clWorkers C ! i) = None" "wnBuffer (clWorkers C ! i) = m # ms" by (cases "wnBuffer (clWorkers C ! i)") auto
  obtain v s' where d: "handleDelivery J now c (worker_handler db clock i now) m (mqWork (clQueue C)) = (v, s')" by fastforce
  have g: "genuine s'" "keyed efJobID (wkTable s')" "\<exists>new. wkTable s' = wkTable (mqWork (clQueue C)) @ new" "v = Ack \<longrightarrow> recorded J (wkTable s') m"
    using delivery_work [OF d] inv by (auto simp: cl_inv_def)
  have q: "mqWork q = s'" "mqAcked q = mqAcked (clQueue C)" "acked_by w \<subseteq> (if v = Ack then {m} else {})"
    using h w0 d by (auto simp: handle_next_def split: verdict.splits)
  show ?thesis
  proof (rule put_conn_inv [OF inv])
    show "\<forall>m\<in>set (mqAcked q) \<union> acked_by w. m \<in> succeeded C \<or> recorded J (wkTable (mqWork q)) m"
      using q g(4) by (auto simp: succeeded_def split: if_splits)
  qed (use q(1) g in simp_all)
next
  case False
  then have "w = clWorkers C ! i" "q = clQueue C"
    using h by (auto simp: handle_next_def split: option.splits list.splits)
  then show ?thesis using put_conn_quiet [OF inv i] by simp
qed

lemma settle_done_quiet:
  "settle_done w q = (w', q') \<Longrightarrow> mqWork q' = mqWork q \<and> set (mqAcked q') \<union> acked_by w' \<subseteq> set (mqAcked q) \<union> acked_by w"
  by (auto simp: settle_done_def acked_by_def requeue_def split: option.splits verdict.splits if_splits)

lemma push_to_quiet:
  "push_to c m w q = (w', q') \<Longrightarrow> mqWork q' = mqWork q \<and> mqAcked q' = mqAcked q \<and> acked_by w' = acked_by w"
  by (auto simp: push_to_def split: if_splits)

lemma cl_act_inv:
  assumes "cl_inv J C"
  shows "cl_inv J (cl_act J c (worker_handler db clock) a C)"
proof (cases a)
  case (Enqueue m)
  with assms show ?thesis by (simp add: cl_inv_def succeeded_def)
next
  case (Push i m)
  then show ?thesis using assms by (auto split: prod.splits dest!: push_to_quiet intro!: put_conn_quiet)
next
  case (HandleNext i now)
  then show ?thesis using assms handle_next_inv by (auto split: prod.splits)
next
  case (SettleDone i)
  then show ?thesis using assms by (auto split: prod.splits dest!: settle_done_quiet intro!: put_conn_quiet)
next
  case (ChannelLost i)
  then show ?thesis using assms by (auto intro!: put_conn_quiet)
next
  case (Restart i)
  then show ?thesis using assms by (auto intro!: put_conn_quiet)
qed

lemma cl_run_inv: "cl_inv J C \<Longrightarrow> cl_inv J (cl_run J c (worker_handler db clock) as C)"
  by (induction as arbitrary: C) (simp_all add: cl_act_inv)

section \<open>No effect without a job\<close>

text \<open>The row is the one of an item job in the message, with the time the handler read.\<close>

definition effect_from :: "json_env \<Rightarrow> msg \<Rightarrow> effect_row \<Rightarrow> bool" where
  "effect_from J m r \<longleftrightarrow> (\<exists>now t job i. ParseJob J now (mBody m) = Inr job \<and> item_type (jType job) \<and>
     requireString (jPayload job) ''item_id'' = Inr i \<and> r = effect_row_of t job i)"

lemma Record_rows: "set (wkTable s1) = set tbl \<Longrightarrow> set (snd (Record pool fault now job i (wkTable s1))) \<subseteq> insert (effect_row_of now job i) (set tbl)"
  by (auto simp: Record_def effect_insert_def insert_nothing_def Let_def split: option.splits prod.splits bool.splits if_splits)

lemma router_rows:
  assumes "router_Handle now effects job s = (res, s')"
  shows "set (wkTable s') \<subseteq> set (wkTable s) \<union>
    {r. item_type (jType job) \<and> (\<exists>i. requireString (jPayload job) ''item_id'' = Inr i \<and> r = effect_row_of now job i)}"
proof (cases "jType job \<noteq> ''ping'' \<and> item_type (jType job) \<and> (\<exists>i pool. requireString (jPayload job) ''item_id'' = Inr i \<and> effects = IPtr (Some pool))")
  case True
  then obtain i pool where i: "requireString (jPayload job) ''item_id'' = Inr i" "effects = IPtr (Some pool)" by blast
  obtain f s1 where nf: "next_fault s = (f, s1)" by fastforce
  then have "set (wkTable s1) = set (wkTable s)" by (auto simp: next_fault_def split: list.splits)
  from Record_rows [OF this, of pool f now job i]
  have "set (wkTable s') \<subseteq> insert (effect_row_of now job i) (set (wkTable s))"
    using assms True i nf by (auto simp: router_Handle_def handleBusinessItem_def split: prod.splits sum.splits)
  with True i(1) show ?thesis by blast
next
  case False
  then have "s' = s"
    using assms by (auto simp: router_Handle_def handleBusinessItem_def split: if_splits sum.splits iface.splits option.splits)
  then show ?thesis by simp
qed

lemma delivery_rows:
  assumes "handleDelivery J now c (worker_handler db clock i now) m s = (v, s')" "r \<in> set (wkTable s')"
  shows "r \<in> set (wkTable s) \<or> effect_from J m r"
proof (cases "ParseJob J now (mBody m)")
  case (Inl e)
  with assms show ?thesis by (auto simp: handleDelivery_def)
next
  case (Inr job)
  obtain res s1 where h: "router_Handle (clock now) (store_iface (db i)) job s = (res, s1)" by fastforce
  have "s' = s1" using assms(1) Inr h by (auto simp: handleDelivery_def worker_handler_def Let_def split: job_res.splits)
  with router_rows [OF h] assms(2) Inr show ?thesis unfolding effect_from_def by blast
qed

text \<open>All messages the broker or a worker has, its stale ones included, are among \<open>M\<close>, and so are the sources of the effects.\<close>

definition cl_sources :: "json_env \<Rightarrow> msg set \<Rightarrow> work cluster \<Rightarrow> bool" where
  "cl_sources J M C \<longleftrightarrow> set (mqQueue (clQueue C)) \<subseteq> M \<and> (\<forall>w\<in>set (clWorkers C). set (in_hand w) \<subseteq> M) \<and>
     (\<forall>r\<in>set (wkTable (mqWork (clQueue C))). \<exists>m\<in>M. effect_from J m r)"

lemma put_conn_sources:
  assumes "cl_sources J M C" "set (mqQueue q) \<subseteq> M" "set (in_hand w) \<subseteq> M"
    "\<forall>r\<in>set (wkTable (mqWork q)). \<exists>m\<in>M. effect_from J m r"
  shows "cl_sources J M (put_conn i w q C)"
proof -
  have "\<forall>x\<in>insert w (set (clWorkers C)). set (in_hand x) \<subseteq> M" using assms(1,3) by (simp add: cl_sources_def)
  then have "\<forall>x\<in>set ((clWorkers C)[i := w]). set (in_hand x) \<subseteq> M"
    using set_update_subset_insert [of "clWorkers C" i w] by blast
  with assms(2,4) show ?thesis by (simp add: cl_sources_def put_conn_def)
qed

lemma cl_act_sources:
  assumes src: "cl_sources J M C" and new: "set (enqueued [a]) \<subseteq> M"
  shows "cl_sources J M (cl_act J c (worker_handler db clock) a C)"
proof -
  have q: "set (mqQueue (clQueue C)) \<subseteq> M" "\<forall>r\<in>set (wkTable (mqWork (clQueue C))). \<exists>m\<in>M. effect_from J m r"
    and w: "i < length (clWorkers C) \<Longrightarrow> set (in_hand (clWorkers C ! i)) \<subseteq> M" for i
    using src by (auto simp: cl_sources_def)
  have u: "i < length (clWorkers C) \<Longrightarrow> set (unacked (clWorkers C ! i)) \<subseteq> M" for i
    using w [of i] by (auto simp: unacked_def)
  show ?thesis
  proof (cases a)
    case (Enqueue m)
    then show ?thesis using src new by (simp add: cl_sources_def)
  next
    case (Push i m)
    have "set (remove1 m (mqQueue (clQueue C))) \<subseteq> M" by (rule subset_trans [OF set_remove1_subset q(1)])
    with Push show ?thesis using src q w [of i]
      by (auto simp: push_to_def in_hand_def split: option.splits intro!: put_conn_sources)
  next
    case (HandleNext i now)
    show ?thesis
    proof (cases "i < length (clWorkers C) \<and> wnDone (clWorkers C ! i) = None \<and> wnBuffer (clWorkers C ! i) \<noteq> []")
      case True
      then obtain m ms where b: "wnDone (clWorkers C ! i) = None" "wnBuffer (clWorkers C ! i) = m # ms"
        by (cases "wnBuffer (clWorkers C ! i)") auto
      then have M: "insert m (set ms) \<subseteq> M" using w [of i] True by (simp add: in_hand_def)
      obtain v s' where d: "handleDelivery J now c (worker_handler db clock i now) m (mqWork (clQueue C)) = (v, s')" by fastforce
      have rows: "\<forall>r\<in>set (wkTable s'). \<exists>m\<in>M. effect_from J m r" using delivery_rows [OF d] q(2) M by blast
      show ?thesis
        using HandleNext True b d src q(1) u [of i] M rows
        by (auto simp: handle_next_def in_hand_def stopped_def split: verdict.splits intro!: put_conn_sources)
    next
      case False
      then show ?thesis
        using HandleNext src q w [of i]
        by (auto simp: handle_next_def split: prod.splits option.splits list.splits intro!: put_conn_sources)
    qed
  next
    case (SettleDone i)
    then show ?thesis using src q w [of i]
      by (auto simp: settle_done_def in_hand_def split: prod.splits option.splits verdict.splits intro!: put_conn_sources)
  next
    case (ChannelLost i)
    have "in_hand (v\<lparr>wnOpen := False\<rparr>) = in_hand v" for v by (simp add: in_hand_def)
    with ChannelLost show ?thesis using src q w [of i] u [of i] by (auto intro!: put_conn_sources)
  next
    case (Restart i)
    then show ?thesis using src q u [of i] by (auto simp: in_hand_def started_def intro!: put_conn_sources)
  qed
qed

lemma cl_run_sources:
  "cl_sources J M C \<Longrightarrow> set (enqueued as) \<subseteq> M \<Longrightarrow> cl_sources J M (cl_run J c (worker_handler db clock) as C)"
proof (induction as arbitrary: C)
  case (Cons a as)
  have "enqueued (a # as) = enqueued [a] @ enqueued as" using enqueued_append [of "[a]" as] by simp
  with Cons show ?case by (simp add: cl_act_sources)
qed simp

section \<open>Jobs that keep failing\<close>

text \<open>
  A message that is refused with requeue every time it is handled: wherever it is, it is neither acknowledged nor
  dead-lettered, nor on the way to it.
\<close>

definition circulating :: "msg \<Rightarrow> 's cluster \<Rightarrow> bool" where
  "circulating m C \<longleftrightarrow> m \<notin> set (mqDlq (clQueue C)) \<and> m \<notin> set (mqAcked (clQueue C)) \<and>
     (\<forall>w\<in>set (clWorkers C). \<forall>v. wnDone w = Some (m, v) \<longrightarrow> v = Nack True)"

lemma put_conn_circulating:
  assumes "circulating m C" "m \<notin> set (mqDlq q)" "m \<notin> set (mqAcked q)" "\<forall>v. wnDone w = Some (m, v) \<longrightarrow> v = Nack True"
  shows "circulating m (put_conn i w q C)"
  using assms set_update_subset_insert [of "clWorkers C" i w] by (auto simp: circulating_def put_conn_def)

lemma circulating_worker:
  "circulating m C \<Longrightarrow> i < length (clWorkers C) \<Longrightarrow> wnDone (clWorkers C ! i) = Some (m, v) \<Longrightarrow> v = Nack True"
  by (auto simp: circulating_def)

lemma cl_act_circulating:
  assumes "circulating m C" and requeued: "\<And>i now s. \<exists>s'. handleDelivery J now c (H i now) m s = (Nack True, s')"
  shows "circulating m (cl_act J c H a C)"
proof -
  have q: "m \<notin> set (mqDlq (clQueue C))" "m \<notin> set (mqAcked (clQueue C))" using assms(1) by (simp_all add: circulating_def)
  show ?thesis
  proof (cases a)
    case (Enqueue m')
    with assms(1) show ?thesis by (simp add: circulating_def)
  next
    case (Push i m')
    show ?thesis
      using Push assms(1) q circulating_worker [OF assms(1), of i]
      by (auto simp: push_to_def intro!: put_conn_circulating)
  next
    case (HandleNext i now)
    obtain s' where "handleDelivery J now c (H i now) m (mqWork (clQueue C)) = (Nack True, s')" using requeued by blast
    then show ?thesis
      using HandleNext assms(1) q circulating_worker [OF assms(1), of i]
      by (auto simp: handle_next_def split: option.splits list.splits prod.splits verdict.splits intro!: put_conn_circulating)
  next
    case (SettleDone i)
    show ?thesis
      using SettleDone assms(1) q circulating_worker [OF assms(1), of i]
      by (auto simp: settle_done_def split: option.splits prod.splits verdict.splits intro!: put_conn_circulating)
  next
    case (ChannelLost i)
    then show ?thesis using assms(1) q circulating_worker [OF assms(1), of i] by (auto intro!: put_conn_circulating)
  next
    case (Restart i)
    then show ?thesis using assms(1) q by (auto intro!: put_conn_circulating)
  qed
qed

lemma cl_run_circulating:
  assumes "\<And>i now s. \<exists>s'. handleDelivery J now c (H i now) m s = (Nack True, s')"
  shows "circulating m C \<Longrightarrow> circulating m (cl_run J c H as C)"
  by (induction as arbitrary: C) (simp_all add: cl_act_circulating [OF _ assms])

lemma failing_requeued:
  assumes "\<forall>i now s. \<exists>job err s'. ParseJob J now (mBody m) = Inr job \<and> H i now job s = (JobErr err, s')"
    and "map_of (mHeaders m) ''x-death'' = None" "2 \<le> cMaxRetries c"
  shows "\<exists>s'. handleDelivery J now c (H i now) m s = (Nack True, s')"
proof -
  obtain job err s' where "ParseJob J now (mBody m) = Inr job" "H i now job s = (JobErr err, s')" using assms(1) by blast
  with assms(2,3) show ?thesis by (simp add: handleDelivery_def deathCount_def int64_add_one Let_def)
qed

section \<open>Draining\<close>

definition settles :: "json_env \<Rightarrow> (nat \<Rightarrow> gotime \<Rightarrow> 's job_handler) \<Rightarrow> ('s \<Rightarrow> bool) \<Rightarrow> msg \<Rightarrow> bool" where
  "settles J H P m \<longleftrightarrow> (\<forall>i now s job. P s \<longrightarrow> ParseJob J now (mBody m) = Inr job \<longrightarrow> (\<exists>s'. H i now job s = (JobOk, s') \<and> P s'))"

lemma settles_verdict:
  assumes "settles J H P m" "P s"
  shows "\<exists>v s'. handleDelivery J now c (H i now) m s = (v, s') \<and> P s' \<and> (v = Ack \<or> v = Nack False)"
proof (cases "ParseJob J now (mBody m)")
  case (Inl e)
  then show ?thesis using assms(2) by (simp add: handleDelivery_def)
next
  case (Inr job)
  then obtain s' where "H i now job s = (JobOk, s')" "P s'" using assms unfolding settles_def by blast
  then show ?thesis using Inr by (simp add: handleDelivery_def)
qed

text \<open>Every worker can be restarted, after which the broker has all messages again.\<close>

lemma restart_first:
  "k \<le> length (clWorkers C) \<Longrightarrow> cl_run J c H (map Restart [0..<k]) C =
     \<lparr>clQueue = requeue (concat (map unacked (take k (clWorkers C)))) (clQueue C),
      clWorkers = replicate k started @ drop k (clWorkers C)\<rparr>"
proof (induction k)
  case 0
  show ?case by (simp add: requeue_def)
next
  case (Suc k)
  then have "drop k (clWorkers C) = clWorkers C ! k # drop (Suc k) (clWorkers C)" by (simp add: Cons_nth_drop_Suc)
  with Suc show ?case
    by (simp add: cl_run_append put_conn_def nth_append list_update_append take_Suc_conv_app_nth requeue_def replicate_append_same) linarith
qed

lemma ready_drains:
  assumes "\<forall>m\<in>set (mqQueue q). settles J H P m" "P (mqWork q)"
  shows "\<exists>as q'. cl_run J c H as (ready ws q) = ready ws q' \<and> enqueued as = [] \<and> mqQueue q' = []"
  using assms
proof (induction "length (mqQueue q)" arbitrary: q)
  case 0
  then show ?case by (intro exI [of _ "[]"] exI [of _ q]) simp
next
  case (Suc n)
  then obtain m where m: "m \<in> set (mqQueue q)" by (cases "mqQueue q") auto
  with Suc.prems have ok: "settles J H P m" "P (mqWork q)" by simp_all
  obtain v s' where v: "handleDelivery J 0 c (H 0 0) m (mqWork q) = (v, s')" "P s'" "v = Ack \<or> v = Nack False"
    using settles_verdict [OF ok, of 0 c 0] by (elim exE conjE)
  from deliver_is_run [where H = H, OF m v(1)] obtain q1 where
    run: "cl_run J c H [Push 0 m, HandleNext 0 0, if v = Crash then Restart 0 else SettleDone 0] (ready ws q) = ready ws q1"
    and same: "same_messages q1 (settle m v s' q)" by blast
  have q1: "mset (mqQueue q1) = mset (mqQueue q) - {#m#}" "mqWork q1 = s'"
    using same v(3) by (auto simp: same_messages_def settle_def)
  have "set (mqQueue q1) \<subseteq> set (mqQueue q)" using q1(1) by (metis in_diffD set_mset_mset subsetI)
  moreover have "n = length (mqQueue q1)"
    using q1(1) m Suc.hyps(2) by (metis diff_Suc_1 set_mset_mset size_Diff_singleton size_mset)
  ultimately obtain as q' where "cl_run J c H as (ready ws q1) = ready ws q'" "enqueued as = []" "mqQueue q' = []"
    using Suc.hyps(1) [of q1] Suc.prems(1) v(2) q1(2) by auto
  with run show ?case
    by (intro exI [of _ "[Push 0 m, HandleNext 0 0, if v = Crash then Restart 0 else SettleDone 0] @ as"] exI [of _ q'])
      (simp only: cl_run_append, simp)
qed

text \<open>
  From any state, when every message is malformed or has a handler that succeeds, the workers can empty the queue: what they
  had and what was queued ends acknowledged or dead-lettered.
\<close>

lemma cluster_drains:
  assumes "clWorkers C \<noteq> []" "P (mqWork (clQueue C))" "\<forall>m\<in>#cl_held C. settles J H P m"
  shows "\<exists>as. enqueued as = [] \<and> mset (mqDlq (clQueue (cl_run J c H as C))) + mset (mqAcked (clQueue (cl_run J c H as C))) = cl_held C"
proof -
  let ?q = "requeue (concat (map unacked (clWorkers C))) (clQueue C)" and ?n = "length (clWorkers C)"
  have start: "cl_run J c H (map Restart [0..<?n]) C = ready (replicate (?n - 1) started) ?q"
    using restart_first [of ?n C] assms(1) by (cases "clWorkers C") (simp_all add: ready_def)
  have "\<forall>m\<in>set (mqQueue ?q). settles J H P m" using assms(3) by (auto simp: cl_held_def held_def)
  with ready_drains [of ?q J H P c "replicate (?n - 1) started"] assms(2) obtain as q' where
    as: "cl_run J c H as (ready (replicate (?n - 1) started) ?q) = ready (replicate (?n - 1) started) q'" "enqueued as = []" "mqQueue q' = []"
    by auto
  let ?as = "map Restart [0..<?n] @ as"
  have run: "cl_run J c H ?as C = ready (replicate (?n - 1) started) q'" by (simp only: cl_run_append start as(1))
  have none: "enqueued (map Restart is) = []" for "is" by (induction "is") simp_all
  have "cl_held (ready (replicate (?n - 1) started) q') = cl_held C"
    using cl_run_held [of J c H ?as C] as(2) none unfolding run by simp
  then have "mset (mqDlq q') + mset (mqAcked q') = cl_held C"
    using as(3) by (simp add: cl_held_def held_def ready_def map_replicate_const)
  then show ?thesis using as(2) none run by (intro exI [of _ ?as]) (simp add: ready_def)
qed

lemma cl_inv_counts:
  assumes "cl_inv J C"
  shows "(\<forall>k. length (filter (\<lambda>r. efJobID r = k) (wkTable (mqWork (clQueue C)))) \<le> 1) \<and>
     (\<forall>m\<in>succeeded C. \<forall>now jid. effect_due J now m jid \<longrightarrow>
        length (filter (\<lambda>r. efJobID r = jid) (wkTable (mqWork (clQueue C)))) = 1)"
  using assms keyed_count [of efJobID "wkTable (mqWork (clQueue C))"] by (auto simp: cl_inv_def recorded_def)

lemma cl_inv_start:
  "mqAcked q = [] \<Longrightarrow> wkTable (mqWork q) = [] \<Longrightarrow> genuine (mqWork q) \<Longrightarrow> cl_inv J \<lparr>clQueue = q, clWorkers = replicate n started\<rparr>"
  by (auto simp: cl_inv_def succeeded_def keyed_def)

text \<open>The same for one worker whose deliveries are not interrupted.\<close>

lemma one_consumer_one_effect:
  assumes reach: "mq_reach J c (router_Handle hnow (IPtr (Some True))) st0 ms st"
    and st0: "mqAcked st0 = []" "wkTable (mqWork st0) = []" "genuine (mqWork st0)"
  shows "(\<forall>k. length (filter (\<lambda>r. efJobID r = k) (wkTable (mqWork st))) \<le> 1) \<and>
     (\<forall>m\<in>set (mqAcked st). \<forall>now jid. effect_due J now m jid \<longrightarrow>
        length (filter (\<lambda>r. efJobID r = jid) (wkTable (mqWork st))) = 1)"
proof -
  have H: "(\<lambda>i now. router_Handle hnow (IPtr (Some True))) = worker_handler (\<lambda>i. True) (\<lambda>t. hnow)"
    by (simp add: fun_eq_iff worker_handler_def store_iface_def)
  obtain as q where run: "cl_run J c (worker_handler (\<lambda>i. True) (\<lambda>t. hnow)) as (one_worker st0) = one_worker q" "same_messages q st"
    using queue_runs_are_cluster_runs [OF reach] unfolding H by blast
  have "cl_inv J (one_worker st0)" using cl_inv_start [OF st0, of J 1] by (simp add: ready_def)
  from cl_run_inv [OF this, of c "\<lambda>i. True" "\<lambda>t. hnow" as] have "cl_inv J (one_worker q)" unfolding run(1) .
  moreover have "set (mqAcked q) \<subseteq> succeeded (one_worker q)" by (auto simp: succeeded_def ready_def)
  ultimately show ?thesis using cl_inv_counts [of J "one_worker q"] run(2) by (auto simp: same_messages_def ready_def)
qed

lemma one_consumer_failing_job:
  assumes reach: "mq_reach J c H st0 ms st"
    and st0: "m \<in> set (mqQueue st0)" "m \<notin> set (mqDlq st0)" "m \<notin> set (mqAcked st0)"
    and m: "map_of (mHeaders m) ''x-death'' = None" and c: "2 \<le> cMaxRetries c"
    and fails: "\<forall>now s. \<exists>job err s'. ParseJob J now (mBody m) = Inr job \<and> H job s = (JobErr err, s')"
  shows "m \<in> set (mqQueue st) \<and> m \<notin> set (mqDlq st) \<and> m \<notin> set (mqAcked st)"
proof -
  obtain as q where run: "cl_run J c (\<lambda>i now. H) as (one_worker st0) = one_worker q" "same_messages q st"
    using queue_runs_are_cluster_runs [OF reach] by blast
  have "\<forall>i now s. \<exists>job err s'. ParseJob J now (mBody m) = Inr job \<and> H job s = (JobErr err, s')" using fails by blast
  then have requeued: "\<exists>s'. handleDelivery J now c H m s = (Nack True, s')" for now s
    by (rule failing_requeued [where H = "\<lambda>i now. H", OF _ m c])
  have "circulating m (one_worker st0)" using st0 by (simp add: circulating_def ready_def)
  then have "circulating m (cl_run J c (\<lambda>i now. H) as (one_worker st0))"
    by (rule cl_run_circulating [where H = "\<lambda>i now. H", OF requeued])
  then have gone: "m \<notin> set (mqDlq st)" "m \<notin> set (mqAcked st)"
    using run by (simp_all add: circulating_def same_messages_def ready_def)
  have "m \<in># held st" using mq_reach_held [OF reach] st0(1) by (simp add: held_def)
  with gone show ?thesis by (simp add: held_def)
qed

section \<open>Properties\<close>

text \<open>
  C12 However many workers consume the queue, with their databases or without, and wherever connections are lost, workers die
  and statements fail: every acknowledged item job has exactly one effect row, and no job has two, although a job may be
  handled by several workers at once; and every effect row is that of an item job that was queued or published.
\<close>

theorem acked_jobs_have_one_effect:
  assumes C0: "C0 = \<lparr>clQueue = q, clWorkers = replicate n started\<rparr>" "mqAcked q = []" "wkTable (mqWork q) = []" "genuine (mqWork q)"
    and run: "Q = clQueue (cl_run J c (worker_handler db clock) as C0)"
  shows "(\<forall>k. length (filter (\<lambda>r. efJobID r = k) (wkTable (mqWork Q))) \<le> 1) \<and>
     (\<forall>m\<in>set (mqAcked Q). \<forall>now jid. effect_due J now m jid \<longrightarrow> length (filter (\<lambda>r. efJobID r = jid) (wkTable (mqWork Q))) = 1) \<and>
     (\<forall>r\<in>set (wkTable (mqWork Q)). \<exists>m\<in>set (mqQueue q) \<union> set (enqueued as). effect_from J m r)"
proof -
  let ?C = "cl_run J c (worker_handler db clock) as C0" and ?M = "set (mqQueue q) \<union> set (enqueued as)"
  have "cl_sources J ?M C0" using C0 by (auto simp: cl_sources_def started_def in_hand_def)
  then have "cl_sources J ?M ?C" by (rule cl_run_sources) simp
  then have "\<forall>r\<in>set (wkTable (mqWork Q)). \<exists>m\<in>?M. effect_from J m r" by (simp add: run cl_sources_def)
  moreover
  have "cl_inv J ?C" unfolding C0(1) by (rule cl_run_inv [OF cl_inv_start [OF C0(2-4)]])
  moreover have "set (mqAcked Q) \<subseteq> succeeded ?C" by (auto simp: run succeeded_def)
  ultimately show ?thesis using cl_inv_counts [of J ?C] unfolding run by blast
qed


text \<open>
  C31 A job that keeps failing is retried for ever: without an \<^verbatim>\<open>x-death\<close> header, which a requeue never adds, and with at
  least two retries configured, the message is never acknowledged and never reaches the dead-letter queue, whatever the
  workers do; the broker keeps it, queued or unacknowledged.
\<close>

theorem failing_job_never_dead_lettered:
  assumes C0: "m \<in> set (mqQueue q)" "m \<notin> set (mqDlq q)" "m \<notin> set (mqAcked q)" "C0 = \<lparr>clQueue = q, clWorkers = replicate n started\<rparr>"
    and m: "map_of (mHeaders m) ''x-death'' = None" and c: "2 \<le> cMaxRetries c"
    and fails: "\<forall>i now s. \<exists>job err s'. ParseJob J now (mBody m) = Inr job \<and> H i now job s = (JobErr err, s')"
    and run: "C = cl_run J c H as C0"
  shows "m \<notin> set (mqDlq (clQueue C)) \<and> m \<notin> set (mqAcked (clQueue C)) \<and>
    (m \<in> set (mqQueue (clQueue C)) \<or> (\<exists>w\<in>set (clWorkers C). m \<in> set (unacked w)))"
proof -
  have "circulating m C0" using C0 by (simp add: circulating_def)
  with cl_run_circulating [OF failing_requeued [OF fails m c]] run have "circulating m C" by simp
  then have gone: "m \<notin> set (mqDlq (clQueue C))" "m \<notin> set (mqAcked (clQueue C))" by (simp_all add: circulating_def)
  have "m \<in># cl_held C0" using C0(1,4) by (simp add: cl_held_def held_def)
  then have "m \<in># cl_held C" using cl_run_held [of J c H as C0] run by simp
  with gone show ?thesis by (auto simp: cl_held_def held_def)
qed

end
