(* ===== verification/ServiceWitnesses.thy ===== *)
theory ServiceWitnesses
  imports Witnesses FileContent OutboxReplicas ConsumerReplicas
begin

text \<open>
  The properties of the rate limiter, the proxy and the services behind the gateway, applied at concrete inputs where their
  hypotheses hold: an in-memory Redis, a JSON table, one row, one message, one file.
\<close>

section \<open>Rate limits\<close>

definition rl0 :: rl_config where
  "rl0 = \<lparr>AuthRPS = Fin 1, AuthBurst = 2, GeneralRPS = Fin 1, GeneralBurst = 2, RLEnabled = True\<rparr>"

text \<open>Two gateways count in one window; the EXPIRE of the first comes after the INCR of the second.\<close>

definition burst3 :: "rl_command list" where
  "burst3 = [Count 0 ''general'' ''10.0.0.1'', Count 1 ''auth'' ''10.0.0.1'', Count 2 ''general'' ''10.0.0.1'',
     Expire 2 ''general'' ''10.0.0.1'' ''gw:rl:general:10.0.0.1:0'', Count 3 ''general'' ''10.0.0.1'']"

theorem redis_window_quota_witness:
  "map snd (filter (\<lambda>(q, d). req_key (newRedisLimiter 0 True rl0) q = ''gw:rl:general:10.0.0.1:0'')
     (cmd_run mem_redis (newRedisLimiter 0 True rl0) burst3 Map.empty)) = [Inr True, Inr True, Inr False]"
proof -
  let ?l = "newRedisLimiter 0 True rl0" and ?K = "''gw:rl:general:10.0.0.1:0''"
  let ?qs = "concat (map cmd_req burst3)"
  have max: "wlMax (zone_limit ?l ''general'') = 2" by code_simp
  have key: "?K = rl_key (zone_limit ?l ''general'') (0 * time_Second) ''general'' ''10.0.0.1''" by code_simp
  have fresh: "\<forall>t. 0 * time_Second \<le> t \<longrightarrow> t < (0 + 1) * time_Second \<longrightarrow> mem_view Map.empty t ?K = None"
    by (simp add: mem_view_def)
  have sorted: "sorted (map cmd_time burst3)" "\<forall>c\<in>set burst3. 0 * time_Second \<le> cmd_time c" by (simp_all add: burst3_def)
  have window: "\<forall>(t, z, i)\<in>set ?qs. t div time_Second = 0 \<and> known_zone z" by code_simp
  have pos: "0 < wlMax (zone_limit ?l ''general'')" and zone: "known_zone ''general''" by (simp_all only: max known_zone_def) simp_all
  have len: "int (length burst3) < 2 ^ 63" by (simp add: burst3_def)
  have count: "length (filter (\<lambda>q. req_key ?l q = ?K) ?qs) = 3" by code_simp
  have "map snd (filter (\<lambda>(q, d). req_key ?l q = ?K) (cmd_run mem_redis ?l burst3 Map.empty))
      = map (\<lambda>i. Inr (int i < wlMax (zone_limit ?l ''general''))) [0..<length (filter (\<lambda>q. req_key ?l q = ?K) ?qs)]"
    by (rule redis_window_quota [where view = mem_view and sec = 0 and ip = "''10.0.0.1''" and cfg = rl0 and oor = 0])
      (fact mem_redis_laws mem_redis_up refl pos zone key fresh sorted window len)+
  then show ?thesis unfolding max count by (simp add: eval_nat_numeral)
qed

definition bucket0 :: "unit rate_lib" where
  "bucket0 = \<lparr>newLimiter = (\<lambda>r b. ()), limAllow = (\<lambda>t l. (False, l))\<rparr>"

definition limited0 :: "(mem, unit, unit) gwl" where
  "limited0 = \<lparr>bRedis = Map.empty, bNet = (), gAudit = [], gLim = newMemoryLimiter 0 rl0\<rparr>"

theorem throttled_request_witness:
  "\<exists>w' s' ev. rl_Middleware mem_redis bucket0 rl0 entry_emitter UseMemory 5 [1] [2] (Authenticate env0 mw0 [1] [2] (\<lambda>r w s. Panicked [] w s))
      req0 new_writer limited0 = Served w' (s'\<lparr>gAudit := gAudit s' @ [ev]\<rparr>) \<and> final_status w' = 429"
proof -
  obtain s' where deny: "limiter_Allow mem_redis bucket0 5 UseMemory (rl_zone req0) (rl_clientIP req0) limited0 = (False, s')"
    by (auto simp: limiter_Allow_def mem_Allow_def limited0_def newMemoryLimiter_def newPool_def rl0_def fl_le0_def pool_allow_def
        bucket0_def rl_zone_def isAuthPath_def HasPrefix_def)
  have on: "RLEnabled rl0" by (simp add: rl0_def)
  have em: "entry_emitter = IPtr (Some \<lparr>as_inner = IPtr (Some audit_emitter)\<rparr>)" by (simp add: entry_emitter_def)
  have blank: "WSent new_writer = None" "WBody new_writer = []" by simp_all
  from throttled_request [OF on deny blank em] show ?thesis by blast
qed

section \<open>Jobs\<close>

definition item_json :: json where
  "item_json = JObj [(''id'', JStr ''j1''), (''type'', JStr ''business.item.created''), (''time'', JStr ''2026-01-02T03:04:05Z''),
     (''payload'', JObj [(''item_id'', JStr ''i1'')])]"

definition jobs_json :: json_env where
  "jobs_json = table_json [(''m'', item_json)]"

definition item_msg :: msg where
  "item_msg = \<lparr>mBody = ''m'', mHeaders = []\<rparr>"

definition idle :: "'s \<Rightarrow> 's mq_state" where
  "idle s = \<lparr>mqQueue = [], mqDlq = [], mqAcked = [], mqWork = s\<rparr>"

definition retries3 :: consumer where
  "retries3 = \<lparr>cQueue = DefaultWorkQueue (\<lambda>k. []), cPrefetch = 10, cMaxRetries = 3\<rparr>"

definition item_job :: Job where
  "item_job = \<lparr>jID = ''j1'', jType = ''business.item.created'', jTime = 1767323045000000000, jActor = [], jTenant = [],
     jPayload = Some [(''item_id'', JStr ''i1'')]\<rparr>"

lemma item_parsed: "ParseJob jobs_json now ''m'' = Inr item_job"
proof -
  have "job_of_json item_json = Some item_job" by code_simp
  then show ?thesis by (simp add: ParseJob_def jobs_json_def) (simp add: item_job_def time_IsZero_def zero_time_def)
qed

text \<open>
  Two workers: the first handles a job and loses its channel before the acknowledgement is sent, the second gets the job
  again; the late acknowledgement of the first is dropped.
\<close>

definition two_workers :: "'s \<Rightarrow> 's cluster" where
  "two_workers s = \<lparr>clQueue = idle s, clWorkers = replicate 2 started\<rparr>"

definition redelivery :: "msg \<Rightarrow> cl_action list" where
  "redelivery m = [Enqueue m, Push 0 m, HandleNext 0 5, ChannelLost 0, Push 1 m, HandleNext 1 6, SettleDone 1, SettleDone 0]"

lemma redelivered:
  assumes "handleDelivery J 5 retries3 (H 0 5) m s = (v, s1)" "handleDelivery J 6 retries3 (H 1 6) m s1 = (v, s2)" "v \<noteq> Crash"
  shows "cl_run J retries3 H (redelivery m) (two_workers s) =
    \<lparr>clQueue = settle m v s2 (idle s2\<lparr>mqQueue := [m]\<rparr>), clWorkers = [started\<lparr>wnOpen := False\<rparr>, started]\<rparr>"
proof -
  have "cPrefetch retries3 = 10" by (simp add: retries3_def)
  with assms show ?thesis
    by (cases v) (simp_all add: redelivery_def two_workers_def put_conn_def push_to_def handle_next_def settle_done_def idle_def
        settle_def conn_defs numeral_2_eq_2)
qed

definition row_i1 :: effect_row where
  "row_i1 = effect_row_of 9 item_job ''i1''"

lemma item_handled:
  assumes "tbl = [] \<or> tbl = [row_i1]"
  shows "handleDelivery jobs_json now retries3 (worker_handler (\<lambda>i. True) (\<lambda>t. 9) i now) item_msg \<lparr>wkTable = tbl, wkFaults = []\<rparr> =
    (Ack, \<lparr>wkTable = [row_i1], wkFaults = []\<rparr>)"
  using assms
  by (auto simp: handleDelivery_def item_parsed item_msg_def worker_handler_def store_iface_def router_Handle_def handleBusinessItem_def
      next_fault_def item_type_def Record_def item_job_def requireString_def map_get_def effect_insert_def insert_nothing_def
      effect_row_of_def row_i1_def)

theorem acked_jobs_have_one_effect_witness:
  "length (filter (\<lambda>r. efJobID r = ''j1'') (wkTable (mqWork (clQueue (cl_run jobs_json retries3 (worker_handler (\<lambda>i. True) (\<lambda>t. 9))
     (redelivery item_msg) (two_workers \<lparr>wkTable = [], wkFaults = []\<rparr>)))))) = 1"
proof -
  let ?Q = "clQueue (cl_run jobs_json retries3 (worker_handler (\<lambda>i. True) (\<lambda>t. 9)) (redelivery item_msg) (two_workers \<lparr>wkTable = [], wkFaults = []\<rparr>))"
  have "\<forall>m\<in>set (mqAcked ?Q). \<forall>now jid. effect_due jobs_json now m jid \<longrightarrow> length (filter (\<lambda>r. efJobID r = jid) (wkTable (mqWork ?Q))) = 1"
    using acked_jobs_have_one_effect [OF two_workers_def, of "\<lparr>wkTable = [], wkFaults = []\<rparr>"] by (simp add: idle_def genuine_def)
  moreover have "effect_due jobs_json 0 item_msg ''j1''"
    by (simp add: effect_due_def item_msg_def item_parsed item_type_def) (simp add: item_job_def)
  moreover have "item_msg \<in> set (mqAcked ?Q)"
    by (simp add: redelivered [OF item_handled item_handled] settle_def)
  ultimately show ?thesis by blast
qed


theorem failing_job_never_dead_lettered_witness:
  "item_msg \<notin> set (mqDlq (clQueue (cl_run jobs_json retries3 (\<lambda>i now j s. (JobErr (Errorf ''down''), s))
     (redelivery item_msg) \<lparr>clQueue = idle ()\<lparr>mqQueue := [item_msg]\<rparr>, clWorkers = replicate 2 started\<rparr>)))"
proof -
  let ?H = "\<lambda>(i::nat) (now::gotime) (j::Job) (s::unit). (JobErr (Errorf ''down''), s)" and ?q = "idle ()\<lparr>mqQueue := [item_msg]\<rparr>"
  have "item_msg \<in> set (mqQueue ?q)" "item_msg \<notin> set (mqDlq ?q)" "item_msg \<notin> set (mqAcked ?q)" by (simp_all add: idle_def)
  moreover have "map_of (mHeaders item_msg) ''x-death'' = None" "2 \<le> cMaxRetries retries3" by (simp_all add: item_msg_def retries3_def)
  moreover have "\<forall>i now s. \<exists>job err s'. ParseJob jobs_json now (mBody item_msg) = Inr job \<and> ?H i now job s = (JobErr err, s')"
    by (simp add: item_msg_def item_parsed)
  ultimately show ?thesis
    using failing_job_never_dead_lettered
      [where m = item_msg and q = ?q and n = 2 and c = retries3 and J = jobs_json and H = ?H and as = "redelivery item_msg",
        OF _ _ _ refl _ _ _ refl]
    by simp
qed

theorem job_roundtrip_witness:
  "\<exists>raw. job_Marshal jobs_json 5 item_job = Inr raw \<and> ParseJob jobs_json 6 raw = Inr item_job"
proof -
  have "item_json = job_json (\<lambda>_. ''2026-01-02T03:04:05Z'') item_job" by code_simp
  moreover have "parse_rfc3339 True ''2026-01-02T03:04:05Z'' = Some (jTime item_job)" by code_simp
  ultimately have "job_wire_ok jobs_json item_job"
    by (simp add: job_wire_ok_def jobs_json_def table_json_def) (simp add: item_job_def)
  then show ?thesis by (rule job_roundtrip) (simp_all add: item_job_def time_IsZero_def zero_time_def)
qed

section \<open>Outbox and audit log\<close>

definition row0 :: outbox_row where
  "row0 = \<lparr>obID = ''o1'', obType = ''item.created'', obPayload = JObj [(''tenant_id'', JStr ''t1'')], obCreated = 1767323045000000000, obPublished = None\<rparr>"

definition event0 :: Event where
  "event0 = \<lparr>EvID = ''o1'', EvSource = ''business-service'', EvType = ''item.created'', EvSubject = [], EvTime = 1767323045000000000,
     EvTenantID = ''t1'', EvActorUserID = [], EvData = Some [(''tenant_id'', JStr ''t1'')]\<rparr>"

lemma row0_event: "rowToEvent row0 = Inr event0"
  by code_simp

definition event0_json :: json where
  "event0_json = event_json (\<lambda>_. ''2026-01-02T03:04:05Z'') event0"

definition audit_json :: json_env where
  "audit_json = table_json [(''e'', event0_json)]"

lemma audit_json_faithful: "json_faithful audit_json"
  by (auto simp: json_faithful_def audit_json_def table_json_def event0_json_def split: if_splits option.splits)

definition audit0 :: "unit audit_env" where
  "audit0 = \<lparr>auJson = audit_json, auStruct = (\<lambda>m. Inr ()), auNow = 7, auFault = None, auOrder = (\<lambda>t. t),
     auHealth = \<lparr>hcChecks = [], hcMetrics = (\<lambda>r w s. Served w s)\<rparr>\<rparr>"

lemma posted: "http_emit audit_json audit_emitter (audit0, True, (\<lambda>i. [1]), False) event0 [] = (None, [event_row 7 event0])"
proof -
  let ?r = "audit_request (emit_request audit_json audit_emitter event0)" and ?rnd = "\<lambda>i::nat. [1::8 word]"
  have hdr: "hdr_get (Header ?r) ''X-Internal-Token'' = ''tok''"
    by (simp add: audit_request_def emit_request_def audit_emitter_def hdr_get_set go_defs)
  then have pass: "trust_pass ''tok'' ?r" by (simp add: trust_pass_def internalTokenOK_iff req_header_def)
  let ?h = "audit_mux audit0 ''tok'' (store_iface True)"
  obtain hd w1 where stack: "WSent w1 = None \<and> WBody w1 = [] \<and> (\<forall>k. k \<notin> {''X-Request-Id'', ''Traceparent''} \<longrightarrow> hd k = Header ?r k) \<and>
      (\<forall>s w'' s'. ?h (?r\<lparr>Header := hd\<rparr>) w1 s = Served w'' s' \<longrightarrow>
        Chain ?h [GatewayTrust ''tok'', RequestID_mw (?rnd 0), Recover, AccessLog, TraceContext (?rnd 1) (?rnd 2)] ?r new_writer s = Served w'' s')"
    using service_stack [OF pass, of ?h "?rnd 0" "?rnd 1" "?rnd 2"] by (elim exE)
  let ?r2 = "?r\<lparr>Header := hd, PathValues := []\<rparr>"
  have tok: "internalTokenOK ?r2 ''tok''" using stack hdr by (simp add: internalTokenOK_iff req_header_def hdr_get_def)
  have body: "Body ?r2 = Inr (jenc audit_json event0_json)" "Method ?r = ''POST''" "Path ?r = ''/internal/audit/events''"
    by (simp_all add: audit_request_def emit_request_def Let_def event0_json_def) (simp add: audit_json_def table_json_def)
  have read: "jdec audit_json (take 1048576 (jenc audit_json event0_json)) = Some event0_json"
    by (simp add: audit_json_def table_json_def)
  have parse: "event_of_json event0_json = Some event0" by code_simp
  have fields: "\<not> (EvID event0 = [] \<or> EvSource event0 = [] \<or> EvType event0 = [] \<or> time_IsZero (EvTime event0))" by code_simp
  have valid: "ValidateAuditEvent (\<lambda>m. Inr ()) 7 event0 = None"
    by (simp add: ValidateAuditEvent_def AuditToProto_def event0_def)
  have "?h (?r\<lparr>Header := hd\<rparr>) w1 [] = InternalAuth ''tok'' (ingest_handle audit0 (store_iface True)) ?r2 w1 []"
    using audit_mux_post [of "?r\<lparr>Header := hd\<rparr>" audit0 "''tok''"] body by simp
  also have "\<dots> = ingest_handle audit0 (store_iface True) ?r2 w1 []"
    using tok by (simp add: internal.guard_law guard_defs)
  also have "\<dots> = Served (respond_JSON 202 (JObj [(''status'', JStr ''accepted''), (''id'', JStr (EvID event0))]) w1) [event_row 7 event0]"
    using body(1) read parse fields valid
    by (simp add: ingest_handle_def audit0_def store_iface_def with_store_def Events_Insert_def audit_insert_def insert_nothing_def Let_def)
  finally have "audit_service audit0 ''tok'' True ?rnd ?r new_writer [] =
      Served (respond_JSON 202 (JObj [(''status'', JStr ''accepted''), (''id'', JStr (EvID event0))]) w1) [event_row 7 event0]"
    using stack by (simp only: audit_service_def HOL.simp_thms)
  moreover have "audit0\<lparr>auJson := audit_json\<rparr> = audit0" "em_token audit_emitter = ''tok''" "em_baseURL audit_emitter \<noteq> []"
    by (simp_all add: audit0_def audit_emitter_def)
  moreover have "\<not> (EvID event0 = [] \<or> EvSource event0 = [] \<or> EvType event0 = [])" using fields by blast
  moreover have "badURL audit_json u = None" for u by (simp add: audit_json_def)
  ultimately show ?thesis using stack
    by (simp add: http_emit_def HTTPEmitter_Emit_def audit_client_def)
qed

definition post0 :: "unit post_env" where "post0 = (audit0, True, (\<lambda>i. [1]), False)"
definition outbox0 :: "audit_row list ob_state" where "outbox0 = \<lparr>obRows = [row0], obNet = []\<rparr>"

text \<open>
  Two workers read the same row; both post it, the second reply gets lost with its worker, and the first worker marks the row.
\<close>

definition race0 :: "unit post_env ob_action list" where
  "race0 = [Select 1 50, Select 2 50, Post 1 post0, Post 2 post0, Die 2, MarkRow 1 None 9]"

lemma posted_again: "http_emit audit_json audit_emitter post0 event0 [event_row 7 event0] = (res, tbl) \<Longrightarrow> tbl = [event_row 7 event0]"
  using http_emit_effect [OF audit_json_faithful, of audit_emitter post0 event0 "[event_row 7 event0]" res tbl]
  by (auto simp: audit_emitter_def event_row_def)

lemma race0_run: "obShared (ob_run (http_emit audit_json audit_emitter) race0 (all_idle outbox0)) =
    \<lparr>obRows = [row0\<lparr>obPublished := Some 9\<rparr>], obNet = [event_row 7 event0]\<rparr>"
proof -
  have "pending_rows [row0] = [row0]" by code_simp
  moreover obtain res tbl where again: "http_emit audit_json audit_emitter post0 event0 [event_row 7 event0] = (res, tbl)" by fastforce
  moreover have "http_emit audit_json audit_emitter post0 event0 [] = (None, [event_row 7 event0])" using posted by (simp add: post0_def)
  ultimately show ?thesis
    using posted_again [OF again]
    by (simp add: race0_def outbox0_def idle_def post_next_def mark_posted_def publish_post_def publish_mark_def row0_event split: option.splits)
      (simp add: mark_published_def row0_def)
qed

theorem outbox_exactly_once_witness:
  "length (filter (\<lambda>i. i = ''o1'') (map arID (obNet (obShared (ob_run (http_emit audit_json audit_emitter) race0 (all_idle outbox0)))))) = 1"
proof -
  let ?S = "obShared (ob_run (http_emit audit_json audit_emitter) race0 (all_idle outbox0))"
  have "em_baseURL audit_emitter \<noteq> []" by (simp add: audit_emitter_def)
  from outbox_exactly_once [OF audit_json_faithful this refl, of outbox0, OF _ _ _ refl, of race0]
  have "\<forall>r\<in>set (obRows ?S). obPublished r \<noteq> None \<longrightarrow> length (filter (\<lambda>i. i = obID r) (map arID (obNet ?S))) = 1"
    by (simp add: outbox0_def row0_def)
  moreover have "row0\<lparr>obPublished := Some 9\<rparr> \<in> set (obRows ?S)" by (simp add: race0_run)
  ultimately show ?thesis by (force simp: row0_def)
qed

theorem bad_rows_starve_outbox_witness:
  "snd (dispatchOnce (\<lambda>i ev n. (None, ev # n)) (\<lambda>i. None) 9 None None \<lparr>obRows = [row0\<lparr>obPayload := JArr []\<rparr>], obNet = []\<rparr>) =
     \<lparr>obRows = [row0\<lparr>obPayload := JArr []\<rparr>], obNet = []\<rparr>"
proof -
  have "pending_rows [row0\<lparr>obPayload := JArr []\<rparr>] = [row0\<lparr>obPayload := JArr []\<rparr>]" by code_simp
  moreover have "rowToEvent (row0\<lparr>obPayload := JArr []\<rparr>) = Inl (Errorf ''payload json'')" by code_simp
  ultimately show ?thesis by (intro bad_rows_starve_outbox) simp
qed

definition row_t1 :: audit_row where
  "row_t1 = event_row 7 event0"

theorem audit_list_scoped_witness:
  "opt_str (arTenant row_t1) \<in> {[], ''t1''}"
proof -
  let ?f = "\<lparr>lfTenantID = ''t1'', lfType = [], lfSource = [], lfLimit = 10\<rparr>"
  have rows: "Events_List (\<lambda>t. t) True None ?f [row_t1, row_t1\<lparr>arID := ''o2'', arTenant := Some ''t2''\<rparr>] = Inr [row_t1]" by code_simp
  have tenant: "lfTenantID ?f \<noteq> []" by simp
  show ?thesis using audit_list_scoped [OF tenant rows refl] by simp
qed

definition audit_run :: "request list \<Rightarrow> ((unit audit_env \<times> bool \<times> (nat \<Rightarrow> bytes)) \<times> request) list" where
  "audit_run rs = map (\<lambda>r. ((audit0, True, \<lambda>i. [1]), r)) rs"

lemma audit0_metrics: "metrics_pure (auHealth audit0)"
  by (simp add: metrics_pure_def audit0_def)

theorem audit_log_append_only_witness:
  "\<exists>new. serve_all (\<lambda>(E, connected, rnd). audit_service E ''tok'' connected rnd)
      (audit_run [audit_request (emit_request audit_json audit_emitter event0), req0]) [row_t1\<lparr>arID := ''o2''\<rparr>] =
    [row_t1\<lparr>arID := ''o2''\<rparr>] @ new"
proof -
  let ?qs = "audit_run [audit_request (emit_request audit_json audit_emitter event0), req0]"
  have "\<forall>(E, connected, rnd)\<in>fst ` set ?qs. metrics_pure (auHealth E)" by (simp add: audit_run_def audit0_metrics)
  from audit_log_append_only [OF this] show ?thesis by blast
qed

theorem audit_writes_need_token_witness:
  "serve_all (\<lambda>(E, connected, rnd). audit_service E ''tok'' connected rnd) (audit_run [req0\<lparr>Method := ''POST'', Path := ''/internal/audit/events''\<rparr>]) [] = []"
  by (rule audit_writes_need_token) (simp_all add: audit_run_def audit0_metrics internalTokenOK_iff req_header_def hdr_get_def)

section \<open>Identities\<close>

definition fresh_db :: auth_db where
  "fresh_db = \<lparr>adUsers = [], adLinks = [], adDeliveries = []\<rparr>"

definition quiet :: "bytes \<Rightarrow> db_env" where
  "quiet b = \<lparr>deFault = (\<lambda>n. None), deOther = (\<lambda>n db. db), deRand = Inr b, deNow = 3\<rparr>"

lemma quiet_facts: "only_adds (quiet b)" "undisturbed (quiet b)" "keeps_deliveries (quiet b)" "deFault (quiet b) n = None" "deOther (quiet b) n db = db"
  by (simp_all add: only_adds_def undisturbed_def alone_def keeps_deliveries_def quiet_def)

definition subject1 :: "string \<times> string" where "subject1 = (''logto'', ''s1'')"

theorem resolve_agrees_witness:
  "\<exists>u u'. map snd (fst (resolve_all (\<lambda>D k. ResolveProviderUser D (Some True) (fst k) (snd k))
      [(quiet [1], subject1), (quiet [2], subject1)] fresh_db)) = [Inr u, Inr u'] \<and> u = u'"
proof -
  let ?run = "resolve_all (\<lambda>D k. ResolveProviderUser D (Some True) (fst k) (snd k)) [(quiet [1], subject1), (quiet [2], subject1)] fresh_db"
  have calm: "\<forall>(D, k)\<in>set [(quiet [1], subject1), (quiet [2], subject1)]. only_adds D" by (simp add: quiet_facts)
  have run: "?run = (fst ?run, snd ?run)" by simp
  have both: "map snd (fst ?run) = [Inr ''01'', Inr ''01'']" by code_simp
  have mem: "(subject1, Inr ''01'') \<in> set (fst ?run)" by code_simp
  have same: "''01'' = ''01''" by (rule resolve_agrees [OF calm run mem mem])
  show ?thesis by (rule exI [of _ "''01''"], rule exI [of _ "''01''"]) (rule conjI [OF both same])
qed

text \<open>Another process links the subject between the lookup and the creation.\<close>

definition racing :: db_env where
  "racing = \<lparr>deFault = (\<lambda>n. None), deOther = (\<lambda>n db. if n = 1
     then db\<lparr>adLinks := snd (insert_nothing link_key \<lparr>irProvider = ''logto'', irUid = ''s1'', irUser = ''u7'', irTenant = []\<rparr> (adLinks db))\<rparr> else db),
     deRand = Inr [1], deNow = 3\<rparr>"

theorem resolve_survives_race_witness:
  "fst (ResolveProviderUser racing (Some True) ''logto'' ''s1'' fresh_db) = Inr ''u7''"
proof -
  have adds: "only_adds racing"
    by (simp add: only_adds_def racing_def owner_insert)
  have own: "owner (deOther racing 0 fresh_db) (''logto'', ''s1'') = None"
    "owner (deOther racing 1 (deOther racing 0 fresh_db)) (''logto'', ''s1'') = Some ''u7''"
    by code_simp+
  have "ResolveProviderUser racing (Some True) ''logto'' ''s1'' fresh_db =
      (Inr ''u7'', deOther racing 5 (deOther racing 1 (deOther racing 0 fresh_db)))"
    by (rule resolve_survives_race [where b = "[1]", OF _ _ adds _ _ own]) (simp_all add: racing_def)
  then show ?thesis by simp
qed

theorem wechat_union_shared_witness:
  "\<exists>u db1 db2. ResolveWeChatUser (quiet [1]) (Some True) ''o1'' ''un'' fresh_db = (Inr u, db1) \<and>
     ResolveWeChatUser (quiet [2]) (Some True) ''o2'' ''un'' db1 = (Inr u, db2)"
proof -
  let ?r1 = "ResolveWeChatUser (quiet [1]) (Some True) ''o1'' ''un'' fresh_db"
  let ?r2 = "ResolveWeChatUser (quiet [2]) (Some True) ''o2'' ''un'' (snd ?r1)"
  have "fst ?r1 = Inr ''01''" "fst ?r2 = Inr ''01''" by code_simp+
  then have runs: "?r1 = (Inr ''01'', snd ?r1)" "?r2 = (Inr ''01'', snd ?r2)" by (metis prod.collapse)+
  have own: "owner (snd ?r1) (providerWeChatMP, ''o2'') = None" "owner fresh_db (providerWeChatUnion, ''un'') \<in> {None, Some ''01''}"
    by code_simp+
  have "''01'' = ''01''" by (rule wechat_union_shared [OF quiet_facts(2) quiet_facts(2) _ runs own]) simp
  with runs show ?thesis by metis
qed

section \<open>Webhooks and mini-program login\<close>

definition deleted_json :: json where
  "deleted_json = JObj [(''hookId'', JStr ''h''), (''event'', JStr ''User.Deleted''), (''createdAt'', JStr ''2026-01-02T03:04:05Z''), (''userId'', JStr ''s1'')]"

definition hook_docs :: "(string \<times> json) list" where
  "hook_docs = [(''d'', deleted_json), (''c'', JObj [(''code'', JStr ''abc'')])]"

definition iss0 :: issuer where
  "iss0 = \<lparr>iss_issuer = ''ting'', iss_audience = [], iss_key = Some ''key'', iss_kid = ''k1''\<rparr>"

definition claims0 :: gomap where
  "claims0 = AccessToken_claims iss0 ''01'' [] [''user''] 0 time_Hour"

text \<open>\<open>status\<close> is what the audit service answers.\<close>

definition auth0 :: "int \<Rightarrow> (mem, nat) auth_env" where
  "auth0 status = \<lparr>aeJson = table_json hook_docs, aeUrl = \<lparr>setQuery = (\<lambda>u q. Inr u), formEncode = (\<lambda>q. [])\<rparr>,
     aeHttp = (\<lambda>out n. (Inr (status, Inr []), Suc n)), aeRedis = mem_redis, aeJwt = one_jwt ''RS256'' ''key'' ''k1'' claims0,
     aeHmac = (\<lambda>k m. [170]), aeSha = (\<lambda>s. [1]), aeDb = quiet [1], aeEventID = [3], aeNow = 0,
     aeHealth = \<lparr>hcChecks = [], hcMetrics = (\<lambda>r w s. Served w s)\<rparr>\<rparr>"

definition logto0 :: logto_handler where
  "logto0 = \<lparr>lhSigningKey = ''k'', lhSkipVerify = False, lhIdentities = Some True, lhDeliveries = Some True,
     lhAudit = IPtr (Some audit_emitter), lhRevocations = Some month_revocations\<rparr>"

definition hook_req :: request where
  "hook_req = req0\<lparr>Method := ''POST'', Body := Inr ''d'', Header := [''Logto-Signature-Sha-256'' \<mapsto> [''aa'']]\<rparr>"

definition authst0 :: "(mem, nat) auth_state" where
  "authst0 = \<lparr>asDb = fresh_db, asRedis = Map.empty, asNet = 0\<rparr>"

definition deleted_payload :: Payload where
  "deleted_payload = \<lparr>pHookID = ''h'', pEvent = ''User.Deleted'', pCreatedAt = ''2026-01-02T03:04:05Z'', pUserID = ''s1'', pUserIP = [], pIP = [],
     pUser = None, pData = None\<rparr>"

lemma hook_header: "req_header hook_req signatureHeader = ''aa''"
proof -
  have "CanonicalHeaderKey signatureHeader = ''Logto-Signature-Sha-256''" by code_simp
  then show ?thesis by (simp add: req_header_def hook_req_def hdr_get_def)
qed

lemma auth0_facts: "aeDb (auth0 n) = quiet [1]" "aeRedis (auth0 n) = mem_redis" "aeNow (auth0 n) = 0" "lhDeliveries logto0 = Some True"
  "lhRevocations logto0 = Some month_revocations" "lhSigningKey logto0 = ''k''" "aeHmac (auth0 n) k m = [170]" "asDb authst0 = fresh_db"
  "Body hook_req = Inr ''d''" "aeHmac (auth0 n) = (\<lambda>k m. [170])" "jdec (aeJson (auth0 n)) = map_of hook_docs"
  by (simp_all add: auth0_def logto0_def authst0_def hook_req_def fun_eq_iff)

lemma hook_payload: "webhook_payload (auth0 n) logto0 hook_req = Inr deleted_payload"
proof -
  have parse: "payload_of_json deleted_json = Some deleted_payload" by code_simp
  have "VerifySignature (\<lambda>k m. [170]) ''k'' ''d'' ''aa'' = None" by code_simp
  moreover have "ParsePayload (map_of hook_docs) ''d'' = Inr deleted_payload"
    by (simp add: ParsePayload_def hook_docs_def parse) (simp add: deleted_payload_def)
  ultimately show ?thesis
    by (simp add: webhook_payload_def hook_header auth0_facts Let_def)
qed

lemma hook_first:
  "webhook_first (auth0 n) logto0 deleted_payload fresh_db = (Inr True, fresh_db\<lparr>adDeliveries := [DeliveryKey deleted_payload]\<rparr>)"
  by (simp add: webhook_first_def auth0_facts TryRecord_def stmt_def quiet_facts) (simp add: fresh_db_def insert_nothing_def)

lemma hook_user:
  "\<exists>db. webhook_user (auth0 n) logto0 deleted_payload (fresh_db\<lparr>adDeliveries := [DeliveryKey deleted_payload]\<rparr>) = (''01'', db)"
proof -
  let ?run = "ResolveLogtoUser (quiet [1]) (Some True) ''s1'' (fresh_db\<lparr>adDeliveries := [DeliveryKey deleted_payload]\<rparr>)"
  have user: "logtoUserID deleted_payload = ''s1''" "lhIdentities logto0 = Some True" by code_simp+
  have "fst ?run = Inr ''01''" by code_simp
  then have "?run = (Inr ''01'', snd ?run)" by (metis prod.collapse)
  with user show ?thesis by (auto simp: webhook_user_def auth0_facts split: prod.splits sum.splits)
qed

definition hook_event :: Event where
  "hook_event = the (ToAuditEvent (\<lambda>s. [1]) [3] 0 deleted_payload ''01'')"

lemma hook_emit:
  "webhook_emit (auth0 n) logto0 deleted_payload ''01'' k = (if n \<ge> 300 then Some (Errorf ''audit post: status'') else None, Suc k)"
proof -
  have ev: "ToAuditEvent (\<lambda>s. [1]) [3] 0 deleted_payload ''01'' = Some hook_event"
    "EvID hook_event \<noteq> []" "EvSource hook_event \<noteq> []" "EvType hook_event \<noteq> []"
    by code_simp+
  then show ?thesis
    by (simp add: webhook_emit_def auth0_def logto0_def audit_emitter_def HTTPEmitter_Emit_def)
qed

theorem failed_webhook_lost_witness:
  "\<exists>w1 s1 w2 s2. logto_ServeHTTP (auth0 500) logto0 hook_req new_writer authst0 = Served w1 s1 \<and> error_code w1 = Some ''audit.emit_failed'' \<and>
     logto_ServeHTTP (auth0 200) logto0 hook_req new_writer s1 = Served w2 s2 \<and> final_status w2 = 202 \<and> asNet s2 = asNet s1"
proof -
  obtain db where db: "webhook_user (auth0 500) logto0 deleted_payload (fresh_db\<lparr>adDeliveries := [DeliveryKey deleted_payload]\<rparr>) = (''01'', db)"
    using hook_user by blast
  obtain w1 s1 where fst: "logto_ServeHTTP (auth0 500) logto0 hook_req new_writer authst0 = Served w1 s1" "error_code w1 = Some ''audit.emit_failed''"
    by (simp add: logto_ServeHTTP_def Let_def hook_payload webhook_process_def auth0_facts hook_first db hook_emit)
  have hyps: "deFault (aeDb (auth0 500)) 20 = None" "keeps_deliveries (aeDb (auth0 500))" "deFault (aeDb (auth0 200)) 20 = None" "keeps_deliveries (aeDb (auth0 200))"
    by (simp_all add: auth0_facts quiet_facts)
  from failed_webhook_lost [OF auth0_facts(4) hook_payload hyps(1,2) hook_payload hyps(3,4) fst] fst show ?thesis by blast
qed

theorem webhook_needs_signature_witness:
  "\<exists>w'. logto_ServeHTTP (auth0 200) logto0 (hook_req\<lparr>Header := Map.empty\<rparr>) new_writer authst0 = Served w' authst0 \<and> final_status w' = 401 \<and>
    error_code w' = Some ''webhook.invalid_signature''"
  by (rule webhook_needs_signature [where body = "''d''"])
    (simp_all add: auth0_facts req_header_def hdr_get_def hook_req_def)

lemma hook_accepted:
  "\<exists>s'. logto_ServeHTTP (auth0 200) logto0 hook_req new_writer authst0 = Served (respond_JSON 202 (JObj [(''status'', JStr ''accepted'')]) new_writer) s'"
proof -
  obtain db where db: "webhook_user (auth0 200) logto0 deleted_payload (fresh_db\<lparr>adDeliveries := [DeliveryKey deleted_payload]\<rparr>) = (''01'', db)"
    using hook_user by blast
  have user: "logtoUserID deleted_payload = ''s1''" "pEvent deleted_payload = ''User.Deleted''" "rev_Enabled (Some month_revocations)" by code_simp+
  have ok: "fst (RevokeSubject mem_redis 0 (Some month_revocations) sub rd0) = None" if "sub \<noteq> []" for sub rd0
    using that user(3) by (simp add: RevokeSubject_def rev_set_def mem_redis_def)
  obtain rd1 where 1: "RevokeSubject mem_redis 0 (Some month_revocations) ''s1'' (asRedis authst0) = (None, rd1)"
    using ok [of "''s1''"] by (metis list.distinct(1) prod.collapse)
  obtain rd2 where 2: "RevokeSubject mem_redis 0 (Some month_revocations) ''01'' rd1 = (None, rd2)"
    using ok [of "''01''"] by (metis list.distinct(1) prod.collapse)
  have "applyRevocation mem_redis 0 logto0 deleted_payload ''01'' (asRedis authst0) = (None, rd2)"
    by (simp add: applyRevocation_def auth0_facts user 1 2)
  then show ?thesis
    by (simp add: logto_ServeHTTP_def Let_def hook_payload webhook_process_def auth0_facts hook_first db hook_emit)
qed

definition mp0 :: mp_handler where
  "mp0 = \<lparr>mpWeChat = Some \<lparr>wxAppID = [], wxAppSecret = [], wxMock = True\<rparr>, mpIdent = IPtr (Some True), mpIssuer = IPtr (Some iss0),
     mpAudit = IPtr None, mpTTL = time_Hour\<rparr>"

lemma login_runs:
  "\<exists>s'. Login (auth0 200) (Some mp0) (req0\<lparr>Body := Inr ''c''\<rparr>) new_writer authst0 =
      Served (respond_JSON 200 (login_response ''good'' time_Hour ''01'') new_writer) s' \<and>
    asDb s' = snd (ResolveWeChatUser (quiet [1]) (Some True) ''mock_abc'' [] fresh_db)"
proof -
  let ?run = "ResolveWeChatUser (quiet [1]) (Some True) ''mock_abc'' [] fresh_db"
  have "fst ?run = Inr ''01''" by code_simp
  then obtain db where user: "?run = (Inr ''01'', db)" by (metis prod.collapse)
  have sess: "mock_session ''abc'' = \<lparr>wxOpenID = ''mock_abc'', wxSessionKey = ''mock-session'', wxUnionID = []\<rparr>" by code_simp
  have code: "map_of hook_docs ''c'' = Some (JObj [(''code'', JStr ''abc'')])" "dec_object (JObj [(''code'', JStr ''abc'')]) = Some [(''code'', JStr ''abc'')]"
    "dec_string ''code'' [(''code'', JStr ''abc'')] = Some ''abc''"
    by code_simp+
  have sign: "AuthVerifier.AccessToken (aeJwt (auth0 200)) (Some iss0) ''01'' [] [''user''] 0 time_Hour = Inr ''good''"
    by (simp add: AuthVerifier.AccessToken_def auth0_def one_jwt_def claims0_def) (simp add: iss0_def)
  show ?thesis
    by (simp add: Login_def Let_def mp0_def code Code2Session_def sess login_user_def auth0_facts sign user)
qed

theorem login_token_verifies_witness:
  "\<exists>w' s' tok. Login (auth0 200) (Some mp0) (req0\<lparr>Body := Inr ''c''\<rparr>) new_writer authst0 = Served w' s' \<and>
    Verify (one_jwt ''RS256'' ''key'' ''k1'' claims0) 5 \<lparr>vcfg = \<lparr>Issuers = [''ting''], JWKSURLs = [''u''], Audience = [], DevSecret = []\<rparr>,
      vjwks = Some (\<lambda>alg kid. Inr ''key'')\<rparr> tok =
      Inr \<lparr>RequestID = [], UserID = ''01'', TenantID = [], Roles = [''user''], Scopes = [], Subject = ''01''\<rparr>"
proof -
  let ?v = "\<lparr>vcfg = \<lparr>Issuers = [''ting''], JWKSURLs = [''u''], Audience = [], DevSecret = []\<rparr>, vjwks = Some (\<lambda>alg kid. Inr ''key'')\<rparr>"
  let ?w = "respond_JSON 200 (login_response ''good'' time_Hour ''01'') new_writer"
  have jwt: "aeJwt (auth0 200) = one_jwt ''RS256'' ''key'' ''k1'' claims0" by (simp add: auth0_def)
  obtain s' where s': "Login (auth0 200) (Some mp0) (req0\<lparr>Body := Inr ''c''\<rparr>) new_writer authst0 = Served ?w s'" using login_runs by blast
  have "\<exists>tok u. WBody ?w = [BJson (login_response tok (mpTTL mp0) u)] \<and> Verify (aeJwt (auth0 200)) 5 ?v tok =
      Inr \<lparr>RequestID = [], UserID = u, TenantID = [], Roles = [''user''], Scopes = [], Subject = u\<rparr>"
    by (rule login_token_verifies [where pub = "\<lambda>k. k" and i = iss0 and key = "''key''", OF s'])
      (simp_all add: mp0_def auth0_facts one_jwt_complete one_jwt_exp_law jwt, simp_all add: iss0_def time_unit_defs)
  with s' show ?thesis by (auto simp: login_response_def jwt)
qed

definition auth_run :: "request list \<Rightarrow> (((mem, nat) auth_env \<times> logto_handler \<times> mp_handler \<times> bool option \<times> (nat \<Rightarrow> bytes)) \<times> request) list" where
  "auth_run rs = map (\<lambda>r. ((auth0 200, logto0, mp0, Some True, \<lambda>i. [1]), r)) rs"

lemma auth_run_calm:
  "\<forall>(E, lh, mp, idn, rnd)\<in>fst ` set (auth_run rs). metrics_pure (aeHealth E) \<and> only_adds (aeDb E) \<and> keeps_deliveries (aeDb E)"
proof -
  have "metrics_pure (aeHealth (auth0 200))" by (simp add: metrics_pure_def auth0_def)
  then show ?thesis by (auto simp: auth_run_def auth0_facts quiet_facts)
qed

definition linked :: "(mem, nat) auth_state" where
  "linked = authst0\<lparr>asDb := fresh_db\<lparr>adLinks := [\<lparr>irProvider = ''logto'', irUid = ''s1'', irUser = ''u7'', irTenant = []\<rparr>]\<rparr>\<rparr>"

theorem subjects_keep_their_user_witness:
  "owner (asDb (serve_all (\<lambda>(E, lh, mp, idn, rnd). auth_service E ''tok'' (\<lambda>i. Inr []) lh mp idn iss0 rnd)
     (auth_run [hook_req, req0]) linked)) (''logto'', ''s1'') = Some ''u7''"
proof -
  have "owner (asDb linked) (''logto'', ''s1'') = Some ''u7''" by (simp add: linked_def owner_def link_key_def)
  then show ?thesis using subjects_keep_their_user [OF auth_run_calm refl] by blast
qed


section \<open>Proxy\<close>

definition injected_req :: request where
  "injected_req = req0\<lparr>Header := Inject alice (StripUntrusted Map.empty)\<rparr>"

theorem proxied_request_trusted_witness:
  "internalTokenOK (injected_req\<lparr>Header := proxy_header ''tok'' injected_req\<rparr>) ''tok'' \<and>
     FromHeaders (proxy_header ''tok'' injected_req) = FromHeaders (Header injected_req)"
  by (rule proxied_request_trusted) (simp_all add: connection_listed_def injected_req_def Inject_Connection)

section \<open>Files\<close>

definition s30 :: s3_client where
  "s30 = \<lparr>s3Host = ''s3:9000'', s3Secure = False, s3AccessKey = ''ak'', s3SecretKey = ''sk'', s3Bucket = ''b'', s3Region = ''us-east-1''\<rparr>"

definition crypto0 :: crypto where
  "crypto0 = \<lparr>hmacSHA256 = (\<lambda>k m. [1]), sha256 = (\<lambda>m. [2])\<rparr>"

definition files0 :: "nat file_env" where
  "files0 = \<lparr>feS3 = \<lparr>seCrypto = crypto0, seUrl = \<lparr>urlParse = (\<lambda>u. Inr (''http'', ''s3:9000'')), urlParts = (\<lambda>u. (''s3:9000'', ''/b/k'', []))\<rparr>,
       seJson = table_json [], seNow = 0\<rparr>,
     feHttp = (\<lambda>out n. (Inr (200, Inr []), Suc n)), feReplyType = (\<lambda>out n. []),
     feForm = (\<lambda>mb r. Inr (Some \<lparr>ffName = ''a.txt'', ffSize = 3, ffType = ''text/plain'', ffContent = ''abc''\<rparr>)),
     feRand = Inr [7], feFault = (\<lambda>n. None), feNow = 5, feHealth = \<lparr>hcChecks = [], hcMetrics = (\<lambda>r w s. Served w s)\<rparr>\<rparr>"

definition file0 :: file_row where
  "file0 = \<lparr>fID = ''07'', fTenant = ''t1'', fOwner = ''alice'', fBucket = ''b'', fObjectKey = ''t1/alice/07/a.txt'', fContentType = ''text/plain'',
     fSize = 3, fCreatedAt = 5\<rparr>"

definition file_req :: "Identity \<Rightarrow> request" where
  "file_req idn = req0\<lparr>PathValues := [(''id'', ''07'')], Ctx := Some idn\<rparr>"

lemma file_req_simps [simp]: "Ctx (file_req idn) = Some idn" "path_value (file_req idn) ''id'' = ''07''"
  by (simp_all add: file_req_def path_value_def)

lemma s30_enabled: "s3_Enabled (Some s30)"
  by (simp add: s3_Enabled_def s30_def)

lemma files0_facts: "feFault files0 n = None" "feRand files0 = Inr [7]" "feNow files0 = 5"
  "feForm files0 mb r = Inr (Some \<lparr>ffName = ''a.txt'', ffSize = 3, ffType = ''text/plain'', ffContent = ''abc''\<rparr>)"
  by (simp_all add: files0_def)

theorem foreign_file_forbidden_witness:
  "\<exists>w'. Delete_ServeHTTP files0 (store_iface True) (Some s30) (file_req (alice\<lparr>UserID := ''bob''\<rparr>)) new_writer \<lparr>fsTable = [file0], fsNet = 0\<rparr> =
      Served w' \<lparr>fsTable = [file0], fsNet = 0\<rparr> \<and> final_status w' = 403 \<and> error_code w' = Some ''file_forbidden''"
  by (rule foreign_file_forbidden [where d = 0 and ?s3.0 = "Some s30" and E = files0 and idn = "alice\<lparr>UserID := ''bob''\<rparr>" and row = file0])
    (simp_all add: s30_enabled files0_facts, simp_all add: file0_def)

theorem upload_then_read_witness:
  "\<exists>w' s' row. Upload_ServeHTTP files0 (store_iface True) (Some s30) 100 (file_req alice) new_writer \<lparr>fsTable = [], fsNet = 0\<rparr> = Served w' s' \<and>
    fOwner row = ''alice'' \<and>
    Meta_ServeHTTP files0 (store_iface True) (file_req alice) new_writer s' =
      Served (respond_JSON 200 (fileJSON (\<lambda>t. ''2026-01-02T03:04:05Z'') row) new_writer) s'"
proof -
  have hex: "hex_encode [7] = ''07''" by code_simp
  have put: "PutObject (feS3 files0) (feHttp files0) (Some s30) key content ty k = (None, Suc k)" for key content ty k
    using s30_enabled by (simp add: PutObject_def Let_def) (simp add: files0_def)
  have fmt: "fmtTime (seJson (feS3 files0)) = (\<lambda>t. ''2026-01-02T03:04:05Z'')" by (simp add: files0_def table_json_def)
  obtain w' s' where up: "Upload_ServeHTTP files0 (store_iface True) (Some s30) 100 (file_req alice) new_writer \<lparr>fsTable = [], fsNet = 0\<rparr> = Served w' s'"
    "final_status w' = 201"
    using s30_enabled
    by (simp add: Upload_ServeHTTP_def upload_store_def Let_def FromContext_def store_iface_def with_store_def files0_facts newFileID_def put Files_Insert_def)
  have pv: "path_value (file_req alice) ''id'' = hex_encode [7]" unfolding hex by simp
  from upload_then_read [OF file_req_simps(1) up file_req_simps(1) files0_facts(2) pv _ files0_facts(1), of new_writer] up(1)
  show ?thesis unfolding fmt by fastforce
qed

theorem delete_removes_own_file_witness:
  "\<exists>w' s'. Delete_ServeHTTP files0 (store_iface True) (Some s30) (file_req alice) new_writer \<lparr>fsTable = [file0], fsNet = 0\<rparr> = Served w' s' \<and> fsTable s' = []"
proof -
  have row: "load_row True None alice (file_req alice) [file0] = Inr file0"
    by (simp add: load_row_def GetByID_def canAccess_where owned_where_def file0_def)
  obtain n where n: "DeleteObject (feS3 files0) (feHttp files0) (Some s30) (fObjectKey file0) 0 = (None, n)"
    using s30_enabled by (simp add: DeleteObject_def) (simp add: files0_def)
  have del: "DeleteByID True None ''07'' ''alice'' ''t1'' [file0] = (None, [])" by code_simp
  obtain w' s' where run: "Delete_ServeHTTP files0 (store_iface True) (Some s30) (file_req alice) new_writer \<lparr>fsTable = [file0], fsNet = 0\<rparr> = Served w' s'"
    "final_status w' = 204"
    using s30_enabled
    by (simp add: Delete_ServeHTTP_def Let_def FromContext_def store_iface_def with_store_def files0_facts row n del writer_defs)
  have "keyed fID (fsTable \<lparr>fsTable = [file0], fsNet = 0::nat\<rparr>)" by (simp add: keyed_def)
  from delete_removes_own_file [OF file_req_simps(1) this run] run(1) show ?thesis by (auto simp: file0_def)
qed

definition file_run :: "request list \<Rightarrow> ((nat file_env \<times> bool \<times> s3_client option \<times> osenv \<times> (nat \<Rightarrow> bytes)) \<times> request) list" where
  "file_run rs = map (\<lambda>r. ((files0, True, Some s30, \<lambda>k. [], \<lambda>i. [1]), r)) rs"

lemma file_run_pure: "\<forall>(E, connected, s3, env, rnd)\<in>fst ` set (file_run rs). metrics_pure (feHealth E)"
proof -
  have "metrics_pure (feHealth files0)" by (simp add: metrics_pure_def files0_def)
  then show ?thesis by (auto simp: file_run_def)
qed

definition bob_delete :: request where
  "bob_delete = req0\<lparr>Method := ''DELETE'', Path := ''/v1/files/07'', Header := [''X-User-Id'' \<mapsto> [''bob''], ''X-Internal-Token'' \<mapsto> [''tok'']]\<rparr>"

text \<open>An object store in memory, and the file service over it, with the random bytes of a request.\<close>

definition mem_s3 :: "(string \<Rightarrow> string option) http_client" where
  "mem_s3 q n = (let ob = url_object (OURL q) in
     if OMethod q = ''PUT'' then (Inr (200, Inr []), n(ob \<mapsto> OBody q))
     else if OMethod q = ''DELETE'' then (Inr (204, Inr []), n(ob := None))
     else case n ob of Some content \<Rightarrow> (Inr (200, Inr content), n) | None \<Rightarrow> (Inr (404, Inr []), n))"

lemma mem_s3_law: "s3_store mem_s3 (\<lambda>n. n)"
  by (auto simp: s3_store_def mem_s3_def Let_def split: if_splits option.splits)

definition files_mem :: "bytes \<Rightarrow> (string \<Rightarrow> string option) file_env" where
  "files_mem rnd = \<lparr>feS3 = feS3 files0, feHttp = mem_s3, feReplyType = (\<lambda>out n. []), feForm = feForm files0, feRand = Inr rnd,
     feFault = (\<lambda>n. None), feNow = 5, feHealth = \<lparr>hcChecks = [], hcMetrics = (\<lambda>r w s. Served w s)\<rparr>\<rparr>"

lemma files_mem_simps [simp]:
  "feS3 (files_mem rnd) = feS3 files0" "feHttp (files_mem rnd) = mem_s3" "feForm (files_mem rnd) = feForm files0"
  "feRand (files_mem rnd) = Inr rnd" "feFault (files_mem rnd) n = None" "feNow (files_mem rnd) = 5" "metrics_pure (feHealth (files_mem rnd))"
  by (simp_all add: files_mem_def metrics_pure_def)

definition bob_upload :: request where
  "bob_upload = req0\<lparr>Method := ''POST'', Path := ''/v1/files/'', Header := [''X-User-Id'' \<mapsto> [''bob''], ''X-Internal-Token'' \<mapsto> [''tok'']]\<rparr>"

definition bob_traffic :: "(((string \<Rightarrow> string option) file_env \<times> bool \<times> osenv \<times> (nat \<Rightarrow> bytes)) \<times> request) list" where
  "bob_traffic = map (\<lambda>r. ((files_mem [9], True, \<lambda>k. [], \<lambda>i. [1]), r)) [bob_upload, bob_delete]"

lemma bob_named: "r \<in> {bob_upload, bob_delete} \<Longrightarrow> UserID (FromHeaders (Header r)) = ''bob'' \<and> TenantID (FromHeaders (Header r)) = []"
  by (auto simp: bob_upload_def bob_delete_def FromHeaders_def header_names hdr_get_def)

lemma download_answers: "\<exists>w' s'. Download_ServeHTTP E (store_iface True) co r w s = Served w' s'"
  by (auto simp: Download_ServeHTTP_def Let_def store_iface_def with_store_def split: sum.split prod.split)


theorem files_change_by_owner_only_witness:
  "filter (\<lambda>f. fOwner f = ''alice'') (fsTable (serve_all (\<lambda>(E, connected, s3, env, rnd). file_service E ''tok'' connected s3 env rnd)
     (file_run [bob_delete]) \<lparr>fsTable = [file0], fsNet = 0\<rparr>)) = [file0]"
proof -
  have "\<forall>r\<in>snd ` set (file_run [bob_delete]). UserID (FromHeaders (Header r)) \<noteq> ''alice''"
    by (simp add: file_run_def bob_delete_def FromHeaders_def header_names hdr_get_def)
  from files_change_by_owner_only [OF file_run_pure this] show ?thesis by (simp add: file0_def)
qed


theorem object_key_contained_witness:
  "\<exists>rest. objectKey ''t1'' ''alice'' ''07'' ''../../x'' = ''t1/alice/07'' @ rest"
proof -
  have "plain_elem ''t1''" "plain_elem ''alice''" "plain_elem ''07''" by code_simp+
  from object_key_contained [OF disjI2 [OF this(1)] this(2,3), of "''../../x''"] show ?thesis by auto
qed

theorem presign_names_object_witness:
  "\<exists>url expiresAt path query. PresignGetURL crypto0 0 (Some s30) ''t1/a b?c'' time_Hour = Inr (url, expiresAt) \<and>
     url = ''http://s3:9000'' @ path @ ''?'' @ query \<and> CHR ''?'' \<notin> set path"
proof -
  obtain url expiresAt where ps: "PresignGetURL crypto0 0 (Some s30) ''t1/a b?c'' time_Hour = Inr (url, expiresAt)"
    using s30_enabled by (simp add: PresignGetURL_def) (metis surj_pair)
  from presign_names_object [OF ps] ps show ?thesis by (auto simp: s30_def)
qed

theorem presign_bounded_witness:
  "\<exists>url expiresAt. PresignGetURL crypto0 0 (Some s30) ''k'' (30 * 24 * time_Hour) = Inr (url, expiresAt) \<and> expiresAt \<le> 7 * 24 * time_Hour"
proof -
  obtain url expiresAt where ps: "PresignGetURL crypto0 0 (Some s30) ''k'' (30 * 24 * time_Hour) = Inr (url, expiresAt)"
    using s30_enabled by (simp add: PresignGetURL_def) (metis surj_pair)
  from presign_bounded [OF ps] ps show ?thesis by auto
qed

end
