(* ===== verification/Logging.thy ===== *)
theory Logging
  imports Httpx
begin

text \<open>
  \<^verbatim>\<open>pkg/logger\<close> and the lines \<^verbatim>\<open>AccessLog\<close> and \<^verbatim>\<open>Recover\<close> of \<^verbatim>\<open>pkg/httpx/middleware.go\<close> write: levels, handlers, the fan-out, the
  fields of a request. Of \<^verbatim>\<open>log/slog\<close> the JSON handler and the logger are modelled; the OpenTelemetry handler, the text of a time
  and of an error, and what writing a line does are parameters.
\<close>

section \<open>Levels\<close>

datatype slog_level = LevelDebug | LevelInfo | LevelWarn | LevelError

text \<open>The numbers of \<^verbatim>\<open>log/slog\<close>.\<close>

fun slog_number :: "slog_level \<Rightarrow> int" where
  "slog_number LevelDebug = -4"
| "slog_number LevelInfo = 0"
| "slog_number LevelWarn = 4"
| "slog_number LevelError = 8"

instantiation slog_level :: linorder
begin

definition less_eq_slog_level :: "slog_level \<Rightarrow> slog_level \<Rightarrow> bool" where
  "less_eq_slog_level a b \<longleftrightarrow> slog_number a \<le> slog_number b"

definition less_slog_level :: "slog_level \<Rightarrow> slog_level \<Rightarrow> bool" where
  "less_slog_level a b \<longleftrightarrow> slog_number a < slog_number b"

instance
proof
  fix a b :: slog_level
  show "a \<le> b \<Longrightarrow> b \<le> a \<Longrightarrow> a = b"
    by (cases a; cases b) (simp_all add: less_eq_slog_level_def)
qed (auto simp: less_eq_slog_level_def less_slog_level_def)

end

fun slog_name :: "slog_level \<Rightarrow> string" where
  "slog_name LevelDebug = ''DEBUG''"
| "slog_name LevelInfo = ''INFO''"
| "slog_name LevelWarn = ''WARN''"
| "slog_name LevelError = ''ERROR''"

definition parseLevel :: "string \<Rightarrow> slog_level" where
  "parseLevel level =
     (let l = ToLower (TrimSpace level) in
      if l = ''debug'' then LevelDebug
      else if l = ''warn'' \<or> l = ''warning'' then LevelWarn
      else if l = ''error'' then LevelError
      else LevelInfo)"

section \<open>Records and handlers\<close>

type_synonym attr = "string \<times> json"

record slog_record =
  srTime :: gotime
  srLevel :: slog_level
  srMessage :: string
  srAttrs :: "attr list"

definition ecsReplace :: "attr \<Rightarrow> attr" where
  "ecsReplace a =
     (if fst a = ''time'' then (''@timestamp'', snd a)
      else if fst a = ''level'' then (''log.level'', snd a)
      else if fst a = ''msg'' then (''message'', snd a)
      else a)"

text \<open>
  A handler keeps what \<^verbatim>\<open>WithAttrs\<close> and \<^verbatim>\<open>WithGroup\<close> were given, in order. The JSON handler is the one \<^verbatim>\<open>New\<close> makes, with
  \<^verbatim>\<open>ecsReplace\<close> and a minimal level; the OpenTelemetry handler belongs to an exporter and a service name.
\<close>

datatype slog_scope = ScopeAttrs "attr list" | ScopeGroup string

datatype exporter = OtlpGrpc string | OtlpHttp string

datatype slog_handler =
  JSONHandler slog_level "slog_scope list"
| OtelHandler exporter string "slog_scope list"
| FanoutHandler "slog_handler list"

text \<open>Writing to standard output, and the OpenTelemetry side.\<close>

record 's log_world =
  lwStdout :: "json \<Rightarrow> 's \<Rightarrow> goerr option \<times> 's"
  lwEnabled :: "exporter \<Rightarrow> slog_level \<Rightarrow> bool"
  lwExport :: "exporter \<Rightarrow> string \<Rightarrow> slog_scope list \<Rightarrow> slog_record \<Rightarrow> 's \<Rightarrow> goerr option \<times> 's"
  lwTime :: "gotime \<Rightarrow> string"
  lwText :: "goerr \<Rightarrow> string"

text \<open>The attributes of a line: an open group takes what follows, and is left out when that is nothing.\<close>

fun scoped_attrs :: "slog_scope list \<Rightarrow> attr list \<Rightarrow> gomap" where
  "scoped_attrs [] as = map ecsReplace as"
| "scoped_attrs (ScopeAttrs bs # sc) as = map ecsReplace bs @ scoped_attrs sc as"
| "scoped_attrs (ScopeGroup g # sc) as = (let m = scoped_attrs sc as in if m = [] then [] else [(g, JObj m)])"

definition json_line :: "'s log_world \<Rightarrow> slog_scope list \<Rightarrow> slog_record \<Rightarrow> json" where
  "json_line W sc rec =
     JObj (map ecsReplace [(''time'', JStr (lwTime W (srTime rec))), (''level'', JStr (slog_name (srLevel rec))), (''msg'', JStr (srMessage rec))]
       @ scoped_attrs sc (srAttrs rec))"

section \<open>The handlers\<close>

definition NewFanout :: "slog_handler option list \<Rightarrow> slog_handler" where
  "NewFanout handlers = FanoutHandler (List.map_filter (\<lambda>h. h) handlers)"

fun fanout_Enabled :: "'s log_world \<Rightarrow> slog_handler list \<Rightarrow> slog_level \<Rightarrow> bool"
  and slog_Enabled :: "'s log_world \<Rightarrow> slog_handler \<Rightarrow> slog_level \<Rightarrow> bool" where
  "slog_Enabled W (JSONHandler least sc) level = (least \<le> level)"
| "slog_Enabled W (OtelHandler e name sc) level = lwEnabled W e level"
| "slog_Enabled W (FanoutHandler hs) level = fanout_Enabled W hs level"
| "fanout_Enabled W [] level = False"
| "fanout_Enabled W (h # hs) level = (if slog_Enabled W h level then True else fanout_Enabled W hs level)"

fun fanout_Handle :: "'s log_world \<Rightarrow> slog_handler list \<Rightarrow> slog_record \<Rightarrow> 's \<Rightarrow> goerr option \<times> 's"
  and slog_Handle :: "'s log_world \<Rightarrow> slog_handler \<Rightarrow> slog_record \<Rightarrow> 's \<Rightarrow> goerr option \<times> 's" where
  "slog_Handle W (JSONHandler least sc) rec s = lwStdout W (json_line W sc rec) s"
| "slog_Handle W (OtelHandler e name sc) rec s = lwExport W e name sc rec s"
| "slog_Handle W (FanoutHandler hs) rec s = fanout_Handle W hs rec s"
| "fanout_Handle W [] rec s = (None, s)"
| "fanout_Handle W (h # hs) rec s = (case slog_Handle W h rec s of
     (Some err, s') \<Rightarrow> (Some err, s')
   | (None, s') \<Rightarrow> fanout_Handle W hs rec s')"

fun fanout_WithAttrs :: "attr list \<Rightarrow> slog_handler list \<Rightarrow> slog_handler list"
  and slog_WithAttrs :: "attr list \<Rightarrow> slog_handler \<Rightarrow> slog_handler" where
  "slog_WithAttrs as (JSONHandler least sc) = JSONHandler least (sc @ [ScopeAttrs as])"
| "slog_WithAttrs as (OtelHandler e name sc) = OtelHandler e name (sc @ [ScopeAttrs as])"
| "slog_WithAttrs as (FanoutHandler hs) = FanoutHandler (fanout_WithAttrs as hs)"
| "fanout_WithAttrs as [] = []"
| "fanout_WithAttrs as (h # hs) = slog_WithAttrs as h # fanout_WithAttrs as hs"

fun fanout_WithGroup :: "string \<Rightarrow> slog_handler list \<Rightarrow> slog_handler list"
  and slog_WithGroup :: "string \<Rightarrow> slog_handler \<Rightarrow> slog_handler" where
  "slog_WithGroup g (JSONHandler least sc) = JSONHandler least (sc @ [ScopeGroup g])"
| "slog_WithGroup g (OtelHandler e name sc) = OtelHandler e name (sc @ [ScopeGroup g])"
| "slog_WithGroup g (FanoutHandler hs) = FanoutHandler (fanout_WithGroup g hs)"
| "fanout_WithGroup g [] = []"
| "fanout_WithGroup g (h # hs) = slog_WithGroup g h # fanout_WithGroup g hs"

section \<open>Loggers\<close>

text \<open>A logger is its handler; \<^verbatim>\<open>With\<close> with no attributes is the logger itself.\<close>

type_synonym logger = slog_handler

definition logger_With :: "attr list \<Rightarrow> logger \<Rightarrow> logger" where
  "logger_With as l = (if as = [] then l else slog_WithAttrs as l)"

text \<open>A message below the level of the handler is dropped; an error of the handler is ignored.\<close>

definition log_at :: "'s log_world \<Rightarrow> slog_level \<Rightarrow> logger \<Rightarrow> gotime \<Rightarrow> string \<Rightarrow> attr list \<Rightarrow> 's \<Rightarrow> 's" where
  "log_at W level l now msg as s =
     (if slog_Enabled W l level then snd (slog_Handle W l \<lparr>srTime = now, srLevel = level, srMessage = msg, srAttrs = as\<rparr> s) else s)"

definition logger_New :: "string \<Rightarrow> string \<Rightarrow> logger" where
  "logger_New service level = logger_With [(''service.name'', JStr service)] (JSONHandler (parseLevel level) [])"

definition WithHandler :: "string \<Rightarrow> string \<Rightarrow> slog_handler option \<Rightarrow> logger" where
  "WithHandler service level handler = (case handler of
     None \<Rightarrow> logger_New service level
   | Some h \<Rightarrow> logger_With [(''service.name'', JStr service)] h)"

text \<open>The logger a request carries in its context; \<^verbatim>\<open>slog.Default\<close> is the fallback.\<close>

type_synonym log_ctx = "logger option"

definition Into :: "log_ctx \<Rightarrow> logger \<Rightarrow> log_ctx" where
  "Into ctx l = Some l"

definition From :: "logger \<Rightarrow> log_ctx \<Rightarrow> logger" where
  "From fallback ctx = (case ctx of Some l \<Rightarrow> l | None \<Rightarrow> fallback)"

section \<open>Requests\<close>

definition RequestAttrs :: "request \<Rightarrow> attr list" where
  "RequestAttrs r =
     (let tid = TraceIDFromParent (req_header r HeaderTraceparent); idn = FromHeaders (Header r)
      in [(''request_id'', JStr (req_header r HeaderRequestID))]
        @ (if tid \<noteq> [] then [(''trace_id'', JStr tid)] else [])
        @ (if UserID idn \<noteq> [] then [(''user_id'', JStr (UserID idn))] else [])
        @ (if TenantID idn \<noteq> [] then [(''tenant_id'', JStr (TenantID idn))] else []))"

definition WithRequest :: "logger \<Rightarrow> request \<Rightarrow> logger" where
  "WithRequest base r = logger_With (RequestAttrs r) base"

section \<open>The writer that notes the status\<close>

record status_writer =
  swInner :: writer
  swStatus :: int

definition sw_WriteHeader :: "int \<Rightarrow> status_writer \<Rightarrow> status_writer" where
  "sw_WriteHeader code sw = \<lparr>swInner = WriteHeader code (swInner sw), swStatus = code\<rparr>"

text \<open>
  What a handler does to its writer, one call after the other, on the plain writer and on the wrapped one, whose other methods are
  those of the writer inside.
\<close>

datatype writer_call = CallWriteHeader int | CallWrite body | CallSetHeader string string | CallSetCookie cookie

fun call_writer :: "writer_call \<Rightarrow> writer \<Rightarrow> writer" where
  "call_writer (CallWriteHeader code) w = WriteHeader code w"
| "call_writer (CallWrite b) w = WriteBody b w"
| "call_writer (CallSetHeader k v) w = SetRespHeader k v w"
| "call_writer (CallSetCookie c) w = SetCookie c w"

fun call_status_writer :: "writer_call \<Rightarrow> status_writer \<Rightarrow> status_writer" where
  "call_status_writer (CallWriteHeader code) sw = sw_WriteHeader code sw"
| "call_status_writer c sw = sw\<lparr>swInner := call_writer c (swInner sw)\<rparr>"

lemma status_writer_inner: "swInner (fold call_status_writer cs sw) = fold call_writer cs (swInner sw)"
proof (induction cs arbitrary: sw)
  case (Cons c cs)
  then show ?case by (cases c) (simp_all add: sw_WriteHeader_def)
qed simp

text \<open>The status line is written at most once: no \<^verbatim>\<open>WriteHeader\<close> after another one or after a body.\<close>

fun header_once :: "bool \<Rightarrow> writer_call list \<Rightarrow> bool" where
  "header_once sent [] \<longleftrightarrow> True"
| "header_once sent (CallWriteHeader code # cs) \<longleftrightarrow> \<not> sent \<and> header_once True cs"
| "header_once sent (CallWrite b # cs) \<longleftrightarrow> header_once True cs"
| "header_once sent (c # cs) \<longleftrightarrow> header_once sent cs"

lemma noted_status_is_sent:
  assumes "header_once (WSent (swInner sw) \<noteq> None) cs" "swStatus sw = final_status (swInner sw)"
  shows "swStatus (fold call_status_writer cs sw) = final_status (fold call_writer cs (swInner sw))"
  using assms
proof (induction cs arbitrary: sw)
  case (Cons c cs)
  have set: "WSent (SetCookie k w) = WSent w" for k w by (simp add: SetCookie_def)
  let ?sw = "call_status_writer c sw"
  have "header_once (WSent (swInner ?sw) \<noteq> None) cs" "swStatus ?sw = final_status (swInner ?sw)"
    using Cons.prems
    by (cases c; auto simp: sw_WriteHeader_def writer_defs set Let_def split: option.splits prod.splits)+
  moreover have "swInner ?sw = call_writer c (swInner sw)" by (cases c) (simp_all add: sw_WriteHeader_def)
  ultimately show ?case using Cons.IH [of ?sw] by simp
qed simp

text \<open>A second status is logged although the client got the first.\<close>

lemma second_status_is_logged:
  assumes "WSent w = None" "sw = fold call_status_writer [CallWriteHeader a, CallWriteHeader b] \<lparr>swInner = w, swStatus = 200\<rparr>"
  shows "swStatus sw = b" "final_status (swInner sw) = a"
  using assms by (simp_all add: sw_WriteHeader_def writer_defs)

text \<open>
  \<^verbatim>\<open>AccessLog\<close> and \<^verbatim>\<open>Recover\<close> with the lines they write. The handler behind \<^verbatim>\<open>AccessLog\<close> finds the logger in its context; it is
  entered at \<open>start\<close> and left at \<open>done\<close>. The status logged is the one sent: what \<^verbatim>\<open>statusWriter\<close> notes is that, as long
  as the status line is written once (\<open>noted_status_is_sent\<close>), which is what the handlers of the repository do.
\<close>

definition access_attrs :: "request \<Rightarrow> int \<Rightarrow> duration \<Rightarrow> attr list" where
  "access_attrs r status d =
     [(''http.request.method'', JStr (Method r)), (''url.path'', JStr (NormalizePath (Path r))),
      (''http.response.status_code'', JNum (Itoa status)), (''event.duration'', JNum (Itoa d))]"

definition AccessLog_writing ::
  "'s log_world \<Rightarrow> logger \<Rightarrow> gotime \<Rightarrow> gotime \<Rightarrow> log_ctx \<Rightarrow> (log_ctx \<Rightarrow> 's handler) \<Rightarrow> 's handler" where
  "AccessLog_writing W base start done ctx next_h r w s =
     (let l = WithRequest base r in
      case next_h (Into ctx l) r w s of
        Served w' s' \<Rightarrow> Served w' (log_at W LevelInfo l done ''http_request'' (access_attrs r (final_status w') (done - start)) s')
      | Panicked m w' s' \<Rightarrow> Panicked m w' s')"

definition Recover_writing :: "'s log_world \<Rightarrow> logger \<Rightarrow> gotime \<Rightarrow> 's handler \<Rightarrow> 's handler" where
  "Recover_writing W base now next_h r w s =
     (case next_h r w s of
        Served w' s' \<Rightarrow> Served w' s'
      | Panicked m w' s' \<Rightarrow>
          Served (fail (req_header r HeaderRequestID) (Internal ''internal'' ''internal server error'') w')
            (log_at W LevelError base now ''panic recovered'' [(''panic'', JStr m)] s'))"

section \<open>Facts\<close>

subsection \<open>Levels and fan-out\<close>

lemma JSON_logger_level:
  "log_at W level (JSONHandler least sc) now msg as s =
    (if least \<le> level then snd (lwStdout W (json_line W sc \<lparr>srTime = now, srLevel = level, srMessage = msg, srAttrs = as\<rparr>) s) else s)"
  by (simp add: log_at_def)

lemma fanout_Enabled_iff: "fanout_Enabled W hs level \<longleftrightarrow> (\<exists>h\<in>set hs. slog_Enabled W h level)"
  by (induction hs) auto

text \<open>Records reach the handlers in order, up to the first that fails.\<close>

lemma fanout_Handle_append:
  "fanout_Handle W (hs @ hs') rec s =
     (case fanout_Handle W hs rec s of (Some err, s') \<Rightarrow> (Some err, s') | (None, s') \<Rightarrow> fanout_Handle W hs' rec s')"
  by (induction hs arbitrary: s) (auto split: prod.splits option.splits)

lemma fanout_WithAttrs_map: "fanout_WithAttrs as hs = map (slog_WithAttrs as) hs"
  by (induction hs) simp_all

text \<open>Attributes and groups never change which levels a handler takes.\<close>

lemma WithAttrs_Enabled:
  "fanout_Enabled W (fanout_WithAttrs as hs) level = fanout_Enabled W hs level"
  "slog_Enabled W (slog_WithAttrs as h) level = slog_Enabled W h level"
  by (induction as hs and as h rule: fanout_WithAttrs_slog_WithAttrs.induct) simp_all

lemma WithGroup_Enabled:
  "fanout_Enabled W (fanout_WithGroup g hs) level = fanout_Enabled W hs level"
  "slog_Enabled W (slog_WithGroup g h) level = slog_Enabled W h level"
  by (induction g hs and g h rule: fanout_WithGroup_slog_WithGroup.induct) simp_all

text \<open>In a fan-out the level of the JSON handler no longer counts as soon as the other handler takes the message.\<close>

lemma fanout_ignores_level:
  assumes "lwEnabled W e level"
  shows "slog_Handle W (FanoutHandler [JSONHandler least sc, h]) rec s =
      (case lwStdout W (json_line W sc rec) s of (Some err, s') \<Rightarrow> (Some err, s') | (None, s') \<Rightarrow> fanout_Handle W [h] rec s')"
    and "slog_Enabled W (FanoutHandler [JSONHandler least sc, OtelHandler e name sc']) level"
  using assms by simp_all

lemma WithHandler_level: "WithHandler service level (Some h) = WithHandler service level' (Some h)"
  by (simp add: WithHandler_def)

subsection \<open>Access lines\<close>

text \<open>A logger whose writes leave a view of the state alone.\<close>

definition log_silent :: "'s log_world \<Rightarrow> ('s \<Rightarrow> 'v) \<Rightarrow> bool" where
  "log_silent W p \<longleftrightarrow> (\<forall>line s. p (snd (lwStdout W line s)) = p s) \<and> (\<forall>e name sc rec s. p (snd (lwExport W e name sc rec s)) = p s)"

lemma Handle_silent:
  "log_silent W p \<Longrightarrow> p (snd (fanout_Handle W hs rec s)) = p s"
  "log_silent W p \<Longrightarrow> p (snd (slog_Handle W h rec s)) = p s"
proof (induction W hs rec s and W h rec s rule: fanout_Handle_slog_Handle.induct)
  case (5 W h hs rec s)
  then show ?case by (auto split: prod.splits option.splits)
qed (auto simp: log_silent_def)

lemma log_at_silent: "log_silent W p \<Longrightarrow> p (log_at W level l now msg as s) = p s"
  by (simp add: log_at_def Handle_silent)

fun hres_view :: "('s \<Rightarrow> 'v) \<Rightarrow> 's hres \<Rightarrow> 'v hres" where
  "hres_view p (Served w s) = Served w (p s)"
| "hres_view p (Panicked m w s) = Panicked m w (p s)"

text \<open>Apart from the log, the middlewares with their lines answer as those without.\<close>

lemma AccessLog_writing_view:
  assumes "log_silent W p"
  shows "hres_view p (AccessLog_writing W base start done ctx (\<lambda>c. next_h) r w s) = hres_view p (AccessLog next_h r w s)"
  by (simp add: AccessLog_writing_def Let_def log_at_silent [OF assms] split: hres.splits)

lemma Recover_writing_view:
  assumes "log_silent W p" "\<And>r w s. hres_view p (next_h r w s) = hres_view p (next_h' r w s)"
  shows "hres_view p (Recover_writing W base now next_h r w s) = hres_view p (Recover next_h' r w s)"
  using assms(2) [of r w s]
  by (auto simp: Recover_writing_def Recover_def log_at_silent [OF assms(1)] split: hres.splits)

text \<open>The lines of one request: one when the handler returned, none of this kind when it panicked.\<close>

definition stdout_lines :: "(gotime \<Rightarrow> string) \<Rightarrow> (goerr \<Rightarrow> string) \<Rightarrow> json list log_world" where
  "stdout_lines fmt text = \<lparr>lwStdout = (\<lambda>line lines. (None, lines @ [line])), lwEnabled = (\<lambda>e level. True),
     lwExport = (\<lambda>e name sc rec lines. (None, lines)), lwTime = fmt, lwText = text\<rparr>"

lemma access_log_lines:
  assumes "base = logger_New service level" "parseLevel level \<le> LevelInfo"
  shows "AccessLog_writing (stdout_lines fmt text) base start done ctx next_h r w lines =
     (case next_h (Some (WithRequest base r)) r w lines of
        Served w' lines' \<Rightarrow> Served w' (lines' @ [json_line (stdout_lines fmt text) [ScopeAttrs [(''service.name'', JStr service)], ScopeAttrs (RequestAttrs r)]
          \<lparr>srTime = done, srLevel = LevelInfo, srMessage = ''http_request'', srAttrs = access_attrs r (final_status w') (done - start)\<rparr>])
      | Panicked m w' lines' \<Rightarrow> Panicked m w' lines')"
proof -
  have l: "WithRequest base r = JSONHandler (parseLevel level) [ScopeAttrs [(''service.name'', JStr service)], ScopeAttrs (RequestAttrs r)]"
    using assms(1) by (simp add: WithRequest_def logger_New_def logger_With_def RequestAttrs_def Let_def)
  show ?thesis
    unfolding AccessLog_writing_def Let_def l Into_def JSON_logger_level using assms(2)
    by (simp add: stdout_lines_def json_line_def cong: hres.case_cong)
qed

text \<open>
  The stack of a service over a handler that writes no lines itself: a request refused for its token leaves none, every other
  request exactly one, be it the access line or the one of the panic.
\<close>

lemma one_line_per_request:
  assumes base: "base = logger_New service level" "parseLevel level \<le> LevelInfo"
    and own: "\<And>r w lines. hres_state (h r w lines) = lines"
  shows "\<exists>line. hres_state (Chain h [GatewayTrust token, RequestID_mw b, Recover_writing (stdout_lines fmt text) base now,
      \<lambda>h. AccessLog_writing (stdout_lines fmt text) base start done None (\<lambda>c. h), TraceContext b16 b8] r w lines) =
    (if token \<noteq> [] \<and> \<not> gatewayTrustSkipped (Path r) \<and> \<not> internalTokenOK r token then lines else lines @ [line])"
proof -
  have inner: "hres_state (TraceContext b16 b8 h r w lines) = lines" for r w lines
    using own by (auto simp: TraceContext_def split: prod.splits)
  have rest: "\<exists>line. hres_state (Recover_writing (stdout_lines fmt text) base now
      (AccessLog_writing (stdout_lines fmt text) base start done None (\<lambda>c. TraceContext b16 b8 h)) r w lines) = lines @ [line]" for r w lines
  proof -
    have err: "log_at (stdout_lines fmt text) LevelError base now msg as l = l @ [json_line (stdout_lines fmt text) [ScopeAttrs [(''service.name'', JStr service)]]
        \<lparr>srTime = now, srLevel = LevelError, srMessage = msg, srAttrs = as\<rparr>]" for msg as l
    proof -
      have "parseLevel level \<le> LevelError" using base(2) order_trans [of _ LevelInfo LevelError] by (simp add: less_eq_slog_level_def)
      then show ?thesis using base(1) by (simp add: logger_New_def logger_With_def JSON_logger_level) (simp add: stdout_lines_def)
    qed
    show ?thesis
      using inner [of r w lines] by (auto simp: Recover_writing_def access_log_lines [OF base] err split: hres.splits)
  qed
  show ?thesis
    using rest by (auto simp: Chain_def eval_nat_numeral GatewayTrust_def RequestID_mw_def Let_def)
qed

text \<open>The access line has no trace id when the request came without one, although a trace is started behind it.\<close>

lemma access_line_without_trace:
  assumes "req_header r HeaderTraceparent = []"
  shows "''trace_id'' \<notin> fst ` set (RequestAttrs r)"
proof -
  have "TraceIDFromParent [] = []" by code_simp
  then show ?thesis using assms by (auto simp: RequestAttrs_def Let_def)
qed

subsection \<open>Segments of a path after normalisation\<close>

lemma id_marker: "\<not> id_like '':id''"
  by code_simp

lemma empty_not_id: "\<not> id_like []"
  by code_simp

lemma no_slash_marker: "CHR ''/'' \<notin> set '':id''"
  by simp

section \<open>Properties\<close>

text \<open>
  The path an access log shows identifies nobody: no segment of it is a UUID, a number or a long alphanumeric id.
\<close>

theorem access_log_hides_ids:
  "\<forall>seg\<in>set (Split (CHR ''/'') (NormalizePath path)). \<not> id_like seg"
proof -
  define f where "f = (\<lambda>part. if part = [] then part else if id_like part then '':id'' else part)"
  define parts where "parts = map f (Split (CHR ''/'') path)"
  have clean: "\<forall>p\<in>set parts. \<not> id_like p \<and> CHR ''/'' \<notin> set p"
    using Split_elem_no_sep [of _ "CHR ''/''" path] by (auto simp: parts_def f_def id_marker empty_not_id)
  have "Split (CHR ''/'') (Join (CHR ''/'') parts) = parts"
    using clean by (intro Split_Join) (auto simp: parts_def)
  moreover have "Split (CHR ''/'') (CHR ''/'' # x) = [] # Split (CHR ''/'') x" for x
    by (metis Split_append_sep append_Nil list.set(1) empty_iff)
  moreover have "Split (CHR ''/'') [] = [[]]" "Split (CHR ''/'') ''/'' = [[], []]" by code_simp+
  ultimately show ?thesis
    using clean by (auto simp: NormalizePath_def Let_def parts_def [symmetric] f_def [symmetric] empty_not_id)
qed

end
