(* ===== verification/Telemetry.thy ===== *)
theory Telemetry
  imports Logging
begin

text \<open>
  \<^verbatim>\<open>pkg/otel\<close>: whether and where traces and logs are exported. The OpenTelemetry library is a parameter: what creating an
  exporter and a resource answers; instrumentation hands requests on unchanged.
\<close>

section \<open>Configuration\<close>

definition trimScheme :: "string \<Rightarrow> string" where
  "trimScheme endpoint = TrimSuffix (TrimPrefix (TrimPrefix endpoint ''https://'') ''http://'') ''/''"

text \<open>What creating an exporter and a resource answers; exporters are all created without transport security.\<close>

record otel_lib =
  olTrace :: "exporter \<Rightarrow> goerr option"
  olLog :: "exporter \<Rightarrow> goerr option"
  olResource :: "string \<Rightarrow> goerr option"

definition otlp_protocol :: "osenv \<Rightarrow> string \<Rightarrow> string" where
  "otlp_protocol env endpoint =
     (let proto = ToLower (TrimSpace (Env env ''OTEL_EXPORTER_OTLP_PROTOCOL'' [])) in
      if proto = [] then (if Contains endpoint '':4317'' then ''grpc'' else ''http/protobuf'') else proto)"

definition otlp_exporter :: "osenv \<Rightarrow> string \<Rightarrow> exporter res" where
  "otlp_exporter env endpoint =
     (let proto = otlp_protocol env endpoint in
      if proto = ''grpc'' then Inr (OtlpGrpc (trimScheme endpoint))
      else if proto = ''http/protobuf'' \<or> proto = ''http'' then Inr (OtlpHttp (trimScheme endpoint))
      else Inl (Errorf ''unsupported OTEL_EXPORTER_OTLP_PROTOCOL''))"

definition newTraceExporter :: "otel_lib \<Rightarrow> osenv \<Rightarrow> string \<Rightarrow> exporter res" where
  "newTraceExporter L env endpoint = (case otlp_exporter env endpoint of
     Inl err \<Rightarrow> Inl err | Inr e \<Rightarrow> (case olTrace L e of Some err \<Rightarrow> Inl err | None \<Rightarrow> Inr e))"

definition newLogExporter :: "otel_lib \<Rightarrow> osenv \<Rightarrow> string \<Rightarrow> exporter res" where
  "newLogExporter L env endpoint = (case otlp_exporter env endpoint of
     Inl err \<Rightarrow> Inl err | Inr e \<Rightarrow> (case olLog L e of Some err \<Rightarrow> Inl err | None \<Rightarrow> Inr e))"

definition otel_endpoint :: "osenv \<Rightarrow> string" where
  "otel_endpoint env = TrimSpace (Env env ''OTEL_EXPORTER_OTLP_ENDPOINT'' [])"

definition otel_name :: "osenv \<Rightarrow> string \<Rightarrow> string" where
  "otel_name env serviceName =
     (let name = TrimSpace (Env env ''OTEL_SERVICE_NAME'' []) in if name = [] \<or> name = ''unset'' then serviceName else name)"

text \<open>\<open>Inr None\<close> is switched off; otherwise the exporter and the service name in use.\<close>

definition otel_InitFromEnv :: "otel_lib \<Rightarrow> osenv \<Rightarrow> string \<Rightarrow> (exporter \<times> string) option res" where
  "otel_InitFromEnv L env serviceName =
     (let endpoint = otel_endpoint env in
      if endpoint = [] \<or> IsPlaceholder endpoint then Inr None
      else (let name = otel_name env serviceName in
        case newTraceExporter L env endpoint of
          Inl err \<Rightarrow> Inl err
        | Inr e \<Rightarrow> (case olResource L name of Some err \<Rightarrow> Inl (Wrapped ''otel resource'' err) | None \<Rightarrow> Inr (Some (e, name)))))"

definition logsExportEnabled :: "osenv \<Rightarrow> bool" where
  "logsExportEnabled env \<longleftrightarrow> ToLower (TrimSpace (Env env ''OTEL_LOGS_EXPORTER'' ''otlp'')) \<notin> {''none'', ''false'', ''off''}"

text \<open>
  The logger to use from now on, and the exporter to shut down (\<open>None\<close> when export is off). Standard output keeps its JSON lines.
\<close>

definition AttachLogExport :: "otel_lib \<Rightarrow> osenv \<Rightarrow> string \<Rightarrow> logger \<Rightarrow> (logger \<times> exporter option) res" where
  "AttachLogExport L env serviceName base =
     (if \<not> logsExportEnabled env then Inr (base, None)
      else (let endpoint = otel_endpoint env in
        if endpoint = [] \<or> IsPlaceholder endpoint then Inr (base, None)
        else (let name = otel_name env serviceName in
          case newLogExporter L env endpoint of
            Inl err \<Rightarrow> Inl err
          | Inr e \<Rightarrow> (case olResource L name of
              Some err \<Rightarrow> Inl (Wrapped ''otel log resource'' err)
            | None \<Rightarrow>
                (let otelHandler = OtelHandler e name [];
                     level = Env env ''LOG_LEVEL'' ''info'';
                     stdout = logger_New serviceName level;
                     combined = NewFanout [Some stdout, Some otelHandler]
                 in Inr (WithHandler serviceName level (Some combined), Some e))))))"

section \<open>Handlers and clients\<close>

text \<open>\<open>instrument\<close> is \<^verbatim>\<open>otelhttp.NewHandler\<close> with the name of the operation.\<close>

definition WrapHandler :: "(string \<Rightarrow> 'h \<Rightarrow> 'h) \<Rightarrow> 'h option \<Rightarrow> string \<Rightarrow> 'h option" where
  "WrapHandler instrument handler operation = (case handler of
     None \<Rightarrow> None
   | Some h \<Rightarrow> (let operation = (if operation = [] then ''http'' else operation) in Some (instrument operation h)))"

text \<open>The time limit of the clients that are made with one.\<close>

definition NewHTTPClient :: "duration \<Rightarrow> duration" where
  "NewHTTPClient timeout = (if timeout \<le> 0 then 5 * time_Second else timeout)"

section \<open>Server\<close>

text \<open>
  A server with its address, handler, logger and shutdown hook. The hook is the list of exporters it shuts down, logs first;
  \<^verbatim>\<open>ReadHeaderTimeout\<close> is left out.
\<close>

record 'h server =
  svAddr :: string
  svHandler :: 'h
  svLog :: logger
  svShutdown :: "exporter list option"

definition server_New :: "string \<Rightarrow> 'h \<Rightarrow> logger \<Rightarrow> 'h server" where
  "server_New addr handler log = \<lparr>svAddr = addr, svHandler = handler, svLog = log, svShutdown = None\<rparr>"

definition WithOtelShutdown :: "exporter list \<Rightarrow> 'h server \<Rightarrow> 'h server" where
  "WithOtelShutdown hook s = s\<lparr>svShutdown := Some hook\<rparr>"

text \<open>\<^verbatim>\<open>RunService\<close> of \<^verbatim>\<open>pkg/httpx/server.go\<close> up to \<^verbatim>\<open>Run\<close>; \<open>Inl\<close> is the error it returns instead.\<close>

definition RunService ::
  "otel_lib \<Rightarrow> (string \<Rightarrow> 'h \<Rightarrow> 'h) \<Rightarrow> osenv \<Rightarrow> string \<Rightarrow> string \<Rightarrow> 'h \<Rightarrow> logger \<Rightarrow> 'h server res" where
  "RunService L instrument env addr serviceName handler log =
     (case otel_InitFromEnv L env serviceName of
        Inl err \<Rightarrow> Inl err
      | Inr traces \<Rightarrow> (case AttachLogExport L env serviceName log of
          Inl err \<Rightarrow> Inl err
        | Inr (log, logs) \<Rightarrow>
            (let hook = (case logs of None \<Rightarrow> [] | Some e \<Rightarrow> [e]) @ (case traces of None \<Rightarrow> [] | Some (e, name) \<Rightarrow> [e]);
                 handler = the (WrapHandler instrument (Some handler) serviceName)
             in Inr (WithOtelShutdown hook (server_New addr handler log)))))"

text \<open>The hook shuts down every exporter and keeps the first error; \<open>close\<close> shuts one down.\<close>

fun otel_shutdown :: "(exporter \<Rightarrow> 's \<Rightarrow> goerr option \<times> 's) \<Rightarrow> exporter list \<Rightarrow> 's \<Rightarrow> goerr option \<times> 's" where
  "otel_shutdown close [] s = (None, s)"
| "otel_shutdown close (e # es) s =
     (case close e s of (err, s1) \<Rightarrow> (case otel_shutdown close es s1 of (err', s2) \<Rightarrow>
        (case err of Some x \<Rightarrow> (Some x, s2) | None \<Rightarrow> (err', s2))))"

text \<open>
  \<^verbatim>\<open>Run\<close>: either listening fails, or a signal arrives; then the hook runs, its error only being logged, and the HTTP server is
  shut down by \<open>stop\<close>.
\<close>

definition server_Run ::
  "'s log_world \<Rightarrow> gotime \<Rightarrow> (exporter \<Rightarrow> 's \<Rightarrow> goerr option \<times> 's) \<Rightarrow> ('s \<Rightarrow> goerr option \<times> 's) \<Rightarrow> 'h server \<Rightarrow> goerr option \<Rightarrow> 's
    \<Rightarrow> goerr option \<times> 's" where
  "server_Run W now close stop sv listenErr s =
     (let s1 = log_at W LevelInfo (svLog sv) now ''server starting'' [(''addr'', JStr (svAddr sv))] s in
      case listenErr of
        Some err \<Rightarrow> (Some err, s1)
      | None \<Rightarrow>
          (let s2 = log_at W LevelInfo (svLog sv) now ''shutdown signal received'' [] s1;
               s3 = (case svShutdown sv of
                 None \<Rightarrow> s2
               | Some es \<Rightarrow> (case otel_shutdown close es s2 of
                   (Some err, s') \<Rightarrow> log_at W LevelWarn (svLog sv) now ''otel shutdown'' [(''error'', JStr (lwText W err))] s'
                 | (None, s') \<Rightarrow> s'))
           in stop s3))"

section \<open>Facts\<close>

text \<open>Without an endpoint nothing is exported and a service runs with its own logger whatever the other variables say.\<close>

lemma no_endpoint_runs:
  assumes "otel_endpoint env = []"
  shows "RunService L instrument env addr name h log =
    Inr \<lparr>svAddr = addr, svHandler = instrument (if name = [] then ''http'' else name) h, svLog = log, svShutdown = Some []\<rparr>"
  using assms by (simp add: RunService_def otel_InitFromEnv_def AttachLogExport_def WithOtelShutdown_def server_New_def WrapHandler_def)

text \<open>When listening fails, no exporter is shut down: only the first line is written.\<close>

lemma failed_listen_drops_spans:
  "server_Run W now close stop sv (Some err) s =
    (Some err, log_at W LevelInfo (svLog sv) now ''server starting'' [(''addr'', JStr (svAddr sv))] s)"
  by (simp add: server_Run_def)

text \<open>After a signal every exporter of the hook has been shut down, whether the one before failed or not.\<close>

lemma shutdown_reaches_all:
  assumes "\<And>e s. snd (close e s) = s @ [e]"
  shows "snd (otel_shutdown close es s) = s @ es"
proof (induction es arbitrary: s)
  case (Cons e es)
  obtain err s1 where c: "close e s = (err, s1)" by fastforce
  then have "s1 = s @ [e]" using assms [of e s] by simp
  with Cons.IH [of s1] c show ?case by (auto split: prod.splits option.splits)
qed simp

text \<open>With log export on, the lines on standard output name the service twice and ignore the level.\<close>

lemma export_doubles_service:
  assumes "AttachLogExport L env name base = Inr (log, Some e)" "lwEnabled W e level"
  shows "\<exists>h. log_at W level log now msg as s = snd (case lwStdout W (json_line W
      [ScopeAttrs [(''service.name'', JStr name)], ScopeAttrs [(''service.name'', JStr name)]]
      \<lparr>srTime = now, srLevel = level, srMessage = msg, srAttrs = as\<rparr>) s of
        (Some err, s') \<Rightarrow> (Some err, s') | (None, s') \<Rightarrow> fanout_Handle W [h] \<lparr>srTime = now, srLevel = level, srMessage = msg, srAttrs = as\<rparr> s')"
proof -
  obtain sc name' least where log: "log = FanoutHandler [JSONHandler least [ScopeAttrs [(''service.name'', JStr name)], ScopeAttrs [(''service.name'', JStr name)]],
      OtelHandler e name' sc]"
    using assms(1)
    by (auto simp: AttachLogExport_def WithHandler_def logger_With_def logger_New_def NewFanout_def Let_def List.map_filter_def split: if_splits sum.splits option.splits)
  show ?thesis
    unfolding log log_at_def using assms(2) by (auto intro!: exI [of _ "OtelHandler e name' sc"])
qed

text \<open>
  An endpoint with the scheme https loses it and is exported to in plain text like any other.
\<close>

lemma https_endpoint_insecure:
  assumes "\<not> HasPrefix host ''http://''"
  shows "otlp_exporter env (''https://'' @ host) = otlp_exporter env (''http://'' @ host)"
proof -
  have "trimScheme (''https://'' @ host) = TrimSuffix host ''/''" "trimScheme (''http://'' @ host) = TrimSuffix host ''/''"
    using assms by (simp_all add: trimScheme_def TrimPrefix_def HasPrefix_def)
  moreover have "Contains (''https://'' @ host) '':4317'' = Contains (''http://'' @ host) '':4317''"
    by (simp add: Contains_def sublist_Cons_right)
  ultimately show ?thesis by (simp only: otlp_exporter_def otlp_protocol_def Let_def)
qed

end
