(* ===== verification/Jwks.thy ===== *)
theory Jwks
  imports AuthVerifier
begin

text \<open>
  The key document of \<^verbatim>\<open>pkg/auth/issuer.go\<close>: \<^verbatim>\<open>JWKSJSON\<close> with the unpadded URL alphabet of \<^verbatim>\<open>encoding/base64\<close> and the
  big-endian bytes of \<^verbatim>\<open>math/big\<close>. What it prints can be read back to the key.
\<close>

section \<open>Numbers as bytes\<close>

function be_bytes :: "nat \<Rightarrow> bytes" where
  "be_bytes n = (if n = 0 then [] else be_bytes (n div 256) @ [of_nat (n mod 256)])"
  by auto
termination
  by (relation "measure (\<lambda>n. n)") auto

declare be_bytes.simps [simp del]

definition be_nat :: "bytes \<Rightarrow> nat" where
  "be_nat bs = foldl (\<lambda>a b. a * 256 + unat b) 0 bs"

lemma be_nat_bytes: "be_nat (be_bytes n) = n"
proof (induction n rule: be_bytes.induct)
  case (1 n)
  have "unat (of_nat (n mod 256) :: 8 word) = n mod 256" by (simp add: unat_of_nat)
  with 1 show ?case by (subst be_bytes.simps) (auto simp: be_nat_def)
qed

section \<open>Base64\<close>

definition b64_alphabet :: string where
  "b64_alphabet = ''ABCDEFGHIJKLMNOPQRSTUVWXYZabcdefghijklmnopqrstuvwxyz0123456789-_''"

definition b64_digit :: "int \<Rightarrow> char" where
  "b64_digit n = b64_alphabet ! nat n"

fun b64url :: "bytes \<Rightarrow> string" where
  "b64url [] = []"
| "b64url [a] = [b64_digit (uint a div 4), b64_digit (uint a mod 4 * 16)]"
| "b64url [a, b] = [b64_digit (uint a div 4), b64_digit (uint a mod 4 * 16 + uint b div 16), b64_digit (uint b mod 16 * 4)]"
| "b64url (a # b # c # r) = [b64_digit (uint a div 4), b64_digit (uint a mod 4 * 16 + uint b div 16),
     b64_digit (uint b mod 16 * 4 + uint c div 64), b64_digit (uint c mod 64)] @ b64url r"

definition b64_val :: "char \<Rightarrow> int" where
  "b64_val c = int (length (takeWhile (\<lambda>x. x \<noteq> c) b64_alphabet))"

text \<open>The decoder, as a verifier reads the document.\<close>

fun b64url_decode :: "string \<Rightarrow> bytes" where
  "b64url_decode [x, y] = [word_of_int (b64_val x * 4 + b64_val y div 16)]"
| "b64url_decode [x, y, z] = [word_of_int (b64_val x * 4 + b64_val y div 16), word_of_int (b64_val y mod 16 * 16 + b64_val z div 4)]"
| "b64url_decode (x # y # z # u # r) = [word_of_int (b64_val x * 4 + b64_val y div 16), word_of_int (b64_val y mod 16 * 16 + b64_val z div 4),
     word_of_int (b64_val z mod 4 * 64 + b64_val u)] @ b64url_decode r"
| "b64url_decode _ = []"

section \<open>The document\<close>

text \<open>The argument \<open>pub\<close> gives modulus and exponent of a private key's public part; \<open>print\<close> prints a JSON value.\<close>

definition jwks_document :: "issuer \<Rightarrow> nat \<times> nat \<Rightarrow> json" where
  "jwks_document i ne = JObj [(''keys'', JArr [JObj
     [(''kty'', JStr ''RSA''), (''use'', JStr ''sig''), (''alg'', JStr ''RS256''), (''kid'', JStr (iss_kid i)),
      (''n'', JStr (b64url (be_bytes (fst ne)))), (''e'', JStr (b64url (be_bytes (snd ne))))]])]"

definition JWKSJSON :: "(json \<Rightarrow> string) \<Rightarrow> (string \<Rightarrow> nat \<times> nat) \<Rightarrow> issuer option \<Rightarrow> string res" where
  "JWKSJSON print pub io = (case io of
     None \<Rightarrow> Inl (Errorf ''issuer not configured'')
   | Some i \<Rightarrow> (case iss_key i of
       None \<Rightarrow> Inl (Errorf ''issuer not configured'')
     | Some key \<Rightarrow> Inr (print (jwks_document i (pub key)))))"

section \<open>Facts\<close>

lemma b64_val_digit: "0 \<le> n \<Longrightarrow> n < 64 \<Longrightarrow> b64_val (b64_digit n) = n"
proof -
  assume n: "0 \<le> n" "n < 64"
  have "distinct b64_alphabet" "length b64_alphabet = 64" by (simp_all add: b64_alphabet_def)
  then have "takeWhile (\<lambda>x. x \<noteq> b64_alphabet ! nat n) b64_alphabet = take (nat n) b64_alphabet"
    using n by (intro takeWhile_eq_take_P_nth) (auto simp: nth_eq_iff_index_eq)
  with n \<open>length b64_alphabet = 64\<close> show ?thesis by (simp add: b64_val_def b64_digit_def)
qed

lemma byte_bounds: "0 \<le> uint a" "uint a < 256" for a :: "8 word"
  using uint_lt2p [of a] by simp_all

lemma byte_parts:
  fixes x :: int
  assumes "0 \<le> x" "x < 256"
  shows "0 \<le> x div 4" "x div 4 < 64" "0 \<le> x mod 4" "x mod 4 < 4" "0 \<le> x div 16" "x div 16 < 16" "0 \<le> x mod 16" "x mod 16 < 16"
    "0 \<le> x div 64" "x div 64 < 4" "0 \<le> x mod 64" "x mod 64 < 64"
  using assms by linarith+

text \<open>A number below \<open>m\<close> added to a multiple of \<open>m\<close>.\<close>

lemma low_part: "(a * m + r) div m = a" "(a * m + r) mod m = r" if "0 \<le> r" "r < m" for a m r :: int
  using that by simp_all

lemma b64_vals:
  fixes a b c :: "8 word"
  shows "b64_val (b64_digit (uint a div 4)) = uint a div 4" "b64_val (b64_digit (uint a mod 4 * 16)) = uint a mod 4 * 16"
    "b64_val (b64_digit (uint a mod 4 * 16 + uint b div 16)) = uint a mod 4 * 16 + uint b div 16"
    "b64_val (b64_digit (uint b mod 16 * 4)) = uint b mod 16 * 4"
    "b64_val (b64_digit (uint b mod 16 * 4 + uint c div 64)) = uint b mod 16 * 4 + uint c div 64"
    "b64_val (b64_digit (uint c mod 64)) = uint c mod 64"
  by (rule b64_val_digit; use byte_parts [OF byte_bounds [of a]] byte_parts [OF byte_bounds [of b]] byte_parts [OF byte_bounds [of c]] in linarith)+

lemma b64_pieces:
  fixes x y z :: int
  assumes "0 \<le> y" "y < 256" "0 \<le> z" "z < 256"
  shows "x div 4 * 4 + x mod 4 * 16 div 16 = x" "x div 4 * 4 + (x mod 4 * 16 + y div 16) div 16 = x"
    "(x mod 4 * 16 + y div 16) mod 16 * 16 + y mod 16 * 4 div 4 = y"
    "(x mod 4 * 16 + y div 16) mod 16 * 16 + (y mod 16 * 4 + z div 64) div 4 = y"
    "(y mod 16 * 4 + z div 64) mod 4 * 64 + z mod 64 = z"
proof -
  have y: "0 \<le> y div 16" "y div 16 < 16" and z: "0 \<le> z div 64" "z div 64 < 4"
    using byte_parts [OF assms(1,2)] byte_parts [OF assms(3,4)] by blast+
  show "x div 4 * 4 + x mod 4 * 16 div 16 = x" "x div 4 * 4 + (x mod 4 * 16 + y div 16) div 16 = x"
    "(x mod 4 * 16 + y div 16) mod 16 * 16 + y mod 16 * 4 div 4 = y"
    "(x mod 4 * 16 + y div 16) mod 16 * 16 + (y mod 16 * 4 + z div 64) div 4 = y"
    "(y mod 16 * 4 + z div 64) mod 4 * 64 + z mod 64 = z"
    by (simp_all only: low_part [OF y] low_part [OF z] div_mult_mod_eq) simp_all
qed

lemma b64url_roundtrip: "b64url_decode (b64url bs) = bs"
proof (induction bs rule: b64url.induct)
  case (2 a)
  show ?case by (simp only: b64url.simps b64url_decode.simps b64_vals b64_pieces(1) [of 0 0] word_of_int_uint)
next
  case (3 a b)
  note p = b64_pieces [OF byte_bounds [of b] byte_bounds [of b]]
  show ?case by (simp only: b64url.simps b64url_decode.simps b64_vals p(2,3) word_of_int_uint)
next
  case (4 a b c r)
  note p = b64_pieces [OF byte_bounds [of b] byte_bounds [of c]]
  show ?case by (simp only: b64url.simps b64url_decode.simps append.simps b64_vals p(2,4,5) word_of_int_uint 4)
qed simp

section \<open>Properties\<close>

text \<open>
  The key document names the signing key: it has one key, with the identifier tokens carry, and a verifier that decodes its
  numbers gets modulus and exponent of the key the issuer signs with.
\<close>

theorem jwks_publishes_key:
  assumes "JWKSJSON print pub (Some i) = Inr raw"
  shows "\<exists>key n e. iss_key i = Some key \<and> be_nat (b64url_decode n) = fst (pub key) \<and> be_nat (b64url_decode e) = snd (pub key) \<and>
    raw = print (JObj [(''keys'', JArr [JObj [(''kty'', JStr ''RSA''), (''use'', JStr ''sig''), (''alg'', JStr ''RS256''),
      (''kid'', JStr (iss_kid i)), (''n'', JStr n), (''e'', JStr e)]])])"
proof -
  obtain key where "iss_key i = Some key" "raw = print (jwks_document i (pub key))"
    using assms by (auto simp: JWKSJSON_def split: option.splits)
  then show ?thesis unfolding jwks_document_def by (metis b64url_roundtrip be_nat_bytes)
qed

end
