(* ===== verification/Startup.thy ===== *)
theory Startup
  imports Connect Telemetry Jwks Proxy Users Outbox AuthService Files
begin

text \<open>
  The \<^verbatim>\<open>main\<close> functions of the six services: what each opens and checks before it listens, and the handler it listens with. A
  process refuses to start (it logs an error and returns), crashes, or listens; its health checks run in the world of the
  request. Loading an \<^verbatim>\<open>.env\<close> file and the log output are left out: the environment is the one after loading.
\<close>

datatype 'h start = Refused | Crashed | Listening string 'h

text \<open>
  The end of every \<^verbatim>\<open>main\<close>: its logger and \<^verbatim>\<open>RunService\<close>. Instrumentation hands requests on unchanged.
\<close>

definition run_service :: "otel_lib \<Rightarrow> osenv \<Rightarrow> string \<Rightarrow> string \<Rightarrow> 'h \<Rightarrow> 'h start" where
  "run_service L env name addr h =
     (case RunService L (\<lambda>operation h. h) env addr name h (logger_New name (Env env ''LOG_LEVEL'' ''info'')) of
        Inl err \<Rightarrow> Refused
      | Inr sv \<Rightarrow> Listening (svAddr sv) (svHandler sv))"

text \<open>The libraries start-up uses: key files, durations, floats, URLs, the token keys, the file system and the public part of a key.\<close>

record libs =
  lOtel :: otel_lib
  lText :: "goerr \<Rightarrow> string"
  lPem :: "string \<Rightarrow> string option"
  lPkcs1 :: "string \<Rightarrow> string res"
  lPkcs8 :: "string \<Rightarrow> string option res"
  lGenerate :: "string res"
  lDuration :: "string \<Rightarrow> duration res"
  lFloat :: "string \<Rightarrow> go_float option"
  lOor :: int
  lParseURL :: "string \<Rightarrow> goerr option"
  lUrl :: url_lib
  lKeys :: "string list \<Rightarrow> keyfunc res"
  lStat :: "string \<Rightarrow> bool option"
  lPublic :: "string \<Rightarrow> nat \<times> nat"

section \<open>Audit service\<close>

definition audit_main :: "libs \<Rightarrow> world \<Rightarrow> osenv \<Rightarrow> (world \<Rightarrow> 'st audit_env \<Rightarrow> (nat \<Rightarrow> bytes) \<Rightarrow> audit_row list handler) start" where
  "audit_main L W env =
     (let auditDB = Env env ''AUDIT_DB'' ''audit_db'';
          pg = ConnectWithConfig W (AuditConfigFromEnv env auditDB) in
      if coUp pg \<and> RunMigrations W (pg_ConfigFromEnv env auditDB) ''audit-service'' \<noteq> None then Refused
      else (case LoadInternalToken env of (token, ok) \<Rightarrow>
        if \<not> ok then Refused
        else run_service (lOtel L) env ''audit-service'' (Env env ''HTTP_ADDR'' '':8085'')
          (\<lambda>W' E rnd. audit_service (E\<lparr>auHealth := (auHealth E)\<lparr>hcChecks := RegisterHealth (lText L) W' ''audit_db'' pg []\<rparr>\<rparr>)
             token (coUp pg) rnd)))"

section \<open>User service\<close>

text \<open>The routes are registered before the token is looked at; a conflict between patterns panics.\<close>

definition user_main :: "libs \<Rightarrow> world \<Rightarrow> osenv \<Rightarrow> user_env \<Rightarrow> (world \<Rightarrow> (nat \<Rightarrow> bytes) \<Rightarrow> user list handler option) start" where
  "user_main L W env E =
     (let pg = db_Connect W env []; checks = (\<lambda>W'. RegisterHealth (lText L) W' ''postgres'' pg []);
          env_of = (\<lambda>W'. E\<lparr>usHealth := (usHealth E)\<lparr>hcChecks := checks W'\<rparr>\<rparr>) in
      if coUp pg \<and> RunMigrations W (pg_ConfigFromEnv env []) ''user-service'' \<noteq> None then Refused
      else if mux_Handle_all [] (user_routes (env_of W) (store_iface (coUp pg))) = None then Crashed
      else (case LoadInternalToken env of (token, ok) \<Rightarrow>
        if \<not> ok then Refused
        else run_service (lOtel L) env ''user-service'' (Env env ''HTTP_ADDR'' '':8081'')
          (\<lambda>W' rnd. user_service (env_of W') token (coUp pg) rnd)))"

section \<open>File service\<close>

definition file_main :: "libs \<Rightarrow> world \<Rightarrow> osenv \<Rightarrow> (world \<Rightarrow> 'n file_env \<Rightarrow> (nat \<Rightarrow> bytes) \<Rightarrow> 'n file_state handler) start" where
  "file_main L W env =
     (let pg = db_Connect W env [] in
      if coUp pg \<and> RunMigrations W (pg_ConfigFromEnv env []) ''file-service'' \<noteq> None then Refused
      else (let s3 = s3_Connect W env in
        case s3_NewClient (lUrl L) (s3_Ping W (scEndpoint (s3_ConfigFromEnv env))) (s3_ConfigFromEnv env) of
          Inl err \<Rightarrow> Refused
        | Inr client \<Rightarrow> (case LoadInternalToken env of (token, ok) \<Rightarrow>
            if \<not> ok then Refused
            else run_service (lOtel L) env ''file-service'' (Env env ''HTTP_ADDR'' '':8083'')
              (\<lambda>W' E rnd. file_service (E\<lparr>feHealth := (feHealth E)\<lparr>hcChecks :=
                   s3_RegisterHealth (lText L) W' s3 (RegisterHealth (lText L) W' ''postgres'' pg [])\<rparr>\<rparr>)
                 token (coUp pg) client env rnd))))"

section \<open>Worker\<close>

text \<open>\<open>startConsumers\<close>: nothing runs without a connection.\<close>

definition startConsumers :: "osenv \<Rightarrow> bool \<Rightarrow> consumer option" where
  "startConsumers env conn = (if \<not> conn then None else NewConsumer env True True (DefaultWorkQueue env) 0 0)"

text \<open>What the worker runs: its endpoint, the polling period of the dispatcher, the consumer and the store it works on.\<close>

record worker_run =
  wrHandler :: "world \<Rightarrow> json_env \<Rightarrow> goerr option \<Rightarrow> effect_row list handler \<Rightarrow> (nat \<Rightarrow> bytes) \<Rightarrow> effect_row list handler"
  wrDispatcher :: "duration option"
  wrConsumer :: "consumer option"
  wrEffects :: "bool iface"

definition worker_main :: "libs \<Rightarrow> world \<Rightarrow> osenv \<Rightarrow> worker_run start" where
  "worker_main L W env =
     (let pg = db_Connect W env [] in
      if coUp pg \<and> RunMigrations W (pg_ConfigFromEnv env []) ''worker-service'' \<noteq> None then Refused
      else (let rabbit = mq_Connect W env in
        case LoadInternalToken env of (token, ok) \<Rightarrow>
          if \<not> ok then Refused
          else (let emitter = NewHTTPEmitter (Env env ''AUDIT_SERVICE_URL'' ''http://127.0.0.1:8085'') token;
                    dispatcher = (if coUp pg then NewDispatcher True (IPtr (Some emitter)) (outboxPollInterval env) else None);
                    effects = store_iface (coUp pg)
            in run_service (lOtel L) env ''worker'' (Env env ''HTTP_ADDR'' '':8086'')
              \<lparr>wrHandler = (\<lambda>W' J fault metrics rnd. worker_service J fault token effects
                   \<lparr>hcChecks = RegisterHealth (lText L) W' ''postgres'' pg (mq_RegisterHealth (lText L) W' rabbit []), hcMetrics = metrics\<rparr> rnd),
               wrDispatcher = dispatcher, wrConsumer = startConsumers env (coUp rabbit), wrEffects = effects\<rparr>)))"

section \<open>Auth service\<close>

definition wechat_config :: "osenv \<Rightarrow> wx_config" where
  "wechat_config env = \<lparr>wcAppID = Env env ''WECHAT_APP_ID'' [], wcAppSecret = Env env ''WECHAT_APP_SECRET'' [],
     wcMockMode = (Env env ''WECHAT_MOCK_MODE'' ''false'' = ''true'')\<rparr>"

definition webhook_config :: "osenv \<Rightarrow> string \<Rightarrow> bool option \<Rightarrow> rev_store \<Rightarrow> logto_config" where
  "webhook_config env token store revs =
     \<lparr>lcSigningKey = Env env ''LOGTO_WEBHOOK_SIGNING_KEY'' [],
      lcSkipVerify = (Env env ''LOGTO_WEBHOOK_SKIP_VERIFY'' ''false'' = ''true''),
      lcIdentities = store, lcDeliveries = store,
      lcAudit = IPtr (Some (NewHTTPEmitter (Env env ''AUDIT_SERVICE_URL'' ''http://127.0.0.1:8085'') token)),
      lcRevocations = Some revs\<rparr>"

definition auth_issuer :: "libs \<Rightarrow> osenv \<Rightarrow> issuer res" where
  "auth_issuer L env =
     (let pem = Env env ''AUTH_JWT_PRIVATE_KEY_PEM'' [] in
      NewIssuer (Env env ''AUTH_OIDC_ISSUER'' ''http://127.0.0.1:8084/oidc'') (Env env ''OIDC_AUDIENCE'' [])
        (loadOrGenerateKey (lPem L) (lPkcs1 L) (lPkcs8 L) (lGenerate L) pem (pem = [])))"

definition auth_main :: "libs \<Rightarrow> world \<Rightarrow> osenv \<Rightarrow>
    (world \<Rightarrow> ('r, 'n) auth_env \<Rightarrow> (nat \<Rightarrow> bytes) \<Rightarrow> ('r, 'n) auth_state handler) start" where
  "auth_main L W env =
     (let pg = db_Connect W env [] in
      if coUp pg \<and> RunMigrations W (pg_ConfigFromEnv env []) ''auth-service'' \<noteq> None then Refused
      else (let rd = cache_Connect W env in
        case auth_issuer L env of
          Inl err \<Rightarrow> Refused
        | Inr iss \<Rightarrow>
            (let store = (if coUp pg then Some True else None) in
             case LoadInternalToken env of (token, ok) \<Rightarrow>
               if \<not> ok then Refused
               else (let lh = logto_NewHandler (webhook_config env token store (rev_NewStore (lDuration L) env (coUp rd)));
                         mp = mp_NewHandler \<lparr>mcWeChat = Some (wechat_NewClient (wechat_config env)), mcIdentity = IPtr store,
                           mcIssuer = IPtr (Some iss),
                           mcAudit = IPtr (Some (NewHTTPEmitter (Env env ''AUDIT_SERVICE_URL'' ''http://127.0.0.1:8085'') token)), mcTTL = access_ttl env\<rparr>
                 in run_service (lOtel L) env ''auth-service'' (Env env ''HTTP_ADDR'' '':8084'')
                   (\<lambda>W' E rnd. auth_service (E\<lparr>aeHealth := (aeHealth E)\<lparr>hcChecks :=
                        cache_RegisterHealth (lText L) W' rd (RegisterHealth (lText L) W' ''postgres'' pg [])\<rparr>\<rparr>)
                      token (\<lambda>i. JWKSJSON (jenc (aeJson E)) (lPublic L) (Some i)) lh mp store iss rnd)))))"

section \<open>Gateway\<close>

text \<open>\<open>gateway_auth\<close> is what \<^verbatim>\<open>main\<close> hands to the authentication middleware.\<close>

definition gateway_auth :: "libs \<Rightarrow> osenv \<Rightarrow> bool \<Rightarrow> verifier \<Rightarrow> string \<Rightarrow> auth_mw" where
  "gateway_auth L env redis v token =
     \<lparr>aVerifier = Some v, aSessions = Some (sess_NewStore (lDuration L) env redis), aAnon = ResolveAnonPrefixes env,
      aResolver = res_FromEnv env,
      aEntryAudit = IPtr (NewAsync (IPtr (Some (NewHTTPEmitter (Env env ''AUDIT_SERVICE_URL'' ''http://127.0.0.1:8085'') token)))),
      aRevocations = Some (rev_NewStore (lDuration L) env redis), aSensitive = ResolveSensitivePrefixes env\<rparr>"

definition gateway_wiring :: "libs \<Rightarrow> osenv \<Rightarrow> bool \<Rightarrow> verifier \<Rightarrow> router \<Rightarrow> string option \<Rightarrow> Check list
    \<Rightarrow> 's handler \<Rightarrow> (string \<Rightarrow> 's handler) \<Rightarrow> (string \<Rightarrow> 's handler) \<Rightarrow> 's gw_routes" where
  "gateway_wiring L env redis v rt site checks metrics serveFile up =
     \<lparr>grChecks = checks, grMetrics = metrics,
      grBff = bff_New env (oidc_ConfigFromEnv env) (Some (sess_NewStore (lDuration L) env redis)) v (auth_ConfigFromEnv env)
        (Some (rev_NewStore (lDuration L) env redis)),
      grAdminDir = admin_ResolveDir (lStat L)
        [Env env ''ADMIN_STATIC_DIR'' [], ''../node/apps/admin/dist'', ''../../node/apps/admin/dist''],
      grStat = lStat L, grServeFile = serveFile, grRouter = rt, grSite = site, grUp = up\<rparr>"

definition gateway_main :: "libs \<Rightarrow> world \<Rightarrow> osenv \<Rightarrow>
    (world \<Rightarrow> ('r, 'n) bff_env \<Rightarrow> 'l rate_lib \<Rightarrow> ('r, 'n, 'l) gwl handler \<Rightarrow> (string \<Rightarrow> ('r, 'n, 'l) gwl handler)
      \<Rightarrow> (string \<Rightarrow> ('r, 'n, 'l) gwl handler) \<Rightarrow> (nat \<Rightarrow> bytes) \<Rightarrow> ('r, 'n, 'l) gwl handler) start" where
  "gateway_main L W env =
     (let rd = cache_Connect W env in
      case NewVerifier (lKeys L) (auth_ConfigFromEnv env) of
        Inl err \<Rightarrow> Refused
      | Inr v \<Rightarrow> (case LoadInternalToken env of (token, ok) \<Rightarrow>
          if \<not> ok then Refused
          else (case proxy_New (lParseURL L) (gateway_routes env) token of
            Inl err \<Rightarrow> Refused
          | Inr rt \<Rightarrow> (case site_FromEnv (lParseURL L) env of
              Inl err \<Rightarrow> Refused
            | Inr site \<Rightarrow>
                (let cfg = rl_ConfigFromEnv (lFloat L) env in
                 run_service (lOtel L) env ''gateway'' (Env env ''HTTP_ADDR'' '':8080'')
                   (\<lambda>W' E RL metrics serveFile up rnd.
                      gateway_handler (E\<lparr>eOs := env\<rparr>) RL cfg (NewLimiter env (lOor L) cfg (coUp rd)) (gateway_auth L env (coUp rd) v token) rnd
                        (gateway_wiring L env (coUp rd) v rt site (cache_RegisterHealth (lText L) W' rd []) metrics serveFile up)))))))"

section \<open>Commands\<close>

text \<open>
  \<^verbatim>\<open>LoadEnvFile\<close>: the first file that exists is loaded. Which files exist and what loading does to the environment, are
  parameters; the loader's documented behaviour is that a variable that is set keeps its value.
\<close>

record env_files =
  dotExists :: "string \<Rightarrow> bool"
  dotLoad :: "string \<Rightarrow> osenv \<Rightarrow> osenv"

fun load_first :: "env_files \<Rightarrow> string list \<Rightarrow> osenv \<Rightarrow> osenv" where
  "load_first D [] env = env"
| "load_first D (path # paths) env = (if dotExists D path then dotLoad D path env else load_first D paths env)"

definition LoadEnvFile :: "env_files \<Rightarrow> osenv \<Rightarrow> osenv" where
  "LoadEnvFile D env = load_first D [''.env'', ''../.env''] env"

definition randomID :: "bytes res \<Rightarrow> string res" where
  [simp]: "randomID rnd = map_sum id hex_encode rnd"

text \<open>\<^verbatim>\<open>cmd/enqueue-job\<close>: the exit status, and what was handed to the broker.\<close>

definition enqueue_main ::
  "world \<Rightarrow> amqp_conn \<Rightarrow> json_env \<Rightarrow> gotime \<Rightarrow> osenv \<Rightarrow> bytes res \<Rightarrow> string \<Rightarrow> string \<Rightarrow> int \<times> (string \<times> string \<times> string) option" where
  "enqueue_main W conn J now env rnd jobType jobID = (case mq_OpenFromEnv W env of
     Inl err \<Rightarrow> (1, None)
   | Inr _ \<Rightarrow> (case NewPublisher env (Some conn) (DefaultWorkQueue env) of
       Inl err \<Rightarrow> (1, None)
     | Inr pub \<Rightarrow> (case (if jobID = [] then randomID rnd else Inr jobID) of
         Inl err \<Rightarrow> (1, None)
       | Inr i \<Rightarrow> (case Publish J now (Some pub)
             \<lparr>jID = i, jType = jobType, jTime = now, jActor = [], jTenant = [], jPayload = None\<rparr> of
           (Some err, sent) \<Rightarrow> (1, sent) | (None, sent) \<Rightarrow> (0, sent)))))"

text \<open>\<^verbatim>\<open>cmd/migrate\<close>: the services in order; a placeholder host is skipped, the first failure ends the run. The services applied.\<close>

definition migrate_services :: "osenv \<Rightarrow> (string \<times> string) list" where
  "migrate_services env = [(''user-service'', []), (''auth-service'', []), (''file-service'', []),
     (''audit-service'', Env env ''AUDIT_DB'' ''audit_db''), (''worker-service'', [])]"

fun migrate_loop :: "world \<Rightarrow> osenv \<Rightarrow> (string \<times> string) list \<Rightarrow> string list \<Rightarrow> int \<times> string list" where
  "migrate_loop W env [] applied = (0, applied)"
| "migrate_loop W env ((name, database) # svcs) applied =
     (let cfg = pg_ConfigFromEnv env database in
      if IsPlaceholder (pgHost cfg) then migrate_loop W env svcs applied
      else (case pg_Open W cfg of
        Inl err \<Rightarrow> (1, applied)
      | Inr _ \<Rightarrow> (case RunMigrations W cfg name of
          Some err \<Rightarrow> (1, applied)
        | None \<Rightarrow> migrate_loop W env svcs (applied @ [name]))))"

text \<open>
  The list of services is a package variable: it is computed from the environment \<open>env0\<close> the process was started with, before
  \<^verbatim>\<open>main\<close> loads the \<^verbatim>\<open>.env\<close> file.
\<close>

definition migrate_main :: "world \<Rightarrow> env_files \<Rightarrow> osenv \<Rightarrow> int \<times> string list" where
  "migrate_main W D env0 = migrate_loop W (LoadEnvFile D env0) (migrate_services env0) []"

text \<open>\<^verbatim>\<open>cmd/dev-jwt\<close>: the exit status and the token printed.\<close>

definition dev_jwt_main :: "jwt_lib \<Rightarrow> gotime \<Rightarrow> env_files \<Rightarrow> osenv \<Rightarrow> string list \<Rightarrow> int \<times> string" where
  "dev_jwt_main L now D env0 args =
     (let cfg = auth_ConfigFromEnv (LoadEnvFile D env0); userID = (case args of [] \<Rightarrow> ''dev-user'' | u # _ \<Rightarrow> u) in
      case DevToken L cfg userID ''dev-tenant'' [''user''] now (24 * time_Hour) of
        Inl err \<Rightarrow> (1, [])
      | Inr tok \<Rightarrow> (0, tok))"

section \<open>Facts\<close>

definition listens :: "'h start \<Rightarrow> bool" where
  "listens st \<longleftrightarrow> (case st of Listening a h \<Rightarrow> True | _ \<Rightarrow> False)"

lemma listens_simps [simp]: "listens (Listening a h)" "\<not> listens Refused" "\<not> listens Crashed"
  by (simp_all add: listens_def)

lemma run_service_Listening: "run_service L env name addr h = Listening a k \<Longrightarrow> k = h"
  by (auto simp: run_service_def RunService_def WithOtelShutdown_def server_New_def WrapHandler_def split: sum.splits)

lemma no_endpoint_listens: "otel_endpoint env = [] \<Longrightarrow> run_service L env name addr h = Listening addr h"
  by (simp add: run_service_def no_endpoint_runs)

text \<open>A process that listens has loaded its token.\<close>

lemma token_loaded: "RequireInternalToken env \<Longrightarrow> LoadInternalToken env = (token, True) \<Longrightarrow> token \<noteq> []"
  by (auto simp: LoadInternalToken_def Let_def split: if_splits)

lemma token_missing: "RequireInternalToken env \<Longrightarrow> TrimSpace (Env env ''INTERNAL_API_TOKEN'' []) = [] \<Longrightarrow> LoadInternalToken env = ([], False)"
  by (simp add: LoadInternalToken_def)

lemma Chain_Cons: "Chain h (m # mws) = m (Chain h mws)"
  using Chain_loop_all [of "m # mws" h] Chain_loop_all [of mws h] by (simp add: Chain_def)

lemma trust_refuses:
  assumes "token \<noteq> []" "\<not> gatewayTrustSkipped (Path r)" "\<not> internalTokenOK r token"
  shows "\<exists>w'. Chain h (GatewayTrust token # mws) r new_writer s = Served w' s \<and> final_status w' = 401 \<and>
    error_code w' = Some ''untrusted_caller''"
proof -
  have "pass_if (trust_pass token) r new_writer s = None" using assms by (simp add: guard_defs)
  from trust.rejected [OF this] show ?thesis by (simp add: Chain_Cons trust_reject_def)
qed

text \<open>What a service that listens does with a request that lacks the token.\<close>

lemma services_refuse:
  assumes "token \<noteq> []" "\<not> gatewayTrustSkipped (Path r)" "\<not> internalTokenOK r token"
  shows "\<exists>w'. audit_service E token c rnd r new_writer t = Served w' t \<and> final_status w' = 401"
    and "\<exists>w'. file_service F token c s3 env rnd r new_writer f = Served w' f \<and> final_status w' = 401"
    and "\<exists>w'. auth_service A token jwks lh mp idn iss rnd r new_writer a = Served w' a \<and> final_status w' = 401"
proof -
  note refuse = trust_refuses [OF assms]
  show "\<exists>w'. audit_service E token c rnd r new_writer t = Served w' t \<and> final_status w' = 401"
    unfolding audit_service_def using refuse by metis
  show "\<exists>w'. file_service F token c s3 env rnd r new_writer f = Served w' f \<and> final_status w' = 401"
    unfolding file_service_def using refuse by metis
  show "\<exists>w'. auth_service A token jwks lh mp idn iss rnd r new_writer a = Served w' a \<and> final_status w' = 401"
    unfolding auth_service_def using refuse by metis
qed

lemma audit_main_handler:
  "audit_main L W env = Listening addr h \<Longrightarrow> LoadInternalToken env = (token, ok) \<Longrightarrow>
     ok \<and> (\<exists>(E' :: 'st audit_env) c. h W' (E :: 'st audit_env) rnd = audit_service E' token c rnd)"
  by (auto simp: audit_main_def Let_def dest!: run_service_Listening split: if_splits)

lemma file_main_handler:
  "file_main L W env = Listening addr h \<Longrightarrow> LoadInternalToken env = (token, ok) \<Longrightarrow>
     ok \<and> (\<exists>E' c s3. h W' F rnd = file_service E' token c s3 env rnd)"
  by (auto simp: file_main_def Let_def dest!: run_service_Listening split: if_splits sum.splits)

lemma auth_main_handler:
  "auth_main L W env = Listening addr h \<Longrightarrow> LoadInternalToken env = (token, ok) \<Longrightarrow>
     ok \<and> (\<exists>E' jwks lh mp idn iss. h W' A rnd = auth_service E' token jwks lh mp idn iss rnd)"
  by (auto simp: auth_main_def Let_def dest!: run_service_Listening split: if_splits sum.splits) blast+

section \<open>Properties\<close>

text \<open>
  C19 In production no service listens without the internal token: when the environment demands one and none is set, every
  \<^verbatim>\<open>main\<close> ends before it listens, whatever databases and brokers answer.
\<close>

theorem production_needs_token:
  assumes "RequireInternalToken env" "TrimSpace (Env env ''INTERNAL_API_TOKEN'' []) = []"
  shows "\<not> listens (gateway_main L W env) \<and> \<not> listens (audit_main L W env) \<and> \<not> listens (file_main L W env) \<and>
    \<not> listens (auth_main L W env) \<and> \<not> listens (worker_main L W env)"
  using token_missing [OF assms]
  by (simp add: gateway_main_def audit_main_def file_main_def auth_main_def worker_main_def Let_def split: sum.splits)


text \<open>
  C38 The user service never listens: whatever its environment, \<^verbatim>\<open>main\<close> gives up or panics when it registers its routes.
\<close>

theorem user_service_never_starts: "\<not> listens (user_main L W env E)"
  by (simp add: user_main_def Let_def user_routes_conflict)

text \<open>
  A worker whose channel the broker closed (when it restarts, say) has stopped consuming for good, since nothing calls
  \<^verbatim>\<open>Run\<close> again; its readiness probe dials anew, and reports no error as soon as the broker answers.
\<close>

lemma stopped_consumer_stays_ready:
  assumes "consumer_Run J conn (startConsumers env up) H evs s = (e, out, s')" "ChanClosed \<in> set evs"
    and "coUp (mq_Connect W env)" "wDialPing W' (rabbit_url env) = PingDone None"
  shows "e \<noteq> Waiting \<and> coProbe (mq_Connect W env) W' = None"
proof -
  have "e \<noteq> Waiting"
    using assms(1,2) Run_loop_stops [of J "the (startConsumers env up)" H evs s]
    by (cases "startConsumers env up") (auto simp: consumer_Run_def split: option.splits)
  moreover have "coProbe (mq_Connect W env) W' = None"
    using assms(3,4) by (auto simp: mq_Connect_def mq_Ping_def rabbit_url_def Let_def split: if_splits sum.splits)
  ultimately show ?thesis by blast
qed

text \<open>
  A worker that starts without its database dies of the first item job: the missing store is not noticed, the handler
  panics, and the broker gives the job to the next consumer.
\<close>

theorem worker_without_database_crashes:
  assumes "worker_main L W env = Listening addr run" "\<not> coUp (db_Connect W env [])"
    and "ParseJob J now (mBody m) = Inr job" "item_type (jType job)" "requireString (jPayload job) ''item_id'' = Inr i"
  shows "handleDelivery J now c (router_Handle hnow (wrEffects run)) m s = (Crash, s)"
proof -
  have "wrEffects run = store_iface False"
    using assms(1,2) by (auto simp: worker_main_def Let_def dest!: run_service_Listening split: if_splits prod.splits)
  then show ?thesis using missing_effect_store_crashes [OF assms(3-5)] by simp
qed

text \<open>
  Migrations stop at the first failure and report it: a run that ends with status 0 has applied, in order, every service
  that has a database.
\<close>

theorem migrate_all_or_error:
  assumes "migrate_main W D env0 = (0, applied)" "\<not> IsPlaceholder (Env (LoadEnvFile D env0) ''POSTGRES_HOST'' ''127.0.0.1'')"
  shows "applied = [''user-service'', ''auth-service'', ''file-service'', ''audit-service'', ''worker-service'']"
proof -
  have "migrate_loop W (LoadEnvFile D env0) svcs done = (0, out) \<Longrightarrow> out = done @ map fst svcs" for svcs "done" out
    using assms(2)
    by (induction W "LoadEnvFile D env0" svcs "done" rule: migrate_loop.induct)
      (auto simp: Let_def pg_ConfigFromEnv_def split: if_splits sum.splits option.splits)
  from this [OF assms(1) [unfolded migrate_main_def]] show ?thesis by (simp add: migrate_services_def)
qed

text \<open>The command migrates \<^verbatim>\<open>audit_db\<close> when only the \<^verbatim>\<open>.env\<close> file names the audit database; the audit service uses the one named.\<close>

lemma audit_database_missed:
  assumes "env0 ''AUDIT_DB'' = []" "LoadEnvFile D env0 ''AUDIT_DB'' = database" "database \<noteq> []" "database \<noteq> ''audit_db''"
  shows "(''audit-service'', ''audit_db'') \<in> set (migrate_services env0)"
    and "(''audit-service'', Env (LoadEnvFile D env0) ''AUDIT_DB'' ''audit_db'') \<notin> set (migrate_services env0)"
  using assms by (simp_all add: migrate_services_def Env_def)

text \<open>
  C2 Whoever runs the gateway and however it is configured, identity headers of the client have no influence: the response,
  the state, the audit events and what upstreams receive are the same for every choice of them.
\<close>

theorem gateway_ignores_identity_headers:
  assumes "gateway_main L W env = Listening addr h"
  shows "h W' E RL metrics serveFile up rnd (forge forged r) w s = h W' E RL metrics serveFile up rnd r w s"
proof -
  have "req_header (forge forged r) k = req_header r k" if "CanonicalHeaderKey k \<notin> identity_keys" for k
    using that by (simp add: req_header_def hdr_get_def forge_def)
  moreover have "RemoteAddr (forge forged r) = RemoteAddr r" by (simp add: forge_def)
  ultimately have ip: "rl_clientIP (forge forged r) = rl_clientIP r" "entry_clientIP (forge forged r) = entry_clientIP r"
    by (simp_all add: rl_clientIP_def entry_clientIP_def identity_keys_def Let_def split: option.splits)
  have plain: "Path (forge forged r) = Path r" "Method (forge forged r) = Method r" by (simp_all add: forge_def)
  have zone: "rl_zone (forge forged r) = rl_zone r" by (simp add: rl_zone_def plain)
  have entry: "EntryEvent b now ty (forge forged r) = EntryEvent b now ty r" for b now ty
    by (simp add: EntryEvent_def Let_def ip plain fun_eq_iff)
  have throttled_same: "throttled em now b1 b2 (forge forged r) = throttled em now b1 b2 r" for em now b1 b2
    by (intro ext) (simp only: throttled_def EmitEntry_def entry zone ip)
  have same: "rl_Middleware R RL cfg em k now b1 b2 (Authenticate E' A b3 b4 next_h) (forge forged r) w s =
      rl_Middleware R RL cfg em k now b1 b2 (Authenticate E' A b3 b4 next_h) r w s" for R cfg em k now b1 b2 b3 b4 A E' next_h
    by (simp add: rl_Middleware_def throttled_same zone ip identity_headers_ignored split: prod.splits)
  show ?thesis
    using assms by (auto simp: gateway_main_def Let_def gateway_handler_def Chain_Cons same
        dest!: run_service_Listening split: if_splits prod.splits sum.splits)
qed

end
