(* ===== verification/StartupWitnesses.thy ===== *)
theory StartupWitnesses
  imports ServiceWitnesses Startup
begin

text \<open>
  The properties of start-up, connections, the queue and the specifications, applied at concrete inputs where their hypotheses
  hold: a production environment, a world in which everything answers, one message.
\<close>

section \<open>A deployment\<close>

definition prod_env :: osenv where
  "prod_env k = (if k = ''APP_ENV'' then ''production'' else if k = ''INTERNAL_API_TOKEN'' then ''tok'' else [])"

definition bare_env :: osenv where
  "bare_env k = (if k = ''APP_ENV'' then ''production'' else [])"

definition world0 :: world where
  "world0 = \<lparr>wPool = (\<lambda>u. None), wPgPing = (\<lambda>u. None), wRedisPing = (\<lambda>u. None), wDial = (\<lambda>u. None), wDialPing = (\<lambda>u. PingDone None),
     wTcp = (\<lambda>u. None), wUrl = (\<lambda>u. Inr (u, [])), wAbs = (\<lambda>p. Inr p), wMigrate = (\<lambda>s u. None), wUp = (\<lambda>s u. UpNoChange)\<rparr>"

definition lib0 :: libs where
  "lib0 = \<lparr>lOtel = \<lparr>olTrace = (\<lambda>e. None), olLog = (\<lambda>e. None), olResource = (\<lambda>n. None)\<rparr>, lText = (\<lambda>e. []), lPem = (\<lambda>s. None),
     lPkcs1 = (\<lambda>s. Inr s), lPkcs8 = (\<lambda>s. Inr None), lGenerate = Inr ''key'', lDuration = (\<lambda>s. Inr time_Hour), lFloat = (\<lambda>s. None), lOor = 0,
     lParseURL = (\<lambda>u. None), lUrl = \<lparr>urlParse = (\<lambda>u. Inr (''http'', ''s3:9000'')), urlParts = (\<lambda>u. (''s3:9000'', ''/b/k'', []))\<rparr>,
     lKeys = (\<lambda>us. Inl (Errorf ''none'')), lStat = (\<lambda>p. None), lPublic = (\<lambda>k. (3233, 17))\<rparr>"

lemma prod_token: "LoadInternalToken prod_env = (''tok'', True)" "RequireInternalToken prod_env"
  by code_simp+

lemma prod_runs: "run_service L prod_env name addr h = Listening addr h"
  by (rule no_endpoint_listens) code_simp

lemma world0_migrates: "RunMigrations world0 cfg name = None"
  by (simp add: RunMigrations_def world0_def)

lemma audit_listens: "\<exists>addr h. audit_main lib0 world0 prod_env = Listening addr h"
  by (simp add: audit_main_def world0_migrates prod_token prod_runs Let_def)

lemma gateway_listens: "\<exists>addr h. gateway_main lib0 world0 prod_env = Listening addr h"
proof -
  have "JWKSURLs (auth_ConfigFromEnv prod_env) = []" by code_simp
  then obtain v where "NewVerifier (lKeys lib0) (auth_ConfigFromEnv prod_env) = Inr v" by (simp add: NewVerifier_def)
  moreover obtain rt where "proxy_New (lParseURL lib0) (gateway_routes prod_env) ''tok'' = Inr rt"
    by (simp add: proxy_New_def gateway_routes_def lib0_def)
  moreover have "\<exists>site. site_FromEnv (lParseURL lib0) prod_env = Inr site"
    by (simp add: site_FromEnv_def lib0_def Let_def)
  then obtain site where "site_FromEnv (lParseURL lib0) prod_env = Inr site" ..
  ultimately show ?thesis by (simp add: gateway_main_def prod_token prod_runs Let_def)
qed

text \<open>A request that claims to be an administrator, without the token.\<close>

definition forged_req :: request where
  "forged_req = req0\<lparr>Path := ''/v1/audit/events'', Header := [''X-User-Id'' \<mapsto> [''eve''], ''X-Roles'' \<mapsto> [''admin'']]\<rparr>"


theorem production_needs_token_witness:
  "\<not> listens (gateway_main lib0 world0 bare_env) \<and> \<not> listens (audit_main lib0 world0 bare_env)"
proof -
  have "RequireInternalToken bare_env" "TrimSpace (Env bare_env ''INTERNAL_API_TOKEN'' []) = []" by code_simp+
  from production_needs_token [OF this] show ?thesis by blast
qed

theorem gateway_ignores_identity_headers_witness:
  "\<exists>addr h. gateway_main lib0 world0 prod_env = Listening addr h \<and>
     h world0 env0 bucket0 (\<lambda>r w s. Served w s) (\<lambda>p r w s. Served w s) (\<lambda>u r w s. Served w s) (\<lambda>i. [1]) (forge (Header forged_req) req0) new_writer limited0 =
     h world0 env0 bucket0 (\<lambda>r w s. Served w s) (\<lambda>p r w s. Served w s) (\<lambda>u r w s. Served w s) (\<lambda>i. [1]) req0 new_writer limited0"
proof -
  obtain addr and h :: "world \<Rightarrow> (mem, unit) bff_env \<Rightarrow> unit rate_lib \<Rightarrow> (mem, unit, unit) gwl handler \<Rightarrow> (string \<Rightarrow> (mem, unit, unit) gwl handler)
      \<Rightarrow> (string \<Rightarrow> (mem, unit, unit) gwl handler) \<Rightarrow> (nat \<Rightarrow> bytes) \<Rightarrow> (mem, unit, unit) gwl handler"
    where h: "gateway_main lib0 world0 prod_env = Listening addr h" using gateway_listens by blast
  from h gateway_ignores_identity_headers [OF h] show ?thesis by blast
qed

theorem router_longest_prefix_witness:
  "\<exists>rt. proxy_New (\<lambda>u. None) (gateway_routes prod_env) ''tok'' = Inr rt \<and> route_for (rt_prefixes rt) ''/v1/users/me'' = Some ''/v1/users/''"
proof -
  obtain rt where rt: "proxy_New (\<lambda>u. None) (gateway_routes prod_env) ''tok'' = Inr rt" by (simp add: proxy_New_def gateway_routes_def)
  from router_longest_prefix [OF rt rt refl, of "''/v1/users/me''"]
  have "route_for (rt_prefixes rt) ''/v1/users/me'' = Some ''/v1/users/''"
    by (auto simp: gateway_routes_def HasPrefix_def split: option.splits)
  with rt show ?thesis by blast
qed

section \<open>Connections\<close>

definition odd_config :: pg_config where
  "odd_config = \<lparr>pgHost = ''db'', pgPort = ''5432'', pgUser = ''ting'', pgPassword = ''p@evil.host/x?'', pgDatabase = ''app_db'', pgSSLMode = ''disable''\<rparr>"


theorem jwks_publishes_key_witness:
  "\<exists>n e. be_nat (b64url_decode n) = 3233 \<and> be_nat (b64url_decode e) = 17 \<and>
     JWKSJSON (\<lambda>v. if v = jwks_document iss0 (3233, 17) then ''doc'' else []) (\<lambda>k. (3233, 17)) (Some iss0) = Inr ''doc''"
proof -
  have raw: "JWKSJSON (\<lambda>v. if v = jwks_document iss0 (3233, 17) then ''doc'' else []) (\<lambda>k. (3233, 17)) (Some iss0) = Inr ''doc''"
    by (simp add: JWKSJSON_def iss0_def)
  from jwks_publishes_key [OF raw] raw show ?thesis by auto
qed

section \<open>Queue\<close>

definition chan0 :: amqp_chan where
  "chan0 = \<lparr>chDecl = (\<lambda>d. None), chQos = (\<lambda>n. None), chConsume = (\<lambda>q. None), chPublish = (\<lambda>e k b. None), chClose = None\<rparr>"

lemma chan0_declares: "Declare (Some (chDecl chan0)) q = (None, declarations q)"
  by (simp add: Declare_def chan0_def declarations_def)

theorem published_job_reaches_handler_witness:
  "\<exists>p ex key body. NewPublisher prod_env (Some (Inr chan0)) (DefaultWorkQueue prod_env) = Inr p \<and>
     Publish jobs_json 5 (Some p) item_job = (None, Some (ex, key, body)) \<and>
     handleDelivery jobs_json 6 retries3 (\<lambda>j s. (JobOk, j # s)) \<lparr>mBody = body, mHeaders = []\<rparr> [] = (Ack, [item_job])"
proof -
  let ?q = "DefaultWorkQueue prod_env"
  obtain p where p: "NewPublisher prod_env (Some (Inr chan0)) ?q = Inr p" "puCh p = Some chan0"
    using default_exchange [of prod_env] by (simp add: NewPublisher_def chan0_declares)
  have wire: "job_wire_ok jobs_json item_job"
  proof -
    have "item_json = job_json (\<lambda>_. ''2026-01-02T03:04:05Z'') item_job" by code_simp
    moreover have "parse_rfc3339 True ''2026-01-02T03:04:05Z'' = Some (jTime item_job)" by code_simp
    ultimately show ?thesis by (simp add: job_wire_ok_def jobs_json_def table_json_def) (simp add: item_job_def)
  qed
  obtain ex key body where s: "Publish jobs_json 5 (Some p) item_job = (None, Some (ex, key, body))"
    by (simp add: Publish_def p(2) job_Marshal_def) (simp add: chan0_def item_job_def)
  have "\<not> time_IsZero (jTime item_job)" by (simp add: item_job_def time_IsZero_def zero_time_def)
  from published_job_reaches_handler [OF p(1) s wire this, of 6 retries3 "\<lambda>j s. (JobOk, j # s)" "[]" "[]"] p(1) s
  show ?thesis by auto
qed


theorem consumer_run_ends_witness:
  "fst (consumer_Run jobs_json (Inr chan0) (Some retries3) (\<lambda>j s. (JobOk, s)) [Delivered 0 item_msg, CtxDone (Errorf ''stop'')] ()) \<noteq> Waiting"
proof -
  let ?run = "consumer_Run jobs_json (Inr chan0) (Some retries3) (\<lambda>j s. (JobOk, s)) [Delivered 0 item_msg, CtxDone (Errorf ''stop'')] ()"
  obtain e out s' where run: "?run = (e, out, s')" by (metis prod_cases3)
  from consumer_run_ends [OF run, of "Errorf ''stop''"] run show ?thesis by simp
qed

section \<open>Specifications\<close>


end
