(* ===== verification/Spoofing.thy ===== *)
theory Spoofing
  imports RateLimit
begin

text \<open>
  What the rate limiter is worth behind the load balancer the repository deploys. \<^verbatim>\<open>deploy/nginx/proxy.conf\<close> appends the address
  of the peer to the \<^verbatim>\<open>X-Forwarded-For\<close> header the client sent; the gateway takes the first entry, which the client chose.
\<close>

section \<open>The header nginx sends\<close>

text \<open>\<^verbatim>\<open>$proxy_add_x_forwarded_for\<close>: the client's header with the address of the peer appended.\<close>

definition nginx_forwarded :: "string \<Rightarrow> string \<Rightarrow> string" where
  "nginx_forwarded sent remote = (if sent = [] then remote else sent @ '', '' @ remote)"

text \<open>A value a client may send as its address.\<close>

definition chosen_ip :: "string \<Rightarrow> bool" where
  "chosen_ip x \<longleftrightarrow> x \<noteq> [] \<and> CHR '','' \<notin> set x \<and> TrimSpace x = x"

lemma takeWhile_notin: "c \<notin> set x \<Longrightarrow> takeWhile (\<lambda>y. y \<noteq> c) (x @ c # ys) = x"
  by (induction x) auto

lemma chosen_client:
  assumes "chosen_ip x" "req_header r ''X-Forwarded-For'' = nginx_forwarded x remote"
  shows "rl_clientIP r = x"
  using assms by (simp add: rl_clientIP_def nginx_forwarded_def chosen_ip_def before_byte_def takeWhile_notin)

section \<open>Fresh keys\<close>

text \<open>In one window the key of a request determines its zone and its client.\<close>

lemma rl_key_client:
  assumes "rl_key wl t z ip = rl_key wl' t' z' ip'" "wlPeriod wl = wlPeriod wl'" "t div time_Second = t' div time_Second"
    and "known_zone z" "known_zone z'"
  shows "z = z' \<and> ip = ip'"
proof -
  have z: "z = z'" using rl_key_zone assms(1,4,5) by metis
  with assms(1-3) show ?thesis by (auto simp: rl_key_def)
qed

lemma fresh_admitted:
  assumes laws: "redis_laws R view" and up: "redis_up R view" and l: "l = newRedisLimiter oor True cfg"
    and z: "known_zone zone" and key: "counted view (rl_key (zone_limit l zone) t zone ip) e st t 0"
    and te: "t < e" "e \<le> t + 2 * time_Second"
  shows "fst (redis_allow R t (Some l) zone ip st) = Inr True"
proof (cases "0 < wlMax (zone_limit l zone)")
  case True
  have p: "wlPeriod (zone_limit l zone) = time_Second" "rlRdb l"
    using l by (simp_all add: newRedisLimiter_def zone_limit_def)
  obtain st' where "redis_allow R t (Some l) zone ip st = (Inr (int 0 + 1 \<le> wlMax (zone_limit l zone)), st')"
    by (rule allow_same_key [OF laws up p(2,1) True key refl te]) simp_all
  with True show ?thesis by simp
next
  case False
  then show ?thesis using l by (simp add: redis_allow_def newRedisLimiter_def Let_def)
qed

lemma fresh_run:
  assumes laws: "redis_laws R view" and up: "redis_up R view" and l: "l = newRedisLimiter oor True cfg"
    and keys: "distinct (map (req_key l) qs)" "\<forall>q\<in>set qs. counted view (req_key l q) e st t 0"
    and qs: "sorted (t # map fst qs)" "\<forall>(t', z, i)\<in>set qs. t' < e \<and> e \<le> t' + 2 * time_Second \<and> known_zone z"
  shows "list_all (\<lambda>d. d = Inr True) (rl_run R l qs st)"
  using keys qs
proof (induction qs arbitrary: st t)
  case (Cons q qs)
  obtain t' z i where q: "q = (t', z, i)" by (cases q)
  obtain d st' where run: "redis_allow R t' (Some l) z i st = (d, st')" by fastforce
  have t': "t \<le> t'" "t' < e" "e \<le> t' + 2 * time_Second" "known_zone z" "sorted (t' # map fst qs)"
    using Cons.prems(3,4) q by auto
  have c: "counted view (req_key l p) e st t' 0" if "p \<in> set (q # qs)" for p
    by (rule counted_later [OF bspec [OF Cons.prems(2) that] t'(1)])
  have "d = Inr True"
    using fresh_admitted [OF laws up l t'(4) _ t'(2,3), of i st] c [of q] run q by (simp add: req_key_def)
  moreover have "\<forall>p\<in>set qs. counted view (req_key l p) e st' t' 0"
  proof
    fix p assume p: "p \<in> set qs"
    then have "req_key l p \<noteq> req_key l q" using Cons.prems(1) by (auto simp: image_iff dest: sym)
    then have "req_key l p \<noteq> rl_key (zone_limit l z) t' z i" by (simp add: q req_key_def)
    from allow_other_key [OF laws up c this run] p show "counted view (req_key l p) e st' t' 0" by simp
  qed
  with Cons.IH [of st' t'] Cons.prems(1,4) t'(5) have "list_all (\<lambda>d. d = Inr True) (rl_run R l qs st')" by simp
  ultimately show ?case using q run by simp
qed simp

section \<open>Property\<close>


end
