(* ===== verification/EndToEnd.thy ===== *)
theory EndToEnd
  imports Startup ServiceFrames
begin

text \<open>
  Paths through several programs: the gateway that asks auth-service who a subject is, the mini-program login whose token comes
  back to the gateway, and the webhook of a deleted user that the gateway then refuses.
\<close>

section \<open>Asking auth-service over HTTP\<close>

text \<open>The request auth-service receives for an outgoing one, and the text of a response body.\<close>

definition identity_request :: "http_out \<Rightarrow> request" where
  "identity_request out = \<lparr>Method = OMethod out, Path = ''/internal/identity/resolve'', Query = [], Header = OHeader out, Cookies = [],
     Body = Inr (OBody out), RemoteAddr = [], PathValues = [], Ctx = None\<rparr>"

definition body_text :: "json_env \<Rightarrow> writer \<Rightarrow> string" where
  "body_text J w = concat (map (\<lambda>b. case b of BJson v \<Rightarrow> jenc J v @ [CHR 0x0A] | BBytes s \<Rightarrow> s) (WBody w))"

text \<open>The client that delivers a request to auth-service; with \<open>lost\<close> the reply never arrives although the request was served.\<close>

definition identity_client ::
  "('r, 'n) auth_env \<Rightarrow> string \<Rightarrow> (issuer \<Rightarrow> string res) \<Rightarrow> logto_handler \<Rightarrow> mp_handler \<Rightarrow> bool option \<Rightarrow> issuer \<Rightarrow> (nat \<Rightarrow> bytes)
    \<Rightarrow> bool \<Rightarrow> ('r, 'n) auth_state http_client" where
  "identity_client E token jwks lh mp idn iss rnd lost out s =
     (case auth_service E token jwks lh mp idn iss rnd (identity_request out) new_writer s of
        Served w s' \<Rightarrow> (if lost then Inl (Errorf ''timeout'') else Inr (final_status w, Inr (body_text (aeJson E) w)), s')
      | Panicked m w s' \<Rightarrow> (Inl (Errorf ''EOF''), s'))"

text \<open>The JSON text of a value is read back as that value, by itself and with the newline the encoder appends.\<close>

definition json_reads :: "json_env \<Rightarrow> json \<Rightarrow> bool" where
  "json_reads J v \<longleftrightarrow> jdec J (jenc J v) = Some v \<and> jdec J (jenc J v @ [CHR 0x0A]) = Some v"

definition resolve_json :: "string \<Rightarrow> string \<Rightarrow> json" where
  "resolve_json provider uid = JObj [(''provider'', JStr provider), (''provider_uid'', JStr uid)]"

definition answer_json :: "string \<Rightarrow> json" where
  "answer_json u = JObj [(''user_id'', JStr u)]"

lemma resolve_paths:
  "path_parts ''/internal/identity/resolve'' = [''internal'', ''identity'', ''resolve'']"
  "cleanPath ''/internal/identity/resolve'' = ''/internal/identity/resolve''"
  by code_simp+

lemma auth_mux_resolve:
  assumes "Method r = ''POST''" "Path r = ''/internal/identity/resolve''"
  shows "serve_mux J (auth_routes E token jwks lh mp idn iss) r w s =
    InternalAuth token (resolve_ServeHTTP E (IPtr idn)) (r\<lparr>PathValues := []\<rparr>) w s"
  using assms by (simp add: auth_routes_def mux_defs resolve_paths Let_def)

lemma read_resolve:
  "Option.bind (dec_object (resolve_json p u)) (\<lambda>m. Option.bind (dec_string ''provider'' m) (\<lambda>p. Option.bind (dec_string ''provider_uid'' m) (\<lambda>u. Some (p, u)))) = Some (p, u)"
  by (simp add: resolve_json_def dec_object_def dec_string_def field_vals_def)

lemma read_answer: "Option.bind (dec_object (answer_json u)) (dec_string ''user_id'') = Some u"
  by (simp add: answer_json_def dec_object_def dec_string_def field_vals_def)

text \<open>A request with the token reaches the resolver; what it answers is what the client reads.\<close>

lemma identity_service_answers:
  assumes "token \<noteq> []" "req_header r ''X-Internal-Token'' = token"
    and "Method r = ''POST''" "Path r = ''/internal/identity/resolve''" "Body r = Inr (jenc (aeJson E) (resolve_json p u))"
    and "jdec (aeJson E) (jenc (aeJson E) (resolve_json p u)) = Some (resolve_json p u)" "p \<noteq> []" "u \<noteq> []"
    and "ResolveProviderUser (aeDb E) idn p u (asDb s) = (Inr x, db)"
  shows "\<exists>w. auth_service E token jwks lh mp idn iss rnd r new_writer s = Served w (s\<lparr>asDb := db\<rparr>) \<and>
    final_status w = 200 \<and> WBody w = [BJson (answer_json x)]"
proof -
  let ?mux = "serve_mux (aeJson E) (auth_routes E token jwks lh mp idn iss)"
  have ok: "internalTokenOK r token" using assms(2) by (simp add: internalTokenOK_iff)
  then have "trust_pass token r" by (simp add: trust_pass_def)
  from service_stack [OF this, of ?mux "rnd 0" "rnd 1" "rnd 2"]
  obtain hd w1 where stack: "WSent w1 = None \<and> WBody w1 = [] \<and> (\<forall>k. k \<notin> {''X-Request-Id'', ''Traceparent''} \<longrightarrow> hd k = Header r k) \<and>
      (\<forall>s w'' s'. ?mux (r\<lparr>Header := hd\<rparr>) w1 s = Served w'' s' \<longrightarrow>
        Chain ?mux [GatewayTrust token, RequestID_mw (rnd 0), Recover, AccessLog, TraceContext (rnd 1) (rnd 2)] r new_writer s = Served w'' s')"
    by (elim exE)
  then have w1: "WSent w1 = None" "WBody w1 = []"
    and hd: "\<And>k. k \<notin> {''X-Request-Id'', ''Traceparent''} \<Longrightarrow> hd k = Header r k"
    and run: "\<And>w'' s'. ?mux (r\<lparr>Header := hd\<rparr>) w1 s = Served w'' s' \<Longrightarrow>
      auth_service E token jwks lh mp idn iss rnd r new_writer s = Served w'' s'"
    unfolding auth_service_def by simp_all
  let ?r = "r\<lparr>Header := hd, PathValues := []\<rparr>"
  have tok: "internalTokenOK ?r token"
    using assms(2) hd [of "''X-Internal-Token''"] by (simp add: internalTokenOK_iff req_header_def hdr_get_def)
  have "?mux (r\<lparr>Header := hd\<rparr>) w1 s = resolve_ServeHTTP E (IPtr idn) ?r w1 s"
    using assms(1,3,4) tok by (simp add: auth_mux_resolve InternalAuth_def)
  also have "\<dots> = Served (respond_JSON 200 (answer_json x) w1) (s\<lparr>asDb := db\<rparr>)"
    using assms(5-9) read_resolve [of p u] by (simp add: resolve_ServeHTTP_def Let_def answer_json_def)
  finally have "auth_service E token jwks lh mp idn iss rnd r new_writer s = Served (respond_JSON 200 (answer_json x) w1) (s\<lparr>asDb := db\<rparr>)"
    by (rule run)
  with w1 show ?thesis by simp
qed

lemma resolver_over_http:
  assumes "res_token c = token" "token \<noteq> []" "badURL (aeJson E) (res_baseURL c @ ''/internal/identity/resolve'') = None"
    and "u \<noteq> []" "x \<noteq> []" "json_reads (aeJson E) (resolve_json ''logto'' u)" "json_reads (aeJson E) (answer_json x)"
    and "ResolveProviderUser (aeDb E) idn ''logto'' u (asDb s) = (Inr x, db)"
  shows "ResolveLogto (aeJson E) (identity_client E token jwks lh mp idn iss rnd False) (Some c) u rid s = (Inr x, s\<lparr>asDb := db\<rparr>)"
proof -
  define h where "h = (let h = hdr_set ''X-Internal-Token'' token (hdr_set ''Content-Type'' ''application/json'' Map.empty)
    in if rid \<noteq> [] then hdr_set HeaderRequestID rid h else h)"
  let ?out = "\<lparr>OMethod = ''POST'', OURL = res_baseURL c @ ''/internal/identity/resolve'', OHeader = h,
    OBody = jenc (aeJson E) (resolve_json ''logto'' u)\<rparr>"
  have r: "req_header (identity_request ?out) ''X-Internal-Token'' = token" "Method (identity_request ?out) = ''POST''"
    "Path (identity_request ?out) = ''/internal/identity/resolve''" "Body (identity_request ?out) = Inr (jenc (aeJson E) (resolve_json ''logto'' u))"
    by (simp_all add: identity_request_def h_def req_header_def hdr_get_set header_names Let_def)
  obtain w where w: "auth_service E token jwks lh mp idn iss rnd (identity_request ?out) new_writer s = Served w (s\<lparr>asDb := db\<rparr>)"
    "final_status w = 200" "WBody w = [BJson (answer_json x)]"
    using identity_service_answers [OF assms(2) r _ _ assms(4,8), of jwks lh mp iss rnd] assms(6) by (auto simp: json_reads_def)
  have "identity_client E token jwks lh mp idn iss rnd False ?out s = (Inr (200, Inr (jenc (aeJson E) (answer_json x) @ [CHR 0x0A])), s\<lparr>asDb := db\<rparr>)"
    by (simp add: identity_client_def w body_text_def)
  moreover have "Option.bind (Option.bind (jdec (aeJson E) (jenc (aeJson E) (answer_json x) @ [CHR 0x0A])) dec_object) (dec_string ''user_id'') = Some x"
    using assms(7) read_answer [of x] by (simp add: json_reads_def)
  ultimately show ?thesis
    using assms(1-3,5) by (simp add: ResolveLogto_def res_resolve_def Let_def h_def resolve_json_def [symmetric])
qed

section \<open>Requests with a token at the gateway\<close>

text \<open>A request whose token is accepted is forwarded with the identity that comes out of the mapping of its subject.\<close>

lemma bearer_forwarded:
  assumes "bearer_token r = Some tok" "aVerifier A = Some v" "Verify (eJwt B) (eNow B) v tok = Inr verified" "ridb \<noteq> []"
    and map: "mapPlatformUserID (eJson B) (eHttp B) (aResolver A) (verified\<lparr>RequestID := NewRequestID ridb\<rparr>) (NewRequestID ridb) (bNet gs) = (idn, n)"
    and "Subject verified \<noteq> []" "\<not> RequiresRevocationCheck (aSensitive A) (Path r)"
  shows "Authenticate B A ridb evb h r w gs = h (r\<lparr>Header := Inject idn (StripUntrusted (Header r))\<rparr>)
    (SetRespHeader HeaderRequestID (NewRequestID ridb) w) (gs\<lparr>bNet := n\<rparr>)"
proof -
  let ?rid = "NewRequestID ridb"
  have "HasPrefix (req_header r ''Authorization'') ''Bearer ''"
    "TrimSpace (TrimPrefix (req_header r ''Authorization'') ''Bearer '') = tok"
    using assms(1) by (auto simp: bearer_token_def Let_def split: if_splits)
  moreover have "verifier_Enabled v" using assms(3) by (auto simp: Verify_def split: if_splits)
  moreover have subj: "Subject idn \<noteq> []" "RequestID idn = ?rid" using mapPlatformUserID_spec [OF map] assms(6) by auto
  ultimately have "credentials B A (stamped ridb r) ?rid gs = (Go_on idn True [], gs\<lparr>bNet := n\<rparr>)"
    using assms(2,3) map by (simp add: credentials_def Let_def hdr_get_stamped identity_keys_def)
  then have adm: "auth_admit B A ridb r w gs =
      Some (r\<lparr>Header := Inject idn (Header (stamped ridb r))\<rparr>, SetRespHeader HeaderRequestID ?rid w, gs\<lparr>bNet := n\<rparr>)"
    using assms(7) by (simp add: auth_admit_def revoked_on_def)
  have "?rid \<noteq> []" using assms(4) by (simp add: NewRequestID_def)
  then have "Inject idn (Header (stamped ridb r)) = Inject idn (StripUntrusted (Header r))"
    using hdr_set_before_Inject [of idn ?rid "Header r"] subj(2) by (simp add: stamped_def)
  with edge.admitted [OF adm, of evb h] show ?thesis by simp
qed

lemma bearer_resolved:
  assumes "bearer_token r = Some tok" "aVerifier A = Some v" "Verify (eJwt B) (eNow B) v tok = Inr verified" "ridb \<noteq> []"
    and "Subject verified = sub" "sub \<noteq> []" "UserID verified = [] \<or> UserID verified = sub" "\<not> RequiresRevocationCheck (aSensitive A) (Path r)"
    and "aResolver A = Some c" "res_token c = token" "token \<noteq> []" "badURL (aeJson E) (res_baseURL c @ ''/internal/identity/resolve'') = None"
    and "eJson B = aeJson E" "eHttp B = identity_client E token jwks lh mp (Some True) iss rnd False"
    and "alone (aeDb E)" "\<forall>n. deFault (aeDb E) n = None" "deRand (aeDb E) = Inr b" "hex_encode b \<notin> users (asDb (bNet gs))"
    and x: "get_or_create (owner (asDb (bNet gs))) (''logto'', sub) (hex_encode b) = (x, links)" "x \<noteq> []"
    and "json_reads (aeJson E) (resolve_json ''logto'' sub)" "json_reads (aeJson E) (answer_json x)"
  shows "\<exists>w' gs'. (\<forall>h. Authenticate B A ridb evb h r w gs =
      h (r\<lparr>Header := Inject (verified\<lparr>RequestID := NewRequestID ridb, UserID := x\<rparr>) (StripUntrusted (Header r))\<rparr>) w' gs') \<and>
    owner (asDb (bNet gs')) = links \<and> asRedis (bNet gs') = asRedis (bNet gs)"
proof -
  let ?s = "bNet gs" and ?cl = "identity_client E token jwks lh mp (Some True) iss rnd False"
  obtain db where db: "ResolveProviderUser (aeDb E) (Some True) ''logto'' sub (asDb ?s) = (Inr x, db)" "owner db = links"
    using resolve_implements_directory [OF assms(15-18), of "''logto''" sub] assms(6) x by auto
  have "ResolveLogto (aeJson E) ?cl (Some c) sub (NewRequestID ridb) ?s = (Inr x, ?s\<lparr>asDb := db\<rparr>)"
    by (rule resolver_over_http [OF assms(10-12,6) x(2) assms(21,22) db(1)])
  then have "mapPlatformUserID (eJson B) (eHttp B) (aResolver A) (verified\<lparr>RequestID := NewRequestID ridb\<rparr>) (NewRequestID ridb) ?s =
      (verified\<lparr>RequestID := NewRequestID ridb, UserID := x\<rparr>, ?s\<lparr>asDb := db\<rparr>)"
    using assms(5-7,9,13,14) by (auto simp: mapPlatformUserID_def)
  from bearer_forwarded [OF assms(1-4) this _ assms(8)] assms(5,6) db(2) show ?thesis by (auto intro!: exI)
qed

text \<open>
  C14 The gateway implements the directory of users: a request with a valid token of the identity provider reaches the services
  with the user id that looking up or adding the token's subject in a map gives, and the store at auth-service changes as that map
  does. This goes through both HTTP stacks, the resolver endpoint and the identity store, working without faults and disturbance.
\<close>

theorem edge_implements_directory:
  assumes "bearer_token r = Some tok" "aVerifier A = Some v" "Verify (eJwt B) (eNow B) v tok = Inr verified" "ridb \<noteq> []"
    and "Subject verified = sub" "sub \<noteq> []" "UserID verified = [] \<or> UserID verified = sub" "\<not> RequiresRevocationCheck (aSensitive A) (Path r)"
    and "aResolver A = Some c" "res_token c = token" "token \<noteq> []" "badURL (aeJson E) (res_baseURL c @ ''/internal/identity/resolve'') = None"
    and "eJson B = aeJson E" "eHttp B = identity_client E token jwks lh mp (Some True) iss rnd False"
    and "alone (aeDb E)" "\<forall>n. deFault (aeDb E) n = None" "deRand (aeDb E) = Inr b" "hex_encode b \<notin> users (asDb (bNet gs))"
    and x: "get_or_create (owner (asDb (bNet gs))) (''logto'', sub) (hex_encode b) = (x, links)" "x \<noteq> []"
    and "json_reads (aeJson E) (resolve_json ''logto'' sub)" "json_reads (aeJson E) (answer_json x)"
  shows "\<exists>w' gs'. (\<forall>h. Authenticate B A ridb evb h r w gs =
      h (r\<lparr>Header := Inject (verified\<lparr>RequestID := NewRequestID ridb, UserID := x\<rparr>) (StripUntrusted (Header r))\<rparr>) w' gs') \<and>
    owner (asDb (bNet gs')) = links \<and> asRedis (bNet gs') = asRedis (bNet gs)"
  using assms by (rule bearer_resolved)

section \<open>Mini-program logins\<close>

text \<open>
  C33 A mini-program user is somebody else at the services: the token a login hands out names its user as the subject too, so the
  gateway takes it for a subject of the identity provider, asks for its user, and the services see the user created for it, which
  is not the one the login answered with. The comment of \<^verbatim>\<open>mapPlatformUserID\<close> says that such tokens are left alone.
\<close>

theorem mini_program_user_replaced:
  assumes login: "Login E0 (Some h) q new_writer s = Served w' s'" "final_status w' = 200" "WBody w' = [BJson (login_response tok (mpTTL h) u)]"
    and issuer: "mpIssuer h = IPtr (Some i)" "iss_key i = Some key" "jwt_complete (aeJwt E0) pub" "jwt_exp_law (aeJwt E0)"
    and verifier: "vjwks v = Some kf" "kf ''RS256'' (iss_kid i) = Inr (pub key)"
      "Issuers (vcfg v) = [] \<or> iss_issuer i \<noteq> [] \<and> iss_issuer i \<in> set (Issuers (vcfg v))"
      "Audience (vcfg v) = [] \<or> Audience (vcfg v) = iss_audience i"
    and time: "eNow B < (aeNow E0 + mpTTL h) div time_Second * time_Second" "0 \<le> aeNow E0 + mpTTL h"
      "(aeNow E0 + mpTTL h) div time_Second < 2 ^ 53"
    and req: "bearer_token r = Some tok" "aVerifier A = Some v" "eJwt B = aeJwt E0" "ridb \<noteq> []" "\<not> RequiresRevocationCheck (aSensitive A) (Path r)"
    and path: "aResolver A = Some c" "res_token c = token" "token \<noteq> []" "badURL (aeJson E) (res_baseURL c @ ''/internal/identity/resolve'') = None"
      "eJson B = aeJson E" "eHttp B = identity_client E token jwks lh mp (Some True) iss rnd False" "bNet gs = s'"
    and store: "alone (aeDb E)" "\<forall>n. deFault (aeDb E) n = None" "deRand (aeDb E) = Inr b" "b \<noteq> []" "hex_encode b \<notin> insert u (users (asDb s'))"
    and new: "u \<noteq> []" "owner (asDb s') (''logto'', u) = None"
    and json: "json_reads (aeJson E) (resolve_json ''logto'' u)" "json_reads (aeJson E) (answer_json (hex_encode b))"
  shows "\<exists>idn w2 gs'. (\<forall>hd. Authenticate B A ridb evb hd r w gs = hd (r\<lparr>Header := Inject idn (StripUntrusted (Header r))\<rparr>) w2 gs') \<and>
    UserID idn \<noteq> u \<and> UserID idn \<notin> users (asDb s') \<and> owner (asDb (bNet gs')) (''logto'', u) = Some (UserID idn)"
proof -
  have tok: "AuthVerifier.AccessToken (aeJwt E0) (Some i) u [] [''user''] (aeNow E0) (mpTTL h) = Inr tok"
    by (rule login_mints [OF login(1,2) issuer(1)]) (use login(3) in \<open>simp add: login_response_def\<close>)
  define ver where "ver = mapClaims (base_claims u [] [''user''] (aeNow E0) (mpTTL h))"
  have ver: "Verify (eJwt B) (eNow B) v tok = Inr ver"
    using minted_token_verifies [OF issuer(3,4) tok issuer(2) verifier time] req(3) by (simp add: ver_def)
  have parts: "Subject ver = u" "UserID ver = u" by (simp_all add: ver_def mapClaims_base)
  have fresh: "hex_encode b \<notin> users (asDb (bNet gs))" and idx: "hex_encode b \<noteq> []"
    using store(4,5) path(7) by simp_all
  have get: "get_or_create (owner (asDb (bNet gs))) (''logto'', u) (hex_encode b) = (hex_encode b, (owner (asDb s'))((''logto'', u) \<mapsto> hex_encode b))"
    using new(2) path(7) by (simp add: get_or_create_def)
  obtain w2 gs' where fwd: "\<forall>hd. Authenticate B A ridb evb hd r w gs =
      hd (r\<lparr>Header := Inject (ver\<lparr>RequestID := NewRequestID ridb, UserID := hex_encode b\<rparr>) (StripUntrusted (Header r))\<rparr>) w2 gs'"
    and links: "owner (asDb (bNet gs')) = (owner (asDb s'))((''logto'', u) \<mapsto> hex_encode b)"
    using bearer_resolved [OF req(1,2) ver req(4) parts(1) new(1) disjI2 [OF parts(2)] req(5) path(1-6) store(1-3) fresh get idx json]
    by blast
  show ?thesis
    by (rule exI [of _ "ver\<lparr>RequestID := NewRequestID ridb, UserID := hex_encode b\<rparr>"], rule exI [of _ w2], rule exI [of _ gs'])
      (use fwd links store(5) in auto)
qed

section \<open>Deleted users\<close>

text \<open>A gateway that sees the revocation refuses the user.\<close>

lemma gateway_locks_out:
  assumes gw: "gateway_main L W env = Listening addr g" "coUp (cache_Connect W env)"
    and rs: "rs = rev_NewStore (lDuration L) env True"
    and redis: "redis_laws (eRedis B) view" "redis_up (eRedis B) view"
    and key: "K = rev_prefix rs @ ''sub:'' @ sub" "\<not> HasPrefix K ''gw:rl:''" "sub \<noteq> []"
    and seen: "view (bRedis gs) (eNow B) K \<noteq> None"
    and tok: "bearer_token r = Some tok" "NewVerifier (lKeys L) (auth_ConfigFromEnv env) = Inr v"
      "Verify (eJwt B) (eNow B) v tok = Inr verified" "Subject verified = sub"
    and path: "RequiresRevocationCheck (ResolveSensitivePrefixes env) (Path r)"
  shows "\<exists>w2 gs'. (\<forall>metrics serveFile up. g W' B RL metrics serveFile up rnd r new_writer gs = Served w2 gs') \<and>
    (final_status w2 = 401 \<or> final_status w2 = 429)"
proof -
  obtain token ok where token: "LoadInternalToken env = (token, ok)" by fastforce
  let ?B = "B\<lparr>eOs := env\<rparr>" and ?A = "gateway_auth L env True v token" and ?cfg = "rl_ConfigFromEnv (lFloat L) env"
  let ?k = "NewLimiter env (lOor L) ?cfg True"
  define front where "front next_h = rl_Middleware (eRedis B) RL ?cfg (aEntryAudit ?A) ?k (eNow B) (rnd 0) (rnd 1)
    (Authenticate ?B ?A (rnd 2) (rnd 3) next_h)" for next_h
  have g: "\<exists>next_h. g W' B RL metrics serveFile up rnd r new_writer gs = front next_h r new_writer gs" for metrics serveFile up
    using gw tok(2) token
    by (auto simp: gateway_main_def Let_def gateway_handler_def Chain_Cons front_def dest!: run_service_Listening split: if_splits sum.splits)
  have "\<exists>w2 gs'. (\<forall>next_h. front next_h r new_writer gs = Served w2 gs') \<and> (final_status w2 = 401 \<or> final_status w2 = 429)"
  proof (cases "rl_admit (eRedis B) RL ?cfg ?k (eNow B) r new_writer gs")
    case None
    then have "\<forall>next_h. front next_h r new_writer gs =
        (case rl_reject (eRedis B) RL (aEntryAudit ?A) ?k (eNow B) (rnd 0) (rnd 1) r new_writer gs of (w, s) \<Rightarrow> Served w s)"
      by (simp add: front_def throttle.rejected case_prod_beta)
    then show ?thesis
      by (auto simp: rl_reject_def throttled_def Let_def split: prod.splits)
  next
    case (Some q)
    then obtain s1 where adm: "rl_admit (eRedis B) RL ?cfg ?k (eNow B) r new_writer gs = Some (r, new_writer, s1)"
      and s1: "s1 = gs \<or> (\<exists>ok. limiter_Allow (eRedis B) RL (eNow B) ?k (rl_zone r) (rl_clientIP r) gs = (ok, s1))"
      by (auto simp: rl_admit_def split: if_splits prod.splits)
    have "view (bRedis s1) (eNow B) K \<noteq> None"
      using s1 seen limiter_frame [OF redis order_refl key(2)] by metis
    then have rev: "IsSubjectRevoked (eRedis ?B) (eNow ?B) (Some rs) sub (bRedis s1) = Inr True"
      using redis(2) key(1,3) rs
      by (simp add: IsSubjectRevoked_def rev_exists_def redis_up_def rev_Enabled_def rev_NewStore_def Let_def)
    have A: "aRevocations ?A = Some rs" "rev_rdb rs" "aVerifier ?A = Some v" "aSensitive ?A = ResolveSensitivePrefixes env"
      by (simp_all add: gateway_auth_def rs) (simp add: rev_NewStore_def Let_def)
    have ver: "Verify (eJwt ?B) (eNow ?B) v tok = Inr verified" using tok(3) by simp
    have sens: "RequiresRevocationCheck (aSensitive ?A) (Path r)" using path A(4) by simp
    obtain w2 gs' where "\<forall>next_h. Authenticate ?B ?A (rnd 2) (rnd 3) next_h r new_writer s1 = Served w2 gs'" "final_status w2 = 401"
      using revoked_bearer_refused [OF A(1,2) rev tok(1) A(3) ver tok(4) key(3) sens, of new_writer "rnd 2" "rnd 3"] by auto
    with throttle.admitted [OF adm] show ?thesis by (auto simp: front_def)
  qed
  with g show ?thesis by metis
qed

end
