(* ===== verification/GatewayFrames.thy ===== *)
theory GatewayFrames
  imports Proxy Frames
begin

text \<open>
  What the gateway writes to Redis: sessions, pending logins, revoked session ids and rate counters, each under keys of its
  own, and a session only with data of an accepted login. The theory interprets \<open>frame\<close> on this relation and carries it from the
  Redis operations through the handlers and the middleware stack to any sequence of requests.
\<close>

section \<open>What may be written\<close>

text \<open>From instant \<open>t\<close> on, what is visible under a key is what was, or is allowed by \<open>W\<close>.\<close>

definition rd_within :: "'r view \<Rightarrow> gotime \<Rightarrow> (string \<Rightarrow> string option \<Rightarrow> bool) \<Rightarrow> 'r \<Rightarrow> 'r \<Rightarrow> bool" where
  "rd_within view t W st st' \<longleftrightarrow> (\<forall>t'\<ge>t. \<forall>K. view st' t' K = view st t' K \<or> W K (view st' t' K))"

lemma rd_within_refl [simp]: "rd_within view t W st st"
  by (simp add: rd_within_def)

lemma rd_within_trans: "rd_within view t W a b \<Longrightarrow> rd_within view t W b c \<Longrightarrow> rd_within view t W a c"
  unfolding rd_within_def by metis

text \<open>
  The name spaces of the gateway with its session store \<open>ss\<close> and revocation store \<open>rs\<close>; \<open>acc\<close> says which texts are sessions of
  accepted logins.
\<close>

definition gateway_writes :: "sess_store \<Rightarrow> rev_store option \<Rightarrow> (string \<Rightarrow> bool) \<Rightarrow> string \<Rightarrow> string option \<Rightarrow> bool" where
  "gateway_writes ss rs acc K x \<longleftrightarrow> HasPrefix K ''gw:rl:'' \<or> HasPrefix K ''gw:oidc:state:'' \<or>
     HasPrefix K (sess_prefix ss) \<and> (case x of None \<Rightarrow> True | Some raw \<Rightarrow> acc raw) \<or>
     (case rs of None \<Rightarrow> False | Some rs \<Rightarrow> HasPrefix K (rev_prefix rs @ ''session:''))"

lemma own_keys:
  "gateway_writes ss rs acc (pending_key state) x" "gateway_writes ss rs acc (sess_prefix ss @ sid) None"
  "acc raw \<Longrightarrow> gateway_writes ss rs acc (sess_prefix ss @ sid) (Some raw)"
  "rs = Some rv \<Longrightarrow> gateway_writes ss rs acc (rev_prefix rv @ ''session:'' @ sid) x"
  by (auto simp: gateway_writes_def pending_key_def HasPrefix_def)

text \<open>A key outside the name spaces.\<close>

definition foreign_key :: "sess_store \<Rightarrow> rev_store option \<Rightarrow> string \<Rightarrow> bool" where
  "foreign_key ss rs K \<longleftrightarrow> (\<forall>x. \<not> gateway_writes ss rs (\<lambda>raw. True) K x)"

lemma foreign_key_iff:
  "foreign_key ss rs K \<longleftrightarrow> \<not> HasPrefix K ''gw:rl:'' \<and> \<not> HasPrefix K ''gw:oidc:state:'' \<and> \<not> HasPrefix K (sess_prefix ss) \<and>
     (case rs of None \<Rightarrow> True | Some rs \<Rightarrow> \<not> HasPrefix K (rev_prefix rs @ ''session:''))"
  by (auto simp: foreign_key_def gateway_writes_def split: option.splits)

lemma foreign_same: "rd_within view t (gateway_writes ss rs acc) st st' \<Longrightarrow> foreign_key ss rs K \<Longrightarrow> t \<le> t' \<Longrightarrow> view st' t' K = view st t' K"
  unfolding rd_within_def foreign_key_iff gateway_writes_def by (fastforce split: option.splits)

section \<open>Operations\<close>

lemma rSet_within:
  assumes "redis_laws R view" "redis_up R view" "0 \<le> d" "W k None" "W k (Some v)"
  shows "rd_within view t W st (snd (rSet R t k v d st))"
proof -
  obtain st' where "rSet R t k v d st = (None, st')" using assms(2) by (metis redis_up_def prod.collapse)
  with rSet_view [OF assms(1) this assms(3)] assms(4,5) show ?thesis by (simp add: rd_within_def)
qed

lemma rDel_within:
  assumes "redis_laws R view" "redis_up R view" "W k None"
  shows "rd_within view t W st (snd (rDel R t k st))"
proof -
  obtain st' where "rDel R t k st = (None, st')" using assms(2) by (metis redis_up_def prod.collapse)
  with rDel_view [OF assms(1) this] assms(3) show ?thesis by (simp add: rd_within_def)
qed

lemma sess_Delete_within:
  assumes "redis_laws R view" "redis_up R view"
  shows "rd_within view t (gateway_writes ss rs acc) st (snd (sess_Delete R t (Some ss) sid st))"
  using rDel_within [where W = "gateway_writes ss rs acc", OF assms own_keys(2)] by (simp add: sess_Delete_def)

lemma sess_Get_within:
  assumes "redis_laws R view" "redis_up R view"
  shows "rd_within view t (gateway_writes ss rs acc) st (snd (sess_Get R C t (Some ss) sid st))"
  using sess_Delete_within [OF assms] by (simp add: sess_Get_def split: sum.splits)

lemma sess_Create_within:
  assumes "redis_laws R view" "redis_up R view" "0 \<le> sess_ttl ss" "\<And>raw. marshal C data = Inr raw \<Longrightarrow> acc raw"
  shows "rd_within view t (gateway_writes ss rs acc) st (snd (sess_Create R C t rnd (Some ss) data st))"
proof -
  have "0 \<le> save_ttl t ss data" using assms(3) by (simp add: save_ttl_def Let_def)
  from rSet_within [where W = "gateway_writes ss rs acc", OF assms(1,2) this own_keys(2)] own_keys(3) assms(4)
  have "rd_within view t (gateway_writes ss rs acc) st (snd (sess_save R C t ss sid data st))" for sid by (simp add: sess_save_def split: sum.splits)
  then show ?thesis by (auto simp: sess_Create_def split: sum.splits prod.splits option.splits) (metis snd_conv)+
qed

lemma pending_within:
  assumes "redis_laws R view" "redis_up R view"
  shows "rd_within view t (gateway_writes ss rs acc) st (snd (SavePending R C t so state p st))"
    and "rd_within view t (gateway_writes ss rs acc) st (snd (ConsumePending R C t so state st))"
proof -
  show "rd_within view t (gateway_writes ss rs acc) st (snd (SavePending R C t so state p st))"
    using rSet_within [where W = "gateway_writes ss rs acc", OF assms _ own_keys(1) own_keys(1)] by (simp add: SavePending_def time_unit_defs split: sum.splits)
  show "rd_within view t (gateway_writes ss rs acc) st (snd (ConsumePending R C t so state st))"
    using rDel_within [where W = "gateway_writes ss rs acc", OF assms own_keys(1)] by (simp add: ConsumePending_def Let_def split: sum.splits)
qed

lemma RevokeSession_within:
  assumes "redis_laws R view" "redis_up R view"
  shows "rd_within view t (gateway_writes ss rs acc) st (snd (RevokeSession R t rs sid st))"
proof (cases rs)
  case (Some rv)
  then show ?thesis
    using rSet_within [where W = "gateway_writes ss rs acc", OF assms _ own_keys(4) [OF Some] own_keys(4) [OF Some]] by (simp add: RevokeSession_def rev_set_def)
qed (simp add: RevokeSession_def rev_set_def)

lemma IdentityFromRequest_within:
  assumes "redis_laws R view" "redis_up R view"
  shows "rd_within view t (gateway_writes ss rs acc) st (snd (IdentityFromRequest L R C t r (Some ss) vo st))"
  using sess_Get_within [OF assms, of t ss rs acc st C] sess_Delete_within [OF assms, of t ss rs acc]
  by (auto simp: IdentityFromRequest_def split: option.splits prod.splits sum.splits) (metis rd_within_trans snd_conv)+

section \<open>Handlers\<close>

definition writes_within ::
  "'r view \<Rightarrow> gotime \<Rightarrow> (string \<Rightarrow> string option \<Rightarrow> bool) \<Rightarrow> ('r, 'n, 'z) bff_state_scheme \<Rightarrow> ('r, 'n, 'z) bff_state_scheme \<Rightarrow> bool" where
  "writes_within view t W s s' \<longleftrightarrow> rd_within view t W (bRedis s) (bRedis s')"

interpretation writing: frame "\<lambda>r. True" "writes_within view t W"
  by unfold_locales (auto simp: writes_within_def intro: rd_within_trans)

abbreviation keeps_within :: "'r view \<Rightarrow> gotime \<Rightarrow> (string \<Rightarrow> string option \<Rightarrow> bool) \<Rightarrow> ('r, 'n, 'z) bff_state_scheme handler \<Rightarrow> bool" where
  "keeps_within view t W \<equiv> keeps (\<lambda>r. True) (writes_within view t W)"

text \<open>
  The data of an accepted login: the verifier accepts its token and reads the identity from it, and the token comes from the
  identity provider in exchange for a code, unless the development login is on.
\<close>

definition login_accepted :: "('r, 'n) bff_env \<Rightarrow> bff_handler \<Rightarrow> session_data \<Rightarrow> bool" where
  "login_accepted E h data \<longleftrightarrow> Verify (eJwt E) (eNow E) (hVerifier h) (AccessToken data) = Inr (SIdentity data) \<and>
     (hDevLogin h \<or> (\<exists>code n tokens. fst (ExchangeCode (eJson E) (eUrl E) (eHttp E) (hOidc h) code n) = Inr tokens \<and>
        trAccessToken tokens = AccessToken data))"

definition accepted_texts :: "('r, 'n) bff_env \<Rightarrow> bff_handler \<Rightarrow> string \<Rightarrow> bool" where
  "accepted_texts E h raw \<longleftrightarrow> (\<exists>data. marshal (eData E) data = Inr raw \<and> login_accepted E h data)"

text \<open>The handlers of the browser login, for the session store they were given.\<close>

lemma SignIn_within:
  assumes "redis_laws (eRedis E) view" "redis_up (eRedis E) view"
  shows "keeps_within view (eNow E) (gateway_writes ss rs acc) (SignIn E h)"
proof (rule writing.keepsI)
  fix r w and s :: "('a, 'b, 'c) bff_state_scheme"
  show "writes_within view (eNow E) (gateway_writes ss rs acc) s (hres_state (SignIn E h r w s))"
    using pending_within(1) [OF assms, of "eNow E" ss rs acc]
    by (simp add: SignIn_def Let_def writes_within_def case_prod_beta split: sum.split option.split)
qed

lemma Callback_within:
  assumes "redis_laws (eRedis E) view" "redis_up (eRedis E) view" "hSessions h = Some ss" "0 \<le> sess_ttl ss"
    and acc: "\<And>raw. accepted_texts E h raw \<Longrightarrow> acc raw"
  shows "keeps_within view (eNow E) (gateway_writes ss rs acc) (Callback E h)"
proof (rule writing.keepsI)
  fix r w and s :: "('a, 'b, 'c) bff_state_scheme"
  let ?W = "gateway_writes ss rs acc"
  have 1: "rd_within view (eNow E) ?W (bRedis s) (snd (ConsumePending (eRedis E) (ePending E) (eNow E) (Some ss) state (bRedis s)))" for state
    by (rule pending_within(2) [OF assms(1,2)])
  have 2: "rd_within view (eNow E) ?W (bRedis s) (snd (sess_Create (eRedis E) (eData E) (eNow E) rnd (Some ss) data
      (snd (ConsumePending (eRedis E) (ePending E) (eNow E) (Some ss) state (bRedis s)))))" if "login_accepted E h data" for rnd data state
    by (rule rd_within_trans [OF 1 sess_Create_within [OF assms(1,2,4)]]) (use that acc in \<open>auto simp: accepted_texts_def\<close>)
  have 3: "login_accepted E h \<lparr>AccessToken = trAccessToken tokens, RefreshToken = x, SIdentity = idn, ExpiresAt = e\<rparr>"
    if "fst (ExchangeCode (eJson E) (eUrl E) (eHttp E) (hOidc h) code n) = Inr tokens"
      "Verify (eJwt E) (eNow E) (hVerifier h) (trAccessToken tokens) = Inr idn" for tokens x idn e code n
    using that by (auto simp: login_accepted_def)
  have 4: "trAccessToken tokens \<noteq> []" if "fst (ExchangeCode (eJson E) (eUrl E) (eHttp E) (hOidc h) code n) = Inr tokens" for tokens code n
    using that ExchangeCode_AccessToken by (metis prod.collapse)
  show "writes_within view (eNow E) ?W s (hres_state (Callback E h r w s))"
    using 1 2 3 4 by (simp add: Callback_def Let_def writes_within_def assms(3) case_prod_beta split: sum.split)
qed

lemma SignOut_within:
  assumes "redis_laws (eRedis E) view" "redis_up (eRedis E) view" "hSessions h = Some ss"
  shows "keeps_within view (eNow E) (gateway_writes ss (hRevocations h) acc) (SignOut E h)"
proof (rule writing.keepsI)
  fix r w and s :: "('a, 'b, 'c) bff_state_scheme"
  let ?W = "gateway_writes ss (hRevocations h) acc"
  have del: "rd_within view (eNow E) ?W (bRedis s) (snd (sess_Delete (eRedis E) (eNow E) (Some ss) c (bRedis s)))" for c
    by (rule sess_Delete_within [OF assms(1,2)])
  have "rd_within view (eNow E) ?W (bRedis s)
      (snd (RevokeSession (eRedis E) (eNow E) (hRevocations h) c (snd (sess_Delete (eRedis E) (eNow E) (Some ss) c (bRedis s)))))" for c
    by (rule rd_within_trans [OF del RevokeSession_within [OF assms(1,2)]])
  with del show "writes_within view (eNow E) ?W s (hres_state (SignOut E h r w s))"
    using assms(3) by (auto simp: SignOut_def Let_def writes_within_def split: option.splits)
qed

lemma DevSignIn_state:
  "hres_state (DevSignIn E h r w s) = s \<or> (\<exists>data. login_accepted E h data \<and> hres_state (DevSignIn E h r w s) =
    s\<lparr>bRedis := snd (sess_Create (eRedis E) (eData E) (eNow E) (eRandom E 0) (hSessions h) data (bRedis s))\<rparr>)"
proof -
  obtain tok where tok: "DevToken (eJwt E) (hAuthCfg h) (if query_get r ''user_id'' = [] then ''dev-user'' else query_get r ''user_id'')
      (if query_get r ''tenant_id'' = [] then ''dev-tenant'' else query_get r ''tenant_id'') (devRolesFromQuery (query_get r ''roles'')) (eNow E)
      (24 * time_Hour) = tok" by simp
  show ?thesis
    unfolding DevSignIn_def Let_def tok
    by (simp add: case_prod_beta split: sum.split) (auto simp: login_accepted_def split: sum.splits intro!: exI)
qed

lemma DevSignIn_within:
  assumes "redis_laws (eRedis E) view" "redis_up (eRedis E) view" "hSessions h = Some ss" "0 \<le> sess_ttl ss"
    and acc: "\<And>raw. accepted_texts E h raw \<Longrightarrow> acc raw"
  shows "keeps_within view (eNow E) (gateway_writes ss rs acc) (DevSignIn E h)"
proof (rule writing.keepsI)
  fix r w and s :: "('a, 'b, 'c) bff_state_scheme"
  have "rd_within view (eNow E) (gateway_writes ss rs acc) (bRedis s) (snd (sess_Create (eRedis E) (eData E) (eNow E) rnd (Some ss) data (bRedis s)))"
    if "login_accepted E h data" for rnd data
    by (rule sess_Create_within [OF assms(1,2,4)]) (use that acc in \<open>auto simp: accepted_texts_def\<close>)
  with DevSignIn_state [of E h r w s] assms(3)
  show "writes_within view (eNow E) (gateway_writes ss rs acc) s (hres_state (DevSignIn E h r w s))"
    by (auto simp: writes_within_def)
qed

lemma pure_within: "keeps_within view t W (\<lambda>r w s. Served (f r w) s)"
  by (rule writing.keepsI) (simp add: writes_within_def)

section \<open>The middlewares of the gateway\<close>

lemma credentials_within:
  assumes "redis_laws (eRedis E) view" "redis_up (eRedis E) view" "aSessions A = Some ss"
  shows "writes_within view (eNow E) (gateway_writes ss rs acc) s (snd (credentials E A r rid s))"
proof (cases "HasPrefix (req_header r ''Authorization'') ''Bearer ''")
  case True
  then have "bRedis (snd (credentials E A r rid s)) = bRedis s"
    by (simp add: credentials_def Let_def split: option.split sum.split prod.split)
  then show ?thesis by (simp add: writes_within_def)
next
  case False
  obtain x rd where id: "IdentityFromRequest (eJwt E) (eRedis E) (eData E) (eNow E) r (aSessions A) (aVerifier A) (bRedis s) = (x, rd)"
    by fastforce
  have "rd_within view (eNow E) (gateway_writes ss rs acc) (bRedis s) rd"
    using IdentityFromRequest_within [OF assms(1,2), of "eNow E" ss rs acc "bRedis s" "eJwt E" "eData E" r "aVerifier A"] id assms(3) by simp
  moreover have "bRedis (snd (credentials E A r rid s)) = bRedis s \<or> bRedis (snd (credentials E A r rid s)) = rd"
    using False by (cases x) (auto simp: credentials_def Let_def id split: prod.split)
  ultimately show ?thesis by (auto simp: writes_within_def)
qed

lemma Authenticate_within:
  assumes "redis_laws (eRedis E) view" "redis_up (eRedis E) view" "aSessions A = Some ss"
    and "keeps_within view (eNow E) (gateway_writes ss rs acc) h"
  shows "keeps_within view (eNow E) (gateway_writes ss rs acc) (Authenticate E A ridb evb h)"
proof (rule writing.keeps_guard [where mw = "Authenticate E A ridb evb" and admit = "auth_admit E A ridb"
      and reject = "auth_reject E A ridb evb", OF edge.guard_law _ _ assms(4)])
  fix r w and s :: "('a, 'b, 'c) gw_scheme"
  let ?W = "gateway_writes ss rs acc"
  note cred = credentials_within [OF assms(1-3), of rs acc s "stamped ridb r" "NewRequestID ridb"]
  show "writes_within view (eNow E) ?W s s' \<and> True = True" if "auth_admit E A ridb r w s = Some (r', w', s')" for r' w' s'
    using that cred by (auto simp: auth_admit_def split: prod.splits cred.splits if_splits)
  show "writes_within view (eNow E) ?W s (snd (auth_reject E A ridb evb r w s))" if "auth_admit E A ridb r w s = None"
    using cred that
    by (auto simp: auth_reject_def Authenticate_def stamped_def auth_admit_def revoked_on_def emit_entry_def writes_within_def Let_def
        split: prod.splits cred.splits option.splits if_splits)
qed

lemma limiter_within:
  assumes "redis_laws R view" "redis_up R view"
  shows "writes_within view t (gateway_writes ss rs acc) s (snd (limiter_Allow R RL t k zone ip s))"
  unfolding writes_within_def rd_within_def gateway_writes_def
  using limiter_frame [OF assms _ _ prod.collapse [symmetric]] by blast

lemma rl_Middleware_within:
  assumes "redis_laws R view" "redis_up R view" "keeps_within view t (gateway_writes ss rs acc) h"
  shows "keeps_within view t (gateway_writes ss rs acc) (rl_Middleware R RL cfg em k t ridb evb h)"
proof (rule writing.keeps_guard [where mw = "rl_Middleware R RL cfg em k t ridb evb" and admit = "rl_admit R RL cfg k t"
      and reject = "rl_reject R RL em k t ridb evb", OF throttle.guard_law _ _ assms(3)])
  fix r w and s :: "('a, 'b, 'c) gwl"
  let ?W = "gateway_writes ss rs acc"
  note lim = limiter_within [OF assms(1,2), of t ss rs acc s RL k "rl_zone r" "rl_clientIP r"]
  show "writes_within view t ?W s s' \<and> True = True" if "rl_admit R RL cfg k t r w s = Some (r', w', s')" for r' w' s'
    using that lim by (auto simp: rl_admit_def writes_within_def split: prod.splits if_splits)
  show "writes_within view t ?W s (snd (rl_reject R RL em k t ridb evb r w s))"
    using lim by (simp add: rl_reject_def throttled_def writes_within_def Let_def)
qed

section \<open>The gateway\<close>

text \<open>The metrics handler, the file server and the upstreams do not write to the gateway's Redis.\<close>

definition outside_quiet :: "('r, 'n, 'l) gwl gw_routes \<Rightarrow> bool" where
  "outside_quiet G \<longleftrightarrow> (\<forall>r w s. bRedis (hres_state (grMetrics G r w s)) = bRedis s) \<and>
     (\<forall>p r w s. bRedis (hres_state (grServeFile G p r w s)) = bRedis s) \<and> (\<forall>u r w s. bRedis (hres_state (grUp G u r w s)) = bRedis s)"

lemma outside_within:
  assumes "outside_quiet G"
  shows "keeps_within view t W (grMetrics G)" "keeps_within view t W (admin_Handler (grStat G) (grServeFile G) dir)"
    "keeps_within view t W (ComposeAPIAndSite (router_ServeHTTP (grUp G) (grRouter G)) (grUp G) (grSite G))"
  using assms
  by (auto intro!: writing.keepsI simp: outside_quiet_def writes_within_def admin_Handler_def ComposeAPIAndSite_def site_ServeHTTP_def
      router_ServeHTTP_def Let_def split: option.splits)

lemma gateway_within:
  fixes E :: "('r, 'n) bff_env" and G :: "('r, 'n, 'l) gwl gw_routes"
  assumes laws: "redis_laws (eRedis E) view" "redis_up (eRedis E) view"
    and stores: "aSessions A = Some ss" "hSessions (grBff G) = Some ss" "hRevocations (grBff G) = rs" "0 \<le> sess_ttl ss"
    and acc: "\<And>raw. accepted_texts E (grBff G) raw \<Longrightarrow> acc raw" and out: "outside_quiet G"
  shows "keeps_within view (eNow E) (gateway_writes ss rs acc) (gateway_handler E RL cfg k A rnd G)"
proof -
  let ?keeps = "\<lambda>h :: ('r, 'n, 'l) gwl handler. keeps_within view (eNow E) (gateway_writes ss rs acc) h"
  have bff: "?keeps (SignIn E (grBff G))" "?keeps (Callback E (grBff G))" "?keeps (SignOut E (grBff G))" "?keeps (DevSignIn E (grBff G))"
    using SignIn_within [OF laws] Callback_within [OF laws stores(2,4) acc] DevSignIn_within [OF laws stores(2,4) acc]
      SignOut_within [OF laws stores(2)] stores(3) by auto
  have "?keeps (gateway_mux E G)"
    unfolding gateway_mux_def
  proof (rule writing.keeps_mux)
    fix rt assume "rt \<in> set (gateway_patterns E G)"
    then show "?keeps (rtHandler rt)"
      using bff outside_within [OF out, of view "eNow E" "gateway_writes ss rs acc"] pure_within
      by (auto simp: gateway_patterns_def health_routes_def split: if_splits)
  qed
  then have "?keeps (Recover (TraceContext (rnd 4) (rnd 5) (gateway_mux E G)))"
    by (intro writing.keeps_recover writing.keeps_trace)
  then have "?keeps (Authenticate E A (rnd 2) (rnd 3) (Recover (TraceContext (rnd 4) (rnd 5) (gateway_mux E G))))"
    by (rule Authenticate_within [OF laws stores(1)])
  from rl_Middleware_within [OF laws this] show ?thesis
    by (simp add: gateway_handler_def Chain_def numeral_eq_Suc)
qed

text \<open>Requests in the order of their instants; the relation holds from the last of them on.\<close>

lemma serve_all_within:
  assumes "\<And>e. e \<in> fst ` set qs \<Longrightarrow> keeps_within view (now e) W (service e)" "\<forall>e\<in>fst ` set qs. now e \<le> t"
  shows "writes_within view t W s (serve_all service qs s)"
  using assms
proof (induction service qs s rule: serve_all.induct)
  case (2 service e r qs s)
  have "writes_within view (now e) W s (hres_state (service e r new_writer s))" using 2(2) by (simp add: keeps_def)
  then have "writes_within view t W s (hres_state (service e r new_writer s))" using 2(3) by (auto simp: writes_within_def rd_within_def)
  moreover have "writes_within view t W (hres_state (service e r new_writer s)) (serve_all service qs (hres_state (service e r new_writer s)))"
    using 2 by simp
  ultimately show ?case using writing.frame_trans by auto
qed (simp add: writes_within_def)

end
