(* ===== verification/GatewayTraffic.thy ===== *)
theory GatewayTraffic
  imports EndToEnd GatewayFrames
begin

text \<open>
  The gateway as \<^verbatim>\<open>main\<close> builds it under any sequence of requests: what its Redis server can come to hold, and what stays as it was.
\<close>

section \<open>Traffic\<close>

text \<open>The circumstances a request meets at the gateway: servers, libraries, what is outside the repository, random bytes.\<close>

type_synonym ('r, 'n, 'l) gw_circumstances =
  "world \<times> ('r, 'n) bff_env \<times> 'l rate_lib \<times> ('r, 'n, 'l) gwl handler \<times> (string \<Rightarrow> ('r, 'n, 'l) gwl handler) \<times> (string \<Rightarrow> ('r, 'n, 'l) gwl handler)
    \<times> (nat \<Rightarrow> bytes)"

definition circ_now :: "('r, 'n, 'l) gw_circumstances \<Rightarrow> gotime" where
  "circ_now c = (case c of (W, B, RL, metrics, serveFile, up, rnd) \<Rightarrow> eNow B)"

text \<open>The Redis server is \<open>R\<close>, and what is outside does not write to it.\<close>

definition circ_quiet :: "'r redis \<Rightarrow> ('r, 'n, 'l) gw_circumstances \<Rightarrow> bool" where
  "circ_quiet R c \<longleftrightarrow> (case c of (W, B, RL, metrics, serveFile, up, rnd) \<Rightarrow> eRedis B = R \<and>
     (\<forall>r w s. bRedis (hres_state (metrics r w s)) = bRedis s) \<and> (\<forall>p r w s. bRedis (hres_state (serveFile p r w s)) = bRedis s) \<and>
     (\<forall>u r w s. bRedis (hres_state (up u r w s)) = bRedis s))"

definition serve_gateway ::
  "(world \<Rightarrow> ('r, 'n) bff_env \<Rightarrow> 'l rate_lib \<Rightarrow> ('r, 'n, 'l) gwl handler \<Rightarrow> (string \<Rightarrow> ('r, 'n, 'l) gwl handler)
      \<Rightarrow> (string \<Rightarrow> ('r, 'n, 'l) gwl handler) \<Rightarrow> (nat \<Rightarrow> bytes) \<Rightarrow> ('r, 'n, 'l) gwl handler)
    \<Rightarrow> (('r, 'n, 'l) gw_circumstances \<times> request) list \<Rightarrow> ('r, 'n, 'l) gwl \<Rightarrow> ('r, 'n, 'l) gwl" where
  "serve_gateway g = serve_all (\<lambda>(W, B, RL, metrics, serveFile, up, rnd). g W B RL metrics serveFile up rnd)"

text \<open>
  Whatever the gateway serves, it writes to Redis only what \<open>gateway_writes\<close> allows: sessions only of logins accepted while it ran.
\<close>

definition circ_accepts :: "osenv \<Rightarrow> verifier \<Rightarrow> session_data \<Rightarrow> ('r, 'n, 'l) gw_circumstances \<Rightarrow> bool" where
  "circ_accepts env v data c \<longleftrightarrow> (case c of (W, B, RL, metrics, serveFile, up, rnd) \<Rightarrow>
     Verify (eJwt B) (eNow B) v (AccessToken data) = Inr (SIdentity data) \<and>
     (Env env ''GATEWAY_BFF_DEV_LOGIN'' [] = ''true'' \<or>
      (\<exists>code n tokens. fst (ExchangeCode (eJson B) (eUrl B) (eHttp B) (oidc_ConfigFromEnv env) code n) = Inr tokens \<and>
        trAccessToken tokens = AccessToken data)))"

definition circ_codec :: "('r, 'n, 'l) gw_circumstances \<Rightarrow> session_data codec" where
  "circ_codec c = (case c of (W, B, RL, metrics, serveFile, up, rnd) \<Rightarrow> eData B)"

lemma gateway_run_within:
  assumes gw: "gateway_main L W env = Listening addr g" "coUp (cache_Connect W env)" "NewVerifier (lKeys L) (auth_ConfigFromEnv env) = Inr v"
    and laws: "redis_laws R view" "redis_up R view"
    and stores: "ss = sess_NewStore (lDuration L) env True" "0 \<le> sess_ttl ss" "rs = rev_NewStore (lDuration L) env True"
    and qs: "\<forall>c\<in>fst ` set qs. circ_quiet R c \<and> circ_now c \<le> t"
  shows "writes_within view t (gateway_writes ss (Some rs)
      (\<lambda>raw. \<exists>c\<in>fst ` set qs. \<exists>data. marshal (circ_codec c) data = Inr raw \<and> circ_accepts env v data c)) s (serve_gateway g qs s)"
  unfolding serve_gateway_def
proof (rule serve_all_within)
  let ?acc = "\<lambda>raw. \<exists>c\<in>fst ` set qs. \<exists>data. marshal (circ_codec c) data = Inr raw \<and> circ_accepts env v data c"
  fix c assume c: "c \<in> fst ` set qs"
  obtain W' B RL metrics serveFile up rnd where parts: "c = (W', B, RL, metrics, serveFile, up, rnd)" by (metis prod_cases7)
  have quiet: "circ_quiet R c" using qs(1) c by blast
  obtain token rt site cfg where g: "g W' B RL metrics serveFile up rnd =
      gateway_handler (B\<lparr>eOs := env\<rparr>) RL cfg (NewLimiter env (lOor L) cfg True) (gateway_auth L env True v token) rnd
        (gateway_wiring L env True v rt site (RegisterHealth (lText L) W' ''redis'' (cache_Connect W env) []) metrics serveFile up)"
    using gw by (auto simp: gateway_main_def Let_def dest!: run_service_Listening split: if_splits sum.splits prod.splits)
  have "keeps_within view (eNow (B\<lparr>eOs := env\<rparr>)) (gateway_writes ss (Some rs) ?acc) (gateway_handler (B\<lparr>eOs := env\<rparr>) RL cfg
      (NewLimiter env (lOor L) cfg True) (gateway_auth L env True v token) rnd
      (gateway_wiring L env True v rt site (RegisterHealth (lText L) W' ''redis'' (cache_Connect W env) []) metrics serveFile up))"
  proof (rule gateway_within)
    fix raw
    assume "accepted_texts (B\<lparr>eOs := env\<rparr>)
      (grBff (gateway_wiring L env True v rt site (RegisterHealth (lText L) W' ''redis'' (cache_Connect W env) []) metrics serveFile up)) raw"
    then obtain data where "marshal (eData B) data = Inr raw" "circ_accepts env v data c"
      by (auto simp: accepted_texts_def login_accepted_def gateway_wiring_def bff_New_def circ_accepts_def parts)
    moreover have "circ_codec c = eData B" by (simp add: circ_codec_def parts)
    ultimately show "?acc raw" using c by metis
  qed (use laws stores quiet parts in \<open>simp_all add: circ_quiet_def gateway_auth_def gateway_wiring_def bff_New_def outside_quiet_def\<close>)
  then show "keeps_within view (circ_now c) (gateway_writes ss (Some rs) ?acc)
      (case c of (W, B, RL, metrics, serveFile, up, rnd) \<Rightarrow> g W B RL metrics serveFile up rnd)"
    by (simp add: parts g circ_now_def)
qed (use qs in blast)

end
