(* ===== verification/SiteTraffic.thy ===== *)
theory SiteTraffic
  imports GatewayTraffic
begin

text \<open>
  The gateway and auth-service as their \<^verbatim>\<open>main\<close> functions build them, over one Redis server, under any sequence of requests to either:
  logins come and go at the gateway while webhooks revoke users at auth-service.
\<close>

section \<open>One instant\<close>

text \<open>What is visible at instant \<open>T\<close> is what was, or is allowed by \<open>W\<close>.\<close>

definition rd_at :: "'r view \<Rightarrow> gotime \<Rightarrow> (string \<Rightarrow> string option \<Rightarrow> bool) \<Rightarrow> 'r \<Rightarrow> 'r \<Rightarrow> bool" where
  "rd_at view T W st st' \<longleftrightarrow> (\<forall>K. view st' T K = view st T K \<or> W K (view st' T K))"

lemma rd_at_refl [simp]: "rd_at view T W st st"
  by (simp add: rd_at_def)

lemma rd_at_trans: "rd_at view T W a b \<Longrightarrow> rd_at view T W b c \<Longrightarrow> rd_at view T W a c"
  unfolding rd_at_def by metis

lemma rd_within_at: "rd_within view t W st st' \<Longrightarrow> t \<le> T \<Longrightarrow> (\<And>K x. W K x \<Longrightarrow> W' K x) \<Longrightarrow> rd_at view T W' st st'"
  unfolding rd_within_def rd_at_def by blast

section \<open>What auth-service writes\<close>

text \<open>Revoked subjects; \<open>lasting\<close> says that an entry written now is visible at the instant.\<close>

definition auth_writes :: "rev_store \<Rightarrow> bool \<Rightarrow> string \<Rightarrow> string option \<Rightarrow> bool" where
  "auth_writes rs lasting K x \<longleftrightarrow> HasPrefix K (rev_prefix rs @ ''sub:'') \<and> (lasting \<longrightarrow> x = Some ''1'')"

interpretation revoking: frame "\<lambda>r. True" "\<lambda>s s'. rd_at view T W (asRedis s) (asRedis s')"
  by unfold_locales (auto intro: rd_at_trans)

lemma RevokeSubject_at:
  assumes laws: "redis_laws R view" "redis_up R view" and t: "now \<le> T" "lasting \<Longrightarrow> 0 < rev_ttl rs \<Longrightarrow> T < now + px (rev_ttl rs)"
  shows "rd_at view T (auth_writes rs lasting) rd (snd (RevokeSubject R now (Some rs) sub rd))"
proof -
  let ?k = "rev_prefix rs @ ''sub:'' @ sub" and ?d = "if 0 < rev_ttl rs then rev_ttl rs else 0"
  obtain rd' where set: "rSet R now ?k ''1'' ?d rd = (None, rd')" using laws(2) by (metis redis_up_def prod.collapse)
  have "HasPrefix ?k (rev_prefix rs @ ''sub:'')" by (simp add: HasPrefix_def)
  moreover have "lasting \<longrightarrow> ?d = 0 \<or> T < now + px ?d" using t(2) by (cases "0 < rev_ttl rs") auto
  ultimately have "rd_at view T (auth_writes rs lasting) rd rd'"
    using rSet_view [OF laws(1) set _ t(1)] by (auto simp: rd_at_def auth_writes_def)
  moreover have "snd (RevokeSubject R now (Some rs) sub rd) \<in> {rd, rd'}" using set by (auto simp: revocation_defs)
  ultimately show ?thesis by auto
qed

lemma applyRevocation_at:
  assumes laws: "redis_laws R view" "redis_up R view" and t: "now \<le> T" "lasting \<Longrightarrow> 0 < rev_ttl rs \<Longrightarrow> T < now + px (rev_ttl rs)"
    and h: "lhRevocations h = Some rs"
  shows "rd_at view T (auth_writes rs lasting) rd (snd (applyRevocation R now h p uid rd))"
proof -
  have one: "rd_at view T (auth_writes rs lasting) rd1 (snd (RevokeSubject R now (Some rs) sub rd1))" for sub rd1
    by (rule RevokeSubject_at [OF laws t])
  have two: "rd_at view T (auth_writes rs lasting) rd (snd (RevokeSubject R now (Some rs) uid (snd (RevokeSubject R now (Some rs) sub rd))))" for sub
    by (rule rd_at_trans [OF one one])
  show ?thesis
    unfolding applyRevocation_def h case_prod_beta using one two by (auto simp: case_prod_beta split: option.splits)
qed

lemma auth_handlers_at:
  assumes laws: "redis_laws (aeRedis E) view" "redis_up (aeRedis E) view"
    and t: "aeNow E \<le> T" "lasting \<Longrightarrow> 0 < rev_ttl rs \<Longrightarrow> T < aeNow E + px (rev_ttl rs)" and h: "lhRevocations h = Some rs"
  shows "rd_at view T (auth_writes rs lasting) (asRedis s) (asRedis (hres_state (logto_ServeHTTP E h r w s)))"
    and "asRedis (hres_state (resolve_ServeHTTP E st r w s)) = asRedis s"
    and "asRedis (hres_state (Login E mp r w s)) = asRedis s"
proof -
  have "asRedis (hres_state (webhook_process E h p rid w s)) = asRedis s \<or>
      (\<exists>uid. asRedis (hres_state (webhook_process E h p rid w s)) = snd (applyRevocation (aeRedis E) (aeNow E) h p uid (asRedis s)))" for p rid
    by (auto simp: webhook_process_def case_prod_beta split: sum.splits option.splits bool.splits)
  then show "rd_at view T (auth_writes rs lasting) (asRedis s) (asRedis (hres_state (logto_ServeHTTP E h r w s)))"
    using applyRevocation_at [OF laws t h] by (simp add: logto_ServeHTTP_def Let_def split: sum.splits) (metis rd_at_refl)
  show "asRedis (hres_state (resolve_ServeHTTP E st r w s)) = asRedis s"
    by (auto simp: resolve_ServeHTTP_def with_store_def Let_def case_prod_beta split: iface.splits sum.splits option.splits)
  show "asRedis (hres_state (Login E mp r w s)) = asRedis s"
    by (auto simp: Login_def login_user_def Let_def case_prod_beta split: iface.splits sum.splits option.splits)
qed

lemma auth_service_at:
  assumes laws: "redis_laws (aeRedis E) view" "redis_up (aeRedis E) view" and m: "metrics_pure (aeHealth E)"
    and t: "aeNow E \<le> T" "lasting \<Longrightarrow> 0 < rev_ttl rs \<Longrightarrow> T < aeNow E + px (rev_ttl rs)" and h: "lhRevocations lh = Some rs"
  shows "keeps (\<lambda>r. True) (\<lambda>s s'. rd_at view T (auth_writes rs lasting) (asRedis s) (asRedis s')) (auth_service E token J lh mp idn iss rnd)"
  unfolding auth_service_def
proof (rule revoking.keeps_service)
  fix rt
  assume "rt \<in> set (auth_routes E token J lh mp idn iss)"
  then consider "rt \<in> set (health_routes (aeHealth E))" | "rtHandler rt = InternalAuth token (logto_ServeHTTP E lh)"
    | "rtHandler rt = InternalAuth token (resolve_ServeHTTP E (IPtr idn))" | "rtHandler rt = Login E (Some mp)"
    | "rtHandler rt = jwks_ServeHTTP J (Some iss)"
    by (auto simp: auth_routes_def)
  then show "keeps (\<lambda>r. True) (\<lambda>s s'. rd_at view T (auth_writes rs lasting) (asRedis s) (asRedis s')) (rtHandler rt)"
  proof cases
    case 1
    then show ?thesis by (rule revoking.keeps_health [OF m])
  next
    case 2
    then show ?thesis using auth_handlers_at(1) [OF laws t h] by (simp only:) (intro revoking.keeps_internal revoking.keepsI)
  next
    case 3
    then show ?thesis
      by (simp only:) (intro revoking.keeps_internal revoking.keepsI, simp add: auth_handlers_at(2) [OF laws t h])
  qed (simp_all add: revoking.keepsI auth_handlers_at(3) [OF laws t h] jwks_reads)
qed

section \<open>Traffic\<close>

type_synonym ('r, 'm) auth_circumstances = "world \<times> ('r, 'm) auth_env \<times> (nat \<Rightarrow> bytes)"

datatype ('r, 'n, 'm, 'l) site_request =
    AtGateway "('r, 'n, 'l) gw_circumstances" request
  | AtAuth "('r, 'm) auth_circumstances" request

type_synonym ('r, 'n, 'm, 'l) site = "('r, 'n, 'l) gwl \<times> ('r, 'm) auth_state"

text \<open>Both services see the same Redis server.\<close>

fun site_step ::
  "(world \<Rightarrow> ('r, 'n) bff_env \<Rightarrow> 'l rate_lib \<Rightarrow> ('r, 'n, 'l) gwl handler \<Rightarrow> (string \<Rightarrow> ('r, 'n, 'l) gwl handler)
      \<Rightarrow> (string \<Rightarrow> ('r, 'n, 'l) gwl handler) \<Rightarrow> (nat \<Rightarrow> bytes) \<Rightarrow> ('r, 'n, 'l) gwl handler)
    \<Rightarrow> (world \<Rightarrow> ('r, 'm) auth_env \<Rightarrow> (nat \<Rightarrow> bytes) \<Rightarrow> ('r, 'm) auth_state handler)
    \<Rightarrow> ('r, 'n, 'm, 'l) site_request \<Rightarrow> ('r, 'n, 'm, 'l) site \<Rightarrow> ('r, 'n, 'm, 'l) site" where
  "site_step g a (AtGateway c r) (gs, as) = (let gs' = serve_gateway g [(c, r)] gs in (gs', as\<lparr>asRedis := bRedis gs'\<rparr>))"
| "site_step g a (AtAuth (W, E, rnd) r) (gs, as) =
     (let as' = hres_state (a W E rnd r new_writer (as\<lparr>asRedis := bRedis gs\<rparr>)) in (gs\<lparr>bRedis := asRedis as'\<rparr>, as'))"

definition serve_site where
  "serve_site g a qs S = fold (site_step g a) qs S"

text \<open>Requests up to instant \<open>T\<close>, those to auth-service not before \<open>t0\<close>, with nothing else writing to the server.\<close>

fun site_quiet :: "'r redis \<Rightarrow> gotime \<Rightarrow> gotime \<Rightarrow> ('r, 'n, 'm, 'l) site_request \<Rightarrow> bool" where
  "site_quiet R t0 T (AtGateway c r) \<longleftrightarrow> circ_quiet R c \<and> circ_now c \<le> T"
| "site_quiet R t0 T (AtAuth (W, E, rnd) r) \<longleftrightarrow> aeRedis E = R \<and> t0 \<le> aeNow E \<and> aeNow E \<le> T \<and> metrics_pure (aeHealth E)"

text \<open>The circumstances of the requests to the gateway.\<close>

definition gateway_circs :: "('r, 'n, 'm, 'l) site_request list \<Rightarrow> ('r, 'n, 'l) gw_circumstances set" where
  "gateway_circs qs = {c. \<exists>r. AtGateway c r \<in> set qs}"

definition site_writes ::
  "sess_store \<Rightarrow> rev_store \<Rightarrow> osenv \<Rightarrow> verifier \<Rightarrow> ('r, 'n, 'l) gw_circumstances set \<Rightarrow> bool \<Rightarrow> string \<Rightarrow> string option \<Rightarrow> bool" where
  "site_writes ss rs env v cs lasting K x \<longleftrightarrow>
     gateway_writes ss (Some rs) (\<lambda>raw. \<exists>c\<in>cs. \<exists>data. marshal (circ_codec c) data = Inr raw \<and> circ_accepts env v data c) K x \<or>
     auth_writes rs lasting K x"

lemma auth_request_at:
  assumes au: "auth_main L Wa env = Listening addr a" and rs: "rs = rev_NewStore (lDuration L) env True"
    and laws: "redis_laws R view" "redis_up R view"
    and q: "site_quiet R t0 T (AtAuth (W, E, rnd) r)" and last: "lasting \<Longrightarrow> 0 < rev_ttl rs \<Longrightarrow> T < t0 + px (rev_ttl rs)"
  shows "rd_at view T (auth_writes rs lasting) (asRedis s) (asRedis (hres_state (a W E rnd r new_writer s)))"
proof -
  obtain checks token J lh mp st iss up where a: "a W E rnd = auth_service (E\<lparr>aeHealth := (aeHealth E)\<lparr>hcChecks := checks\<rparr>\<rparr>) token J lh mp st iss rnd"
    and lh: "lhRevocations lh = Some (rev_NewStore (lDuration L) env up)"
    using au by (auto simp: auth_main_def Let_def logto_NewHandler_def webhook_config_def dest!: run_service_Listening split: if_splits sum.splits prod.splits)
  let ?rs = "rev_NewStore (lDuration L) env up"
  have same: "rev_ttl ?rs = rev_ttl rs" "auth_writes ?rs = auth_writes rs"
    by (simp_all add: rs rev_NewStore_def Let_def auth_writes_def fun_eq_iff)
  let ?E = "E\<lparr>aeHealth := (aeHealth E)\<lparr>hcChecks := checks\<rparr>\<rparr>"
  have "keeps (\<lambda>r. True) (\<lambda>s s'. rd_at view T (auth_writes ?rs lasting) (asRedis s) (asRedis s')) (auth_service ?E token J lh mp st iss rnd)"
  proof (rule auth_service_at [OF _ _ _ _ _ lh])
    show "metrics_pure (aeHealth ?E)" using q by (simp add: metrics_pure_def)
    assume "lasting" "0 < rev_ttl ?rs"
    with last same(1) q show "T < aeNow ?E + px (rev_ttl ?rs)" by simp
  qed (use laws q in simp_all)
  then show ?thesis by (simp add: keeps_def a same(2))
qed

lemma site_step_at:
  assumes gw: "gateway_main L W env = Listening addr g" "coUp (cache_Connect W env)" "NewVerifier (lKeys L) (auth_ConfigFromEnv env) = Inr v"
    and au: "auth_main L Wa env = Listening addr' a" and laws: "redis_laws R view" "redis_up R view"
    and stores: "ss = sess_NewStore (lDuration L) env True" "0 \<le> sess_ttl ss" "rs = rev_NewStore (lDuration L) env True"
    and q: "site_quiet R t0 T q" "\<And>c r. q = AtGateway c r \<Longrightarrow> c \<in> cs" and last: "lasting \<Longrightarrow> 0 < rev_ttl rs \<Longrightarrow> T < t0 + px (rev_ttl rs)"
  shows "rd_at view T (site_writes ss rs env v cs lasting) (bRedis (fst S)) (bRedis (fst (site_step g a q S)))"
proof (cases q)
  case (AtGateway c r)
  have "\<forall>c\<in>fst ` set [(c, r)]. circ_quiet R c \<and> circ_now c \<le> T" using q(1) AtGateway by simp
  from gateway_run_within [OF gw laws stores this, of "fst S"]
  have "rd_at view T (site_writes ss rs env v cs lasting) (bRedis (fst S)) (bRedis (serve_gateway g [(c, r)] (fst S)))"
    unfolding writes_within_def
  proof (rule rd_within_at)
    fix K x
    assume w: "gateway_writes ss (Some rs) (\<lambda>raw. \<exists>c\<in>fst ` set [(c, r)]. \<exists>data. marshal (circ_codec c) data = Inr raw \<and> circ_accepts env v data c) K x"
    have "c \<in> cs" by (rule q(2) [OF AtGateway])
    with w show "site_writes ss rs env v cs lasting K x" unfolding site_writes_def gateway_writes_def by (auto split: option.splits)
  qed simp
  then show ?thesis using AtGateway by (cases S) (simp add: Let_def)
next
  case (AtAuth c r)
  obtain W' E rnd where c: "c = (W', E, rnd)" by (cases c)
  have "rd_at view T (auth_writes rs lasting) (asRedis s) (asRedis (hres_state (a W' E rnd r new_writer s)))" for s
    using auth_request_at [OF au stores(3) laws _ last] q(1) AtAuth c by blast
  then have "rd_at view T (site_writes ss rs env v cs lasting) (asRedis s) (asRedis (hres_state (a W' E rnd r new_writer s)))" for s
    unfolding rd_at_def site_writes_def by blast
  from this [of "(snd S)\<lparr>asRedis := bRedis (fst S)\<rparr>"] show ?thesis using AtAuth c by (cases S) (simp add: Let_def)
qed

lemma serve_site_at:
  assumes gw: "gateway_main L W env = Listening addr g" "coUp (cache_Connect W env)" "NewVerifier (lKeys L) (auth_ConfigFromEnv env) = Inr v"
    and au: "auth_main L Wa env = Listening addr' a" and laws: "redis_laws R view" "redis_up R view"
    and stores: "ss = sess_NewStore (lDuration L) env True" "0 \<le> sess_ttl ss" "rs = rev_NewStore (lDuration L) env True"
    and qs: "\<forall>q\<in>set qs. site_quiet R t0 T q" "gateway_circs qs \<subseteq> cs" and last: "lasting \<Longrightarrow> 0 < rev_ttl rs \<Longrightarrow> T < t0 + px (rev_ttl rs)"
  shows "rd_at view T (site_writes ss rs env v cs lasting) (bRedis (fst S)) (bRedis (fst (serve_site g a qs S)))"
  using qs
proof (induction qs arbitrary: S)
  case (Cons q qs)
  have "rd_at view T (site_writes ss rs env v cs lasting) (bRedis (fst S)) (bRedis (fst (site_step g a q S)))"
    using Cons.prems by (intro site_step_at [OF gw au laws stores _ _ last]) (auto simp: gateway_circs_def)
  moreover have "rd_at view T (site_writes ss rs env v cs lasting) (bRedis (fst (site_step g a q S))) (bRedis (fst (serve_site g a (q # qs) S)))"
    using Cons.IH [of "site_step g a q S"] Cons.prems by (auto simp: serve_site_def gateway_circs_def)
  ultimately show ?case by (rule rd_at_trans)
qed (simp add: serve_site_def)

section \<open>Properties\<close>

text \<open>
  C18 Every session comes from a login: whatever requests the gateway and auth-service serve, a session that is found under a key
  where there was none holds a token the verifier accepted during one of the requests to the gateway, with the identity it read
  from it, and the identity provider gave out that token in exchange for a code, unless the development login is switched on.
\<close>

theorem sessions_come_from_logins:
  assumes gw: "gateway_main L W env = Listening addr g" "coUp (cache_Connect W env)" "NewVerifier (lKeys L) (auth_ConfigFromEnv env) = Inr v"
    and au: "auth_main L Wa env = Listening addr' a"
    and laws: "redis_laws R view" "redis_up R view"
    and stores: "ss = sess_NewStore (lDuration L) env True" "0 \<le> sess_ttl ss" "rs = rev_NewStore (lDuration L) env True"
    and key: "K = sess_prefix ss @ sid" "\<not> HasPrefix K ''gw:rl:''" "\<not> HasPrefix K ''gw:oidc:state:''"
      "\<not> HasPrefix K (rev_prefix rs @ ''session:'')" "\<not> HasPrefix K (rev_prefix rs @ ''sub:'')"
    and start: "view (bRedis gs0) t K = None"
    and traffic: "(gs, as) = serve_site g a qs (gs0, as0)" "\<forall>q\<in>set qs. site_quiet R t0 t q" "\<forall>c\<in>gateway_circs qs. circ_codec c = C"
    and codec: "\<And>d raw. marshal C d = Inr raw \<Longrightarrow> unmarshal C raw = Inr d"
    and found: "sess_Get R C t (Some ss) sid (bRedis gs) = (Inr data, rd)"
  shows "\<exists>c\<in>gateway_circs qs. circ_accepts env v data c"
proof -
  obtain raw where raw: "rGet R t K (bRedis gs) = Inr raw" "unmarshal C raw = Inr data"
    using sess_Get_Inr [OF found] key(1) by blast
  have vis: "view (bRedis gs) t K = Some raw" by (rule rGet_view [OF laws(1) raw(1)])
  let ?W = "site_writes ss rs env v (gateway_circs qs) False"
  have "rd_at view t ?W (bRedis (fst (gs0, as0))) (bRedis (fst (serve_site g a qs (gs0, as0))))"
    by (rule serve_site_at [OF gw au laws stores traffic(2) subset_refl]) simp
  then have "rd_at view t ?W (bRedis gs0) (bRedis gs)" by (simp only: traffic(1) [symmetric] fst_conv)
  then have "view (bRedis gs) t K = view (bRedis gs0) t K \<or> ?W K (view (bRedis gs) t K)" unfolding rd_at_def by blast
  then have "?W K (Some raw)" using vis start by simp
  then have "\<exists>c\<in>gateway_circs qs. \<exists>d. marshal (circ_codec c) d = Inr raw \<and> circ_accepts env v d c"
    using key(2-5) by (simp only: site_writes_def auth_writes_def gateway_writes_def option.case) blast
  then obtain c d where c: "c \<in> gateway_circs qs" "marshal (circ_codec c) d = Inr raw" "circ_accepts env v d c" by blast
  then have "d = data" using codec [of d raw] raw(2) traffic(3) by auto
  with c show ?thesis by blast
qed

text \<open>
  C17 A user deleted at the identity provider stays locked out: once auth-service has accepted the deletion, and whatever requests
  the gateway and auth-service serve afterwards, in any order, every request with a valid token of that subject to a sensitive path
  is answered 401 (or 429 by the rate limiter in front) and reaches no upstream, until the revocation entry expires. Gateway and
  auth-service share the Redis server and the configuration.
\<close>

theorem deleted_user_locked_out:
  assumes gw: "gateway_main L W env = Listening addr g" "coUp (cache_Connect W env)"
    and au: "auth_main L Wa env = Listening addr' a"
    and stores: "rs = rev_NewStore (lDuration L) env True" "lhRevocations h = Some rs" "ss = sess_NewStore (lDuration L) env True" "0 \<le> sess_ttl ss"
    and hook: "webhook_payload E h r0 = Inr p" "pEvent p = ''User.Deleted''" "logtoUserID p \<noteq> []"
      "logto_ServeHTTP E h r0 new_writer s = Served w' s'" "WBody w' = [BJson (JObj [(''status'', JStr ''accepted'')])]"
    and redis: "eRedis B = aeRedis E" "redis_laws (aeRedis E) view" "redis_up (aeRedis E) view"
    and key: "K = rev_prefix rs @ ''sub:'' @ logtoUserID p" "foreign_key ss (Some rs) K"
    and traffic: "bRedis gs0 = asRedis s'" "(gs, as) = serve_site g a qs (gs0, as0)" "\<forall>q\<in>set qs. site_quiet (aeRedis E) (aeNow E) (eNow B) q"
    and time: "aeNow E \<le> eNow B" "rev_ttl rs > 0 \<longrightarrow> eNow B < aeNow E + px (rev_ttl rs)"
    and tok: "bearer_token r = Some tok" "NewVerifier (lKeys L) (auth_ConfigFromEnv env) = Inr v"
      "Verify (eJwt B) (eNow B) v tok = Inr verified" "Subject verified = logtoUserID p"
    and path: "RequiresRevocationCheck (ResolveSensitivePrefixes env) (Path r)"
  shows "\<exists>w2 gs'. (\<forall>metrics serveFile up. g W' B RL metrics serveFile up rnd r new_writer gs = Served w2 gs') \<and>
    (final_status w2 = 401 \<or> final_status w2 = 429)"
proof -
  let ?W = "site_writes ss rs env v (gateway_circs qs) True"
  have start: "view (bRedis gs0) (eNow B) K \<noteq> None"
    using deletion_visible [OF redis(2) stores(2) _ hook time] traffic(1) key(1) stores(1) by (simp add: rev_Enabled_def rev_NewStore_def Let_def)
  have "rd_at view (eNow B) ?W (bRedis (fst (gs0, as0))) (bRedis (fst (serve_site g a qs (gs0, as0))))"
    by (rule serve_site_at [OF gw tok(2) au redis(2,3) stores(3,4,1) traffic(3) subset_refl]) (use time(2) in blast)
  then have "rd_at view (eNow B) ?W (bRedis gs0) (bRedis gs)" by (simp only: traffic(2) [symmetric] fst_conv)
  then have "view (bRedis gs) (eNow B) K = view (bRedis gs0) (eNow B) K \<or> ?W K (view (bRedis gs) (eNow B) K)" unfolding rd_at_def by blast
  moreover have "\<not> gateway_writes ss (Some rs) acc K x" for acc x
    using key(2) unfolding foreign_key_iff gateway_writes_def by (auto split: option.splits)
  ultimately have seen: "view (bRedis gs) (eNow B) K \<noteq> None"
    using start unfolding site_writes_def auth_writes_def by auto
  have rl: "\<not> HasPrefix K ''gw:rl:''" using key(2) by (simp add: foreign_key_iff)
  show ?thesis
    by (rule gateway_locks_out [OF gw stores(1) redis(2,3) [folded redis(1)] key(1) rl hook(3) seen tok path])
qed

end
