(* ===== verification/EndToEndWitnesses.thy ===== *)
theory EndToEndWitnesses
  imports StartupWitnesses Spoofing SiteTraffic
begin

text \<open>
  The properties that span several programs, applied at concrete inputs where their hypotheses hold: one client behind nginx, one
  deployment of the gateway and of auth-service, one mini-program login.
\<close>

section \<open>One client with many addresses\<close>

definition spoofed :: "string \<Rightarrow> request" where
  "spoofed x = req0\<lparr>Path := ''/v1/items'', Header := [''X-Forwarded-For'' \<mapsto> [nginx_forwarded x ''203.0.113.9'']]\<rparr>"

definition spoofed_run :: "(gotime \<times> string \<times> request) list" where
  "spoofed_run = [(0, ''10.0.0.1'', spoofed ''10.0.0.1''), (1, ''10.0.0.2'', spoofed ''10.0.0.2''), (2, ''10.0.0.3'', spoofed ''10.0.0.3'')]"

lemma spoofed_sent: "req_header (spoofed x) ''X-Forwarded-For'' = nginx_forwarded x ''203.0.113.9''"
proof -
  have "CanonicalHeaderKey ''X-Forwarded-For'' = ''X-Forwarded-For''" by code_simp
  then show ?thesis by (simp add: req_header_def spoofed_def hdr_get_def)
qed


section \<open>A deleted user\<close>

definition locked_env :: osenv where
  "locked_env = prod_env(''GATEWAY_DEV_JWT_SECRET'' := ''secret'')"

definition s1_claims :: gomap where
  "s1_claims = [(''sub'', JStr ''s1''), (''exp'', JNum ''1000'')]"

definition s1_bff :: "(mem, unit) bff_env" where
  "s1_bff = env0\<lparr>eJwt := one_jwt ''HS256'' ''secret'' [] s1_claims\<rparr>"

definition locked_verifier :: verifier where
  "locked_verifier = \<lparr>vcfg = auth_ConfigFromEnv locked_env, vjwks = None\<rparr>"

lemma locked_facts:
  "auth_ConfigFromEnv locked_env = \<lparr>Issuers = [], JWKSURLs = [], Audience = [], DevSecret = ''secret''\<rparr>"
  "LoadInternalToken locked_env = (''tok'', True)"
  "rev_NewStore (lDuration lib0) locked_env True = month_revocations" "coUp (cache_Connect world0 locked_env)"
  "RequiresRevocationCheck (ResolveSensitivePrefixes locked_env) ''/v1/files/x''"
  by code_simp+

lemma locked_verifies: "\<exists>idn. Verify (eJwt s1_bff) (eNow s1_bff) locked_verifier ''good'' = Inr idn \<and> Subject idn = ''s1''"
proof -
  have claims: "one_exp s1_claims = Inr (1000 * time_Second)" "Subject (mapClaims s1_claims) = ''s1''" by code_simp+
  then show ?thesis
    by (simp add: Verify_def verifier_Enabled_def locked_verifier_def locked_facts parseWithHMAC_def check_token_def s1_bff_def one_jwt_def
        hmac_keyfunc_def validateStandardClaims_def env0_def time_Second_def)
qed

lemma locked_runs: "run_service L locked_env name addr h = Listening addr h"
  by (rule no_endpoint_listens) code_simp

lemma locked_gateway_listens: "\<exists>addr g. gateway_main lib0 world0 locked_env = Listening addr g"
proof -
  have "NewVerifier (lKeys lib0) (auth_ConfigFromEnv locked_env) = Inr locked_verifier"
    by (simp add: NewVerifier_def locked_facts locked_verifier_def)
  moreover obtain rt where "proxy_New (lParseURL lib0) (gateway_routes locked_env) ''tok'' = Inr rt"
    by (simp add: proxy_New_def gateway_routes_def lib0_def)
  moreover have "\<exists>site. site_FromEnv (lParseURL lib0) locked_env = Inr site"
    by (simp add: site_FromEnv_def lib0_def Let_def)
  then obtain site where "site_FromEnv (lParseURL lib0) locked_env = Inr site" ..
  ultimately show ?thesis by (simp add: gateway_main_def locked_facts(2) locked_runs Let_def)
qed

lemma auth_listens:
  assumes "LoadInternalToken env = (''tok'', True)" "otel_endpoint env = []" "Env env ''AUTH_JWT_PRIVATE_KEY_PEM'' [] = []"
  shows "\<exists>addr a. auth_main lib0 world0 env = Listening addr a"
proof -
  have "\<exists>iss. auth_issuer lib0 env = Inr iss"
    using assms(3) by (simp add: auth_issuer_def NewIssuer_def loadOrGenerateKey_def lib0_def Let_def)
  then obtain iss where "auth_issuer lib0 env = Inr iss" ..
  then show ?thesis using assms(1) by (simp add: auth_main_def world0_migrates no_endpoint_listens [OF assms(2)] Let_def)
qed

text \<open>In between, somebody signs out at the gateway, with nothing outside that answers, and the webhook is delivered again.\<close>

definition between :: "(mem, unit, nat, unit) site_request list" where
  "between = [AtGateway (world0, s1_bff, bucket0, (\<lambda>r w s. Panicked [] w s), (\<lambda>p r w s. Panicked [] w s), (\<lambda>u r w s. Panicked [] w s), (\<lambda>i. [1])) sign_out_req,
     AtAuth (world0, auth0 200, (\<lambda>i. [1])) hook_req]"

theorem deleted_user_locked_out_witness:
  "\<exists>addr g addr' a s' w2 gs'. gateway_main lib0 world0 locked_env = Listening addr g \<and> auth_main lib0 world0 locked_env = Listening addr' a \<and>
     logto_ServeHTTP (auth0 200) logto0 hook_req new_writer authst0 = Served (respond_JSON 202 (JObj [(''status'', JStr ''accepted'')]) new_writer) s' \<and>
     g world0 s1_bff bucket0 (\<lambda>r w s. Panicked [] w s) (\<lambda>p r w s. Panicked [] w s) (\<lambda>u r w s. Panicked [] w s) (\<lambda>i. [1])
       (bearer_req ''/v1/files/x'' ''good'') new_writer (fst (serve_site g a between (limited0\<lparr>bRedis := asRedis s'\<rparr>, s'))) = Served w2 gs' \<and>
     (final_status w2 = 401 \<or> final_status w2 = 429)"
proof -
  obtain addr and g :: "world \<Rightarrow> (mem, unit) bff_env \<Rightarrow> unit rate_lib \<Rightarrow> (mem, unit, unit) gwl handler \<Rightarrow> (string \<Rightarrow> (mem, unit, unit) gwl handler)
      \<Rightarrow> (string \<Rightarrow> (mem, unit, unit) gwl handler) \<Rightarrow> (nat \<Rightarrow> bytes) \<Rightarrow> (mem, unit, unit) gwl handler"
    where g: "gateway_main lib0 world0 locked_env = Listening addr g" using locked_gateway_listens by blast
  have "otel_endpoint locked_env = []" "Env locked_env ''AUTH_JWT_PRIVATE_KEY_PEM'' [] = []" by code_simp+
  then obtain addr' and a :: "world \<Rightarrow> (mem, nat) auth_env \<Rightarrow> (nat \<Rightarrow> bytes) \<Rightarrow> (mem, nat) auth_state handler"
    where a: "auth_main lib0 world0 locked_env = Listening addr' a" using auth_listens [OF locked_facts(2)] by blast
  obtain s' where hook: "logto_ServeHTTP (auth0 200) logto0 hook_req new_writer authst0 =
      Served (respond_JSON 202 (JObj [(''status'', JStr ''accepted'')]) new_writer) s'" using hook_accepted by blast
  obtain idn where idn: "Verify (eJwt s1_bff) (eNow s1_bff) locked_verifier ''good'' = Inr idn" "Subject idn = ''s1''" using locked_verifies by blast
  have user: "logtoUserID deleted_payload = ''s1''" "pEvent deleted_payload = ''User.Deleted''" by code_simp+
  have v: "NewVerifier (lKeys lib0) (auth_ConfigFromEnv locked_env) = Inr locked_verifier"
    by (simp add: NewVerifier_def locked_facts locked_verifier_def)
  have B: "eRedis s1_bff = mem_redis" "eNow s1_bff = time_Second" by (simp_all add: s1_bff_def env0_def)
  have ss: "sess_NewStore (lDuration lib0) locked_env True = day_sessions" by code_simp
  have metrics: "metrics_pure (aeHealth (auth0 200))" by (simp add: metrics_pure_def auth0_def)
  obtain gs as where run: "(gs, as) = serve_site g a between (limited0\<lparr>bRedis := asRedis s'\<rparr>, s')" by (metis surj_pair)
  have quiet: "\<forall>q\<in>set between. site_quiet (aeRedis (auth0 200)) (aeNow (auth0 200)) (eNow s1_bff) q"
    by (simp add: between_def circ_quiet_def circ_now_def B auth0_facts metrics time_Second_def)
  have "\<exists>w2 gs'. (\<forall>metrics serveFile up. g world0 s1_bff bucket0 metrics serveFile up (\<lambda>i. [1]) (bearer_req ''/v1/files/x'' ''good'') new_writer gs =
      Served w2 gs') \<and> (final_status w2 = 401 \<or> final_status w2 = 429)"
    by (rule deleted_user_locked_out [where view = mem_view and p = deleted_payload and E = "auth0 200" and tok = "''good''" and verified = idn
          and v = locked_verifier and ss = day_sessions, OF g locked_facts(4) a locked_facts(3) [symmetric] auth0_facts(5) ss [symmetric] _ hook_payload
          user(2) _ hook _ _ _ _ refl _ _ run quiet])
      (simp_all add: B auth0_facts mem_redis_laws mem_redis_up user bearer_good v idn [unfolded B],
       simp_all add: month_revocations_def day_sessions_def foreign_key_iff HasPrefix_def bearer_req_def locked_facts time_Second_def rev_defaultTTL_def
         time_unit_defs px_def)
  with g a hook run show ?thesis by (metis fst_conv)
qed

section \<open>The gateway and auth-service\<close>

definition edge_docs :: "string \<Rightarrow> string \<Rightarrow> (string \<times> json) list" where
  "edge_docs sub u = [(''q'', resolve_json ''logto'' sub), (''q'' @ [CHR 0x0A], resolve_json ''logto'' sub), (''a'', answer_json u),
     (''a'' @ [CHR 0x0A], answer_json u)]"

lemma edge_reads:
  "json_reads (table_json (edge_docs sub u)) (resolve_json ''logto'' sub)" "json_reads (table_json (edge_docs sub u)) (answer_json u)"
  by (simp_all add: json_reads_def table_json_def edge_docs_def resolve_json_def answer_json_def)

definition edge_auth :: "string \<Rightarrow> bytes \<Rightarrow> (mem, nat) auth_env" where
  "edge_auth sub b = (auth0 200)\<lparr>aeJson := table_json (edge_docs sub (hex_encode b)), aeDb := quiet b\<rparr>"

lemma edge_auth_facts:
  "aeJson (edge_auth sub b) = table_json (edge_docs sub (hex_encode b))" "aeDb (edge_auth sub b) = quiet b" "alone (quiet b)"
  "deRand (quiet b) = Inr b" "deFault (quiet b) n = None"
  by (simp_all add: edge_auth_def quiet_def alone_def)

definition edge_net :: "string \<Rightarrow> bytes \<Rightarrow> (mem, nat) auth_state http_client" where
  "edge_net sub b = identity_client (edge_auth sub b) ''tok'' (\<lambda>i. Inr []) logto0 mp0 (Some True) iss0 (\<lambda>i. [1]) False"

definition edge_bff :: "string \<Rightarrow> bytes \<Rightarrow> jwt_lib \<Rightarrow> (mem, (mem, nat) auth_state) bff_env" where
  "edge_bff sub b jwt = \<lparr>eJwt = jwt, eRedis = mem_redis, eData = one_codec alice_session, ePending = one_codec \<lparr>ReturnTo = ''/home'', Nonce = []\<rparr>,
     eJson = table_json (edge_docs sub (hex_encode b)), eUrl = \<lparr>setQuery = (\<lambda>u q. Inr u), formEncode = (\<lambda>q. [])\<rparr>, eHttp = edge_net sub b,
     eNow = time_Second, eRandom = (\<lambda>i. Inr [7]), eOs = (\<lambda>k. [])\<rparr>"

lemma edge_bff_facts:
  "eJwt (edge_bff sub b jwt) = jwt" "eNow (edge_bff sub b jwt) = time_Second" "eJson (edge_bff sub b jwt) = aeJson (edge_auth sub b)"
  "eHttp (edge_bff sub b jwt) = identity_client (edge_auth sub b) ''tok'' (\<lambda>i. Inr []) logto0 mp0 (Some True) iss0 (\<lambda>i. [1]) False"
  by (simp_all add: edge_bff_def edge_net_def edge_auth_facts)

definition edge_mw :: "verifier \<Rightarrow> auth_mw" where
  "edge_mw v = mw0\<lparr>aVerifier := Some v, aResolver := Some \<lparr>res_baseURL = ''http://auth'', res_token = ''tok''\<rparr>\<rparr>"

lemma edge_mw_facts:
  "aVerifier (edge_mw v) = Some v" "aResolver (edge_mw v) = Some \<lparr>res_baseURL = ''http://auth'', res_token = ''tok''\<rparr>"
  "\<not> RequiresRevocationCheck (aSensitive (edge_mw v)) ''/v1/items''"
  by (simp_all add: edge_mw_def mw0_def) code_simp

definition edge_state :: "(mem, nat) auth_state \<Rightarrow> (mem, (mem, nat) auth_state) gw" where
  "edge_state s = \<lparr>bRedis = Map.empty, bNet = s, gAudit = []\<rparr>"

lemma edge_state_net [simp]: "bNet (edge_state s) = s"
  by (simp add: edge_state_def)

lemma authst0_empty: "owner (asDb authst0) = Map.empty" "users (asDb authst0) = {}"
  by (auto simp: authst0_def fresh_db_def owner_def users_def)

lemma hex_1_2: "hex_encode [1] = ''01''" "hex_encode [2] = ''02''"
  by code_simp+

theorem edge_implements_directory_witness:
  "\<exists>w' gs'. Authenticate (edge_bff ''alice'' [1] dev_jwt) (edge_mw dev_verifier) [1] [2] (\<lambda>r w s. Served w s) (bearer_req ''/v1/items'' ''good'') new_writer
      (edge_state authst0) = Served w' gs' \<and> owner (asDb (bNet gs')) = [(''logto'', ''alice'') \<mapsto> ''01'']"
proof -
  have get: "get_or_create (owner (asDb (bNet (edge_state authst0)))) (''logto'', ''alice'') (hex_encode [1]) = (''01'', [(''logto'', ''alice'') \<mapsto> ''01''])"
    unfolding hex_1_2 by (simp add: get_or_create_def authst0_empty)
  have ver: "Verify (eJwt (edge_bff ''alice'' [1] dev_jwt)) (eNow (edge_bff ''alice'' [1] dev_jwt)) dev_verifier ''good'' = Inr alice"
    by (simp only: edge_bff_facts dev_verify_now)
  have path: "\<not> RequiresRevocationCheck (aSensitive (edge_mw dev_verifier)) (Path (bearer_req ''/v1/items'' ''good''))"
    using edge_mw_facts(3) by (simp add: bearer_req_def)
  have reads: "json_reads (aeJson (edge_auth ''alice'' [1])) (resolve_json ''logto'' ''alice'')" "json_reads (aeJson (edge_auth ''alice'' [1])) (answer_json ''01'')"
    using edge_reads [of "''alice''" "''01''"] unfolding edge_auth_facts hex_1_2 by blast+
  from edge_implements_directory [OF bearer_good(1) edge_mw_facts(1) ver _ _ _ _ path edge_mw_facts(2) _ _ _ edge_bff_facts(3,4) _ _ _ _ get _ reads, of "[1]" "[2]"]
  show ?thesis by (simp add: edge_auth_facts authst0_empty) blast
qed

text \<open>The verifier of the tokens auth-service issues.\<close>

definition login_verifier :: verifier where
  "login_verifier = \<lparr>vcfg = \<lparr>Issuers = [''ting''], JWKSURLs = [''u''], Audience = [], DevSecret = []\<rparr>, vjwks = Some (\<lambda>alg kid. Inr ''key'')\<rparr>"

theorem mini_program_user_replaced_witness:
  "\<exists>w' s' (idn :: Identity) w2 gs'. Login (auth0 200) (Some mp0) (req0\<lparr>Body := Inr ''c''\<rparr>) new_writer authst0 = Served w' s' \<and>
     WBody w' = [BJson (login_response ''good'' time_Hour ''01'')] \<and>
     Authenticate (edge_bff ''01'' [2] (aeJwt (auth0 200))) (edge_mw login_verifier) [1] [2] (\<lambda>r w s. Served w s) (bearer_req ''/v1/items'' ''good'') new_writer
       (edge_state s') = Served w2 gs' \<and> UserID idn \<noteq> ''01'' \<and> owner (asDb (bNet gs')) (''logto'', ''01'') = Some (UserID idn)"
proof -
  let ?w = "respond_JSON 200 (login_response ''good'' time_Hour ''01'') new_writer" and ?B = "edge_bff ''01'' [2] (aeJwt (auth0 200))"
  obtain s' where run: "Login (auth0 200) (Some mp0) (req0\<lparr>Body := Inr ''c''\<rparr>) new_writer authst0 = Served ?w s'"
    and db: "asDb s' = snd (ResolveWeChatUser (quiet [1]) (Some True) ''mock_abc'' [] fresh_db)" using login_runs by blast
  have body: "WBody ?w = [BJson (login_response ''good'' (mpTTL mp0) ''01'')]" by (simp add: mp0_def)
  have calm: "owner (asDb s') (''logto'', ''01'') = None" "hex_encode [2] \<notin> insert ''01'' (users (asDb s'))"
    unfolding db by code_simp+
  have reads: "json_reads (aeJson (edge_auth ''01'' [2])) (resolve_json ''logto'' ''01'')" "json_reads (aeJson (edge_auth ''01'' [2])) (answer_json (hex_encode [2]))"
    using edge_reads [of "''01''" "hex_encode [2]"] unfolding edge_auth_facts by blast+
  have jwt: "jwt_complete (aeJwt (auth0 200)) (\<lambda>k. k)" "jwt_exp_law (aeJwt (auth0 200))" by (simp_all add: auth0_def one_jwt_complete one_jwt_exp_law)
  have "\<exists>idn w2 gs'. (\<forall>hd. Authenticate ?B (edge_mw login_verifier) [1] [2] hd (bearer_req ''/v1/items'' ''good'') new_writer (edge_state s') =
        hd (bearer_req ''/v1/items'' ''good''\<lparr>Header := Inject idn (StripUntrusted (Header (bearer_req ''/v1/items'' ''good'')))\<rparr>) w2 gs') \<and>
      UserID idn \<noteq> ''01'' \<and> UserID idn \<notin> users (asDb s') \<and> owner (asDb (bNet gs')) (''logto'', ''01'') = Some (UserID idn)"
    by (rule mini_program_user_replaced [where i = iss0 and key = "''key''" and v = login_verifier and b = "[2]",
          OF run _ body _ _ jwt _ _ _ _ _ _ _ bearer_good(1) edge_mw_facts(1) _ _ _ edge_mw_facts(2) _ _ _ edge_bff_facts(3,4) _ _ _ _ _ calm(2) _ calm(1) reads])
      (simp_all add: edge_bff_facts edge_auth_facts, simp_all add: mp0_def iss0_def login_verifier_def auth0_facts bearer_req_def edge_mw_facts time_unit_defs)
  then obtain idn w2 gs' where "\<forall>hd. Authenticate ?B (edge_mw login_verifier) [1] [2] hd (bearer_req ''/v1/items'' ''good'') new_writer (edge_state s') =
        hd (bearer_req ''/v1/items'' ''good''\<lparr>Header := Inject idn (StripUntrusted (Header (bearer_req ''/v1/items'' ''good'')))\<rparr>) w2 gs'"
      "UserID idn \<noteq> ''01''" "owner (asDb (bNet gs')) (''logto'', ''01'') = Some (UserID idn)" by blast
  with run show ?thesis by simp blast
qed

section \<open>A login\<close>

definition oidc_env :: osenv where
  "oidc_env = prod_env(''GATEWAY_DEV_JWT_SECRET'' := ''secret'', ''GATEWAY_RATE_LIMIT_ENABLED'' := ''false'', ''OIDC_CLIENT_ID'' := ''c'',
     ''OIDC_CLIENT_SECRET'' := ''s'', ''OIDC_AUTHORIZATION_URL'' := ''http://idp/auth'', ''OIDC_TOKEN_URL'' := ''http://idp/token'')"

text \<open>A codec for one value that refuses every other.\<close>

definition only_codec :: "'a \<Rightarrow> 'a codec" where
  "only_codec x = \<lparr>marshal = (\<lambda>d. if d = x then Inr ''doc'' else Inl (Errorf ''codec'')), unmarshal = (\<lambda>_. Inr x)\<rparr>"

definition sso_env :: "(mem, unit) bff_env" where
  "sso_env = env0\<lparr>eData := only_codec (login_data time_Second tokens0 alice)\<rparr>"

definition sso_run :: "((mem, unit, unit) gw_circumstances \<times> request) list" where
  "sso_run = [((world0, sso_env, bucket0, (\<lambda>r w s. Panicked [] w s), (\<lambda>p r w s. Panicked [] w s), (\<lambda>u r w s. Panicked [] w s), (\<lambda>i. [1])), callback_req)]"

lemma oidc_facts:
  "auth_ConfigFromEnv oidc_env = vcfg dev_verifier" "LoadInternalToken oidc_env = (''tok'', True)" "coUp (cache_Connect world0 oidc_env)"
  "sess_NewStore (lDuration lib0) oidc_env True = day_sessions" "rev_NewStore (lDuration lib0) oidc_env True = month_revocations"
  "RLEnabled (rl_ConfigFromEnv (lFloat lib0) oidc_env) = False" "oidc_Ready (oidc_ConfigFromEnv oidc_env)"
  "admin_ResolveDir (lStat lib0) [Env oidc_env ''ADMIN_STATIC_DIR'' [], ''../node/apps/admin/dist'', ''../../node/apps/admin/dist''] = []"
  "anon_Allows (if anon_IsEmpty (ResolveAnonPrefixes oidc_env) then DefaultAnonPrefixes else ResolveAnonPrefixes oidc_env) ''/callback''"
  by code_simp+

lemma oidc_verifier: "NewVerifier (lKeys lib0) (auth_ConfigFromEnv oidc_env) = Inr dev_verifier"
  by (simp add: NewVerifier_def oidc_facts dev_verifier_def)

lemma oidc_runs: "run_service L oidc_env name addr h = Listening addr h"
  by (rule no_endpoint_listens) code_simp

lemma oidc_gateway_listens: "\<exists>addr g. gateway_main lib0 world0 oidc_env = Listening addr g"
proof -
  obtain rt where "proxy_New (lParseURL lib0) (gateway_routes oidc_env) ''tok'' = Inr rt"
    by (simp add: proxy_New_def gateway_routes_def lib0_def)
  moreover have "\<exists>site. site_FromEnv (lParseURL lib0) oidc_env = Inr site"
    by (simp add: site_FromEnv_def lib0_def Let_def)
  then obtain site where "site_FromEnv (lParseURL lib0) oidc_env = Inr site" ..
  ultimately show ?thesis by (simp add: gateway_main_def oidc_verifier oidc_facts(2) oidc_runs Let_def)
qed

lemma callback_paths: "path_parts ''/callback'' = [''callback'']" "cleanPath ''/callback'' = ''/callback''"
  by code_simp+

lemma gateway_mux_callback:
  assumes "grAdminDir G = []" "Method r = ''GET''" "Path r = ''/callback''"
  shows "gateway_mux E G r w s = Callback E (grBff G) (r\<lparr>PathValues := []\<rparr>) w s"
  using assms by (simp add: gateway_mux_def gateway_patterns_def mux_defs callback_paths Let_def)

text \<open>The gateway hands the callback to its handler, with the headers of nobody.\<close>

lemma sso_callback_reached:
  assumes "gateway_main lib0 world0 oidc_env = Listening addr g"
  shows "\<exists>hd w h. hSessions h = Some day_sessions \<and> hVerifier h = dev_verifier \<and> hOidc h = oidc_ConfigFromEnv oidc_env \<and>
    hres_state (g world0 sso_env bucket0 (\<lambda>r w s. Panicked [] w s) (\<lambda>p r w s. Panicked [] w s) (\<lambda>u r w s. Panicked [] w s) (\<lambda>i. [1]) callback_req new_writer gs) =
    hres_state (Callback (sso_env\<lparr>eOs := oidc_env\<rparr>) h (callback_req\<lparr>Header := hd, PathValues := []\<rparr>) w gs)"
proof -
  let ?E = "sso_env\<lparr>eOs := oidc_env\<rparr>" and ?A = "gateway_auth lib0 oidc_env True dev_verifier ''tok''" and ?w = "SetRespHeader HeaderRequestID (NewRequestID [1]) new_writer"
  obtain rt site cfg where g: "g world0 sso_env bucket0 (\<lambda>r w s. Panicked [] w s) (\<lambda>p r w s. Panicked [] w s) (\<lambda>u r w s. Panicked [] w s) (\<lambda>i. [1]) =
      gateway_handler ?E bucket0 (rl_ConfigFromEnv (lFloat lib0) oidc_env) cfg ?A (\<lambda>i. [1])
        (gateway_wiring lib0 oidc_env True dev_verifier rt site (RegisterHealth (lText lib0) world0 ''redis'' (cache_Connect world0 oidc_env) [])
          (\<lambda>r w s. Panicked [] w s) (\<lambda>p r w s. Panicked [] w s) (\<lambda>u r w s. Panicked [] w s))" (is "_ = gateway_handler _ _ _ _ _ _ ?G")
    using assms oidc_facts(3)
    by (auto simp: gateway_main_def Let_def oidc_verifier oidc_facts(2) dest!: run_service_Listening split: if_splits sum.splits prod.splits)
  let ?r = "callback_req\<lparr>Header := Inject (zero_Identity\<lparr>RequestID := NewRequestID [1]\<rparr>) (Header (stamped [1] callback_req))\<rparr>"
  have nobody: "req_header (stamped [1] callback_req) ''Authorization'' = []"
    by (simp add: hdr_get_stamped identity_keys_def) (simp add: callback_req_def req_header_def hdr_get_def)
  have cookie: "req_cookie callback_req (CookieName (Some day_sessions)) = None" "req_cookie (stamped [1] callback_req) (CookieName (Some day_sessions)) = None"
    by (simp_all add: req_cookie_def stamped_def callback_req_def)
  have "Path callback_req = ''/callback''" by (simp add: callback_req_def)
  then have anon: "anon_Allows (effective_anon ?A) (Path callback_req)"
    using oidc_facts(9) by (simp only: effective_anon_def gateway_auth_def auth_mw.simps)
  have A: "aSessions ?A = Some day_sessions" "aVerifier ?A = Some dev_verifier" "sess_Enabled (Some day_sessions)" "verifier_Enabled dev_verifier"
    by (simp_all add: gateway_auth_def oidc_facts sess_Enabled_def day_sessions_def dev_verifier_def verifier_Enabled_def)
  have id: "IdentityFromRequest (eJwt ?E) (eRedis ?E) (eData ?E) (eNow ?E) (stamped [1] callback_req) (Some day_sessions) (Some dev_verifier) (bRedis gs) =
      (Inl (Errorf ''no session cookie''), bRedis gs)"
    by (simp add: IdentityFromRequest_def cookie A)
  have "credentials ?E ?A (stamped [1] callback_req) (NewRequestID [1]) gs = (Go_on (zero_Identity\<lparr>RequestID := NewRequestID [1]\<rparr>) False [], gs)"
    using id by (simp add: credentials_def Let_def nobody HasPrefix_def A)
  then have "auth_admit ?E ?A [1] callback_req new_writer gs = Some (?r, ?w, gs)"
    using anon by (simp add: auth_admit_def revoked_on_def)
  from edge.admitted [OF this]
  have auth: "Authenticate ?E ?A [1] evb k callback_req new_writer gs = k ?r ?w gs" for evb k .
  obtain hd w' where tr: "EnsureRequest [1] [1] (Inject (zero_Identity\<lparr>RequestID := NewRequestID [1]\<rparr>) (Header (stamped [1] callback_req))) ?w = (hd, w')"
    by fastforce
  have recover: "hres_state (Recover k r w s) = hres_state (k r w s)" for k r w and s :: "(mem, unit, unit) gwl"
    by (cases "k r w s") (simp_all add: Recover_def)
  have "gateway_mux ?E ?G (?r\<lparr>Header := hd\<rparr>) w' gs = Callback ?E (grBff ?G) (?r\<lparr>Header := hd\<rparr>\<lparr>PathValues := []\<rparr>) w' gs"
    by (rule gateway_mux_callback) (simp_all add: gateway_wiring_def oidc_facts callback_req_def)
  then have "hres_state (gateway_handler ?E bucket0 (rl_ConfigFromEnv (lFloat lib0) oidc_env) cfg ?A (\<lambda>i. [1]) ?G callback_req new_writer gs) =
      hres_state (Callback ?E (grBff ?G) (callback_req\<lparr>Header := hd, PathValues := []\<rparr>) w' gs)"
    by (simp add: gateway_handler_def Chain_def numeral_eq_Suc rl_Middleware_def oidc_facts auth recover TraceContext_def tr)
  moreover have "hSessions (grBff ?G) = Some day_sessions" "hVerifier (grBff ?G) = dev_verifier" "hOidc (grBff ?G) = oidc_ConfigFromEnv oidc_env"
    by (simp_all add: gateway_wiring_def bff_New_def oidc_facts)
  ultimately show ?thesis by (metis g)
qed

lemma sso_exchange: "ExchangeCode (eJson sso_env) (eUrl sso_env) (eHttp sso_env) (oidc_ConfigFromEnv oidc_env) ''abc'' () = (Inr tokens0, ())"
proof -
  have "token_of_json (JObj [(''access_token'', JStr ''good''), (''expires_in'', JNum ''60'')]) = Some tokens0" by code_simp
  with oidc_facts(7) show ?thesis
    by (simp add: sso_env_def env0_def ExchangeCode_def Let_def) (simp add: tokens0_def)
qed

lemma sso_pending: "ConsumePending (eRedis sso_env) (ePending sso_env) (eNow sso_env) (Some day_sessions) ''st'' pending_state =
    (Inr \<lparr>ReturnTo = ''/home'', Nonce = []\<rparr>, Map.empty)"
  using pending0 by (simp add: sso_env_def)

lemma only_codec_ok: "codec_ok (only_codec x) x"
  by (simp add: codec_ok_def only_codec_def)

lemma sso_env_facts: "eRedis sso_env = mem_redis" "eNow sso_env = time_Second" "eJwt sso_env = dev_jwt" "eRandom sso_env 0 = Inr [7]"
  "eData sso_env = only_codec (login_data time_Second tokens0 alice)"
  by (simp_all add: sso_env_def env0_def)

lemma sso_session:
  assumes "gateway_main lib0 world0 oidc_env = Listening addr g"
  shows "\<exists>data rd. sess_Get mem_redis (only_codec (login_data time_Second tokens0 alice)) time_Second (Some day_sessions) ''07''
      (bRedis (serve_gateway g sso_run (limited0\<lparr>bRedis := pending_state\<rparr>))) = (Inr data, rd)"
proof -
  let ?gs = "limited0\<lparr>bRedis := pending_state\<rparr>" and ?E = "sso_env\<lparr>eOs := oidc_env\<rparr>"
  obtain hd w h where h: "hSessions h = Some day_sessions" "hVerifier h = dev_verifier" "hOidc h = oidc_ConfigFromEnv oidc_env"
    and run: "hres_state (g world0 sso_env bucket0 (\<lambda>r w s. Panicked [] w s) (\<lambda>p r w s. Panicked [] w s) (\<lambda>u r w s. Panicked [] w s) (\<lambda>i. [1])
        callback_req new_writer ?gs) = hres_state (Callback ?E h (callback_req\<lparr>Header := hd, PathValues := []\<rparr>) w ?gs)"
    using sso_callback_reached [OF assms] by blast
  let ?r = "callback_req\<lparr>Header := hd, PathValues := []\<rparr>"
  have q: "query_get ?r ''error'' = []" "query_get ?r ''code'' = ''abc''" "query_get ?r ''state'' = ''st''"
    by (simp_all add: callback_req_def query_get_def)
  have net: "bNet ?gs = ()" "bRedis ?gs = pending_state" by simp_all
  obtain s' where cb: "hres_state (Callback ?E h ?r w ?gs) = s'"
    and id: "\<forall>t' r' idn'. eNow ?E \<le> t' \<longrightarrow> t' < eNow ?E + px (save_ttl (eNow ?E) day_sessions (login_data (eNow ?E) tokens0 alice)) \<longrightarrow>
        t' \<le> callback_expiry (eNow ?E) tokens0 \<longrightarrow> req_cookie r' (sess_cookieName day_sessions) = Some (hex_encode [7]) \<longrightarrow>
        Verify (eJwt ?E) t' (hVerifier h) (trAccessToken tokens0) = Inr idn' \<longrightarrow>
        IdentityFromRequest (eJwt ?E) (eRedis ?E) (eData ?E) t' r' (Some day_sessions) (Some (hVerifier h)) (bRedis s') = (Inr (idn', hex_encode [7]), bRedis s')"
  proof -
    have "\<exists>s'. Callback ?E h ?r w ?gs = Served (http_Redirect ?r (ReturnTo \<lparr>ReturnTo = ''/home'', Nonce = []\<rparr>)
        (setSessionCookie (eOs ?E) h (hex_encode [7]) (callback_expiry (eNow ?E) tokens0) w)) s' \<and>
      (\<forall>t' r' idn'. eNow ?E \<le> t' \<longrightarrow> t' < eNow ?E + px (save_ttl (eNow ?E) day_sessions (login_data (eNow ?E) tokens0 alice)) \<longrightarrow>
        t' \<le> callback_expiry (eNow ?E) tokens0 \<longrightarrow> req_cookie r' (sess_cookieName day_sessions) = Some (hex_encode [7]) \<longrightarrow>
        Verify (eJwt ?E) t' (hVerifier h) (trAccessToken tokens0) = Inr idn' \<longrightarrow>
        IdentityFromRequest (eJwt ?E) (eRedis ?E) (eData ?E) t' r' (Some day_sessions) (Some (hVerifier h)) (bRedis s') = (Inr (idn', hex_encode [7]), bRedis s'))"
      by (rule login_session [where view = mem_view and code = "''abc''" and state = "''st''" and n = "()" and rd = Map.empty])
        (simp_all add: q h net sso_env_facts sso_exchange sso_pending [unfolded sso_env_facts] login_facts only_codec_ok)
    then show thesis using that by auto
  qed
  have t: "time_Second < time_Second + px (save_ttl time_Second day_sessions (login_data time_Second tokens0 alice))" "time_Second \<le> callback_expiry time_Second tokens0"
    by code_simp+
  have hex: "hex_encode [7] = ''07''" by code_simp
  have cookie: "req_cookie sign_out_req (sess_cookieName day_sessions) = Some (hex_encode [7])"
    unfolding hex by (simp add: sign_out_req_def req_cookie_def day_sessions_def)
  have E: "eNow ?E = time_Second" "eJwt ?E = dev_jwt" "eRedis ?E = mem_redis" "eData ?E = only_codec (login_data time_Second tokens0 alice)"
    by (simp_all add: sso_env_facts)
  have ver: "Verify dev_jwt time_Second dev_verifier (trAccessToken tokens0) = Inr alice" by (simp only: callback_facts dev_verify_now)
  have "IdentityFromRequest dev_jwt mem_redis (only_codec (login_data time_Second tokens0 alice)) time_Second sign_out_req (Some day_sessions)
      (Some dev_verifier) (bRedis s') = (Inr (alice, ''07''), bRedis s')"
    using id [unfolded E h(2), rule_format, OF order_refl t cookie ver] unfolding hex .
  then have "\<exists>data rd. sess_Get mem_redis (only_codec (login_data time_Second tokens0 alice)) time_Second (Some day_sessions) ''07'' (bRedis s') = (Inr data, rd)"
    by (auto simp: IdentityFromRequest_def split: option.splits if_splits prod.splits sum.splits)
  then show ?thesis using run cb by (simp add: serve_gateway_def sso_run_def)
qed

definition sso_site :: "(mem, unit, nat, unit) site_request list" where
  "sso_site = map (\<lambda>(c, r). AtGateway c r) sso_run"

theorem sessions_come_from_logins_witness:
  "\<exists>addr g addr' a gs as data rd. gateway_main lib0 world0 oidc_env = Listening addr g \<and> auth_main lib0 world0 oidc_env = Listening addr' a \<and>
     (gs, as) = serve_site g a sso_site (limited0\<lparr>bRedis := pending_state\<rparr>, authst0) \<and>
     sess_Get mem_redis (only_codec (login_data time_Second tokens0 alice)) time_Second (Some day_sessions) ''07'' (bRedis gs) = (Inr data, rd) \<and>
     circ_accepts oidc_env dev_verifier data (fst (hd sso_run))"
proof -
  obtain addr and g :: "world \<Rightarrow> (mem, unit) bff_env \<Rightarrow> unit rate_lib \<Rightarrow> (mem, unit, unit) gwl handler \<Rightarrow> (string \<Rightarrow> (mem, unit, unit) gwl handler)
      \<Rightarrow> (string \<Rightarrow> (mem, unit, unit) gwl handler) \<Rightarrow> (nat \<Rightarrow> bytes) \<Rightarrow> (mem, unit, unit) gwl handler"
    where g: "gateway_main lib0 world0 oidc_env = Listening addr g" using oidc_gateway_listens by blast
  have "otel_endpoint oidc_env = []" "Env oidc_env ''AUTH_JWT_PRIVATE_KEY_PEM'' [] = []" by code_simp+
  then obtain addr' and a :: "world \<Rightarrow> (mem, nat) auth_env \<Rightarrow> (nat \<Rightarrow> bytes) \<Rightarrow> (mem, nat) auth_state handler"
    where a: "auth_main lib0 world0 oidc_env = Listening addr' a" using auth_listens [OF oidc_facts(2)] by blast
  obtain gs as where run: "(gs, as) = serve_site g a sso_site (limited0\<lparr>bRedis := pending_state\<rparr>, authst0)" by (metis surj_pair)
  then have gs: "gs = serve_gateway g sso_run (limited0\<lparr>bRedis := pending_state\<rparr>)"
    by (simp add: sso_site_def sso_run_def serve_site_def Let_def)
  obtain data rd where found: "sess_Get mem_redis (only_codec (login_data time_Second tokens0 alice)) time_Second (Some day_sessions) ''07'' (bRedis gs) = (Inr data, rd)"
    using sso_session [OF g] gs by blast
  have key: "sess_prefix day_sessions @ ''07'' = ''gw:session:07''" "0 \<le> sess_ttl day_sessions" "\<not> HasPrefix ''gw:session:07'' ''gw:rl:''"
    "\<not> HasPrefix ''gw:session:07'' ''gw:oidc:state:''" "\<not> HasPrefix ''gw:session:07'' (rev_prefix month_revocations @ ''session:'')"
    "\<not> HasPrefix ''gw:session:07'' (rev_prefix month_revocations @ ''sub:'')"
    by code_simp+
  have start: "mem_view (bRedis (limited0\<lparr>bRedis := pending_state\<rparr>)) time_Second ''gw:session:07'' = None"
    by (simp add: mem_view_def pending_state_def pending_key_def)
  have quiet: "\<forall>q\<in>set sso_site. site_quiet mem_redis 0 time_Second q"
    "\<forall>c\<in>gateway_circs sso_site. circ_codec c = only_codec (login_data time_Second tokens0 alice)"
    by (simp_all add: sso_site_def sso_run_def gateway_circs_def circ_quiet_def circ_codec_def circ_now_def sso_env_facts)
  have codec: "unmarshal (only_codec x) raw = Inr d" if "marshal (only_codec x) d = Inr raw" for x :: session_data and d raw
    using that by (simp add: only_codec_def split: if_splits)
  have "\<exists>c\<in>gateway_circs sso_site. circ_accepts oidc_env dev_verifier data c"
    by (rule sessions_come_from_logins [OF g oidc_facts(3) oidc_verifier a mem_redis_laws mem_redis_up oidc_facts(4) [symmetric] key(2)
          oidc_facts(5) [symmetric] key(1) [symmetric] key(3-6) start run quiet codec found])
  then have "circ_accepts oidc_env dev_verifier data (fst (hd sso_run))" by (simp add: sso_site_def sso_run_def gateway_circs_def)
  with g a run found show ?thesis by blast
qed

end
