(* ===== verification/Spec2Isabelle.thy ===== *)
theory Spec2Isabelle
  imports EndToEndWitnesses Logging
begin

text \<open>
  A model of the Go services of the repository (\<^verbatim>\<open>src/go\<close>) and the properties that make them correct.

  \<^bold>\<open>The program.\<close> A gateway authenticates every request, by a bearer token or a browser session, replaces the identity
  headers, and proxies to services that trust only the gateway: users, files, audit, authentication. A worker consumes
  jobs from RabbitMQ and copies the outbox of the business service to the audit log. Sessions, revocations and rate counters
  live in Redis, rows in PostgreSQL, objects in S3.

  \<^bold>\<open>How it is modelled.\<close> A handler takes a request, a response writer and a state and returns \<open>Served\<close> or \<open>Panicked\<close> with the
  writer and the state (\<open>GoHttp\<close>). Go errors are values of \<open>goerr\<close>, results \<open>goerr + 'a\<close>. Nil and typed-nil interfaces are
  distinguished (\<open>iface\<close>). Tables are row lists; every statement has a fault argument. The clock, random bytes, the
  environment, JSON text, hash functions, the token library, Redis, and every server called over HTTP are arguments,
  with what is relied on as named predicates (\<open>redis_laws\<close>, \<open>redis_up\<close>, \<open>s3_store\<close>, \<open>jwt_complete\<close>, \<open>jwt_exp_law\<close>, \<open>codec_ok\<close>, \<open>json_faithful\<close>,
  \<open>only_adds\<close>, \<open>keeps_deliveries\<close>). A request reads the clock once; the lines a program logs
  are modelled for the request log and the start of the server, elsewhere left out. Requests are served one after the other, in
  any order; where processes share a database or Redis and an operation takes several statements or commands, these interleave
  (\<open>IdentityStore\<close>, \<open>OutboxReplicas\<close>, \<open>GatewayReplicas\<close>, \<open>ConsumerReplicas\<close>).

  \<^bold>\<open>Theories.\<close>
  \<^item> \<open>Prelude\<close>, \<open>GoStrings\<close>, \<open>GoJson\<close>, \<open>GoUrl\<close>, \<open>GoHttp\<close>, \<open>Mux\<close>: the language and its standard library as far as the code uses them:
    strings and bytes, 64-bit products, JSON decoding into structs, RFC 3339 times, paths, headers, the response writer,
    \<^verbatim>\<open>http.ServeMux\<close> with its precedence and conflict rules.
  \<^item> \<open>Errs\<close>, \<open>Identity\<close>, \<open>Httpx\<close>, \<open>Guards\<close>: \<^verbatim>\<open>pkg/errs\<close>, \<^verbatim>\<open>pkg/identity\<close>, \<^verbatim>\<open>pkg/httpx\<close>, \<^verbatim>\<open>pkg/trace\<close>. The locale \<open>guard\<close> is the contract
    of a middleware that either answers or hands on; every guard of the program is an interpretation, and \<open>guard_pair\<close> composes two.
  \<^item> \<open>AuthVerifier\<close>, \<open>Redis\<close>, \<open>Session\<close>: \<^verbatim>\<open>pkg/auth\<close>, \<^verbatim>\<open>pkg/revocation\<close>, the gateway's session store.
  \<^item> \<open>Bff\<close>, \<open>GatewayAuth\<close>, \<open>RateLimit\<close>, \<open>Proxy\<close>: \<^verbatim>\<open>pkg/oidc\<close> and the gateway's \<^verbatim>\<open>bff\<close>, \<^verbatim>\<open>auth\<close>, \<^verbatim>\<open>identityresolve\<close>, \<^verbatim>\<open>ratelimit\<close>, \<^verbatim>\<open>proxy\<close>,
    \<^verbatim>\<open>siteproxy\<close>, \<^verbatim>\<open>adminstatic\<close> and \<^verbatim>\<open>main\<close>.
  \<^item> \<open>GatewayReplicas\<close>: the operations that send two commands to Redis, taken apart: overlapping callbacks on one pending login
    (\<open>cb_run\<close>), and the INCRs and EXPIREs of several gateways in one window (\<open>cmd_run\<close>).
  \<^item> \<open>AuditEvents\<close>, \<open>Tables\<close>, \<open>AuditService\<close>, \<open>Users\<close>: \<^verbatim>\<open>pkg/audit\<close>, \<^verbatim>\<open>pkg/contracts\<close>, and both services. The locale \<open>keyed_table\<close> is the
    contract of an idempotent insert.
  \<^item> \<open>Mq\<close>, \<open>Worker\<close>, \<open>ConsumerReplicas\<close>, \<open>Outbox\<close>, \<open>OutboxReplicas\<close>: \<^verbatim>\<open>pkg/mq\<close> and \<^verbatim>\<open>services/worker\<close>. \<open>mq_step\<close> and \<open>ob_reach\<close> are step relations with faults anywhere;
    \<open>cl_run\<close> interleaves the deliveries, handlers and acknowledgements of several consumers of one queue, with lost channels and
    restarts, of which \<open>mq_step\<close> is the case of one (\<open>queue_runs_are_cluster_runs\<close>); it loses no message and can settle them
    all (\<open>cluster_drains\<close>). \<open>ob_run\<close> interleaves the queries, posts and updates of several workers, of which uninterrupted rounds are a special case
    (\<open>rounds_are_runs\<close>). \<open>audit_sink\<close> is what the dispatcher relies on, established for the audit store and for the whole HTTP path.
  \<^item> \<open>IdentityStore\<close>, \<open>AuthService\<close>: \<^verbatim>\<open>services/auth-service\<close>. The locale \<open>directory\<close> says that a subject keeps its user; both
    resolvers satisfy it.
  \<^item> \<open>Storage\<close>, \<open>Files\<close>, \<open>FileContent\<close>: \<^verbatim>\<open>pkg/storage\<close> and \<^verbatim>\<open>services/file-service\<close>. \<open>s3_store\<close> is what the object server promises of the object a
    URL names; with it a file's content survives any traffic, and stays available while its owner does nothing.
  \<^item> \<open>Frames\<close>, \<open>ServiceFrames\<close>: what any sequence of requests to a service does to its state (\<open>serve_all\<close>), from one lemma per handler; a
    request that carries the token passes the stack of a service (\<open>service_stack\<close>).
  \<^item> \<open>Logging\<close>, \<open>Telemetry\<close>: \<^verbatim>\<open>pkg/logger\<close>, the lines of \<^verbatim>\<open>AccessLog\<close> and \<^verbatim>\<open>Recover\<close>, \<^verbatim>\<open>pkg/otel\<close> and \<^verbatim>\<open>pkg/httpx/server.go\<close>. Levels are a
    linear order; the middlewares with their lines are shown to answer as those without (\<open>AccessLog_writing_view\<close>), a
    request leaves one line (\<open>one_line_per_request\<close>), and the status in it is the one sent (\<open>noted_status_is_sent\<close>).
  \<^item> \<open>Connect\<close>, \<open>Jwks\<close>, \<open>Startup\<close>: \<^verbatim>\<open>pkg/db\<close>, \<^verbatim>\<open>pkg/cache\<close>, the published key set, the \<^verbatim>\<open>main\<close> functions of the services and commands. What
    servers answer is a \<open>world\<close>; a program refuses to start, crashes, or listens with a handler.
  \<^item> \<open>Spoofing\<close>, \<open>EndToEnd\<close>: paths through several programs: the load balancer in front of the rate limiter; the gateway asking
    auth-service for a user; the mini-program login and the deletion of a user followed to the gateway's answer.
  \<^item> \<open>GatewayFrames\<close>, \<open>GatewayTraffic\<close>, \<open>SiteTraffic\<close>: what the gateway writes to Redis under any sequence of requests (\<open>gateway_writes\<close>), and
    the gateway and auth-service together over one server (\<open>serve_site\<close>): sessions come from logins, and the revocation of a user
    stays.
  \<^item> \<open>Samples\<close>, \<open>Witnesses\<close>, \<open>ServiceWitnesses\<close>, \<open>StartupWitnesses\<close>, \<open>EndToEndWitnesses\<close>: concrete instances of all parameters and the
    properties applied to them.

  \<^bold>\<open>What is shown.\<close> Client-sent identity headers have no influence; what a service sees is the identity of a verified token;
  sessions, pending logins, revocations and rate windows behave as intended over time; services reject what did not come
  through the gateway and do not start without their token in production; files stay with their owners and keep their content; webhooks, jobs and outbox
  rows have their effect at most, or exactly, once, the latter with any number of workers; the identity store agrees with itself under concurrency, and the gateway with
  auth-service behind it implements a map from subjects to users; a user deleted at the identity provider stays locked out
  at the gateway. Several theorems state behaviour that contradicts a comment or is an evident fault; they are listed as findings in
  the manifest.

  \<^bold>\<open>Bounds.\<close> No fuel is used: every loop of the model is structural or has a termination proof.

  \<^bold>\<open>Not modelled.\<close> Inside the libraries: the wire protocols of PostgreSQL, Redis, RabbitMQ, S3 and OpenTelemetry, the HTTP server
  loop, the metrics handler, the text of SQL migrations, the response path, trailers and upgrades of the reverse proxy,
  percent-encoded paths in the multiplexer, generated protobuf code. Of the repository: lines logged while a program starts and
  by single handlers, time limits of calls, and the Node and infrastructure parts other than the header nginx sends.
\<close>

section \<open>Identity from the edge to a service\<close>


section \<open>A gap in tenant isolation\<close>

text \<open>
  C21 The audit listing leaves its tenant scope when the client asks for it: an administrator of any tenant who sends
  \<^verbatim>\<open>Connection: X-Tenant-Id\<close> makes the gateway's proxy drop the tenant it injected, and audit-service answers with the
  events of every tenant.
\<close>

theorem tenant_filter_bypass:
  assumes "Header r ''Connection'' = Some [''X-Tenant-Id'']" "token \<noteq> []"
    and "Method r = ''GET''" "Path r = ''/v1/audit/events''" "Query r = []"
    and "UserID (FromHeaders (Header r)) \<noteq> []" "''admin'' \<in> set (Roles (FromHeaders (Header r)))"
    and "auFault E = None" "set (auOrder E tbl) = set tbl" "length (auOrder E tbl) \<le> 50"
  shows "\<exists>w' rows. audit_service E token True rnd (r\<lparr>Header := proxy_header token r\<rparr>) new_writer tbl = Served w' tbl \<and>
    final_status w' = 200 \<and> set rows = set tbl \<and>
    WBody w' = [BJson (JObj [(''events'', JArr (map (event_row_json (fmtTime (auJson E))) rows))])]"
proof -
  let ?r = "r\<lparr>Header := proxy_header token r\<rparr>"
  note drop = connection_header_drops_tenant [OF assms(1,2)]
  let ?h = "audit_mux E token (store_iface True)"
  have pass: "trust_pass token ?r" using drop by (simp add: trust_pass_def)
  obtain hd w1 where stack: "WSent w1 = None \<and> WBody w1 = [] \<and> (\<forall>k. k \<notin> {''X-Request-Id'', ''Traceparent''} \<longrightarrow> hd k = Header ?r k) \<and>
      (\<forall>s w'' s'. ?h (?r\<lparr>Header := hd\<rparr>) w1 s = Served w'' s' \<longrightarrow>
        Chain ?h [GatewayTrust token, RequestID_mw (rnd 0), Recover, AccessLog, TraceContext (rnd 1) (rnd 2)] ?r new_writer s = Served w'' s')"
    using service_stack [OF pass, of ?h "rnd 0" "rnd 1" "rnd 2"] by (elim exE)
  then have w1: "WSent w1 = None" "WBody w1 = []"
    and hd: "\<And>k. k \<notin> {''X-Request-Id'', ''Traceparent''} \<Longrightarrow> hd k = Header ?r k"
    and run: "\<And>w'' s'. ?h (?r\<lparr>Header := hd\<rparr>) w1 tbl = Served w'' s' \<Longrightarrow> audit_service E token True rnd ?r new_writer tbl = Served w'' s'"
    unfolding audit_service_def by simp_all
  let ?r3 = "?r\<lparr>Header := hd, PathValues := []\<rparr>"
  have get: "hdr_get hd k = hdr_get (proxy_header token r) k" if "k \<in> {''X-User-Id'', ''X-Tenant-Id'', ''X-Roles''}" for k
    using that hd [of k] by (auto simp: hdr_get_def)
  define idn where "idn = FromHeaders hd"
  have idn: "UserID idn \<noteq> []" "TenantID idn = []" "''admin'' \<in> set (Roles idn)"
    using drop assms(6,7) by (simp_all add: idn_def FromHeaders_def header_names get)
  let ?f = "\<lparr>lfTenantID = [], lfType = [], lfSource = [], lfLimit = 50\<rparr>"
  obtain rows where rows: "Events_List (auOrder E) True None ?f tbl = Inr rows" "set rows = set tbl"
    using unscoped_listing [of ?f "auOrder E" tbl] assms(9,10) by auto
  have "?h (?r\<lparr>Header := hd\<rparr>) w1 tbl =
      TrustedRole ''admin'' (query_ServeHTTP E (store_iface True)) (?r\<lparr>Header := hd\<rparr>\<lparr>PathValues := []\<rparr>) w1 tbl"
    by (rule audit_mux_get) (simp_all add: assms(3,4))
  also have "\<dots> = query_ServeHTTP E (store_iface True) (NewContext idn ?r3) w1 tbl"
    using idn by (simp add: role.guard_law role_admit_def header_identity_def Authenticated_def HasRole_iff idn_def [symmetric])
  also have "\<dots> = Served (respond_JSON 200 (JObj [(''events'', JArr (map (event_row_json (fmtTime (auJson E))) rows))]) w1) tbl"
    using assms(3,5,8) rows(1) idn(2)
    by (simp add: query_ServeHTTP_def Let_def NewContext_def FromContext_def store_iface_def with_store_def query_filter_def
        query_limit_def query_get_def)
  finally have "audit_service E token True rnd ?r new_writer tbl =
      Served (respond_JSON 200 (JObj [(''events'', JArr (map (event_row_json (fmtTime (auJson E))) rows))]) w1) tbl"
    by (rule run)
  then show ?thesis using w1 rows(2) by (intro exI [of _ "respond_JSON 200 _ w1"] exI [of _ rows] conjI) simp_all
qed

section \<open>Instances\<close>


definition admin_req :: request where
  "admin_req = req0\<lparr>Path := ''/v1/audit/events'',
     Header := [''Connection'' \<mapsto> [''X-Tenant-Id''], ''X-User-Id'' \<mapsto> [''alice''], ''X-Roles'' \<mapsto> [''admin''], ''X-Tenant-Id'' \<mapsto> [''t1'']]\<rparr>"

theorem tenant_filter_bypass_witness:
  "\<exists>w' rows. audit_service audit0 ''tok'' True (\<lambda>i. [1]) (admin_req\<lparr>Header := proxy_header ''tok'' admin_req\<rparr>) new_writer
      [row_t1\<lparr>arTenant := Some ''t2''\<rparr>] = Served w' [row_t1\<lparr>arTenant := Some ''t2''\<rparr>] \<and>
    final_status w' = 200 \<and> set rows = {row_t1\<lparr>arTenant := Some ''t2''\<rparr>}"
proof -
  have idn: "UserID (FromHeaders (Header admin_req)) = ''alice''" "Roles (FromHeaders (Header admin_req)) = [''admin'']"
    by code_simp+
  have "\<exists>w' rows. audit_service audit0 ''tok'' True (\<lambda>i. [1]) (admin_req\<lparr>Header := proxy_header ''tok'' admin_req\<rparr>) new_writer
      [row_t1\<lparr>arTenant := Some ''t2''\<rparr>] = Served w' [row_t1\<lparr>arTenant := Some ''t2''\<rparr>] \<and>
    final_status w' = 200 \<and> set rows = set [row_t1\<lparr>arTenant := Some ''t2''\<rparr>] \<and>
    WBody w' = [BJson (JObj [(''events'', JArr (map (event_row_json (fmtTime (auJson audit0))) rows))])]"
    by (rule tenant_filter_bypass)
      (simp_all only: idn, simp_all add: admin_req_def audit0_def)
  then show ?thesis by auto
qed

end
